(* ===== verification/Prelude.thy ===== *)
theory Prelude
  imports Main "HOL-Library.Word"
begin

text \<open>
  What every component shares: the machine types of the C++ code, the outcome of running a
  piece of code (a value, a failed \<^verbatim>\<open>assert\<close>, undefined behaviour), the object
  representation of an integer in memory, the platform the code is built for, and generic
  lemmas on lists and words.
\<close>

unbundle bit_operations_syntax

section \<open>Machine types\<close>

type_synonym u8 = "8 word"
type_synonym u16 = "16 word"
type_synonym u32 = "32 word"
type_synonym u64 = "64 word"

text \<open>\<open>char\<close> and \<open>uint8_t\<close> arrays, \<open>std::string\<close> and \<open>seastar::sstring\<close> are byte lists.\<close>

type_synonym bytes = "u8 list"

named_theorems codec_simps \<open>equations that run the byte codecs symbolically\<close>
named_theorems wf_simps \<open>definitions of the type invariants\<close>

section \<open>Outcomes\<close>

text \<open>
  Running a piece of code returns a value, stops at a failed \<^verbatim>\<open>assert\<close>, or has
  undefined behaviour (an out-of-range access, a signed overflow): after that nothing is
  promised, so no value is modelled.
\<close>

datatype 'a outcome = Return 'a | Assert_Fail | Undefined

fun outcome_bind :: "'a outcome \<Rightarrow> ('a \<Rightarrow> 'b outcome) \<Rightarrow> 'b outcome" where
  "outcome_bind (Return x) f = f x"
| "outcome_bind Assert_Fail f = Assert_Fail"
| "outcome_bind Undefined f = Undefined"

lemma outcome_bind_Return_iff:
  "outcome_bind r f = Return y \<longleftrightarrow> (\<exists>x. r = Return x \<and> f x = Return y)"
  by (cases r) auto

lemma outcome_bind_assoc:
  "outcome_bind (outcome_bind r f) g = outcome_bind r (\<lambda>x. outcome_bind (f x) g)"
  by (cases r) auto

text \<open>What holds of every value a piece of code can return, statement by statement.\<close>

definition returns_only :: "('a \<Rightarrow> bool) \<Rightarrow> 'a outcome \<Rightarrow> bool" where
  "returns_only Q r \<longleftrightarrow> (\<forall>x. r = Return x \<longrightarrow> Q x)"

lemma returns_only_simps [simp]:
  "returns_only Q (Return x) = Q x" "returns_only Q Undefined" "returns_only Q Assert_Fail"
  by (simp_all add: returns_only_def)

lemma returns_only_bind: "(\<And>x. r = Return x \<Longrightarrow> returns_only Q (f x)) \<Longrightarrow> returns_only Q (outcome_bind r f)"
  by (auto simp: returns_only_def outcome_bind_Return_iff)

lemma returns_onlyD: "returns_only Q r \<Longrightarrow> r = Return x \<Longrightarrow> Q x"
  by (simp add: returns_only_def)

section \<open>Lists\<close>

lemma take_length_append [simp]: "length xs = n \<Longrightarrow> take n (xs @ ys) = xs"
  by simp

lemma drop_length_append [simp]: "length xs = n \<Longrightarrow> drop n (xs @ ys) = ys"
  by simp

lemma length_4_cases:
  assumes "length xs = 4"
  obtains a b c d where "xs = [a, b, c, d]"
  using assms by (auto simp: numeral_eq_Suc length_Suc_conv)

section \<open>Integers as bytes\<close>

text \<open>
  The bytes of a word, least significant first, and the word of a byte list. Reversed, they
  are the most-significant-first bytes of network order.
\<close>

fun le_bytes :: "nat \<Rightarrow> 'a::len word \<Rightarrow> bytes" where
  "le_bytes 0 w = []"
| "le_bytes (Suc n) w = ucast w # le_bytes n (drop_bit 8 w)"

fun le_word :: "bytes \<Rightarrow> 'a::len word" where
  "le_word [] = 0"
| "le_word (b # bs) = ucast b OR push_bit 8 (le_word bs)"

abbreviation be_bytes :: "nat \<Rightarrow> 'a::len word \<Rightarrow> bytes" where
  "be_bytes n w \<equiv> rev (le_bytes n w)"

abbreviation be_word :: "bytes \<Rightarrow> 'a::len word" where
  "be_word bs \<equiv> le_word (rev bs)"

lemma length_le_bytes [simp]: "length (le_bytes n w) = n"
  by (induction n arbitrary: w) auto

lemma le_bytes_zero: "le_bytes n (0 :: 'a::len word) = replicate n 0"
  by (induction n) simp_all

lemma le_bytes_4: "le_bytes 4 w = [ucast w, ucast (drop_bit 8 w), ucast (drop_bit 8 (drop_bit 8 w)),
    ucast (drop_bit 8 (drop_bit 8 (drop_bit 8 w)))]"
proof -
  have "(4::nat) = Suc (Suc (Suc (Suc 0)))" by simp
  then show ?thesis by (simp only: le_bytes.simps)
qed

lemma le_word_le_bytes_take_bit: "le_word (le_bytes n w) = take_bit (8 * n) (w :: 'a::len word)"
proof (induction n arbitrary: w)
  case 0
  then show ?case by simp
next
  case (Suc n)
  show ?case
    by (rule bit_eqI) (auto simp: Suc.IH bit_simps not_le not_less)
qed

lemma le_word_le_bytes:
  "LENGTH('a) \<le> 8 * n \<Longrightarrow> le_word (le_bytes n w) = (w :: 'a::len word)"
  by (simp add: le_word_le_bytes_take_bit take_bit_word_eq_self)

lemma bit_le_word_bound: "bit (le_word bs :: 'a::len word) k \<Longrightarrow> k < 8 * length bs"
proof (induction bs arbitrary: k)
  case Nil
  then show ?case by simp
next
  case (Cons b bs)
  show ?case
  proof (cases "k < 8")
    case False
    with Cons.prems have "bit (le_word bs :: 'a word) (k - 8)"
      using bit_imp_le_length [of b k] by (auto simp: bit_simps)
    then have "k - 8 < 8 * length bs" by (rule Cons.IH)
    then show ?thesis by simp
  qed simp
qed

lemma le_bytes_le_word:
  assumes "8 * length bs \<le> LENGTH('a::len)"
  shows "le_bytes (length bs) (le_word bs :: 'a word) = bs"
  using assms
proof (induction bs)
  case Nil
  then show ?case by simp
next
  case (Cons b bs)
  have low: "ucast (ucast b OR push_bit 8 (le_word bs :: 'a word)) = b"
    using Cons.prems by (intro bit_eqI) (auto simp: bit_simps)
  have high: "drop_bit 8 (ucast b OR push_bit 8 (le_word bs :: 'a word)) = le_word bs"
    using Cons.prems
    by (intro bit_eqI) (auto simp: bit_simps dest: bit_le_word_bound bit_imp_le_length)
  have "le_bytes (length bs) (le_word bs :: 'a word) = bs"
    using Cons by simp
  then show ?case
    by (simp only: list.size(4) add_0_right add_Suc_right le_word.simps le_bytes.simps low high)
qed

section \<open>Rounding up\<close>

lemma ceil_div:
  assumes "0 < k"
  shows "(n + (k - 1)) div k = (if n mod k = 0 then n div k else Suc (n div k))"
proof -
  define q r where "q = n div k" and "r = n mod k"
  have n: "n = k * q + r" and r: "r < k" using assms by (simp_all add: q_def r_def)
  have "(n + (k - 1)) div k = (if r = 0 then q else Suc q)"
    using n r assms by (intro div_nat_eqI) (auto simp: algebra_simps)
  then show ?thesis by (simp add: q_def r_def)
qed

section \<open>Conversions between widths\<close>

lemma unat_ucast: "unat (ucast w :: 'c::len word) = unat w mod 2 ^ LENGTH('c)"
  by (simp add: unsigned_ucast_eq take_bit_eq_mod)

lemma unat_ucast_up:
  "LENGTH('b::len) \<le> LENGTH('c::len) \<Longrightarrow> unat (ucast (w :: 'b word) :: 'c word) = unat w"
proof -
  assume "LENGTH('b) \<le> LENGTH('c)"
  then have "unat w < 2 ^ LENGTH('c)"
    using unsigned_less [of w, where ?'a = nat] power_increasing [of "LENGTH('b)" "LENGTH('c)" "2 :: nat"] by linarith
  then show ?thesis by (simp add: unat_ucast)
qed

section \<open>The platform\<close>

text \<open>
  What the code takes from its platform: the byte order of the host (the object
  representation that \<^verbatim>\<open>memcpy\<close> and \<^verbatim>\<open>std::string::append\<close> see), whether the build
  defines \<^verbatim>\<open>NDEBUG\<close> (then \<^verbatim>\<open>assert\<close> is empty), and the overloads of
  \<^verbatim>\<open>seastar::net::hton\<close> and \<^verbatim>\<open>seastar::net::ntoh\<close>, which are not part of the
  repository. The 64-bit overloads serve \<^verbatim>\<open>uint64_t\<close> and, on its two's complement
  representation, \<^verbatim>\<open>int64_t\<close>.
\<close>

record platform =
  little_endian :: bool
  ndebug :: bool
  hton16 :: "u16 \<Rightarrow> u16"
  hton32 :: "u32 \<Rightarrow> u32"
  hton64 :: "u64 \<Rightarrow> u64"
  ntoh16 :: "u16 \<Rightarrow> u16"
  ntoh32 :: "u32 \<Rightarrow> u32"
  ntoh64 :: "u64 \<Rightarrow> u64"

definition obj_bytes :: "platform \<Rightarrow> nat \<Rightarrow> 'a::len word \<Rightarrow> bytes" where
  "obj_bytes P n w = (if little_endian P then le_bytes n w else be_bytes n w)"

definition obj_load :: "platform \<Rightarrow> bytes \<Rightarrow> 'a::len word" where
  "obj_load P bs = (if little_endian P then le_word bs else be_word bs)"

definition cpp_assert :: "platform \<Rightarrow> bool \<Rightarrow> 'a outcome \<Rightarrow> 'a outcome" where
  "cpp_assert P c r = (if ndebug P \<or> c then r else Assert_Fail)"

lemma length_obj_bytes [simp]: "length (obj_bytes P n w) = n"
  by (simp add: obj_bytes_def)

lemma obj_load_obj_bytes:
  "LENGTH('a) \<le> 8 * n \<Longrightarrow> obj_load P (obj_bytes P n w) = (w :: 'a::len word)"
  by (simp add: obj_load_def obj_bytes_def le_word_le_bytes)

lemma obj_bytes_obj_load:
  assumes "length bs = n" and "8 * n \<le> LENGTH('a::len)"
  shows "obj_bytes P n (obj_load P bs :: 'a word) = bs"
  using assms le_bytes_le_word [of bs, where 'a = 'a] le_bytes_le_word [of "rev bs", where 'a = 'a]
  by (auto simp: obj_bytes_def obj_load_def)

lemma cpp_assert_True [simp]: "cpp_assert P True r = r"
  by (simp add: cpp_assert_def)

end
