(* ===== verification/Comm.thy ===== *)
theory Comm
  imports Prelude
begin

text \<open>
  What the storage components share: the error codes of \<^verbatim>\<open>proto/error_code.proto\<close> with the
  tests of \<^verbatim>\<open>src/comm/error_code.h\<close>, and the block geometry of
  \<^verbatim>\<open>pancake_comm.h\<close>.
\<close>

datatype ErrorCode =
    PANCAKE_STORE_OK
  | PANCAKE_STORE_CLUSTER_ID_NOT_MATCH
  | PANCAKE_STORE_YAML_CONFIG_INVALID
  | PANCAKE_STORE_CONFIG_INVALID
  | PANCAKE_STORE_CODE_ERROR
  | DATANODE_SERVICE_DEVICE_ALREADY_EXISTS
  | DATANODE_SERVICE_DATANODE_ID_NOT_MATCH
  | DATANODE_SERVICE_REQUEST_ARGUMENT_INVALID
  | DATANODE_DEVICE_READ_LINK_FAILED
  | DATANODE_DEVICE_FILE_NOT_EXIST
  | DATANODE_DEVICE_ALREADY_MOUNTED
  | DATANODE_DEVICE_FILE_SYSTEM_ERROR
  | DATANODE_STORAGE_BLOCK_SIZE_ILLEGAL
  | DATANODE_STORAGE_BLOCK_DATA_ILLEGAL
  | DATANODE_STORAGE_BLOCK_MAGIC_ILLEGAL
  | DATANODE_STORAGE_BLOCK_CRC_MISMATCH
  | DATANODE_STORAGE_DEVICE_OPEN_FAILED
  | DATANODE_STORAGE_NOT_BLOCK_ALIGNED
  | DATANODE_STORAGE_IO_READ_AT_FAILED
  | DATANODE_STORAGE_IO_WRITE_AT_FAILED
  | DATANODE_STORAGE_FS_INIT_FAILED
  | DATANODE_STORAGE_FS_FULL
  | DATANODE_STORAGE_INTERNAL_ERROR
  | DATANODE_STORAGE_EXTENT_ALREADY_EXISTS
  | DATANODE_STORAGE_EXTENT_NOT_EXISTS
  | DATANODE_STORAGE_DEVICE_CAPACITY_TOO_SMALL
  | RPC_CALLER_INVOKE_FAILED
  | RPC_CALLER_RESPONSE_PARSE_FAILED

text \<open>The numbers the codes travel as; a number without a code has none here.\<close>

fun error_number :: "ErrorCode \<Rightarrow> u32" where
  "error_number PANCAKE_STORE_OK = 0"
| "error_number PANCAKE_STORE_CLUSTER_ID_NOT_MATCH = 1"
| "error_number PANCAKE_STORE_YAML_CONFIG_INVALID = 2"
| "error_number PANCAKE_STORE_CONFIG_INVALID = 3"
| "error_number PANCAKE_STORE_CODE_ERROR = 4"
| "error_number DATANODE_SERVICE_DEVICE_ALREADY_EXISTS = 10001"
| "error_number DATANODE_SERVICE_DATANODE_ID_NOT_MATCH = 10002"
| "error_number DATANODE_SERVICE_REQUEST_ARGUMENT_INVALID = 10003"
| "error_number DATANODE_DEVICE_READ_LINK_FAILED = 11001"
| "error_number DATANODE_DEVICE_FILE_NOT_EXIST = 11002"
| "error_number DATANODE_DEVICE_ALREADY_MOUNTED = 11003"
| "error_number DATANODE_DEVICE_FILE_SYSTEM_ERROR = 11004"
| "error_number DATANODE_STORAGE_BLOCK_SIZE_ILLEGAL = 12001"
| "error_number DATANODE_STORAGE_BLOCK_DATA_ILLEGAL = 12002"
| "error_number DATANODE_STORAGE_BLOCK_MAGIC_ILLEGAL = 12003"
| "error_number DATANODE_STORAGE_BLOCK_CRC_MISMATCH = 12004"
| "error_number DATANODE_STORAGE_DEVICE_OPEN_FAILED = 12005"
| "error_number DATANODE_STORAGE_NOT_BLOCK_ALIGNED = 12006"
| "error_number DATANODE_STORAGE_IO_READ_AT_FAILED = 12007"
| "error_number DATANODE_STORAGE_IO_WRITE_AT_FAILED = 12008"
| "error_number DATANODE_STORAGE_FS_INIT_FAILED = 12009"
| "error_number DATANODE_STORAGE_FS_FULL = 12010"
| "error_number DATANODE_STORAGE_INTERNAL_ERROR = 12011"
| "error_number DATANODE_STORAGE_EXTENT_ALREADY_EXISTS = 12012"
| "error_number DATANODE_STORAGE_EXTENT_NOT_EXISTS = 12013"
| "error_number DATANODE_STORAGE_DEVICE_CAPACITY_TOO_SMALL = 12014"
| "error_number RPC_CALLER_INVOKE_FAILED = 30001"
| "error_number RPC_CALLER_RESPONSE_PARSE_FAILED = 30002"

instantiation ErrorCode :: enum
begin

definition enum_ErrorCode :: "ErrorCode list" where
  "enum_ErrorCode = [PANCAKE_STORE_OK, PANCAKE_STORE_CLUSTER_ID_NOT_MATCH,
     PANCAKE_STORE_YAML_CONFIG_INVALID, PANCAKE_STORE_CONFIG_INVALID,
     PANCAKE_STORE_CODE_ERROR, DATANODE_SERVICE_DEVICE_ALREADY_EXISTS,
     DATANODE_SERVICE_DATANODE_ID_NOT_MATCH, DATANODE_SERVICE_REQUEST_ARGUMENT_INVALID,
     DATANODE_DEVICE_READ_LINK_FAILED, DATANODE_DEVICE_FILE_NOT_EXIST,
     DATANODE_DEVICE_ALREADY_MOUNTED, DATANODE_DEVICE_FILE_SYSTEM_ERROR,
     DATANODE_STORAGE_BLOCK_SIZE_ILLEGAL, DATANODE_STORAGE_BLOCK_DATA_ILLEGAL,
     DATANODE_STORAGE_BLOCK_MAGIC_ILLEGAL, DATANODE_STORAGE_BLOCK_CRC_MISMATCH,
     DATANODE_STORAGE_DEVICE_OPEN_FAILED, DATANODE_STORAGE_NOT_BLOCK_ALIGNED,
     DATANODE_STORAGE_IO_READ_AT_FAILED, DATANODE_STORAGE_IO_WRITE_AT_FAILED,
     DATANODE_STORAGE_FS_INIT_FAILED, DATANODE_STORAGE_FS_FULL,
     DATANODE_STORAGE_INTERNAL_ERROR, DATANODE_STORAGE_EXTENT_ALREADY_EXISTS,
     DATANODE_STORAGE_EXTENT_NOT_EXISTS, DATANODE_STORAGE_DEVICE_CAPACITY_TOO_SMALL,
     RPC_CALLER_INVOKE_FAILED, RPC_CALLER_RESPONSE_PARSE_FAILED]"

definition enum_all_ErrorCode :: "(ErrorCode \<Rightarrow> bool) \<Rightarrow> bool" where
  "enum_all_ErrorCode Q \<longleftrightarrow> list_all Q enum_class.enum"

definition enum_ex_ErrorCode :: "(ErrorCode \<Rightarrow> bool) \<Rightarrow> bool" where
  "enum_ex_ErrorCode Q \<longleftrightarrow> list_ex Q enum_class.enum"

instance
proof
  have all: "e \<in> set enum_class.enum" for e :: ErrorCode by (cases e) (simp_all add: enum_ErrorCode_def)
  then show "(UNIV :: ErrorCode set) = set enum_class.enum" by blast
  show "distinct (enum_class.enum :: ErrorCode list)" by (simp add: enum_ErrorCode_def)
  show "enum_class.enum_all Q \<longleftrightarrow> Ball UNIV Q" for Q :: "ErrorCode \<Rightarrow> bool"
    using all by (auto simp: enum_all_ErrorCode_def list_all_iff)
  show "enum_class.enum_ex Q \<longleftrightarrow> Bex UNIV Q" for Q :: "ErrorCode \<Rightarrow> bool"
    using all by (auto simp: enum_ex_ErrorCode_def list_ex_iff)
qed

end

definition IsOk :: "ErrorCode \<Rightarrow> bool" where
  "IsOk code \<longleftrightarrow> code = PANCAKE_STORE_OK"

definition IsNotOk :: "ErrorCode \<Rightarrow> bool" where
  "IsNotOk code \<longleftrightarrow> code \<noteq> PANCAKE_STORE_OK"

lemma IsNotOk_simps [simp]: "\<not> IsNotOk PANCAKE_STORE_OK" "e \<noteq> PANCAKE_STORE_OK \<Longrightarrow> IsNotOk e"
  by (simp_all add: IsNotOk_def)

section \<open>Block geometry\<close>

definition k_block_data_size :: nat where
  "k_block_data_size = 4064"

definition k_block_footer_size :: nat where
  "k_block_footer_size = 32"

definition k_block_size :: nat where
  "k_block_size = k_block_data_size + k_block_footer_size"

definition k_extent_block_size :: nat where
  "k_extent_block_size = 64 * 1024 * 1024"

definition k_min_device_size :: u64 where
  "k_min_device_size = word_of_nat (k_extent_block_size * 2)"

lemmas geometry = k_block_data_size_def k_block_footer_size_def k_block_size_def
  k_extent_block_size_def k_min_device_size_def

lemma k_block_size_eq [simp]: "k_block_size = 4096"
  by (simp add: geometry)

lemma k_block_data_size_eq [simp]: "k_block_data_size = 4064"
  by (simp add: geometry)

text \<open>\<^verbatim>\<open>val % k_block_size == 0\<close>, the remainder of the 64-bit unsigned division.\<close>

definition IsBlockAlign :: "u64 \<Rightarrow> bool" where
  "IsBlockAlign val \<longleftrightarrow> val mod word_of_nat k_block_size = 0"

lemma IsBlockAlign_iff: "IsBlockAlign val \<longleftrightarrow> 4096 dvd unat val"
  by (simp add: IsBlockAlign_def word_arith_nat_mod dvd_eq_mod_eq_0 unat_of_nat
      flip: unat_eq_zero)

end
