(* ===== verification/Crc.thy ===== *)
theory Crc
  imports Prelude
begin

text \<open>
  The table-driven CRC-32 of \<^verbatim>\<open>src/comm/crc.cc\<close>, the bit-serial register it stands for,
  and the corruption it detects.
\<close>

section \<open>The code\<close>

definition crc_table :: "u32 list" where
  "crc_table = [
    0x00000000, 0x77073096, 0xEE0E612C, 0x990951BA, 0x076DC419, 0x706AF48F,
    0xE963A535, 0x9E6495A3, 0x0EDB8832, 0x79DCB8A4, 0xE0D5E91E, 0x97D2D988,
    0x09B64C2B, 0x7EB17CBD, 0xE7B82D07, 0x90BF1D91, 0x1DB71064, 0x6AB020F2,
    0xF3B97148, 0x84BE41DE, 0x1ADAD47D, 0x6DDDE4EB, 0xF4D4B551, 0x83D385C7,
    0x136C9856, 0x646BA8C0, 0xFD62F97A, 0x8A65C9EC, 0x14015C4F, 0x63066CD9,
    0xFA0F3D63, 0x8D080DF5, 0x3B6E20C8, 0x4C69105E, 0xD56041E4, 0xA2677172,
    0x3C03E4D1, 0x4B04D447, 0xD20D85FD, 0xA50AB56B, 0x35B5A8FA, 0x42B2986C,
    0xDBBBC9D6, 0xACBCF940, 0x32D86CE3, 0x45DF5C75, 0xDCD60DCF, 0xABD13D59,
    0x26D930AC, 0x51DE003A, 0xC8D75180, 0xBFD06116, 0x21B4F4B5, 0x56B3C423,
    0xCFBA9599, 0xB8BDA50F, 0x2802B89E, 0x5F058808, 0xC60CD9B2, 0xB10BE924,
    0x2F6F7C87, 0x58684C11, 0xC1611DAB, 0xB6662D3D, 0x76DC4190, 0x01DB7106,
    0x98D220BC, 0xEFD5102A, 0x71B18589, 0x06B6B51F, 0x9FBFE4A5, 0xE8B8D433,
    0x7807C9A2, 0x0F00F934, 0x9609A88E, 0xE10E9818, 0x7F6A0DBB, 0x086D3D2D,
    0x91646C97, 0xE6635C01, 0x6B6B51F4, 0x1C6C6162, 0x856530D8, 0xF262004E,
    0x6C0695ED, 0x1B01A57B, 0x8208F4C1, 0xF50FC457, 0x65B0D9C6, 0x12B7E950,
    0x8BBEB8EA, 0xFCB9887C, 0x62DD1DDF, 0x15DA2D49, 0x8CD37CF3, 0xFBD44C65,
    0x4DB26158, 0x3AB551CE, 0xA3BC0074, 0xD4BB30E2, 0x4ADFA541, 0x3DD895D7,
    0xA4D1C46D, 0xD3D6F4FB, 0x4369E96A, 0x346ED9FC, 0xAD678846, 0xDA60B8D0,
    0x44042D73, 0x33031DE5, 0xAA0A4C5F, 0xDD0D7CC9, 0x5005713C, 0x270241AA,
    0xBE0B1010, 0xC90C2086, 0x5768B525, 0x206F85B3, 0xB966D409, 0xCE61E49F,
    0x5EDEF90E, 0x29D9C998, 0xB0D09822, 0xC7D7A8B4, 0x59B33D17, 0x2EB40D81,
    0xB7BD5C3B, 0xC0BA6CAD, 0xEDB88320, 0x9ABFB3B6, 0x03B6E20C, 0x74B1D29A,
    0xEAD54739, 0x9DD277AF, 0x04DB2615, 0x73DC1683, 0xE3630B12, 0x94643B84,
    0x0D6D6A3E, 0x7A6A5AA8, 0xE40ECF0B, 0x9309FF9D, 0x0A00AE27, 0x7D079EB1,
    0xF00F9344, 0x8708A3D2, 0x1E01F268, 0x6906C2FE, 0xF762575D, 0x806567CB,
    0x196C3671, 0x6E6B06E7, 0xFED41B76, 0x89D32BE0, 0x10DA7A5A, 0x67DD4ACC,
    0xF9B9DF6F, 0x8EBEEFF9, 0x17B7BE43, 0x60B08ED5, 0xD6D6A3E8, 0xA1D1937E,
    0x38D8C2C4, 0x4FDFF252, 0xD1BB67F1, 0xA6BC5767, 0x3FB506DD, 0x48B2364B,
    0xD80D2BDA, 0xAF0A1B4C, 0x36034AF6, 0x41047A60, 0xDF60EFC3, 0xA867DF55,
    0x316E8EEF, 0x4669BE79, 0xCB61B38C, 0xBC66831A, 0x256FD2A0, 0x5268E236,
    0xCC0C7795, 0xBB0B4703, 0x220216B9, 0x5505262F, 0xC5BA3BBE, 0xB2BD0B28,
    0x2BB45A92, 0x5CB36A04, 0xC2D7FFA7, 0xB5D0CF31, 0x2CD99E8B, 0x5BDEAE1D,
    0x9B64C2B0, 0xEC63F226, 0x756AA39C, 0x026D930A, 0x9C0906A9, 0xEB0E363F,
    0x72076785, 0x05005713, 0x95BF4A82, 0xE2B87A14, 0x7BB12BAE, 0x0CB61B38,
    0x92D28E9B, 0xE5D5BE0D, 0x7CDCEFB7, 0x0BDBDF21, 0x86D3D2D4, 0xF1D4E242,
    0x68DDB3F8, 0x1FDA836E, 0x81BE16CD, 0xF6B9265B, 0x6FB077E1, 0x18B74777,
    0x88085AE6, 0xFF0F6A70, 0x66063BCA, 0x11010B5C, 0x8F659EFF, 0xF862AE69,
    0x616BFFD3, 0x166CCF45, 0xA00AE278, 0xD70DD2EE, 0x4E048354, 0x3903B3C2,
    0xA7672661, 0xD06016F7, 0x4969474D, 0x3E6E77DB, 0xAED16A4A, 0xD9D65ADC,
    0x40DF0B66, 0x37D83BF0, 0xA9BCAE53, 0xDEBB9EC5, 0x47B2CF7F, 0x30B5FFE9,
    0xBDBDF21C, 0xCABAC28A, 0x53B39330, 0x24B4A3A6, 0xBAD03605, 0xCDD70693,
    0x54DE5729, 0x23D967BF, 0xB3667A2E, 0xC4614AB8, 0x5D681B02, 0x2A6F2B94,
    0xB40BBE37, 0xC30C8EA1, 0x5A05DF1B, 0x2D02EF8D]"

text \<open>
  One pass of the loop. \<^verbatim>\<open>data[i]\<close> is a plain \<^verbatim>\<open>char\<close>: it is sign-extended to
  \<^verbatim>\<open>int\<close> before it meets the unsigned register, so the byte is \<open>scast\<close> to 32 bits.
\<close>

definition CRC32_step :: "u32 \<Rightarrow> u8 \<Rightarrow> u32" where
  "CRC32_step crc b = crc_table ! unat ((crc XOR scast b) AND 0xFF) XOR drop_bit 8 crc"

definition CRC32 :: "bytes \<Rightarrow> nat \<Rightarrow> u32" where
  "CRC32 data len = foldl CRC32_step 0xFFFFFFFF (take len data) XOR 0xFFFFFFFF"

section \<open>The bit-serial register\<close>

text \<open>
  The register of the reflected polynomial \<open>0xEDB88320\<close>: it shifts right one bit at a time
  and feeds the polynomial back when a one drops out. A byte enters at the low end.
\<close>

definition crc_bit :: "u32 \<Rightarrow> u32" where
  "crc_bit c = (if bit c 0 then drop_bit 1 c XOR 0xEDB88320 else drop_bit 1 c)"

definition crc_byte :: "u32 \<Rightarrow> u8 \<Rightarrow> u32" where
  "crc_byte c b = (crc_bit ^^ 8) (c XOR ucast b)"

definition crc_reference :: "bytes \<Rightarrow> u32" where
  "crc_reference bs = foldl crc_byte 0xFFFFFFFF bs XOR 0xFFFFFFFF"

subsection \<open>The register is linear and loses nothing\<close>

lemma crc_bit_xor: "crc_bit (a XOR b) = crc_bit a XOR crc_bit b"
  by (simp add: crc_bit_def bit_xor_iff xor.assoc xor.commute xor.left_commute)

lemma crc_bits_xor: "(crc_bit ^^ n) (a XOR b) = (crc_bit ^^ n) a XOR (crc_bit ^^ n) b"
  by (induction n) (simp_all add: crc_bit_xor)

lemma crc_bit_eq_0: "crc_bit x = 0 \<Longrightarrow> x = 0"
proof (cases "bit x 0")
  case True
  have "bit (crc_bit x) 31"
    using True by (auto simp: crc_bit_def bit_simps dest: bit_imp_le_length)
  then show "crc_bit x = 0 \<Longrightarrow> x = 0" by simp
next
  case False
  assume "crc_bit x = 0"
  with False have "drop_bit 1 x = 0" by (simp add: crc_bit_def)
  show "x = 0"
  proof (rule bit_eqI)
    fix n
    have "\<not> bit x n"
      using False bit_drop_bit_eq [of 1 x] \<open>drop_bit 1 x = 0\<close> by (cases n) (auto simp: fun_eq_iff)
    then show "bit x n = bit 0 n" by simp
  qed
qed

lemma xor_eq_0_iff: "a XOR b = 0 \<longleftrightarrow> a = (b :: u32)"
  by (auto simp: bit_eq_iff bit_xor_iff)

lemma inj_crc_bit: "inj crc_bit"
proof (rule injI)
  fix a b assume "crc_bit a = crc_bit b"
  then have "crc_bit (a XOR b) = 0" by (simp add: crc_bit_xor)
  then show "a = b" using crc_bit_eq_0 xor_eq_0_iff by blast
qed

lemma inj_crc_bits: "inj (crc_bit ^^ n)"
  by (simp add: inj_crc_bit inj_fn)

lemma crc_bits_0: "(crc_bit ^^ n) 0 = 0"
  by (induction n) (simp_all add: crc_bit_def)

lemma crc_bits_low_zero:
  "(\<And>j. j < n \<Longrightarrow> \<not> bit c j) \<Longrightarrow> (crc_bit ^^ n) c = drop_bit n c"
proof (induction n)
  case (Suc n)
  from Suc have "(crc_bit ^^ n) c = drop_bit n c" and "\<not> bit c n" by simp_all
  then have "(crc_bit ^^ Suc n) c = drop_bit 1 (drop_bit n c)"
    by (simp only: funpow.simps o_apply) (simp add: crc_bit_def bit_drop_bit_eq)
  then show ?case by (simp del: funpow.simps)
qed simp

subsection \<open>The table is the register's response to every byte\<close>

lemma power_add_less_xor:
  assumes "i < 2 ^ k"
  shows "2 ^ k + i = (2 ^ k XOR i :: nat)"
proof (rule disjunctive_add_eq_xor)
  have "\<not> bit i k" using assms by (simp add: bit_iff_odd)
  then show "2 ^ k AND i = 0" by (intro bit_eqI) (auto simp: bit_and_iff bit_exp_iff)
qed

text \<open>
  All combinations of a list of responses, in the order of the table: the first half without
  the leading response, the second half with it.
\<close>

fun crc_span :: "u32 list \<Rightarrow> u32 list" where
  "crc_span [] = [0]"
| "crc_span (r # rs) = (let ts = crc_span rs in ts @ map (\<lambda>t. r XOR t) ts)"

lemma crc_responses_span:
  "map (\<lambda>i. (crc_bit ^^ 8) (word_of_nat i)) [0..<2 ^ k] =
    crc_span (map (\<lambda>j. (crc_bit ^^ 8) (2 ^ j)) (rev [0..<k]))"
proof (induction k)
  case 0
  then show ?case by (simp add: crc_bits_0)
next
  case (Suc k)
  let ?f = "\<lambda>i. (crc_bit ^^ 8) (word_of_nat i)"
  have "[0..<2 ^ Suc k] = [0..<2 ^ k] @ map (\<lambda>i. 2 ^ k + i) [0..<2 ^ k]"
    using upt_add_eq_append [of 0 "2 ^ k" "2 ^ k"] map_add_upt [of "2 ^ k" "2 ^ k"]
    by (simp add: mult_2 add.commute)
  moreover have "?f (2 ^ k + i) = (crc_bit ^^ 8) (2 ^ k) XOR ?f i" if "i < 2 ^ k" for i
    using that by (simp only: power_add_less_xor of_nat_xor_eq crc_bits_xor of_nat_power of_nat_numeral)
  ultimately have "map ?f [0..<2 ^ Suc k] =
      map ?f [0..<2 ^ k] @ map (\<lambda>t. (crc_bit ^^ 8) (2 ^ k) XOR t) (map ?f [0..<2 ^ k])"
    by (simp del: of_nat_add funpow.simps)
  then show ?case by (simp only: Suc.IH) (simp add: Let_def)
qed

lemma crc_bits_8: "(crc_bit ^^ 8) c =
    crc_bit (crc_bit (crc_bit (crc_bit (crc_bit (crc_bit (crc_bit (crc_bit c)))))))"
  by (simp add: numeral_eq_Suc)

lemma crc_basis:
  "(crc_bit ^^ 8) (2 ^ 0) = 0x77073096" "(crc_bit ^^ 8) (2 ^ 1) = 0xEE0E612C"
  "(crc_bit ^^ 8) (2 ^ 2) = 0x076DC419" "(crc_bit ^^ 8) (2 ^ 3) = 0x0EDB8832"
  "(crc_bit ^^ 8) (2 ^ 4) = 0x1DB71064" "(crc_bit ^^ 8) (2 ^ 5) = 0x3B6E20C8"
  "(crc_bit ^^ 8) (2 ^ 6) = 0x76DC4190" "(crc_bit ^^ 8) (2 ^ 7) = 0xEDB88320"
  unfolding crc_bits_8 by (simp_all add: crc_bit_def)

lemma upt_8: "rev [0..<8] = [7, 6, 5, 4, 3, 2, 1, 0 :: nat]"
  by code_simp

lemma crc_table_span: "crc_table = crc_span
    [0xEDB88320, 0x76DC4190, 0x3B6E20C8, 0x1DB71064, 0x0EDB8832, 0x076DC419, 0xEE0E612C, 0x77073096]"
  by (simp add: crc_table_def)

lemma crc_table_eq: "crc_table = map (\<lambda>i. (crc_bit ^^ 8) (word_of_nat i)) [0..<2 ^ 8]"
  by (simp only: crc_responses_span crc_table_span upt_8 list.map crc_basis)

lemma crc_table_nth: "i < 256 \<Longrightarrow> crc_table ! i = (crc_bit ^^ 8) (word_of_nat i)"
  by (simp add: crc_table_eq)

section \<open>The code computes the register\<close>

lemma byte_mask: "(0xFF :: u32) = mask 8"
  by (simp add: mask_eq_exp_minus_1)

lemma bit_byte_mask: "bit (x AND 0xFF :: u32) n \<longleftrightarrow> bit x n \<and> n < 8"
  by (auto simp: byte_mask bit_and_iff bit_mask_iff dest: bit_imp_le_length)

lemma low_byte_less: "unat ((x :: u32) AND 0xFF) < 256"
  using word_and_le1 [of x "0xFF", THEN word_le_nat_alt [THEN iffD1]] by simp

lemma crc_bits_split: "(crc_bit ^^ 8) x = (crc_bit ^^ 8) (x AND 0xFF) XOR drop_bit 8 x"
proof -
  let ?hi = "push_bit 8 (drop_bit 8 x)"
  have "x = (x AND 0xFF) XOR ?hi"
    by (rule bit_eqI) (auto simp: bit_byte_mask bit_xor_iff bit_push_bit_iff bit_drop_bit_eq
        dest: bit_imp_le_length)
  then have "(crc_bit ^^ 8) x = (crc_bit ^^ 8) (x AND 0xFF) XOR (crc_bit ^^ 8) ?hi"
    by (metis crc_bits_xor)
  also have "(crc_bit ^^ 8) ?hi = drop_bit 8 ?hi"
    by (rule crc_bits_low_zero) (simp add: bit_push_bit_iff)
  also have "drop_bit 8 ?hi = drop_bit 8 x"
    by (rule bit_eqI) (auto simp: bit_simps dest: bit_imp_le_length)
  finally show ?thesis .
qed

lemma CRC32_step_eq: "CRC32_step c b = crc_byte c b"
proof -
  let ?x = "c XOR ucast b"
  have min: "min 7 n = n" if "n < 8" for n :: nat using that by simp
  have low: "(c XOR scast b) AND 0xFF = ?x AND 0xFF"
    by (rule bit_eqI)
      (auto simp: bit_byte_mask bit_xor_iff bit_signed_iff bit_unsigned_iff min)
  have high: "drop_bit 8 ?x = drop_bit 8 c"
    by (rule bit_eqI) (auto simp: bit_simps dest: bit_imp_le_length)
  have "crc_table ! unat (?x AND 0xFF) = (crc_bit ^^ 8) (?x AND 0xFF)"
    by (simp add: crc_table_nth low_byte_less)
  then show ?thesis
    by (simp only: CRC32_step_def crc_byte_def low crc_bits_split [of ?x] high)
qed

lemma CRC32_eq_register: "CRC32 data len = foldl crc_byte 0xFFFFFFFF (take len data) XOR 0xFFFFFFFF"
proof -
  have "CRC32_step = crc_byte" by (intro ext) (rule CRC32_step_eq)
  then show ?thesis by (simp add: CRC32_def)
qed

section \<open>Corruption\<close>

lemma xor_right_cancel: "a XOR c = b XOR c \<Longrightarrow> a = (b :: u32)"
  by (rule bit_eqI) (auto simp: bit_xor_iff dest: arg_cong [where f = "\<lambda>w. bit w _"])

lemma xor_left_cancel: "c XOR a = c XOR b \<Longrightarrow> a = (b :: u32)"
  by (metis xor.commute xor_right_cancel)

lemma inj_crc_byte: "inj (\<lambda>c. crc_byte c b)"
proof (rule injI)
  fix x y assume "crc_byte x b = crc_byte y b"
  then have "x XOR ucast b = y XOR ucast b"
    unfolding crc_byte_def by (rule injD [OF inj_crc_bits])
  then show "x = y" by (rule xor_right_cancel)
qed

lemma inj_crc_bytes: "inj (\<lambda>c. foldl crc_byte c bs)"
proof (induction bs)
  case (Cons b bs)
  then show ?case
    using inj_compose [OF Cons.IH inj_crc_byte [of b]] by (simp add: comp_def)
qed simp

text \<open>
  Up to four bytes enter the register as if they were one word: the later bytes do not meet
  the feedback of the earlier ones.
\<close>

lemma crc_byte_absorb:
  assumes "length bs \<le> 3"
  shows "crc_byte c b XOR le_word bs = (crc_bit ^^ 8) (c XOR le_word (b # bs))"
proof -
  have bound: "k < 24" if "bit (le_word bs :: u32) k" for k
    using bit_le_word_bound [OF that] assms by simp
  have "(crc_bit ^^ 8) (push_bit 8 (le_word bs)) = drop_bit 8 (push_bit 8 (le_word bs) :: u32)"
    by (rule crc_bits_low_zero) (simp add: bit_push_bit_iff)
  also have "\<dots> = le_word bs"
    by (rule bit_eqI) (auto simp: bit_simps dest: bound)
  finally have "crc_byte c b XOR le_word bs = (crc_bit ^^ 8) (c XOR ucast b XOR push_bit 8 (le_word bs))"
    by (simp only: crc_byte_def crc_bits_xor xor.assoc)
  moreover have "ucast b XOR push_bit 8 (le_word bs) = (le_word (b # bs) :: u32)"
    by (rule bit_eqI) (auto simp: bit_simps dest: bit_imp_le_length)
  ultimately show ?thesis by (simp only: xor.assoc)
qed

lemma crc_bytes_word:
  "length bs \<le> 4 \<Longrightarrow> foldl crc_byte c bs = (crc_bit ^^ (8 * length bs)) (c XOR le_word bs)"
proof (induction bs arbitrary: c)
  case (Cons b bs)
  then have "foldl crc_byte c (b # bs) = (crc_bit ^^ (8 * length bs)) (crc_byte c b XOR le_word bs)"
    by simp
  also have "crc_byte c b XOR le_word bs = (crc_bit ^^ 8) (c XOR le_word (b # bs))"
    using Cons.prems by (intro crc_byte_absorb) simp
  finally show ?case
    by (simp only: list.size(4) add_0_right add_Suc_right mult_Suc_right add.commute [of 8] funpow_add o_apply)
qed simp

lemma crc_burst:
  assumes "length xs = length ys" and "length xs \<le> 4" and "xs \<noteq> ys"
  shows "foldl crc_byte c (ps @ xs @ ss) \<noteq> foldl crc_byte c (ps @ ys @ ss)"
proof
  let ?c = "foldl crc_byte c ps"
  assume "foldl crc_byte c (ps @ xs @ ss) = foldl crc_byte c (ps @ ys @ ss)"
  then have "foldl crc_byte ?c xs = foldl crc_byte ?c ys"
    using injD [OF inj_crc_bytes] by simp
  then have "(crc_bit ^^ (8 * length xs)) (?c XOR le_word xs) =
      (crc_bit ^^ (8 * length xs)) (?c XOR le_word ys)"
    using assms by (simp only: crc_bytes_word)
  then have "?c XOR le_word xs = ?c XOR le_word ys"
    by (rule injD [OF inj_crc_bits])
  then have "le_word xs = (le_word ys :: u32)"
    by (rule xor_left_cancel)
  then show False
    using assms le_bytes_le_word [of xs, where 'a = 32] le_bytes_le_word [of ys, where 'a = 32] by simp
qed

lemma CRC32_detects_burst_core:
  assumes "length xs = length ys" and "length xs \<le> 4" and "xs \<noteq> ys"
    and "length ps + length xs \<le> len"
  shows "CRC32 (ps @ xs @ ss) len \<noteq> CRC32 (ps @ ys @ ss) len"
proof
  let ?ss = "take (len - length ps - length xs) ss"
  assume "CRC32 (ps @ xs @ ss) len = CRC32 (ps @ ys @ ss) len"
  then have "foldl crc_byte 0xFFFFFFFF (take len (ps @ xs @ ss)) =
      foldl crc_byte 0xFFFFFFFF (take len (ps @ ys @ ss))"
    unfolding CRC32_eq_register by (rule xor_right_cancel)
  moreover have "take len (ps @ zs @ ss) = ps @ zs @ ?ss" if "length zs = length xs" for zs
    using that assms(4) by simp
  ultimately show False using crc_burst [OF assms(1-3)] assms(1) by metis
qed

section \<open>Properties\<close>

text \<open>
  C21. The table-driven loop computes the bit-serial CRC-32 (reflected polynomial 0xEDB88320,
  initial value and final inversion 0xFFFFFFFF) of the first \<open>len\<close> bytes, for every input,
  although \<^verbatim>\<open>char\<close> is sign-extended in the table index.
\<close>

theorem CRC32_is_reference: "CRC32 data len = crc_reference (take len data)"
  by (simp add: CRC32_eq_register crc_reference_def)

lemma CRC32_check_value:
  "CRC32 [0x31, 0x32, 0x33, 0x34, 0x35, 0x36, 0x37, 0x38, 0x39] 9 = 0xCBF43926"
  by (simp add: CRC32_eq_register crc_byte_def crc_bits_8 crc_bit_def)

text \<open>
  Any corruption confined to at most four consecutive bytes of the checksummed range
  changes the CRC, whatever surrounds it.
\<close>

theorem CRC32_detects_burst:
  assumes "length xs = length ys" and "length xs \<le> 4" and "xs \<noteq> ys"
    and "length ps + length xs \<le> len"
  shows "CRC32 (ps @ xs @ ss) len \<noteq> CRC32 (ps @ ys @ ss) len"
  using assms by (rule CRC32_detects_burst_core)

theorem CRC32_detects_burst_witness:
  "CRC32 ([1, 2] @ [3] @ [4]) 4 \<noteq> CRC32 ([1, 2] @ [7] @ [4]) 4"
  by (rule CRC32_detects_burst) simp_all

end
