(* ===== verification/Codec.thy ===== *)
theory Codec
  imports Comm Crc
begin

text \<open>
  The machinery the block codecs of \<^verbatim>\<open>pancake_block.cc\<close> are written in: integers in
  network byte order, the \<^verbatim>\<open>read_data\<close> cursor with its early returns, and the check of the
  trailing checksum. The interfaces are two locales: \<open>net_order\<close>, what the codecs rely on of
  \<^verbatim>\<open>seastar::net\<close>, and \<open>block_codec\<close>, what a block type promises to the components
  that store it.
\<close>

section \<open>Network byte order\<close>

text \<open>
  \<^verbatim>\<open>append_data\<close> of \<^verbatim>\<open>hton(w)\<close>, and \<^verbatim>\<open>ntoh\<close> of the integer that
  \<^verbatim>\<open>read_data\<close> copied the bytes into.
\<close>

definition net16 :: "platform \<Rightarrow> u16 \<Rightarrow> bytes" where
  "net16 P w = obj_bytes P 2 (hton16 P w)"

definition net32 :: "platform \<Rightarrow> u32 \<Rightarrow> bytes" where
  "net32 P w = obj_bytes P 4 (hton32 P w)"

definition net64 :: "platform \<Rightarrow> u64 \<Rightarrow> bytes" where
  "net64 P w = obj_bytes P 8 (hton64 P w)"

definition host16 :: "platform \<Rightarrow> bytes \<Rightarrow> u16" where
  "host16 P bs = ntoh16 P (obj_load P bs)"

definition host32 :: "platform \<Rightarrow> bytes \<Rightarrow> u32" where
  "host32 P bs = ntoh32 P (obj_load P bs)"

definition host64 :: "platform \<Rightarrow> bytes \<Rightarrow> u64" where
  "host64 P bs = ntoh64 P (obj_load P bs)"

text \<open>
  The documented contract of \<^verbatim>\<open>hton\<close> and \<^verbatim>\<open>ntoh\<close>: the object representation of
  \<^verbatim>\<open>hton(x)\<close> is \<open>x\<close> with its most significant byte first, and \<^verbatim>\<open>ntoh\<close> is
  the inverse of \<^verbatim>\<open>hton\<close>.
\<close>

locale net_order =
  fixes P :: platform
  assumes hton16_bytes: "obj_bytes P 2 (hton16 P a) = be_bytes 2 a"
    and hton32_bytes: "obj_bytes P 4 (hton32 P b) = be_bytes 4 b"
    and hton64_bytes: "obj_bytes P 8 (hton64 P c) = be_bytes 8 c"
    and ntoh16_hton16: "ntoh16 P (hton16 P a) = a"
    and ntoh32_hton32: "ntoh32 P (hton32 P b) = b"
    and ntoh64_hton64: "ntoh64 P (hton64 P c) = c"
begin

lemma net_bytes: "net16 P a = be_bytes 2 a" "net32 P b = be_bytes 4 b" "net64 P c = be_bytes 8 c"
  by (simp_all add: net16_def net32_def net64_def hton16_bytes hton32_bytes hton64_bytes)

lemma host_net [codec_simps]:
  "host16 P (net16 P a) = a" "host32 P (net32 P b) = b" "host64 P (net64 P c) = c"
  by (simp_all add: host16_def host32_def host64_def net16_def net32_def net64_def
      obj_load_obj_bytes ntoh16_hton16 ntoh32_hton32 ntoh64_hton64)

lemma net32_inj: "net32 P v = net32 P w \<Longrightarrow> v = w"
  using host_net(2) by metis

lemma net_host16: "length bs = 2 \<Longrightarrow> net16 P (host16 P bs) = bs"
proof -
  assume len: "length bs = 2"
  have "be_bytes 2 (be_word bs :: u16) = bs"
    using le_bytes_le_word [of "rev bs", where 'a = 16] len by simp
  then show ?thesis by (metis host_net(1) net_bytes(1))
qed

lemma net_host32: "length bs = 4 \<Longrightarrow> net32 P (host32 P bs) = bs"
proof -
  assume len: "length bs = 4"
  have "be_bytes 4 (be_word bs :: u32) = bs"
    using le_bytes_le_word [of "rev bs", where 'a = 32] len by simp
  then show ?thesis by (metis host_net(2) net_bytes(2))
qed

lemma net_host64: "length bs = 8 \<Longrightarrow> net64 P (host64 P bs) = bs"
proof -
  assume len: "length bs = 8"
  have "be_bytes 8 (be_word bs :: u64) = bs"
    using le_bytes_le_word [of "rev bs", where 'a = 64] len by simp
  then show ?thesis by (metis host_net(3) net_bytes(3))
qed

lemmas net_host [codec_simps] = net_host16 net_host32 net_host64

end

lemma length_net [simp]:
  "length (net16 P a) = 2" "length (net32 P b) = 4" "length (net64 P c) = 8"
  by (simp_all add: net16_def net32_def net64_def)

text \<open>The two kinds of host: a little-endian one swaps, a big-endian one has nothing to do.\<close>

definition byte_swap :: "nat \<Rightarrow> 'a::len word \<Rightarrow> 'a word" where
  "byte_swap n w = le_word (be_bytes n w)"

definition x86_host :: "bool \<Rightarrow> platform" where
  "x86_host nd = \<lparr>little_endian = True, ndebug = nd,
     hton16 = byte_swap 2, hton32 = byte_swap 4, hton64 = byte_swap 8,
     ntoh16 = byte_swap 2, ntoh32 = byte_swap 4, ntoh64 = byte_swap 8\<rparr>"

definition be_host :: "bool \<Rightarrow> platform" where
  "be_host nd = \<lparr>little_endian = False, ndebug = nd,
     hton16 = id, hton32 = id, hton64 = id, ntoh16 = id, ntoh32 = id, ntoh64 = id\<rparr>"

lemma le_bytes_byte_swap:
  "8 * n \<le> LENGTH('a::len) \<Longrightarrow> le_bytes n (byte_swap n w :: 'a word) = be_bytes n w"
  using le_bytes_le_word [of "be_bytes n w", where 'a = 'a] by (simp add: byte_swap_def)

lemma byte_swap_twice:
  "8 * n = LENGTH('a::len) \<Longrightarrow> byte_swap n (byte_swap n w) = (w :: 'a word)"
  by (simp add: byte_swap_def [of n "byte_swap n w"] le_bytes_byte_swap le_word_le_bytes)

interpretation x86: net_order "x86_host nd" for nd
  by unfold_locales
    (simp_all add: x86_host_def obj_bytes_def le_bytes_byte_swap byte_swap_twice)

interpretation be: net_order "be_host nd" for nd
  by unfold_locales (simp_all add: be_host_def obj_bytes_def)

lemma x86_host_simps [simp]: "ndebug (x86_host nd) = nd"
  by (simp add: x86_host_def)

section \<open>The read cursor\<close>

text \<open>
  \<^verbatim>\<open>read_data(dest, size)\<close>: the cursor \<^verbatim>\<open>ptr\<close>, \<^verbatim>\<open>remaining\<close> is the list of the bytes
  not read yet. \<open>None\<close> is \<^verbatim>\<open>false\<close>.
\<close>

definition read_data :: "nat \<Rightarrow> bytes \<Rightarrow> (bytes \<times> bytes) option" where
  "read_data n rest = (if length rest < n then None else Some (take n rest, drop n rest))"

text \<open>
  A statement of a \<^verbatim>\<open>Deserialize\<close> body works on the object being filled and the cursor,
  and either goes on or returns an error code, leaving the object as it is by then.
\<close>

type_synonym 's step = "'s \<times> bytes \<Rightarrow> (ErrorCode \<times> 's) + ('s \<times> bytes)"

text \<open>\<^verbatim>\<open>if (!read_data(&x, n)) return ..._DATA_ILLEGAL; field = x;\<close>\<close>

definition read_field :: "nat \<Rightarrow> (bytes \<Rightarrow> 's \<Rightarrow> 's) \<Rightarrow> 's step" where
  "read_field n assign = (\<lambda>(s, rest). case read_data n rest of
     None \<Rightarrow> Inl (DATANODE_STORAGE_BLOCK_DATA_ILLEGAL, s)
   | Some (d, rest') \<Rightarrow> Inr (assign d s, rest'))"

text \<open>\<^verbatim>\<open>if (!ok) return code;\<close>\<close>

definition check_field :: "('s \<Rightarrow> bool) \<Rightarrow> ErrorCode \<Rightarrow> 's step" where
  "check_field ok code = (\<lambda>(s, rest). if ok s then Inr (s, rest) else Inl (code, s))"

fun run_steps :: "'s step list \<Rightarrow> 's step" where
  "run_steps [] x = Inr x"
| "run_steps (f # fs) x = (case f x of Inl r \<Rightarrow> Inl r | Inr y \<Rightarrow> run_steps fs y)"

text \<open>
  The frame of every \<^verbatim>\<open>Deserialize\<close>: the size test, the statements, and the comparison of
  the stored checksum with the one of all bytes read before it
  (\<^verbatim>\<open>ptr - data.data() - sizeof(crc_)\<close>).
\<close>

definition deserialize_block :: "'s step list \<Rightarrow> ('s \<Rightarrow> u32) \<Rightarrow> 's \<Rightarrow> bytes \<Rightarrow> ErrorCode \<times> 's" where
  "deserialize_block steps crc s data =
     (if length data \<noteq> k_block_size then (DATANODE_STORAGE_BLOCK_SIZE_ILLEGAL, s)
      else case run_steps steps (s, data) of
        Inl r \<Rightarrow> r
      | Inr (s', rest) \<Rightarrow>
          (if CRC32 data (length data - length rest - 4) \<noteq> crc s'
           then (DATANODE_STORAGE_BLOCK_CRC_MISMATCH, s')
           else (PANCAKE_STORE_OK, s')))"

lemma read_field_append [codec_simps]:
  "length d = n \<Longrightarrow> read_field n assign (s, d @ rest) = Inr (assign d s, rest)"
  "length d = n \<Longrightarrow> read_field n assign (s, d) = Inr (assign d s, [])"
  by (simp_all add: read_field_def read_data_def)

lemma read_field_byte [codec_simps]:
  "read_field (Suc 0) assign (s, b # rest) = Inr (assign [b] s, rest)"
  by (simp add: read_field_def read_data_def)

lemma check_field_simps [codec_simps]:
  "check_field ok code (s, rest) = (if ok s then Inr (s, rest) else Inl (code, s))"
  by (simp add: check_field_def)

lemma run_steps_append:
  "run_steps (fs @ gs) x = (case run_steps fs x of Inl r \<Rightarrow> Inl r | Inr y \<Rightarrow> run_steps gs y)"
  by (induction fs arbitrary: x) (auto split: sum.splits)

lemma split_at:
  "length xs = m + n \<Longrightarrow> \<exists>ys zs. xs = ys @ zs \<and> length ys = m \<and> length zs = n"
  by (intro exI [of _ "take m xs"] exI [of _ "drop m xs"]) simp

text \<open>What every statement preserves holds of the object afterwards, on every path.\<close>

definition preserves :: "('s \<Rightarrow> bool) \<Rightarrow> 's step \<Rightarrow> bool" where
  "preserves Q f \<longleftrightarrow> (\<forall>s rest. Q s \<longrightarrow> (case f (s, rest) of Inl (_, s') \<Rightarrow> Q s' | Inr (s', _) \<Rightarrow> Q s'))"

lemma preserves_read_field:
  "(\<And>d s. length d = n \<Longrightarrow> Q s \<Longrightarrow> Q (assign d s)) \<Longrightarrow> preserves Q (read_field n assign)"
  by (auto simp: preserves_def read_field_def read_data_def min_absorb2)

lemma preserves_check_field: "preserves Q (check_field ok code)"
  by (simp add: preserves_def check_field_def)

lemma preserves_run_steps: "list_all (preserves Q) fs \<Longrightarrow> preserves Q (run_steps fs)"
proof (induction fs)
  case (Cons f fs)
  then have f: "preserves Q f" and fs: "preserves Q (run_steps fs)" by simp_all
  show ?case
    unfolding preserves_def
  proof (intro allI impI)
    fix s rest assume "Q s"
    with f have "case f (s, rest) of Inl (_, s') \<Rightarrow> Q s' | Inr (s', _) \<Rightarrow> Q s'" by (simp add: preserves_def)
    with fs show "case run_steps (f # fs) (s, rest) of Inl (_, s') \<Rightarrow> Q s' | Inr (s', _) \<Rightarrow> Q s'"
      by (cases "f (s, rest)") (auto simp: preserves_def)
  qed
qed (simp add: preserves_def)

lemma deserialize_block_preserves:
  assumes "list_all (preserves Q) steps" and "Q s"
  shows "Q (snd (deserialize_block steps crc s data))"
proof -
  have "case run_steps steps (s, data) of Inl (_, s') \<Rightarrow> Q s' | Inr (s', _) \<Rightarrow> Q s'"
    using preserves_run_steps [OF assms(1)] assms(2) by (simp add: preserves_def)
  then show ?thesis using assms(2) by (auto simp: deserialize_block_def split: sum.splits)
qed

text \<open>The object comes back unchanged when the size is wrong.\<close>

lemma deserialize_block_size:
  "length data \<noteq> k_block_size \<Longrightarrow>
    deserialize_block steps crc s data = (DATANODE_STORAGE_BLOCK_SIZE_ILLEGAL, s)"
  by (simp add: deserialize_block_def)

section \<open>What a block type promises\<close>

text \<open>
  \<open>ser\<close> is a \<^verbatim>\<open>Serialize\<close> method: it returns the bytes and the object with its magic and
  checksum set. \<open>deser\<close> is \<^verbatim>\<open>Deserialize\<close> on an object of any content. A well-formed
  object serialises to exactly one block, and the block restores the object.
\<close>

locale block_codec =
  fixes ser :: "'b \<Rightarrow> (bytes \<times> 'b) outcome"
    and deser :: "'b \<Rightarrow> bytes \<Rightarrow> ErrorCode \<times> 'b"
    and wf :: "'b \<Rightarrow> bool"
  assumes ser_total: "wf b \<Longrightarrow> \<exists>bs b'. ser b = Return (bs, b')"
    and ser_length: "wf b \<Longrightarrow> ser b = Return (bs, b') \<Longrightarrow> length bs = k_block_size"
    and ser_wf: "wf b \<Longrightarrow> ser b = Return (bs, b') \<Longrightarrow> wf b'"
    and deser_ser: "wf b \<Longrightarrow> wf c \<Longrightarrow> ser b = Return (bs, b') \<Longrightarrow> deser c bs = (PANCAKE_STORE_OK, b')"
begin

lemma ser_obtain:
  assumes "wf b"
  obtains bs b' where "ser b = Return (bs, b')" and "length bs = k_block_size" and "wf b'"
  using assms ser_total ser_length ser_wf by blast

lemma ser_injective:
  assumes "wf b" and "wf c" and "ser b = Return (bs, b')" and "ser c = Return (bs, c')"
  shows "b' = c'"
  using assms deser_ser [of b b bs b'] deser_ser [of c b bs c'] by simp

end

text \<open>
  A fixed-layout block is also canonical: a block that \<open>deser\<close> accepts is the one the
  object serialises to, so no two different blocks are accepted as the same object.
\<close>

locale canonical_codec = block_codec +
  assumes ser_deser: "wf c \<Longrightarrow> deser c bs = (PANCAKE_STORE_OK, b) \<Longrightarrow> ser b = Return (bs, b)"
    and deser_wf: "wf c \<Longrightarrow> deser c bs = (PANCAKE_STORE_OK, b) \<Longrightarrow> wf b"
begin

lemma accepted_unique:
  assumes "wf c" and "wf d" and "deser c bs = (PANCAKE_STORE_OK, b)" and "deser d cs = (PANCAKE_STORE_OK, b)"
  shows "bs = cs"
  using ser_deser [OF assms(1,3)] ser_deser [OF assms(2,4)] by simp

lemma accepted_length: "wf c \<Longrightarrow> deser c bs = (PANCAKE_STORE_OK, b) \<Longrightarrow> length bs = k_block_size"
  using ser_deser deser_wf ser_length by blast

text \<open>What one object accepts, every object accepts, with the same result.\<close>

lemma accept_any:
  assumes "wf c" and "wf d" and "deser c bs = (PANCAKE_STORE_OK, b)"
  shows "deser d bs = (PANCAKE_STORE_OK, b)"
  using assms ser_deser deser_wf deser_ser by blast

end

text \<open>
  A checksummed block ends in the encoded CRC-32 of everything before it. Then a burst of up
  to four corrupted bytes, inside the checksummed bytes or inside the checksum, is never
  accepted.
\<close>

locale checksummed_codec = canonical_codec +
  fixes enc :: "u32 \<Rightarrow> bytes"
  assumes enc_length: "length (enc w) = 4"
    and enc_inj: "wf c \<Longrightarrow> enc v = enc w \<Longrightarrow> v = w"
    and trailer: "wf c \<Longrightarrow> deser c bs = (PANCAKE_STORE_OK, b) \<Longrightarrow>
      \<exists>body. bs = body @ enc (CRC32 body (length body))"
begin

lemma burst_rejected:
  assumes c: "wf c" and acc: "deser c (ps @ xs @ ss) = (PANCAKE_STORE_OK, b)"
    and len: "length xs = length ys" "length xs \<le> 4" and neq: "xs \<noteq> ys"
    and inside: "length ps + length xs + 4 \<le> k_block_size \<or> k_block_size \<le> length ps + 4"
  shows "fst (deser c (ps @ ys @ ss)) \<noteq> PANCAKE_STORE_OK"
proof
  assume "fst (deser c (ps @ ys @ ss)) = PANCAKE_STORE_OK"
  then obtain b' where acc': "deser c (ps @ ys @ ss) = (PANCAKE_STORE_OK, b')"
    by (cases "deser c (ps @ ys @ ss)") auto
  from trailer [OF c acc] obtain x where x: "ps @ xs @ ss = x @ enc (CRC32 x (length x))" by blast
  from trailer [OF c acc'] obtain y where y: "ps @ ys @ ss = y @ enc (CRC32 y (length y))" by blast
  have total: "length (ps @ xs @ ss) = k_block_size" by (rule accepted_length [OF c acc])
  with x have lx: "length x + 4 = k_block_size" by (simp only: length_append enc_length)
  have "length (ps @ ys @ ss) = k_block_size" by (rule accepted_length [OF c acc'])
  with y have ly: "length y + 4 = k_block_size" by (simp only: length_append enc_length)
  from inside show False
  proof
    assume early: "length ps + length xs + 4 \<le> k_block_size"
    define s t where "s = take (length x - length ps - length xs) ss"
      and "t = drop (length x - length ps - length xs) ss"
    have "take (length x) (ps @ xs @ ss) = ps @ xs @ s" "drop (length x) (ps @ xs @ ss) = t"
      "take (length x) (ps @ ys @ ss) = ps @ ys @ s" "drop (length x) (ps @ ys @ ss) = t"
      using early lx len(1) by (simp_all add: s_def t_def)
    then have "x = ps @ xs @ s" "enc (CRC32 x (length x)) = t" "y = ps @ ys @ s" "enc (CRC32 y (length y)) = t"
      using x y lx ly by (metis append_eq_conv_conj add_right_cancel)+
    then have "CRC32 (ps @ xs @ s) (length x) = CRC32 (ps @ ys @ s) (length x)"
      using enc_inj [OF c, of "CRC32 x (length x)" "CRC32 y (length y)"] lx ly by simp
    then show False
      using CRC32_detects_burst_core [OF len neq] early lx by simp
  next
    assume late: "k_block_size \<le> length ps + 4"
    have "x = take (length x) (ps @ xs @ ss)" "y = take (length x) (ps @ ys @ ss)"
      using x y lx ly by (metis append_eq_conv_conj add_right_cancel)+
    then have "x = y" using late lx by simp
    then have "ps @ xs @ ss = ps @ ys @ ss" using x y by simp
    then show False using neq len(1) by simp
  qed
qed

end

end
