(* ===== verification/Data_Block.thy ===== *)
theory Data_Block
  imports Codec
begin

text \<open>
  The two blocks of one layout, 4064 bytes of payload and a 32-byte footer:
  \<^verbatim>\<open>BitMapBlock\<close> and \<^verbatim>\<open>DataBlock\<close> of \<^verbatim>\<open>pancake_block.h/.cc\<close>. Arrays of fixed size are
  lists, their sizes the invariants \<open>wf_BitMapBlock\<close> and \<open>wf_DataBlock\<close>.
\<close>

definition k_block_magic :: u32 where
  "k_block_magic = 0x20250430"

lemma be_magic: "be_bytes 4 k_block_magic = [0x20, 0x25, 0x04, 0x30]"
  by (simp add: k_block_magic_def le_bytes_4)

record BlockFooter =
  bf_magic :: u32
  bf_version :: u8
  bf_flag :: u8
  bf_length :: u16
  bf_extent_id :: u64
  bf_reserved :: bytes
  bf_crc :: u32

definition wf_BlockFooter :: "BlockFooter \<Rightarrow> bool" where
  "wf_BlockFooter f \<longleftrightarrow> length (bf_reserved f) = 12"

definition Fill :: "u64 \<Rightarrow> u64 \<Rightarrow> BlockFooter \<Rightarrow> BlockFooter" where
  "Fill extent_id len f = f\<lparr>bf_magic := k_block_magic, bf_version := 1,
     bf_length := ucast len, bf_extent_id := extent_id\<rparr>"

definition FillWithoutExtentId :: "u64 \<Rightarrow> BlockFooter \<Rightarrow> BlockFooter" where
  "FillWithoutExtentId len f = f\<lparr>bf_magic := k_block_magic, bf_version := 1,
     bf_length := ucast len, bf_extent_id := 0\<rparr>"

text \<open>A footer of zero bytes, as \<^verbatim>\<open>memset\<close> leaves it.\<close>

definition zero_footer :: BlockFooter where
  "zero_footer = \<lparr>bf_magic = 0, bf_version = 0, bf_flag = 0, bf_length = 0, bf_extent_id = 0,
     bf_reserved = replicate 12 0, bf_crc = 0\<rparr>"

section \<open>BitMapBlock\<close>

record BitMapBlock =
  bm_bitmap :: bytes
  bm_footer :: BlockFooter

definition wf_BitMapBlock :: "BitMapBlock \<Rightarrow> bool" where
  "wf_BitMapBlock b \<longleftrightarrow> length (bm_bitmap b) = k_block_data_size \<and> wf_BlockFooter (bm_footer b)"

definition BitMapBlock_Serialize :: "platform \<Rightarrow> BitMapBlock \<Rightarrow> (bytes \<times> BitMapBlock) outcome" where
  "BitMapBlock_Serialize P b =
    (let f = (bm_footer b)\<lparr>bf_magic := k_block_magic\<rparr>;
         result = bm_bitmap b
           @ net32 P (bf_magic f) @ [bf_version f] @ [bf_flag f] @ net16 P (bf_length f)
           @ net64 P (bf_extent_id f) @ bf_reserved f;
         f = f\<lparr>bf_crc := CRC32 result (length result)\<rparr>;
         result = result @ net32 P (bf_crc f)
     in cpp_assert P (length result = k_block_size) (Return (result, b\<lparr>bm_footer := f\<rparr>)))"

definition bm_upd :: "(BlockFooter \<Rightarrow> BlockFooter) \<Rightarrow> BitMapBlock \<Rightarrow> BitMapBlock" where
  "bm_upd g b = b\<lparr>bm_footer := g (bm_footer b)\<rparr>"

definition BitMapBlock_Deserialize :: "platform \<Rightarrow> BitMapBlock \<Rightarrow> bytes \<Rightarrow> ErrorCode \<times> BitMapBlock" where
  "BitMapBlock_Deserialize P = deserialize_block
    [read_field k_block_data_size (\<lambda>d b. b\<lparr>bm_bitmap := d\<rparr>),
     read_field 4 (\<lambda>d. bm_upd (\<lambda>f. f\<lparr>bf_magic := host32 P d\<rparr>)),
     check_field (\<lambda>b. bf_magic (bm_footer b) = k_block_magic) DATANODE_STORAGE_BLOCK_MAGIC_ILLEGAL,
     read_field 1 (\<lambda>d. bm_upd (\<lambda>f. f\<lparr>bf_version := hd d\<rparr>)),
     read_field 1 (\<lambda>d. bm_upd (\<lambda>f. f\<lparr>bf_flag := hd d\<rparr>)),
     read_field 2 (\<lambda>d. bm_upd (\<lambda>f. f\<lparr>bf_length := host16 P d\<rparr>)),
     read_field 8 (\<lambda>d. bm_upd (\<lambda>f. f\<lparr>bf_extent_id := host64 P d\<rparr>)),
     read_field 12 (\<lambda>d. bm_upd (\<lambda>f. f\<lparr>bf_reserved := d\<rparr>)),
     read_field 4 (\<lambda>d. bm_upd (\<lambda>f. f\<lparr>bf_crc := host32 P d\<rparr>))]
    (\<lambda>b. bf_crc (bm_footer b))"

lemmas [wf_simps] = wf_BlockFooter_def wf_BitMapBlock_def

definition zero_BitMapBlock :: BitMapBlock where
  "zero_BitMapBlock = \<lparr>bm_bitmap = replicate k_block_data_size 0, bm_footer = zero_footer\<rparr>"

lemma wf_zero_BitMapBlock [simp]: "wf_BitMapBlock zero_BitMapBlock"
  by (simp add: zero_BitMapBlock_def zero_footer_def wf_simps)

subsection \<open>Running the codec\<close>

lemma CRC32_prefix: "CRC32 (xs @ ys) (length xs) = CRC32 xs (length xs)"
  by (simp add: CRC32_def)

text \<open>The parts of a block of this layout.\<close>

lemma block_parts:
  assumes "length bs = k_block_size"
  obtains d m v g l e r k where "bs = d @ m @ v # g # l @ e @ r @ k" and "length d = 4064"
    and "length m = 4" and "length l = 2" and "length e = 8" and "length r = 12" and "length k = 4"
proof -
  from assms obtain d x1 where 1: "bs = d @ x1" "length d = 4064" "length x1 = 32"
    using split_at [of bs 4064 32] by auto
  then obtain m x2 where 2: "x1 = m @ x2" "length m = 4" "length x2 = 28"
    using split_at [of x1 4 28] by auto
  then obtain vg x3 where 3: "x2 = vg @ x3" "length vg = 2" "length x3 = 26"
    using split_at [of x2 2 26] by auto
  then obtain l x4 where 4: "x3 = l @ x4" "length l = 2" "length x4 = 24"
    using split_at [of x3 2 24] by auto
  then obtain e x5 where 5: "x4 = e @ x5" "length e = 8" "length x5 = 16"
    using split_at [of x4 8 16] by auto
  then obtain r k where 6: "x5 = r @ k" "length r = 12" "length k = 4"
    using split_at [of x5 12 4] by auto
  from 3(2) obtain v g where "vg = [v, g]" by (auto simp: numeral_eq_Suc length_Suc_conv)
  with 1 2 3 4 5 6 show thesis by (intro that [of d m v g l e r k]) simp_all
qed

text \<open>The bytes under the checksum.\<close>

definition BitMapBlock_body :: "platform \<Rightarrow> BitMapBlock \<Rightarrow> bytes" where
  "BitMapBlock_body P b = bm_bitmap b @ net32 P k_block_magic
     @ bf_version (bm_footer b) # bf_flag (bm_footer b) # net16 P (bf_length (bm_footer b))
     @ net64 P (bf_extent_id (bm_footer b)) @ bf_reserved (bm_footer b)"

lemma BitMapBlock_Serialize_eq:
  assumes "wf_BitMapBlock b"
  shows "BitMapBlock_Serialize P b =
      Return (BitMapBlock_body P b @ net32 P (CRC32 (BitMapBlock_body P b) (length (BitMapBlock_body P b))),
        bm_upd (\<lambda>f. f\<lparr>bf_magic := k_block_magic,
          bf_crc := CRC32 (BitMapBlock_body P b) (length (BitMapBlock_body P b))\<rparr>) b)"
    and "length (BitMapBlock_body P b) = 4092"
  using assms by (simp_all add: BitMapBlock_Serialize_def BitMapBlock_body_def wf_simps bm_upd_def Let_def)

lemma BitMapBlock_Deserialize_parts:
  assumes "length d = 4064" and "length m = 4" and "length l = 2" and "length e = 8"
    and "length r = 12" and "length k = 4"
  shows "BitMapBlock_Deserialize P c (d @ m @ v # g # l @ e @ r @ k) =
    (let body = d @ m @ v # g # l @ e @ r;
         f = (bm_footer c)\<lparr>bf_magic := host32 P m, bf_version := v, bf_flag := g,
           bf_length := host16 P l, bf_extent_id := host64 P e, bf_reserved := r, bf_crc := host32 P k\<rparr>
     in if host32 P m \<noteq> k_block_magic
        then (DATANODE_STORAGE_BLOCK_MAGIC_ILLEGAL,
              c\<lparr>bm_bitmap := d, bm_footer := (bm_footer c)\<lparr>bf_magic := host32 P m\<rparr>\<rparr>)
        else if CRC32 body (length body) \<noteq> host32 P k
        then (DATANODE_STORAGE_BLOCK_CRC_MISMATCH, c\<lparr>bm_bitmap := d, bm_footer := f\<rparr>)
        else (PANCAKE_STORE_OK, c\<lparr>bm_bitmap := d, bm_footer := f\<rparr>))"
  using assms CRC32_prefix [of "d @ m @ v # g # l @ e @ r" k]
  by (simp add: BitMapBlock_Deserialize_def deserialize_block_def codec_simps bm_upd_def Let_def)

context net_order
begin

lemma BitMapBlock_deser_ser:
  assumes "wf_BitMapBlock b" and "BitMapBlock_Serialize P b = Return (bs, b')"
  shows "BitMapBlock_Deserialize P c bs = (PANCAKE_STORE_OK, b')"
proof -
  note eq = BitMapBlock_Serialize_eq [OF assms(1), of P]
  show ?thesis
    using assms eq(2) by (auto simp: eq(1) BitMapBlock_body_def BitMapBlock_Deserialize_parts wf_simps
        bm_upd_def codec_simps Let_def)
qed

lemma BitMapBlock_accepted:
  assumes "BitMapBlock_Deserialize P c bs = (PANCAKE_STORE_OK, b)"
  shows "wf_BitMapBlock b \<and> BitMapBlock_Serialize P b = Return (bs, b)"
proof -
  have "length bs = k_block_size"
    using assms by (auto simp: BitMapBlock_Deserialize_def deserialize_block_def split: if_splits)
  then obtain d m v g l e r k where parts: "bs = d @ m @ v # g # l @ e @ r @ k"
    and len: "length d = 4064" "length m = 4" "length l = 2" "length e = 8" "length r = 12" "length k = 4"
    by (rule block_parts)
  from len(2) have "host32 P m = k_block_magic \<Longrightarrow> net32 P k_block_magic = m"
    using net_host32 by metis
  then show ?thesis
    using assms len
    by (auto simp: parts BitMapBlock_Deserialize_parts wf_simps BitMapBlock_Serialize_def Let_def codec_simps
        split: if_splits)
qed

end

interpretation bitmap_codec: checksummed_codec
  "BitMapBlock_Serialize P" "BitMapBlock_Deserialize P" "\<lambda>b. net_order P \<and> wf_BitMapBlock b" "net32 P" for P
proof
  fix b bs b' assume b: "net_order P \<and> wf_BitMapBlock b" and ser: "BitMapBlock_Serialize P b = Return (bs, b')"
  note eq = BitMapBlock_Serialize_eq [OF b [THEN conjunct2], of P]
  show "length bs = k_block_size" using ser eq by auto
  show "net_order P \<and> wf_BitMapBlock b'" using ser b eq by (auto simp: wf_simps bm_upd_def)
next
  fix c bs b assume "net_order P \<and> wf_BitMapBlock c" and "BitMapBlock_Deserialize P c bs = (PANCAKE_STORE_OK, b)"
  then have "wf_BitMapBlock b" and "BitMapBlock_Serialize P b = Return (bs, b)"
    by (auto dest: net_order.BitMapBlock_accepted)
  then show "\<exists>body. bs = body @ net32 P (CRC32 body (length body))"
    using BitMapBlock_Serialize_eq(1) [of b P] by auto
qed (auto simp: BitMapBlock_Serialize_eq dest: net_order.BitMapBlock_deser_ser net_order.BitMapBlock_accepted
    net_order.net32_inj)


section \<open>DataBlock\<close>

record DataBlock =
  db_data :: bytes
  db_footer :: BlockFooter

definition wf_DataBlock :: "DataBlock \<Rightarrow> bool" where
  "wf_DataBlock b \<longleftrightarrow> length (db_data b) = k_block_data_size \<and> wf_BlockFooter (db_footer b)"

definition DataBlock_Serialize :: "platform \<Rightarrow> DataBlock \<Rightarrow> (bytes \<times> DataBlock) outcome" where
  "DataBlock_Serialize P b =
    (let f = (db_footer b)\<lparr>bf_magic := k_block_magic\<rparr>;
         result = db_data b
           @ net32 P (bf_magic f) @ [bf_version f] @ [bf_flag f] @ net16 P (bf_length f)
           @ net64 P (bf_extent_id f) @ bf_reserved f;
         f = f\<lparr>bf_crc := CRC32 result (length result)\<rparr>;
         result = result @ net32 P (bf_crc f)
     in cpp_assert P (length result = k_block_size) (Return (result, b\<lparr>db_footer := f\<rparr>)))"

definition db_upd :: "(BlockFooter \<Rightarrow> BlockFooter) \<Rightarrow> DataBlock \<Rightarrow> DataBlock" where
  "db_upd g b = b\<lparr>db_footer := g (db_footer b)\<rparr>"

definition DataBlock_Deserialize :: "platform \<Rightarrow> DataBlock \<Rightarrow> bytes \<Rightarrow> ErrorCode \<times> DataBlock" where
  "DataBlock_Deserialize P = deserialize_block
    [read_field k_block_data_size (\<lambda>d b. b\<lparr>db_data := d\<rparr>),
     read_field 4 (\<lambda>d. db_upd (\<lambda>f. f\<lparr>bf_magic := host32 P d\<rparr>)),
     check_field (\<lambda>b. bf_magic (db_footer b) = k_block_magic) DATANODE_STORAGE_BLOCK_MAGIC_ILLEGAL,
     read_field 1 (\<lambda>d. db_upd (\<lambda>f. f\<lparr>bf_version := hd d\<rparr>)),
     read_field 1 (\<lambda>d. db_upd (\<lambda>f. f\<lparr>bf_flag := hd d\<rparr>)),
     read_field 2 (\<lambda>d. db_upd (\<lambda>f. f\<lparr>bf_length := host16 P d\<rparr>)),
     read_field 8 (\<lambda>d. db_upd (\<lambda>f. f\<lparr>bf_extent_id := host64 P d\<rparr>)),
     read_field 12 (\<lambda>d. db_upd (\<lambda>f. f\<lparr>bf_reserved := d\<rparr>)),
     read_field 4 (\<lambda>d. db_upd (\<lambda>f. f\<lparr>bf_crc := host32 P d\<rparr>))]
    (\<lambda>b. bf_crc (db_footer b))"

lemmas [wf_simps] = wf_DataBlock_def

definition zero_DataBlock :: DataBlock where
  "zero_DataBlock = \<lparr>db_data = replicate k_block_data_size 0, db_footer = zero_footer\<rparr>"

lemma wf_zero_DataBlock [simp]: "wf_DataBlock zero_DataBlock"
  by (simp add: zero_DataBlock_def zero_footer_def wf_simps)

text \<open>The bytes under the checksum.\<close>

definition DataBlock_body :: "platform \<Rightarrow> DataBlock \<Rightarrow> bytes" where
  "DataBlock_body P b = db_data b @ net32 P k_block_magic
     @ bf_version (db_footer b) # bf_flag (db_footer b) # net16 P (bf_length (db_footer b))
     @ net64 P (bf_extent_id (db_footer b)) @ bf_reserved (db_footer b)"

lemma DataBlock_Serialize_eq:
  assumes "wf_DataBlock b"
  shows "DataBlock_Serialize P b =
      Return (DataBlock_body P b @ net32 P (CRC32 (DataBlock_body P b) (length (DataBlock_body P b))),
        db_upd (\<lambda>f. f\<lparr>bf_magic := k_block_magic,
          bf_crc := CRC32 (DataBlock_body P b) (length (DataBlock_body P b))\<rparr>) b)"
    and "length (DataBlock_body P b) = 4092"
  using assms by (simp_all add: DataBlock_Serialize_def DataBlock_body_def wf_simps db_upd_def Let_def)

lemma DataBlock_Deserialize_parts:
  assumes "length d = 4064" and "length m = 4" and "length l = 2" and "length e = 8"
    and "length r = 12" and "length k = 4"
  shows "DataBlock_Deserialize P c (d @ m @ v # g # l @ e @ r @ k) =
    (let body = d @ m @ v # g # l @ e @ r;
         f = (db_footer c)\<lparr>bf_magic := host32 P m, bf_version := v, bf_flag := g,
           bf_length := host16 P l, bf_extent_id := host64 P e, bf_reserved := r, bf_crc := host32 P k\<rparr>
     in if host32 P m \<noteq> k_block_magic
        then (DATANODE_STORAGE_BLOCK_MAGIC_ILLEGAL,
              c\<lparr>db_data := d, db_footer := (db_footer c)\<lparr>bf_magic := host32 P m\<rparr>\<rparr>)
        else if CRC32 body (length body) \<noteq> host32 P k
        then (DATANODE_STORAGE_BLOCK_CRC_MISMATCH, c\<lparr>db_data := d, db_footer := f\<rparr>)
        else (PANCAKE_STORE_OK, c\<lparr>db_data := d, db_footer := f\<rparr>))"
  using assms CRC32_prefix [of "d @ m @ v # g # l @ e @ r" k]
  by (simp add: DataBlock_Deserialize_def deserialize_block_def codec_simps db_upd_def Let_def)

context net_order
begin

lemma DataBlock_deser_ser:
  assumes "wf_DataBlock b" and "DataBlock_Serialize P b = Return (bs, b')"
  shows "DataBlock_Deserialize P c bs = (PANCAKE_STORE_OK, b')"
proof -
  note eq = DataBlock_Serialize_eq [OF assms(1), of P]
  show ?thesis
    using assms eq(2) by (auto simp: eq(1) DataBlock_body_def DataBlock_Deserialize_parts wf_simps
        db_upd_def codec_simps Let_def)
qed

lemma DataBlock_accepted:
  assumes "DataBlock_Deserialize P c bs = (PANCAKE_STORE_OK, b)"
  shows "wf_DataBlock b \<and> DataBlock_Serialize P b = Return (bs, b)"
proof -
  have "length bs = k_block_size"
    using assms by (auto simp: DataBlock_Deserialize_def deserialize_block_def split: if_splits)
  then obtain d m v g l e r k where parts: "bs = d @ m @ v # g # l @ e @ r @ k"
    and len: "length d = 4064" "length m = 4" "length l = 2" "length e = 8" "length r = 12" "length k = 4"
    by (rule block_parts)
  from len(2) have "host32 P m = k_block_magic \<Longrightarrow> net32 P k_block_magic = m"
    using net_host32 by metis
  then show ?thesis
    using assms len
    by (auto simp: parts DataBlock_Deserialize_parts wf_simps DataBlock_Serialize_def Let_def codec_simps
        split: if_splits)
qed

end

interpretation datablock_codec: checksummed_codec
  "DataBlock_Serialize P" "DataBlock_Deserialize P" "\<lambda>b. net_order P \<and> wf_DataBlock b" "net32 P" for P
proof
  fix b bs b' assume b: "net_order P \<and> wf_DataBlock b" and ser: "DataBlock_Serialize P b = Return (bs, b')"
  note eq = DataBlock_Serialize_eq [OF b [THEN conjunct2], of P]
  show "length bs = k_block_size" using ser eq by auto
  show "net_order P \<and> wf_DataBlock b'" using ser b eq by (auto simp: wf_simps db_upd_def)
next
  fix c bs b assume "net_order P \<and> wf_DataBlock c" and "DataBlock_Deserialize P c bs = (PANCAKE_STORE_OK, b)"
  then have "wf_DataBlock b" and "DataBlock_Serialize P b = Return (bs, b)"
    by (auto dest: net_order.DataBlock_accepted)
  then show "\<exists>body. bs = body @ net32 P (CRC32 body (length body))"
    using DataBlock_Serialize_eq(1) [of b P] by auto
qed (auto simp: DataBlock_Serialize_eq dest: net_order.DataBlock_deser_ser net_order.DataBlock_accepted
    net_order.net32_inj)

section \<open>What the readers look at\<close>

text \<open>
  The verdict on the bytes of a block that has its footer at the end: magic at 4064, checksum at 4092.
\<close>

definition block_verdict :: "platform \<Rightarrow> bytes \<Rightarrow> ErrorCode" where
  "block_verdict P data =
    (if length data \<noteq> 4096 then DATANODE_STORAGE_BLOCK_SIZE_ILLEGAL
     else if host32 P (take 4 (drop 4064 data)) \<noteq> k_block_magic then DATANODE_STORAGE_BLOCK_MAGIC_ILLEGAL
     else if CRC32 (take 4092 data) 4092 \<noteq> host32 P (drop 4092 data) then DATANODE_STORAGE_BLOCK_CRC_MISMATCH
     else PANCAKE_STORE_OK)"

lemma block_verdict_parts:
  assumes "length d = 4064" and "length m = 4" and "length l = 2" and "length e = 8" and "length r = 12" and "length k = 4"
  shows "block_verdict P (d @ m @ v # g # l @ e @ r @ k) =
    (let body = d @ m @ v # g # l @ e @ r
     in if host32 P m \<noteq> k_block_magic then DATANODE_STORAGE_BLOCK_MAGIC_ILLEGAL
        else if CRC32 body (length body) \<noteq> host32 P k then DATANODE_STORAGE_BLOCK_CRC_MISMATCH else PANCAKE_STORE_OK)"
    and "take 8 (drop 4072 (d @ m @ v # g # l @ e @ r @ k)) = e"
    and "take 4064 (d @ m @ v # g # l @ e @ r @ k) = d"
  using assms by (simp_all add: block_verdict_def Let_def)

section \<open>Properties\<close>

text \<open>
  C22. A bitmap block serialises to exactly one block (the size assertion never fires), and
  deserialising that block into any object whatever gives back the payload and every footer
  field, with the magic and the checksum that \<^verbatim>\<open>Serialize\<close> stored in the object.
\<close>

theorem BitMapBlock_roundtrip:
  assumes "net_order P" and "wf_BitMapBlock b"
  shows "\<exists>bs b'. BitMapBlock_Serialize P b = Return (bs, b') \<and> length bs = k_block_size
    \<and> BitMapBlock_Deserialize P c bs = (PANCAKE_STORE_OK, b')
    \<and> b' = b\<lparr>bm_footer := (bm_footer b)\<lparr>bf_magic := k_block_magic, bf_crc := CRC32 bs 4092\<rparr>\<rparr>"
proof -
  note eq = BitMapBlock_Serialize_eq [OF assms(2), of P]
  from eq show ?thesis
    using net_order.BitMapBlock_deser_ser [OF assms eq(1), of c] CRC32_prefix [of "BitMapBlock_body P b"]
    by (simp add: bm_upd_def)
qed

theorem BitMapBlock_roundtrip_witness:
  "\<exists>bs b'. BitMapBlock_Serialize (x86_host False) zero_BitMapBlock = Return (bs, b')
    \<and> length bs = k_block_size
    \<and> BitMapBlock_Deserialize (x86_host False) zero_BitMapBlock bs = (PANCAKE_STORE_OK, b')"
  using BitMapBlock_roundtrip [OF x86.net_order_axioms wf_zero_BitMapBlock] by blast

text \<open>
  C19. What \<^verbatim>\<open>Deserialize\<close> of a data block and of a bitmap block answers and leaves in the object, for all
  bytes. The answer depends on the bytes alone: the size is checked first, then the magic, then the
  checksum over everything in front of it. An object of any content keeps its
  payload only if the size is wrong: a block that is refused for its magic or its checksum has
  overwritten it, and the extent id of the footer is that of a block whose magic was right.
\<close>

theorem Deserialize_verdict:
  "fst (DataBlock_Deserialize P c data) = block_verdict P data
    \<and> fst (BitMapBlock_Deserialize P b data) = block_verdict P data
    \<and> db_data (snd (DataBlock_Deserialize P c data)) = (if length data = k_block_size then take 4064 data else db_data c)
    \<and> bm_bitmap (snd (BitMapBlock_Deserialize P b data)) = (if length data = k_block_size then take 4064 data else bm_bitmap b)
    \<and> bf_extent_id (db_footer (snd (DataBlock_Deserialize P c data))) =
        (if block_verdict P data \<in> {PANCAKE_STORE_OK, DATANODE_STORAGE_BLOCK_CRC_MISMATCH}
         then host64 P (take 8 (drop 4072 data)) else bf_extent_id (db_footer c))"
proof (cases "length data = k_block_size")
  case True
  then obtain d m v g l e r k where data: "data = d @ m @ v # g # l @ e @ r @ k"
    and len: "length d = 4064" "length m = 4" "length l = 2" "length e = 8" "length r = 12" "length k = 4"
    by (rule block_parts)
  show ?thesis
    unfolding data block_verdict_parts [OF len] DataBlock_Deserialize_parts [OF len] BitMapBlock_Deserialize_parts [OF len]
    using len by (simp add: Let_def)
next
  case False
  then show ?thesis
    by (simp add: DataBlock_Deserialize_def BitMapBlock_Deserialize_def deserialize_block_size block_verdict_def)
qed

text \<open>
  Conversely, \<^verbatim>\<open>BitMapBlock::Deserialize\<close> accepts a block only if it is the one the
  resulting object serialises to: the accepted blocks and the objects correspond one to one.
\<close>

theorem BitMapBlock_accepts_canonical:
  assumes "net_order P" and "BitMapBlock_Deserialize P c bs = (PANCAKE_STORE_OK, b)"
  shows "wf_BitMapBlock b \<and> BitMapBlock_Serialize P b = Return (bs, b)"
  using assms by (rule net_order.BitMapBlock_accepted)

theorem BitMapBlock_accepts_canonical_witness:
  "\<exists>bs b'. BitMapBlock_Deserialize (x86_host True) zero_BitMapBlock bs = (PANCAKE_STORE_OK, b')
    \<and> BitMapBlock_Serialize (x86_host True) b' = Return (bs, b')"
proof -
  have zero: "net_order (x86_host True) \<and> wf_BitMapBlock zero_BitMapBlock"
    by (simp add: x86.net_order_axioms)
  then obtain bs b' where "BitMapBlock_Serialize (x86_host True) zero_BitMapBlock = Return (bs, b')"
    using bitmap_codec.ser_total by blast
  then have "BitMapBlock_Deserialize (x86_host True) zero_BitMapBlock bs = (PANCAKE_STORE_OK, b')"
    by (rule bitmap_codec.deser_ser [OF zero zero])
  then show ?thesis
    using BitMapBlock_accepts_canonical [OF x86.net_order_axioms] by blast
qed

text \<open>
  A data block serialises to exactly one block, its payload unchanged in front and the
  footer behind it in network byte order whatever the byte order of the host; deserialising it
  into any object gives back the payload and every footer field.
\<close>

theorem DataBlock_roundtrip:
  assumes "net_order P" and "wf_DataBlock b"
  shows "\<exists>bs b'. DataBlock_Serialize P b = Return (bs, b') \<and> length bs = k_block_size
    \<and> bs = db_data b @ [0x20, 0x25, 0x04, 0x30, bf_version (db_footer b), bf_flag (db_footer b)]
        @ be_bytes 2 (bf_length (db_footer b)) @ be_bytes 8 (bf_extent_id (db_footer b))
        @ bf_reserved (db_footer b) @ be_bytes 4 (CRC32 bs 4092)
    \<and> DataBlock_Deserialize P c bs = (PANCAKE_STORE_OK, b')
    \<and> b' = b\<lparr>db_footer := (db_footer b)\<lparr>bf_magic := k_block_magic, bf_crc := CRC32 bs 4092\<rparr>\<rparr>"
proof -
  note eq = DataBlock_Serialize_eq [OF assms(2), of P]
  define body where "body = DataBlock_body P b"
  define bs where "bs = body @ net32 P (CRC32 body 4092)"
  have len: "length body = 4092" by (simp add: body_def eq(2))
  then have crc: "CRC32 bs 4092 = CRC32 body 4092"
    using CRC32_prefix [of body] by (simp add: bs_def)
  define b' where "b' = b\<lparr>db_footer := (db_footer b)\<lparr>bf_magic := k_block_magic, bf_crc := CRC32 bs 4092\<rparr>\<rparr>"
  have ser: "DataBlock_Serialize P b = Return (bs, b')"
    using eq len unfolding b'_def crc by (simp add: db_upd_def bs_def flip: body_def)
  have "bs = body @ be_bytes 4 (CRC32 bs 4092)"
    by (simp add: crc) (simp add: bs_def net_order.net_bytes [OF assms(1)])
  then have "bs = db_data b @ [0x20, 0x25, 0x04, 0x30, bf_version (db_footer b), bf_flag (db_footer b)]
      @ be_bytes 2 (bf_length (db_footer b)) @ be_bytes 8 (bf_extent_id (db_footer b))
      @ bf_reserved (db_footer b) @ be_bytes 4 (CRC32 bs 4092)"
    by (simp add: body_def DataBlock_body_def be_magic net_order.net_bytes [OF assms(1)])
  moreover have "length bs = k_block_size" by (simp add: bs_def len)
  ultimately show ?thesis
    using ser net_order.DataBlock_deser_ser [OF assms ser, of c] b'_def by blast
qed

theorem DataBlock_roundtrip_witness:
  "\<exists>bs b'. DataBlock_Serialize (x86_host False) zero_DataBlock = Return (bs, b')
    \<and> length bs = k_block_size
    \<and> DataBlock_Deserialize (x86_host False) zero_DataBlock bs = (PANCAKE_STORE_OK, b')"
  using DataBlock_roundtrip [OF x86.net_order_axioms wf_zero_DataBlock] by blast

text \<open>
  C20. Corruption of a stored data block is noticed: if a block is accepted, no block that
  differs from it in one run of at most four bytes, inside the checksummed part or inside the
  stored checksum, is accepted as well.
\<close>

theorem DataBlock_burst_rejected:
  assumes "net_order P" and "wf_DataBlock c"
    and "DataBlock_Deserialize P c (ps @ xs @ ss) = (PANCAKE_STORE_OK, b)"
    and "length xs = length ys" and "length xs \<le> 4" and "xs \<noteq> ys"
    and "length ps + length xs \<le> 4092 \<or> 4092 \<le> length ps"
  shows "fst (DataBlock_Deserialize P c (ps @ ys @ ss)) \<noteq> PANCAKE_STORE_OK"
  using assms datablock_codec.burst_rejected [of P c ps xs ss b ys] by simp

theorem DataBlock_burst_rejected_witness:
  "\<exists>bs b. DataBlock_Deserialize (x86_host False) zero_DataBlock ([] @ [0] @ bs) = (PANCAKE_STORE_OK, b)
    \<and> fst (DataBlock_Deserialize (x86_host False) zero_DataBlock ([] @ [7] @ bs)) \<noteq> PANCAKE_STORE_OK"
proof -
  let ?P = "x86_host False"
  have zero: "net_order ?P \<and> wf_DataBlock zero_DataBlock"
    by (simp add: x86.net_order_axioms)
  then obtain bs b where ser: "DataBlock_Serialize ?P zero_DataBlock = Return (bs, b)"
    using datablock_codec.ser_total by blast
  have "db_data zero_DataBlock = [0] @ replicate 4063 0"
    using replicate_Suc [of 4063 "0 :: u8"] by (simp add: zero_DataBlock_def del: replicate_Suc)
  then obtain cs where bs: "bs = [] @ [0] @ cs"
    using ser DataBlock_Serialize_eq [OF wf_zero_DataBlock, of ?P] by (auto simp: DataBlock_body_def)
  have acc: "DataBlock_Deserialize ?P zero_DataBlock ([] @ [0] @ cs) = (PANCAKE_STORE_OK, b)"
    using datablock_codec.deser_ser [OF zero zero ser] unfolding bs .
  show ?thesis
    using acc DataBlock_burst_rejected [OF x86.net_order_axioms wf_zero_DataBlock acc, of "[7]"] by auto
qed

end
