(* ===== verification/Journal_Block.thy ===== *)
theory Journal_Block
  imports Data_Block
begin

text \<open>
  \<^verbatim>\<open>JournalBlock\<close> of \<^verbatim>\<open>pancake_block.h/.cc\<close>. Its \<^verbatim>\<open>Serialize\<close> appends the reserved bytes
  twice, which the theorems below show to be fatal.
\<close>

record JournalBlockFooter =
  jf_magic :: u32
  jf_version :: u8
  jf_flag :: u8
  jf_length :: u16
  jf_extent_id :: u64
  jf_transaction_id :: u64
  jf_commited_flag :: u8
  jf_reserved :: bytes
  jf_crc :: u32

record JournalBlock =
  jb_old_data :: bytes
  jb_footer :: JournalBlockFooter

definition wf_JournalBlock :: "JournalBlock \<Rightarrow> bool" where
  "wf_JournalBlock b \<longleftrightarrow> length (jb_old_data b) = k_block_data_size \<and> length (jf_reserved (jb_footer b)) = 3"

lemmas [wf_simps] = wf_JournalBlock_def

definition JournalBlock_Serialize :: "platform \<Rightarrow> JournalBlock \<Rightarrow> (bytes \<times> JournalBlock) outcome" where
  "JournalBlock_Serialize P b =
    (let f = (jb_footer b)\<lparr>jf_magic := k_block_magic\<rparr>;
         result = jb_old_data b
           @ net32 P (jf_magic f) @ [jf_version f] @ [jf_flag f] @ net16 P (jf_length f)
           @ net64 P (jf_extent_id f) @ net64 P (jf_transaction_id f)
           @ [jf_commited_flag f] @ jf_reserved f
           @ jf_reserved f;
         f = f\<lparr>jf_crc := CRC32 result (length result)\<rparr>;
         result = result @ net32 P (jf_crc f)
     in cpp_assert P (length result = k_block_size) (Return (result, b\<lparr>jb_footer := f\<rparr>)))"

definition jb_upd :: "(JournalBlockFooter \<Rightarrow> JournalBlockFooter) \<Rightarrow> JournalBlock \<Rightarrow> JournalBlock" where
  "jb_upd g b = b\<lparr>jb_footer := g (jb_footer b)\<rparr>"

definition JournalBlock_Deserialize :: "platform \<Rightarrow> JournalBlock \<Rightarrow> bytes \<Rightarrow> ErrorCode \<times> JournalBlock" where
  "JournalBlock_Deserialize P = deserialize_block
    [read_field k_block_data_size (\<lambda>d b. b\<lparr>jb_old_data := d\<rparr>),
     read_field 4 (\<lambda>d. jb_upd (\<lambda>f. f\<lparr>jf_magic := host32 P d\<rparr>)),
     check_field (\<lambda>b. jf_magic (jb_footer b) = k_block_magic) DATANODE_STORAGE_BLOCK_MAGIC_ILLEGAL,
     read_field 1 (\<lambda>d. jb_upd (\<lambda>f. f\<lparr>jf_version := hd d\<rparr>)),
     read_field 1 (\<lambda>d. jb_upd (\<lambda>f. f\<lparr>jf_flag := hd d\<rparr>)),
     read_field 2 (\<lambda>d. jb_upd (\<lambda>f. f\<lparr>jf_length := host16 P d\<rparr>)),
     read_field 8 (\<lambda>d. jb_upd (\<lambda>f. f\<lparr>jf_extent_id := host64 P d\<rparr>)),
     read_field 8 (\<lambda>d. jb_upd (\<lambda>f. f\<lparr>jf_transaction_id := host64 P d\<rparr>)),
     read_field 1 (\<lambda>d. jb_upd (\<lambda>f. f\<lparr>jf_commited_flag := hd d\<rparr>)),
     read_field 3 (\<lambda>d. jb_upd (\<lambda>f. f\<lparr>jf_reserved := d\<rparr>)),
     read_field 4 (\<lambda>d. jb_upd (\<lambda>f. f\<lparr>jf_crc := host32 P d\<rparr>))]
    (\<lambda>b. jf_crc (jb_footer b))"

definition zero_JournalBlock :: JournalBlock where
  "zero_JournalBlock = \<lparr>jb_old_data = replicate k_block_data_size 0,
     jb_footer = \<lparr>jf_magic = 0, jf_version = 0, jf_flag = 0, jf_length = 0, jf_extent_id = 0,
       jf_transaction_id = 0, jf_commited_flag = 0, jf_reserved = [0, 0, 0], jf_crc = 0\<rparr>\<rparr>"

lemma wf_zero_JournalBlock [simp]: "wf_JournalBlock zero_JournalBlock"
  by (simp add: zero_JournalBlock_def wf_simps)

lemma JournalBlock_Deserialize_parts:
  assumes "length d = 4064" and "length m = 4" and "length l = 2" and "length e = 8"
    and "length t = 8" and "length r = 3" and "length k = 4"
  shows "JournalBlock_Deserialize P c (d @ m @ v # g # l @ e @ t @ u # r @ k) =
    (let body = d @ m @ v # g # l @ e @ t @ u # r;
         f = (jb_footer c)\<lparr>jf_magic := host32 P m, jf_version := v, jf_flag := g,
           jf_length := host16 P l, jf_extent_id := host64 P e, jf_transaction_id := host64 P t,
           jf_commited_flag := u, jf_reserved := r, jf_crc := host32 P k\<rparr>
     in if host32 P m \<noteq> k_block_magic
        then (DATANODE_STORAGE_BLOCK_MAGIC_ILLEGAL,
              c\<lparr>jb_old_data := d, jb_footer := (jb_footer c)\<lparr>jf_magic := host32 P m\<rparr>\<rparr>)
        else if CRC32 body 4092 \<noteq> host32 P k
        then (DATANODE_STORAGE_BLOCK_CRC_MISMATCH, c\<lparr>jb_old_data := d, jb_footer := f\<rparr>)
        else (PANCAKE_STORE_OK, c\<lparr>jb_old_data := d, jb_footer := f\<rparr>))"
  using assms CRC32_prefix [of "d @ m @ v # g # l @ e @ t @ u # r" k]
  by (simp add: JournalBlock_Deserialize_def deserialize_block_def codec_simps jb_upd_def Let_def)

section \<open>Properties\<close>

text \<open>
  C25. \<^verbatim>\<open>JournalBlock::Serialize\<close> never produces a block: the reserved bytes are appended
  twice, so the result has 4099 bytes. With assertions on it stops at the size assertion; under
  \<^verbatim>\<open>NDEBUG\<close> it returns the 4099 bytes, which \<^verbatim>\<open>JournalBlock::Deserialize\<close> refuses.
\<close>

theorem JournalBlock_never_serializes:
  assumes "wf_JournalBlock b"
  shows "JournalBlock_Serialize P b = Assert_Fail \<and> \<not> ndebug P
    \<or> ndebug P \<and> (\<exists>bs b'. JournalBlock_Serialize P b = Return (bs, b') \<and> length bs = 4099
        \<and> JournalBlock_Deserialize P c bs = (DATANODE_STORAGE_BLOCK_SIZE_ILLEGAL, c))"
  using assms
  by (auto simp: JournalBlock_Serialize_def JournalBlock_Deserialize_def deserialize_block_def
      cpp_assert_def wf_simps Let_def)

theorem JournalBlock_never_serializes_witness:
  "JournalBlock_Serialize (x86_host False) zero_JournalBlock = Assert_Fail"
  using JournalBlock_never_serializes [OF wf_zero_JournalBlock, of "x86_host False"] by simp

text \<open>
  \<^verbatim>\<open>JournalBlock::Deserialize\<close> reads the layout of the declared footer, the reserved
  bytes once: the block that holds the fields of \<open>b\<close> in that layout, with a matching
  checksum, is accepted and restores every field.
\<close>

theorem JournalBlock_Deserialize_layout:
  assumes "net_order P" and "wf_JournalBlock b" and "f = jb_footer b"
    and "body = jb_old_data b @ [0x20, 0x25, 0x04, 0x30, jf_version f, jf_flag f] @ be_bytes 2 (jf_length f)
      @ be_bytes 8 (jf_extent_id f) @ be_bytes 8 (jf_transaction_id f) @ jf_commited_flag f # jf_reserved f"
  shows "JournalBlock_Deserialize P c (body @ be_bytes 4 (CRC32 body 4092)) =
    (PANCAKE_STORE_OK, b\<lparr>jb_footer := f\<lparr>jf_magic := k_block_magic, jf_crc := CRC32 body 4092\<rparr>\<rparr>)"
proof -
  have body: "body = jb_old_data b @ net32 P k_block_magic @ jf_version f # jf_flag f # net16 P (jf_length f)
      @ net64 P (jf_extent_id f) @ net64 P (jf_transaction_id f) @ jf_commited_flag f # jf_reserved f"
    by (simp add: assms(4) net_order.net_bytes [OF assms(1)] be_magic)
  have "JournalBlock_Deserialize P c (body @ net32 P x) =
      (if CRC32 body 4092 \<noteq> x
       then (DATANODE_STORAGE_BLOCK_CRC_MISMATCH, b\<lparr>jb_footer := f\<lparr>jf_magic := k_block_magic, jf_crc := x\<rparr>\<rparr>)
       else (PANCAKE_STORE_OK, b\<lparr>jb_footer := f\<lparr>jf_magic := k_block_magic, jf_crc := x\<rparr>\<rparr>))" for x
    using assms(2,3)
    by (simp add: body JournalBlock_Deserialize_parts wf_simps net_order.host_net [OF assms(1)])
  then show ?thesis
    by (simp flip: net_order.net_bytes [OF assms(1)])
qed

theorem JournalBlock_Deserialize_layout_witness:
  "\<exists>bs b. JournalBlock_Deserialize (x86_host False) zero_JournalBlock bs = (PANCAKE_STORE_OK, b)
    \<and> jb_old_data b = jb_old_data zero_JournalBlock"
  by (intro exI conjI, rule JournalBlock_Deserialize_layout [OF x86.net_order_axioms wf_zero_JournalBlock refl refl])
    simp

end
