(* ===== verification/Extent_Header.thy ===== *)
theory Extent_Header
  imports Data_Block
begin

text \<open>
  \<^verbatim>\<open>ExtentHeaderBlock\<close> of \<^verbatim>\<open>pancake_block.h/.cc\<close>. The union of \<^verbatim>\<open>rep_shard_cnt_\<close>
  with the two shard counts is kept as its two bytes. \<^verbatim>\<open>Serialize\<close> writes both counts,
  \<^verbatim>\<open>Deserialize\<close> reads only the first; the theorems below show what follows.
\<close>

record ExtentHeaderBlock =
  eh_magic :: u32
  eh_version :: u8
  eh_shard_id :: u8
  eh_data_shard_cnt :: u8
  eh_code_shard_cnt :: u8
  eh_device_id :: u64
  eh_extent_id :: u64
  eh_extent_capacity :: u32
  eh_extent_phy_used :: u32
  eh_extent_logic_used :: u32
  eh_redundant_type :: u8
  eh_sealed :: u8
  eh_is_migrating :: u8
  eh_corrupted :: u8
  eh_bitmap_ext_index :: u32
  eh_reserved :: bytes
  eh_footer :: BlockFooter

definition wf_ExtentHeaderBlock :: "ExtentHeaderBlock \<Rightarrow> bool" where
  "wf_ExtentHeaderBlock h \<longleftrightarrow> length (eh_reserved h) = 4020 \<and> wf_BlockFooter (eh_footer h)"

lemmas [wf_simps] = wf_ExtentHeaderBlock_def

definition ExtentHeaderBlock_Serialize ::
  "platform \<Rightarrow> ExtentHeaderBlock \<Rightarrow> (bytes \<times> ExtentHeaderBlock) outcome" where
  "ExtentHeaderBlock_Serialize P h =
    (let h = h\<lparr>eh_magic := k_block_magic\<rparr>;
         f = (eh_footer h)\<lparr>bf_magic := k_block_magic\<rparr>;
         result = net32 P (eh_magic h)
           @ [eh_version h] @ [eh_shard_id h]
           @ [eh_data_shard_cnt h] @ [eh_code_shard_cnt h]
           @ net64 P (eh_device_id h) @ net64 P (eh_extent_id h)
           @ net32 P (eh_extent_capacity h) @ net32 P (eh_extent_phy_used h)
           @ net32 P (eh_extent_logic_used h)
           @ [eh_redundant_type h] @ [eh_sealed h] @ [eh_is_migrating h] @ [eh_corrupted h]
           @ net32 P (eh_bitmap_ext_index h)
           @ eh_reserved h
           @ net32 P (bf_magic f) @ [bf_version f] @ [bf_flag f] @ net16 P (bf_length f)
           @ net64 P (bf_extent_id f) @ bf_reserved f;
         f = f\<lparr>bf_crc := CRC32 result (length result)\<rparr>;
         result = result @ net32 P (bf_crc f)
     in cpp_assert P (length result = k_block_size) (Return (result, h\<lparr>eh_footer := f\<rparr>)))"

definition eh_upd :: "(BlockFooter \<Rightarrow> BlockFooter) \<Rightarrow> ExtentHeaderBlock \<Rightarrow> ExtentHeaderBlock" where
  "eh_upd g h = h\<lparr>eh_footer := g (eh_footer h)\<rparr>"

definition eh_header_steps :: "platform \<Rightarrow> ExtentHeaderBlock step list" where
  "eh_header_steps P =
    [read_field 1 (\<lambda>d h. h\<lparr>eh_version := hd d\<rparr>),
     read_field 1 (\<lambda>d h. h\<lparr>eh_shard_id := hd d\<rparr>),
     read_field 1 (\<lambda>d h. h\<lparr>eh_data_shard_cnt := hd d\<rparr>),
     read_field 8 (\<lambda>d h. h\<lparr>eh_device_id := host64 P d\<rparr>),
     read_field 8 (\<lambda>d h. h\<lparr>eh_extent_id := host64 P d\<rparr>),
     read_field 4 (\<lambda>d h. h\<lparr>eh_extent_capacity := host32 P d\<rparr>),
     read_field 4 (\<lambda>d h. h\<lparr>eh_extent_phy_used := host32 P d\<rparr>),
     read_field 4 (\<lambda>d h. h\<lparr>eh_extent_logic_used := host32 P d\<rparr>),
     read_field 1 (\<lambda>d h. h\<lparr>eh_redundant_type := hd d\<rparr>),
     read_field 1 (\<lambda>d h. h\<lparr>eh_sealed := hd d\<rparr>),
     read_field 1 (\<lambda>d h. h\<lparr>eh_is_migrating := hd d\<rparr>),
     read_field 1 (\<lambda>d h. h\<lparr>eh_corrupted := hd d\<rparr>),
     read_field 4 (\<lambda>d h. h\<lparr>eh_bitmap_ext_index := host32 P d\<rparr>),
     read_field 4020 (\<lambda>d h. h\<lparr>eh_reserved := d\<rparr>)]"

definition eh_footer_steps :: "platform \<Rightarrow> ExtentHeaderBlock step list" where
  "eh_footer_steps P =
    [read_field 4 (\<lambda>d. eh_upd (\<lambda>f. f\<lparr>bf_magic := host32 P d\<rparr>)),
     check_field (\<lambda>h. bf_magic (eh_footer h) = k_block_magic) DATANODE_STORAGE_BLOCK_MAGIC_ILLEGAL,
     read_field 1 (\<lambda>d. eh_upd (\<lambda>f. f\<lparr>bf_version := hd d\<rparr>)),
     read_field 1 (\<lambda>d. eh_upd (\<lambda>f. f\<lparr>bf_flag := hd d\<rparr>)),
     read_field 2 (\<lambda>d. eh_upd (\<lambda>f. f\<lparr>bf_length := host16 P d\<rparr>)),
     read_field 8 (\<lambda>d. eh_upd (\<lambda>f. f\<lparr>bf_extent_id := host64 P d\<rparr>)),
     read_field 12 (\<lambda>d. eh_upd (\<lambda>f. f\<lparr>bf_reserved := d\<rparr>)),
     read_field 4 (\<lambda>d. eh_upd (\<lambda>f. f\<lparr>bf_crc := host32 P d\<rparr>))]"

definition ExtentHeaderBlock_Deserialize ::
  "platform \<Rightarrow> ExtentHeaderBlock \<Rightarrow> bytes \<Rightarrow> ErrorCode \<times> ExtentHeaderBlock" where
  "ExtentHeaderBlock_Deserialize P = deserialize_block
    ([read_field 4 (\<lambda>d h. h\<lparr>eh_magic := host32 P d\<rparr>),
      check_field (\<lambda>h. eh_magic h = k_block_magic) DATANODE_STORAGE_BLOCK_MAGIC_ILLEGAL]
     @ eh_header_steps P @ eh_footer_steps P)
    (\<lambda>h. bf_crc (eh_footer h))"

definition zero_ExtentHeaderBlock :: ExtentHeaderBlock where
  "zero_ExtentHeaderBlock = \<lparr>eh_magic = 0, eh_version = 0, eh_shard_id = 0, eh_data_shard_cnt = 0,
     eh_code_shard_cnt = 0, eh_device_id = 0, eh_extent_id = 0, eh_extent_capacity = 0,
     eh_extent_phy_used = 0, eh_extent_logic_used = 0, eh_redundant_type = 0, eh_sealed = 0,
     eh_is_migrating = 0, eh_corrupted = 0, eh_bitmap_ext_index = 0,
     eh_reserved = replicate 4020 0, eh_footer = zero_footer\<rparr>"

lemma wf_zero_ExtentHeaderBlock [simp]: "wf_ExtentHeaderBlock zero_ExtentHeaderBlock"
  by (simp add: zero_ExtentHeaderBlock_def zero_footer_def wf_simps)

section \<open>Running the codec\<close>

lemma ExtentHeaderBlock_Serialize_length:
  assumes "wf_ExtentHeaderBlock h"
  obtains bs h' where "ExtentHeaderBlock_Serialize P h = Return (bs, h')" and "length bs = k_block_size"
    and "wf_ExtentHeaderBlock h'"
  using assms by (simp add: ExtentHeaderBlock_Serialize_def wf_simps Let_def)

text \<open>
  A run of reads over known enough bytes never stops: each field gets its slice. The cursor
  moves by the sum of the sizes.
\<close>

lemma read_field_take [codec_simps]:
  "n \<le> length rest \<Longrightarrow> read_field n assign (s, rest) = Inr (assign (take n rest) s, drop n rest)"
  by (simp add: read_field_def read_data_def)

lemma eh_header_steps_run:
  assumes "4059 \<le> length rest"
  shows "\<exists>h'. run_steps (eh_header_steps P) (h, rest) = Inr (h', drop 4059 rest)
    \<and> eh_extent_id h' = host64 P (take 8 (drop 11 rest))"
  using assms by (simp add: eh_header_steps_def codec_simps)

context net_order begin

text \<open>The extent id of a header can be told from its bytes.\<close>

lemma ExtentHeaderBlock_stored_id:
  assumes "ExtentHeaderBlock_Serialize P h = Return (bs, h')"
  shows "host64 P (take 8 (drop 16 bs)) = eh_extent_id h"
  using assms by (auto simp: ExtentHeaderBlock_Serialize_def Let_def codec_simps cpp_assert_def split: if_splits)

end

text \<open>
  On a serialised header the cursor stands one byte early when the footer is read: on the last
  reserved byte.
\<close>

lemma ExtentHeaderBlock_Serialize_footer:
  assumes "wf_ExtentHeaderBlock h" and "net_order P" and "ExtentHeaderBlock_Serialize P h = Return (bs, h')"
  obtains x tail where "drop 4063 bs = [x, 0x20, 0x25, 0x04] @ tail" and "take 4 bs = net32 P k_block_magic"
    and "length bs = k_block_size"
proof -
  from assms(1) have "length (eh_reserved h) = 4019 + 1" by (simp add: wf_simps)
  then obtain r xs where r: "eh_reserved h = r @ xs" "length r = 4019" "length xs = 1"
    using split_at by blast
  then obtain x where "xs = [x]" by (auto simp: length_Suc_conv)
  with r have reserved: "eh_reserved h = r @ [x]" by simp
  have magic: "net32 P k_block_magic = [0x20, 0x25, 0x04, 0x30]"
    by (simp add: net_order.net_bytes [OF assms(2)] be_magic)
  have "drop 4063 bs = [x, 0x20, 0x25, 0x04] @ drop 4067 bs" and "take 4 bs = net32 P k_block_magic"
    and "length bs = k_block_size"
    using assms r(2) by (auto simp: ExtentHeaderBlock_Serialize_def reserved magic wf_simps Let_def)
  then show thesis by (rule that)
qed

text \<open>The reader refuses what the writer wrote.\<close>

lemma ExtentHeaderBlock_refused:
  assumes "net_order P" and "wf_ExtentHeaderBlock h" and "ExtentHeaderBlock_Serialize P h = Return (bs, h')"
  shows "fst (ExtentHeaderBlock_Deserialize P c bs) = DATANODE_STORAGE_BLOCK_MAGIC_ILLEGAL"
proof -
  obtain x tail where foot: "drop 4063 bs = [x, 0x20, 0x25, 0x04] @ tail"
    and magic: "take 4 bs = net32 P k_block_magic" and len: "length bs = k_block_size"
    using assms(2,1,3) by (rule ExtentHeaderBlock_Serialize_footer)
  let ?c = "c\<lparr>eh_magic := k_block_magic\<rparr>"
  obtain c' where c': "run_steps (eh_header_steps P) (?c, drop 4 bs) = Inr (c', drop 4063 bs)"
    using eh_header_steps_run [of "drop 4 bs" P ?c] len by auto
  have "host32 P [x, 0x20, 0x25, 0x04] \<noteq> k_block_magic"
  proof
    assume "host32 P [x, 0x20, 0x25, 0x04] = k_block_magic"
    then have "net32 P k_block_magic = [x, 0x20, 0x25, 0x04]"
      using net_order.net_host32 [OF assms(1), of "[x, 0x20, 0x25, 0x04]"] by simp
    then show False by (simp add: net_order.net_bytes [OF assms(1)] be_magic)
  qed
  then have "run_steps (eh_footer_steps P) (c', drop 4063 bs) =
      Inl (DATANODE_STORAGE_BLOCK_MAGIC_ILLEGAL, eh_upd (\<lambda>f. f\<lparr>bf_magic := host32 P [x, 0x20, 0x25, 0x04]\<rparr>) c')"
    unfolding foot by (simp add: eh_footer_steps_def codec_simps eh_upd_def)
  then show "fst (ExtentHeaderBlock_Deserialize P c bs) = DATANODE_STORAGE_BLOCK_MAGIC_ILLEGAL"
    using len by (simp add: ExtentHeaderBlock_Deserialize_def deserialize_block_def run_steps_append
        codec_simps magic net_order.host_net [OF assms(1)] c')
qed

text \<open>
  What the reader does accept: the layout without the skipped byte, its checksum over the first
  4091 bytes, and any last byte. The extent id is the eight bytes after the fixed fields.
\<close>

definition shifted_header :: "platform \<Rightarrow> bytes \<Rightarrow> bytes \<Rightarrow> u8 \<Rightarrow> bytes" where
  "shifted_header P hdr ftr x =
    (let body = net32 P k_block_magic @ hdr @ net32 P k_block_magic @ ftr
     in body @ net32 P (CRC32 body (length body)) @ [x])"

lemma length_shifted_header [simp]:
  "length hdr = 4059 \<Longrightarrow> length ftr = 24 \<Longrightarrow> length (shifted_header P hdr ftr x) = k_block_size"
  by (simp add: shifted_header_def Let_def)

lemma ExtentHeaderBlock_accepts_shifted:
  assumes "net_order P" and "length hdr = 4059" and "length ftr = 24"
  shows "\<exists>b. ExtentHeaderBlock_Deserialize P c (shifted_header P hdr ftr x) = (PANCAKE_STORE_OK, b)
    \<and> eh_extent_id b = host64 P (take 8 (drop 11 hdr))"
proof -
  let ?body = "net32 P k_block_magic @ hdr @ net32 P k_block_magic @ ftr"
  let ?foot = "net32 P k_block_magic @ ftr @ net32 P (CRC32 ?body 4091) @ [x]"
  have len: "length ?body = 4091" by (simp add: assms)
  have bs: "shifted_header P hdr ftr x = net32 P k_block_magic @ hdr @ ?foot"
    unfolding shifted_header_def Let_def len by simp
  have crc: "CRC32 (net32 P k_block_magic @ hdr @ ?foot) 4091 = CRC32 ?body 4091"
    using len by (simp add: CRC32_def)
  let ?c = "c\<lparr>eh_magic := k_block_magic\<rparr>"
  obtain h where h: "run_steps (eh_header_steps P) (?c, hdr @ ?foot) = Inr (h, ?foot)"
    and id: "eh_extent_id h = host64 P (take 8 (drop 11 hdr))"
    using eh_header_steps_run [of "hdr @ ?foot" P ?c] assms by auto
  obtain b where b: "run_steps (eh_footer_steps P) (h, ?foot) = Inr (b, [x])"
    and "bf_crc (eh_footer b) = CRC32 ?body 4091" and "eh_extent_id b = eh_extent_id h"
    using assms by (simp add: eh_footer_steps_def eh_upd_def codec_simps net_order.host_net [OF assms(1)])
  moreover have "run_steps ([read_field 4 (\<lambda>d h. h\<lparr>eh_magic := host32 P d\<rparr>),
      check_field (\<lambda>h. eh_magic h = k_block_magic) DATANODE_STORAGE_BLOCK_MAGIC_ILLEGAL]
     @ eh_header_steps P @ eh_footer_steps P) (c, net32 P k_block_magic @ hdr @ ?foot) = Inr (b, [x])"
    by (simp add: run_steps_append codec_simps net_order.host_net [OF assms(1)] h b)
  moreover have "length (net32 P k_block_magic @ hdr @ ?foot) = 4096" by (simp add: assms)
  ultimately show ?thesis
    unfolding ExtentHeaderBlock_Deserialize_def deserialize_block_def bs
    by (simp add: crc id)
qed

section \<open>Properties\<close>

text \<open>
  C24. A header block that \<^verbatim>\<open>ExtentHeaderBlock::Serialize\<close> produced is never accepted by
  \<^verbatim>\<open>ExtentHeaderBlock::Deserialize\<close>: the reader skips \<^verbatim>\<open>code_shard_cnt_\<close>, runs one byte
  behind, and finds a wrong magic where it expects the footer.
\<close>

theorem ExtentHeaderBlock_roundtrip_fails:
  assumes "net_order P" and "wf_ExtentHeaderBlock h"
  shows "\<exists>bs h'. ExtentHeaderBlock_Serialize P h = Return (bs, h') \<and> length bs = k_block_size
    \<and> fst (ExtentHeaderBlock_Deserialize P c bs) = DATANODE_STORAGE_BLOCK_MAGIC_ILLEGAL"
proof -
  obtain bs h' where "ExtentHeaderBlock_Serialize P h = Return (bs, h')" and "length bs = k_block_size"
    using assms(2) by (rule ExtentHeaderBlock_Serialize_length)
  then show ?thesis using ExtentHeaderBlock_refused [OF assms] by blast
qed

theorem ExtentHeaderBlock_roundtrip_fails_witness:
  "\<exists>bs h'. ExtentHeaderBlock_Serialize (x86_host False) zero_ExtentHeaderBlock = Return (bs, h')
    \<and> length bs = k_block_size
    \<and> fst (ExtentHeaderBlock_Deserialize (x86_host False) zero_ExtentHeaderBlock bs)
      = DATANODE_STORAGE_BLOCK_MAGIC_ILLEGAL"
  by (rule ExtentHeaderBlock_roundtrip_fails [OF x86.net_order_axioms wf_zero_ExtentHeaderBlock])

text \<open>
  Whatever bytes it is given, \<^verbatim>\<open>ExtentHeaderBlock::Deserialize\<close> leaves
  \<^verbatim>\<open>code_shard_cnt_\<close> as it was in the object: the count is never restored from a device.
\<close>

theorem ExtentHeaderBlock_code_shard_cnt_kept:
  "eh_code_shard_cnt (snd (ExtentHeaderBlock_Deserialize P c data)) = eh_code_shard_cnt c"
  unfolding ExtentHeaderBlock_Deserialize_def
  by (rule deserialize_block_preserves [of "\<lambda>h. eh_code_shard_cnt h = eh_code_shard_cnt c"])
    (auto simp: eh_header_steps_def eh_footer_steps_def eh_upd_def intro!: preserves_read_field preserves_check_field)

end
