(* ===== verification/Super_Block.thy ===== *)
theory Super_Block
  imports Data_Block
begin

text \<open>
  \<^verbatim>\<open>SuperBlock\<close> of \<^verbatim>\<open>pancake_block.h/.cc\<close>: a header of variable length (two sized
  strings), its checksum, and zero padding up to one block.
\<close>

record SuperBlock =
  sb_magic :: u32
  sb_version :: u8
  sb_device_id :: u64
  sb_device_uuid :: bytes
  sb_device_path :: bytes
  sb_create_time :: u64 \<comment> \<open>the two's complement representation of the \<^verbatim>\<open>int64_t\<close>\<close>
  sb_device_capacity :: u64
  sb_block_size :: u64
  sb_journal_block_count :: u32
  sb_extent_block_size :: u64
  sb_extent_block_count :: u64
  sb_extent_block_bitmap_start :: u64
  sb_extent_block_bitmap_end :: u64
  sb_trash_extent_block_bitmap_start :: u64
  sb_trash_extent_block_bitmap_end :: u64
  sb_journal_blocks_start :: u64
  sb_journal_blocks_end :: u64
  sb_extent_blocks_start :: u64
  sb_crc :: u32

text \<open>The bytes appended in front of the checksum.\<close>

definition sb_header :: "platform \<Rightarrow> SuperBlock \<Rightarrow> bytes" where
  "sb_header P b = net32 P (sb_magic b) @ [sb_version b] @ net64 P (sb_device_id b)
     @ net16 P (word_of_nat (length (sb_device_uuid b))) @ sb_device_uuid b
     @ net16 P (word_of_nat (length (sb_device_path b))) @ sb_device_path b
     @ net64 P (sb_create_time b)
     @ net64 P (sb_device_capacity b)
     @ net64 P (sb_block_size b)
     @ net32 P (sb_journal_block_count b)
     @ net64 P (sb_extent_block_size b)
     @ net64 P (sb_extent_block_count b)
     @ net64 P (sb_extent_block_bitmap_start b)
     @ net64 P (sb_extent_block_bitmap_end b)
     @ net64 P (sb_trash_extent_block_bitmap_start b)
     @ net64 P (sb_trash_extent_block_bitmap_end b)
     @ net64 P (sb_journal_blocks_start b)
     @ net64 P (sb_journal_blocks_end b)
     @ net64 P (sb_extent_blocks_start b)"

definition SuperBlock_Serialize :: "platform \<Rightarrow> SuperBlock \<Rightarrow> (bytes \<times> SuperBlock) outcome" where
  "SuperBlock_Serialize P b =
    (let b = b\<lparr>sb_magic := k_block_magic\<rparr>;
         result = sb_header P b;
         b = b\<lparr>sb_crc := CRC32 result (length result)\<rparr>;
         result = result @ net32 P (sb_crc b);
         result = (if length result < k_block_size
                   then result @ replicate (k_block_size - length result) 0 else result)
     in cpp_assert P (length result = k_block_size) (Return (result, b)))"

text \<open>
  The block of statements that reads a sized string: the length, and, when it is not zero,
  that many bytes. A zero length leaves the member as it is.
\<close>

definition read_sized :: "platform \<Rightarrow> (bytes \<Rightarrow> 's \<Rightarrow> 's) \<Rightarrow> 's step" where
  "read_sized P assign = (\<lambda>(s, rest). case read_data 2 rest of
     None \<Rightarrow> Inl (DATANODE_STORAGE_BLOCK_DATA_ILLEGAL, s)
   | Some (d, rest') \<Rightarrow>
       (let len = unat (host16 P d)
        in if len > 0 then
             (if length rest' < len then Inl (DATANODE_STORAGE_BLOCK_DATA_ILLEGAL, s)
              else Inr (assign (take len rest') s, drop len rest'))
           else Inr (s, rest')))"

definition sb_steps :: "platform \<Rightarrow> SuperBlock step list" where
  "sb_steps P =
    [read_field 4 (\<lambda>d b. b\<lparr>sb_magic := host32 P d\<rparr>),
     check_field (\<lambda>b. sb_magic b = k_block_magic) DATANODE_STORAGE_BLOCK_MAGIC_ILLEGAL,
     read_field 1 (\<lambda>d b. b\<lparr>sb_version := hd d\<rparr>),
     read_field 8 (\<lambda>d b. b\<lparr>sb_device_id := host64 P d\<rparr>),
     read_sized P (\<lambda>d b. b\<lparr>sb_device_uuid := d\<rparr>),
     read_sized P (\<lambda>d b. b\<lparr>sb_device_path := d\<rparr>),
     read_field 8 (\<lambda>d b. b\<lparr>sb_create_time := host64 P d\<rparr>),
     read_field 8 (\<lambda>d b. b\<lparr>sb_device_capacity := host64 P d\<rparr>),
     read_field 8 (\<lambda>d b. b\<lparr>sb_block_size := host64 P d\<rparr>),
     read_field 4 (\<lambda>d b. b\<lparr>sb_journal_block_count := host32 P d\<rparr>),
     read_field 8 (\<lambda>d b. b\<lparr>sb_extent_block_size := host64 P d\<rparr>),
     read_field 8 (\<lambda>d b. b\<lparr>sb_extent_block_count := host64 P d\<rparr>),
     read_field 8 (\<lambda>d b. b\<lparr>sb_extent_block_bitmap_start := host64 P d\<rparr>),
     read_field 8 (\<lambda>d b. b\<lparr>sb_extent_block_bitmap_end := host64 P d\<rparr>),
     read_field 8 (\<lambda>d b. b\<lparr>sb_trash_extent_block_bitmap_start := host64 P d\<rparr>),
     read_field 8 (\<lambda>d b. b\<lparr>sb_trash_extent_block_bitmap_end := host64 P d\<rparr>),
     read_field 8 (\<lambda>d b. b\<lparr>sb_journal_blocks_start := host64 P d\<rparr>),
     read_field 8 (\<lambda>d b. b\<lparr>sb_journal_blocks_end := host64 P d\<rparr>),
     read_field 8 (\<lambda>d b. b\<lparr>sb_extent_blocks_start := host64 P d\<rparr>),
     read_field 4 (\<lambda>d b. b\<lparr>sb_crc := host32 P d\<rparr>)]"

definition SuperBlock_Deserialize :: "platform \<Rightarrow> SuperBlock \<Rightarrow> bytes \<Rightarrow> ErrorCode \<times> SuperBlock" where
  "SuperBlock_Deserialize P = deserialize_block (sb_steps P) sb_crc"

text \<open>The fixed fields take 121 bytes; the two strings have to fit into the rest.\<close>

definition sb_used :: "SuperBlock \<Rightarrow> nat" where
  "sb_used b = 121 + length (sb_device_uuid b) + length (sb_device_path b)"

definition sb_body :: "platform \<Rightarrow> SuperBlock \<Rightarrow> bytes" where
  "sb_body P b = sb_header P (b\<lparr>sb_magic := k_block_magic\<rparr>)"

definition zero_SuperBlock :: SuperBlock where
  "zero_SuperBlock = \<lparr>sb_magic = 0, sb_version = 0, sb_device_id = 0, sb_device_uuid = [],
     sb_device_path = [], sb_create_time = 0, sb_device_capacity = 0, sb_block_size = 0,
     sb_journal_block_count = 0, sb_extent_block_size = 0, sb_extent_block_count = 0,
     sb_extent_block_bitmap_start = 0, sb_extent_block_bitmap_end = 0,
     sb_trash_extent_block_bitmap_start = 0, sb_trash_extent_block_bitmap_end = 0,
     sb_journal_blocks_start = 0, sb_journal_blocks_end = 0, sb_extent_blocks_start = 0, sb_crc = 0\<rparr>"

section \<open>Running the codec\<close>

lemma length_sb_body: "length (sb_body P b) + 4 = sb_used b"
  by (simp add: sb_body_def sb_header_def sb_used_def)

text \<open>The object after a successful \<^verbatim>\<open>Serialize\<close>.\<close>

definition sb_sealed :: "platform \<Rightarrow> SuperBlock \<Rightarrow> SuperBlock" where
  "sb_sealed P b = b\<lparr>sb_magic := k_block_magic, sb_crc := CRC32 (sb_body P b) (length (sb_body P b))\<rparr>"

definition sb_bytes :: "platform \<Rightarrow> SuperBlock \<Rightarrow> bytes" where
  "sb_bytes P b = sb_body P b @ net32 P (CRC32 (sb_body P b) (length (sb_body P b)))"

lemma length_sb_bytes: "length (sb_bytes P b) = sb_used b"
  using length_sb_body by (simp add: sb_bytes_def)

lemma SuperBlock_Serialize_eq:
  "SuperBlock_Serialize P b =
    (if sb_used b \<le> k_block_size
     then Return (sb_bytes P b @ replicate (k_block_size - sb_used b) 0, sb_sealed P b)
     else cpp_assert P False (Return (sb_bytes P b, sb_sealed P b)))"
proof -
  have "SuperBlock_Serialize P b =
    (let result = sb_bytes P b;
         result = (if length result < k_block_size
                   then result @ replicate (k_block_size - length result) 0 else result)
     in cpp_assert P (length result = k_block_size) (Return (result, sb_sealed P b)))"
    by (simp add: SuperBlock_Serialize_def sb_bytes_def sb_sealed_def sb_body_def Let_def)
  then show ?thesis by (auto simp: Let_def length_sb_bytes not_le)
qed

text \<open>A string read back from a sized field; an empty one is not assigned.\<close>

definition sb_restored :: "SuperBlock \<Rightarrow> SuperBlock \<Rightarrow> SuperBlock" where
  "sb_restored c b = b\<lparr>
     sb_device_uuid := (if sb_device_uuid b = [] then sb_device_uuid c else sb_device_uuid b),
     sb_device_path := (if sb_device_path b = [] then sb_device_path c else sb_device_path b)\<rparr>"

context net_order
begin

lemma read_sized_append [codec_simps]:
  "length d < 65536 \<Longrightarrow> read_sized P assign (s, net16 P (word_of_nat (length d)) @ d @ rest) =
    Inr (if d = [] then s else assign d s, rest)"
  by (simp add: read_sized_def read_data_def Let_def host_net unat_of_nat)

lemma SuperBlock_Deserialize_bytes:
  assumes "sb_used b + length pad = k_block_size"
  shows "SuperBlock_Deserialize P c (sb_bytes P b @ pad) = (PANCAKE_STORE_OK, sb_restored c (sb_sealed P b))"
proof -
  define k where "k = CRC32 (sb_body P b) (length (sb_body P b))"
  have crc: "CRC32 (sb_body P b @ net32 P k @ pad) (length (sb_body P b)) = k"
    by (simp add: CRC32_prefix k_def)
  have strings: "length (sb_device_uuid b) < 65536" "length (sb_device_path b) < 65536"
    and len: "length (sb_body P b) + 4 + length pad = k_block_size"
    using assms length_sb_body [of P b] by (simp_all add: sb_used_def)
  have sealed: "sb_sealed P b = b\<lparr>sb_magic := k_block_magic, sb_crc := k\<rparr>"
    by (simp add: sb_sealed_def k_def)
  have "run_steps (sb_steps P) (c, sb_body P b @ net32 P k @ pad) = Inr (sb_restored c (sb_sealed P b), pad)"
    using strings by (simp add: sb_body_def sb_header_def sb_steps_def codec_simps sb_restored_def sealed)
  moreover have "sb_crc (sb_restored c (sb_sealed P b)) = k"
    by (simp add: sb_restored_def sealed)
  moreover have "4092 - length pad = length (sb_body P b)"
    using len by simp
  ultimately show ?thesis
    using len crc by (simp add: SuperBlock_Deserialize_def deserialize_block_def sb_bytes_def flip: k_def)
qed

end

interpretation super_codec: block_codec "SuperBlock_Serialize P" "SuperBlock_Deserialize P"
  "\<lambda>b. net_order P \<and> sb_used b \<le> k_block_size \<and> sb_device_uuid b \<noteq> [] \<and> sb_device_path b \<noteq> []" for P
proof
  fix b bs b' c
  assume b: "net_order P \<and> sb_used b \<le> k_block_size \<and> sb_device_uuid b \<noteq> [] \<and> sb_device_path b \<noteq> []"
    and ser: "SuperBlock_Serialize P b = Return (bs, b')"
  then have bs: "bs = sb_bytes P b @ replicate (k_block_size - sb_used b) 0" and b': "b' = sb_sealed P b"
    by (auto simp: SuperBlock_Serialize_eq)
  show "length bs = k_block_size" using b by (simp add: bs length_sb_bytes)
  show "net_order P \<and> sb_used b' \<le> k_block_size \<and> sb_device_uuid b' \<noteq> [] \<and> sb_device_path b' \<noteq> []"
    using b by (simp add: b' sb_sealed_def sb_used_def)
  have "sb_restored c (sb_sealed P b) = sb_sealed P b"
    using b by (simp add: sb_restored_def sb_sealed_def)
  then show "SuperBlock_Deserialize P c bs = (PANCAKE_STORE_OK, b')"
    using b by (simp add: bs b' net_order.SuperBlock_Deserialize_bytes)
qed (simp add: SuperBlock_Serialize_eq)

section \<open>Properties\<close>

text \<open>
  C23. A super block whose two strings fit serialises to one block, the checksummed fields
  followed by zeros, and deserialises to the same fields, except that a string that was stored
  empty is not assigned: the object keeps the string it had before. The bytes after the checksum
  are not looked at: any padding of the right length gives the same object.
\<close>

theorem SuperBlock_roundtrip:
  assumes "net_order P" and "sb_used b \<le> k_block_size" and "length pad = k_block_size - sb_used b"
  shows "\<exists>front b'. SuperBlock_Serialize P b = Return (front @ replicate (length pad) 0, b')
    \<and> length (front @ pad) = k_block_size
    \<and> b' = b\<lparr>sb_magic := k_block_magic, sb_crc := CRC32 front (sb_used b - 4)\<rparr>
    \<and> SuperBlock_Deserialize P c (front @ pad) = (PANCAKE_STORE_OK, b'\<lparr>
        sb_device_uuid := if sb_device_uuid b = [] then sb_device_uuid c else sb_device_uuid b,
        sb_device_path := if sb_device_path b = [] then sb_device_path c else sb_device_path b\<rparr>)"
proof (intro exI conjI)
  have "sb_used b - 4 = length (sb_body P b)" using length_sb_body [of P b] by simp
  then have crc: "CRC32 (sb_bytes P b) (sb_used b - 4) = CRC32 (sb_body P b) (length (sb_body P b))"
    by (simp add: sb_bytes_def CRC32_prefix)
  then show sealed: "sb_sealed P b = b\<lparr>sb_magic := k_block_magic, sb_crc := CRC32 (sb_bytes P b) (sb_used b - 4)\<rparr>"
    by (simp add: sb_sealed_def)
  show "SuperBlock_Serialize P b = Return (sb_bytes P b @ replicate (length pad) 0, sb_sealed P b)"
    using assms(2,3) by (simp add: SuperBlock_Serialize_eq)
  show "length (sb_bytes P b @ pad) = k_block_size"
    using assms(2,3) by (simp add: length_sb_bytes)
  show "SuperBlock_Deserialize P c (sb_bytes P b @ pad) = (PANCAKE_STORE_OK, (sb_sealed P b)\<lparr>
      sb_device_uuid := if sb_device_uuid b = [] then sb_device_uuid c else sb_device_uuid b,
      sb_device_path := if sb_device_path b = [] then sb_device_path c else sb_device_path b\<rparr>)"
    using assms by (simp add: net_order.SuperBlock_Deserialize_bytes sb_restored_def sealed)
qed

theorem SuperBlock_roundtrip_witness:
  "\<exists>bs b'. SuperBlock_Serialize (x86_host False) zero_SuperBlock = Return (bs @ replicate 3975 0, b')
    \<and> SuperBlock_Deserialize (x86_host False) (zero_SuperBlock\<lparr>sb_device_uuid := [1]\<rparr>) (bs @ replicate 3975 7)
      = (PANCAKE_STORE_OK, b'\<lparr>sb_device_uuid := [1]\<rparr>)"
proof -
  have "sb_used zero_SuperBlock \<le> k_block_size" and "length (replicate 3975 7) = k_block_size - sb_used zero_SuperBlock"
    by (simp_all add: sb_used_def zero_SuperBlock_def)
  from SuperBlock_roundtrip [OF x86.net_order_axioms this, of False "zero_SuperBlock\<lparr>sb_device_uuid := [1]\<rparr>"]
  show ?thesis by (auto simp: zero_SuperBlock_def)
qed

text \<open>
  If the two strings together take more than 3975 bytes the super block does not fit:
  with assertions on \<^verbatim>\<open>Serialize\<close> stops at the size assertion; under \<^verbatim>\<open>NDEBUG\<close> it returns
  more than one block, which \<^verbatim>\<open>Deserialize\<close> refuses without touching the object.
\<close>

theorem SuperBlock_too_long:
  assumes "length (sb_device_uuid b) + length (sb_device_path b) > 3975"
  shows "\<not> ndebug P \<and> SuperBlock_Serialize P b = Assert_Fail
    \<or> ndebug P \<and> (\<exists>bs b'. SuperBlock_Serialize P b = Return (bs, b') \<and> length bs > k_block_size
        \<and> SuperBlock_Deserialize P c bs = (DATANODE_STORAGE_BLOCK_SIZE_ILLEGAL, c))"
proof -
  have "sb_used b > k_block_size" using assms by (simp add: sb_used_def)
  then show ?thesis
    by (auto simp: SuperBlock_Serialize_eq cpp_assert_def length_sb_bytes SuperBlock_Deserialize_def
        deserialize_block_size)
qed

theorem SuperBlock_too_long_witness:
  "SuperBlock_Serialize (x86_host False) (zero_SuperBlock\<lparr>sb_device_path := replicate 4000 47\<rparr>) = Assert_Fail"
  using SuperBlock_too_long [of "zero_SuperBlock\<lparr>sb_device_path := replicate 4000 47\<rparr>" "x86_host False" undefined]
  by simp

text \<open>
  A length field that announces more bytes than the block has left is caught before the
  string is read: \<^verbatim>\<open>Deserialize\<close> returns the data error, with the fields before the
  string assigned and nothing else changed.
\<close>

theorem SuperBlock_overrun_rejected:
  assumes "net_order P" and "length dev = 8" and "length len = 2"
    and "unat (host16 P len) > length rest" and "length rest = k_block_size - 15"
  shows "SuperBlock_Deserialize P c (net32 P k_block_magic @ v # dev @ len @ rest) =
    (DATANODE_STORAGE_BLOCK_DATA_ILLEGAL,
     c\<lparr>sb_magic := k_block_magic, sb_version := v, sb_device_id := host64 P dev\<rparr>)"
  using assms
  by (simp add: SuperBlock_Deserialize_def deserialize_block_def sb_steps_def codec_simps
      net_order.host_net [OF assms(1)] read_sized_def read_data_def Let_def)

theorem SuperBlock_overrun_rejected_witness:
  "fst (SuperBlock_Deserialize (be_host False) zero_SuperBlock
      (net32 (be_host False) k_block_magic @ 1 # replicate 8 0 @ [0xFF, 0xFF] @ replicate 4081 0))
    = DATANODE_STORAGE_BLOCK_DATA_ILLEGAL"
proof -
  have "unat (host16 (be_host False) [0xFF, 0xFF]) > length (replicate 4081 (0 :: u8))"
    by (simp add: host16_def be_host_def obj_load_def)
  from SuperBlock_overrun_rejected [OF be.net_order_axioms _ _ this]
  show ?thesis by simp
qed

end
