(* ===== verification/Pancake_Io.thy ===== *)
theory Pancake_Io
  imports Journal_Block Extent_Header Super_Block
begin

text \<open>
  \<^verbatim>\<open>PancakeIO\<close> of \<^verbatim>\<open>pancake_io.h/.cc\<close>: aligned reads and writes on an open device. The
  file type of seastar is not part of the repository; it is the parameter \<open>F\<close> of type
  \<open>'d file_api\<close>, where \<open>'d\<close> is the state of an open file, and what the code relies on is the
  locale \<open>block_device\<close>. Awaiting a future is running it to its end.
\<close>

section \<open>The file interface\<close>

text \<open>
  \<open>None\<close> is an exceptional future: \<^verbatim>\<open>open_file_dma\<close> fails, \<^verbatim>\<open>dma_read_exactly\<close> cannot
  deliver all bytes, \<^verbatim>\<open>dma_write\<close> throws. A write that does not throw tells how many bytes it
  wrote.
\<close>

record 'd file_api =
  open_file_dma :: "bytes \<Rightarrow> 'd option"
  dma_read_exactly :: "'d \<Rightarrow> u64 \<Rightarrow> u64 \<Rightarrow> bytes option"
  dma_write :: "'d \<Rightarrow> u64 \<Rightarrow> bytes \<Rightarrow> nat option \<times> 'd"

record 'd PancakeIO =
  io_device_path :: bytes
  io_device_id :: u64
  io_device_fd :: "'d option" \<comment> \<open>\<open>None\<close> is the null pointer of a fresh object\<close>

definition PancakeIO_Init :: "'d file_api \<Rightarrow> 'd PancakeIO \<Rightarrow> bytes \<Rightarrow> u64 \<Rightarrow> ErrorCode \<times> 'd PancakeIO" where
  "PancakeIO_Init F io device_path device_id =
    (case open_file_dma F device_path of
       Some fd \<Rightarrow> (PANCAKE_STORE_OK,
         io\<lparr>io_device_fd := Some fd, io_device_path := device_path, io_device_id := device_id\<rparr>)
     | None \<Rightarrow> (DATANODE_STORAGE_DEVICE_OPEN_FAILED, io))"

text \<open>The bytes read are appended to \<^verbatim>\<open>*read_buf\<close>.\<close>

definition ReadAt :: "'d file_api \<Rightarrow> 'd PancakeIO \<Rightarrow> u64 \<Rightarrow> u64 \<Rightarrow> bytes \<Rightarrow> (ErrorCode \<times> bytes) outcome" where
  "ReadAt F io offset read_len read_buf =
    (if \<not> IsBlockAlign offset \<or> \<not> IsBlockAlign read_len
     then Return (DATANODE_STORAGE_NOT_BLOCK_ALIGNED, read_buf)
     else case io_device_fd io of
       None \<Rightarrow> Undefined
     | Some fd \<Rightarrow> (case dma_read_exactly F fd offset read_len of
         Some buf \<Rightarrow> Return (PANCAKE_STORE_OK, read_buf @ buf)
       | None \<Rightarrow> Return (DATANODE_STORAGE_IO_READ_AT_FAILED, read_buf)))"

definition WriteAt :: "'d file_api \<Rightarrow> 'd PancakeIO \<Rightarrow> u64 \<Rightarrow> bytes \<Rightarrow> (ErrorCode \<times> 'd PancakeIO) outcome" where
  "WriteAt F io offset write_buf =
    (if \<not> IsBlockAlign offset \<or> \<not> IsBlockAlign (word_of_nat (length write_buf))
     then Return (DATANODE_STORAGE_NOT_BLOCK_ALIGNED, io)
     else case io_device_fd io of
       None \<Rightarrow> Undefined
     | Some fd \<Rightarrow> (case dma_write F fd offset write_buf of
         (Some len, fd') \<Rightarrow>
           (if len = length write_buf then Return (PANCAKE_STORE_OK, io\<lparr>io_device_fd := Some fd'\<rparr>)
            else Return (DATANODE_STORAGE_IO_WRITE_AT_FAILED, io\<lparr>io_device_fd := Some fd'\<rparr>))
       | (None, fd') \<Rightarrow> Return (DATANODE_STORAGE_IO_WRITE_AT_FAILED, io\<lparr>io_device_fd := Some fd'\<rparr>)))"

lemma WriteAt_keeps_open:
  "WriteAt F io off bs = Return (e, io') \<Longrightarrow> io_device_fd io \<noteq> None \<Longrightarrow> io_device_fd io' \<noteq> None"
  by (auto simp: WriteAt_def split: if_splits option.splits prod.splits)

section \<open>What the code relies on\<close>

text \<open>
  \<open>content d a\<close> is the byte of the device at address \<open>a\<close>. A write changes nothing outside
  its range, and stores its bytes if it reports all of them written; a read that succeeds
  delivers the bytes of its range. \<open>block_at\<close> is the block of an open device at an address.
\<close>

definition block_at :: "('d \<Rightarrow> nat \<Rightarrow> u8) \<Rightarrow> 'd PancakeIO \<Rightarrow> nat \<Rightarrow> bytes" where
  "block_at content io a =
    (case io_device_fd io of None \<Rightarrow> [] | Some d \<Rightarrow> map (\<lambda>i. content d (a + i)) [0..<k_block_size])"

locale block_device =
  fixes F :: "'d file_api" and content :: "'d \<Rightarrow> nat \<Rightarrow> u8"
  assumes write_inside: "dma_write F d off bs = (Some (length bs), d') \<Longrightarrow> i < length bs \<Longrightarrow>
      content d' (unat off + i) = bs ! i"
    and write_outside: "dma_write F d off bs = (r, d') \<Longrightarrow> a < unat off \<or> unat off + length bs \<le> a \<Longrightarrow>
      content d' a = content d a"
    and read_content: "dma_read_exactly F d off len = Some bs \<Longrightarrow>
      bs = map (\<lambda>i. content d (unat off + i)) [0..<unat len]"
begin

lemma WriteAt_block:
  assumes "WriteAt F io off bs = Return (PANCAKE_STORE_OK, io')" and "length bs = k_block_size"
  shows "block_at content io' (unat off) = bs"
proof -
  from assms(1) obtain d d' where "io_device_fd io = Some d" and io': "io_device_fd io' = Some d'"
    and w: "dma_write F d off bs = (Some (length bs), d')"
    by (auto simp: WriteAt_def split: if_splits option.splits prod.splits)
  have "map (\<lambda>i. content d' (unat off + i)) [0..<length bs] = bs"
    using write_inside [OF w] by (intro nth_equalityI) simp_all
  then show ?thesis using assms(2) by (simp add: block_at_def io')
qed

lemma WriteAt_other:
  assumes "WriteAt F io off bs = Return (e, io')" and "length bs = k_block_size"
    and "a + k_block_size \<le> unat off \<or> unat off + k_block_size \<le> a"
  shows "block_at content io' a = block_at content io a"
proof (cases "io_device_fd io")
  case None
  with assms(1) show ?thesis by (auto simp: WriteAt_def split: if_splits)
next
  case (Some d)
  obtain r d' where w: "dma_write F d off bs = (r, d')" by fastforce
  have "content d' (a + i) = content d (a + i)" if "i < k_block_size" for i
    using that assms(2,3) by (intro write_outside [OF w]) auto
  then show ?thesis
    using assms(1) Some w by (auto simp: WriteAt_def block_at_def split: if_splits option.splits)
qed

lemma ReadAt_block:
  assumes "ReadAt F io off (word_of_nat k_block_size) buf = Return (PANCAKE_STORE_OK, buf')"
  shows "buf' = buf @ block_at content io (unat off)"
  using assms by (auto simp: ReadAt_def block_at_def unat_of_nat dest!: read_content
      split: if_splits option.splits)

end

text \<open>A block type on a device: what was written and read back is the object.\<close>

locale stored_block = block_device F content + block_codec ser deser wf
  for F :: "'d file_api" and content :: "'d \<Rightarrow> nat \<Rightarrow> u8"
    and ser :: "'b \<Rightarrow> (bytes \<times> 'b) outcome" and deser :: "'b \<Rightarrow> bytes \<Rightarrow> ErrorCode \<times> 'b"
    and wf :: "'b \<Rightarrow> bool"
begin

lemma write_read_object:
  assumes "wf b" and "wf c" and "ser b = Return (bs, b')"
    and "WriteAt F io off bs = Return (PANCAKE_STORE_OK, io')"
    and "ReadAt F io' off (word_of_nat k_block_size) [] = Return (PANCAKE_STORE_OK, buf)"
  shows "deser c buf = (PANCAKE_STORE_OK, b')"
proof -
  have "length bs = k_block_size" using assms(1,3) by (rule ser_length)
  then have "buf = bs"
    using WriteAt_block [OF assms(4)] ReadAt_block [OF assms(5)] by simp
  then show ?thesis using deser_ser [OF assms(1-3)] by simp
qed

end

section \<open>A device held in memory\<close>

text \<open>
  The image of a device: an access inside it succeeds in full, any other one throws.
\<close>

definition image_read :: "bytes \<Rightarrow> u64 \<Rightarrow> u64 \<Rightarrow> bytes option" where
  "image_read d off len = (if unat off + unat len \<le> length d then Some (take (unat len) (drop (unat off) d)) else None)"

definition image_write :: "bytes \<Rightarrow> u64 \<Rightarrow> bytes \<Rightarrow> nat option \<times> bytes" where
  "image_write d off bs =
    (if unat off + length bs \<le> length d
     then (Some (length bs), take (unat off) d @ bs @ drop (unat off + length bs) d)
     else (None, d))"

definition image_file :: "bytes \<Rightarrow> bytes file_api" where
  "image_file img = \<lparr>open_file_dma = (\<lambda>_. Some img), dma_read_exactly = image_read, dma_write = image_write\<rparr>"

definition image_content :: "bytes \<Rightarrow> nat \<Rightarrow> u8" where
  "image_content d a = (if a < length d then d ! a else 0)"

interpretation image: block_device "image_file img" image_content for img
proof
  show "image_content d' a = image_content d a"
    if "dma_write (image_file img) d off bs = (r, d')" and "a < unat off \<or> unat off + length bs \<le> a" for d off bs r d' a
    using that by (auto simp: image_file_def image_write_def image_content_def nth_append split: if_splits)
qed (auto simp: image_file_def image_read_def image_write_def image_content_def nth_append
    intro!: nth_equalityI split: if_splits)

interpretation stored_data: stored_block "image_file img" image_content
  "DataBlock_Serialize P" "DataBlock_Deserialize P" "\<lambda>b. net_order P \<and> wf_DataBlock b" for img P
  by unfold_locales

interpretation stored_super: stored_block "image_file img" image_content
  "SuperBlock_Serialize P" "SuperBlock_Deserialize P"
  "\<lambda>b. net_order P \<and> sb_used b \<le> k_block_size \<and> sb_device_uuid b \<noteq> [] \<and> sb_device_path b \<noteq> []" for img P
  by unfold_locales

text \<open>A device without an end, on which every access succeeds.\<close>

definition sparse_file :: "(nat \<Rightarrow> u8) file_api" where
  "sparse_file = \<lparr>open_file_dma = (\<lambda>_. Some (\<lambda>_. 0)),
     dma_read_exactly = (\<lambda>d off len. Some (map (\<lambda>i. d (unat off + i)) [0..<unat len])),
     dma_write = (\<lambda>d off bs. (Some (length bs),
       \<lambda>a. if unat off \<le> a \<and> a < unat off + length bs then bs ! (a - unat off) else d a))\<rparr>"

interpretation sparse: block_device sparse_file "\<lambda>d. d"
  by unfold_locales (auto simp: sparse_file_def)

definition sparse_io :: "(nat \<Rightarrow> u8) PancakeIO" where
  "sparse_io = \<lparr>io_device_path = [], io_device_id = 1, io_device_fd = Some (\<lambda>_. 0)\<rparr>"

section \<open>Properties\<close>

text \<open>
  C26. On any device that keeps its contract, a one-block write that returns OK was aligned and is
  read back unchanged, and a write of one block, whatever it returns, leaves every block of the
  device that does not overlap it as it was.
\<close>

theorem WriteAt_ReadAt:
  assumes "block_device F content" and "length bs = k_block_size"
    and "WriteAt F io off bs = Return (e, io')"
    and "a + k_block_size \<le> unat off \<or> unat off + k_block_size \<le> a"
  shows "block_at content io' a = block_at content io a
    \<and> (e = PANCAKE_STORE_OK \<longrightarrow> 4096 dvd unat off
      \<and> (\<forall>buf. ReadAt F io' off (word_of_nat k_block_size) [] = Return (PANCAKE_STORE_OK, buf) \<longrightarrow> buf = bs))"
proof (intro conjI impI allI)
  show "block_at content io' a = block_at content io a"
    by (rule block_device.WriteAt_other [OF assms(1,3,2,4)])
next
  assume "e = PANCAKE_STORE_OK"
  then show "4096 dvd unat off"
    using assms(3) by (auto simp: WriteAt_def IsBlockAlign_iff split: if_splits)
next
  fix buf assume e: "e = PANCAKE_STORE_OK"
    and r: "ReadAt F io' off (word_of_nat k_block_size) [] = Return (PANCAKE_STORE_OK, buf)"
  from e assms(3) have w: "WriteAt F io off bs = Return (PANCAKE_STORE_OK, io')" by simp
  show "buf = bs"
    using block_device.ReadAt_block [OF assms(1) r] block_device.WriteAt_block [OF assms(1) w assms(2)] by simp
qed

text \<open>
  A data block survives its way through the device: serialised, written with OK, read back
  with OK, it deserialises into any object to what was serialised.
\<close>

theorem DataBlock_persists:
  assumes "block_device F content" and "net_order P" and "wf_DataBlock b"
    and "DataBlock_Serialize P b = Return (bs, b')"
    and "WriteAt F io off bs = Return (PANCAKE_STORE_OK, io')"
    and "ReadAt F io' off (word_of_nat k_block_size) [] = Return (PANCAKE_STORE_OK, buf)"
  shows "DataBlock_Deserialize P c buf = (PANCAKE_STORE_OK, b')"
proof -
  have "stored_block F content (DataBlock_Serialize P) (DataBlock_Deserialize P) (\<lambda>b. net_order P \<and> wf_DataBlock b)"
    using assms(1) datablock_codec.block_codec_axioms by (rule stored_block.intro)
  from stored_block.write_read_object [OF this _ _ assms(4-6)] assms(2,3)
  have "DataBlock_Deserialize P b buf = (PANCAKE_STORE_OK, b')" by blast
  then show ?thesis
    using assms(2) net_order.DataBlock_accepted net_order.DataBlock_deser_ser by blast
qed

section \<open>Witnesses\<close>

text \<open>An open image of two blocks.\<close>

definition two_blocks :: bytes where
  "two_blocks = replicate 8192 0"

definition image_io :: "bytes PancakeIO" where
  "image_io = \<lparr>io_device_path = [], io_device_id = 1, io_device_fd = Some two_blocks\<rparr>"

lemma image_io_write:
  assumes "length bs = k_block_size"
  shows "WriteAt (image_file two_blocks) image_io 4096 bs =
    Return (PANCAKE_STORE_OK, image_io\<lparr>io_device_fd := Some (replicate 4096 0 @ bs)\<rparr>)"
  using assms by (simp add: WriteAt_def image_io_def image_file_def image_write_def two_blocks_def IsBlockAlign_def)

lemma image_io_read:
  assumes "length bs = k_block_size"
  shows "ReadAt (image_file two_blocks) (image_io\<lparr>io_device_fd := Some (replicate 4096 0 @ bs)\<rparr>) 4096
    (word_of_nat k_block_size) [] = Return (PANCAKE_STORE_OK, bs)"
  using assms by (simp add: ReadAt_def image_file_def image_read_def IsBlockAlign_def)

theorem WriteAt_ReadAt_witness:
  "\<exists>io'. WriteAt (image_file two_blocks) image_io 4096 (replicate k_block_size 7) = Return (PANCAKE_STORE_OK, io')
    \<and> block_at image_content io' 0 = block_at image_content image_io 0"
proof -
  have len: "length (replicate k_block_size (7 :: u8)) = k_block_size" by simp
  show ?thesis
    using WriteAt_ReadAt [OF image.block_device_axioms len image_io_write [OF len], of 0] image_io_write [OF len]
    by auto
qed

theorem DataBlock_persists_witness:
  "\<exists>buf b'. DataBlock_Deserialize (x86_host True) zero_DataBlock buf = (PANCAKE_STORE_OK, b')"
proof -
  have zero: "net_order (x86_host True) \<and> wf_DataBlock zero_DataBlock"
    by (simp add: x86.net_order_axioms)
  then obtain bs b' where ser: "DataBlock_Serialize (x86_host True) zero_DataBlock = Return (bs, b')"
    using datablock_codec.ser_total by blast
  have len: "length bs = k_block_size" by (rule datablock_codec.ser_length [OF zero ser])
  show ?thesis
    using DataBlock_persists [OF image.block_device_axioms x86.net_order_axioms wf_zero_DataBlock ser
        image_io_write [OF len] image_io_read [OF len]] by blast
qed

end
