(* ===== verification/Layout.thy ===== *)
theory Layout
  imports Comm
begin

text \<open>
  \<^verbatim>\<open>PancakeLayout\<close> of \<^verbatim>\<open>pancake_layout.h/.cc\<close>: where the regions of a device lie, in
  blocks of 4 KB. All arithmetic is that of the C++ types: the number of extents is computed in
  64 bits and cut to 32, the block counts are 64-bit and wrap around.
\<close>

datatype LayoutType = LT_UNKNOWN | LT_PADDING | LT_SUPER_BLOCK | LT_SUPER_BLOCK_BACKUP
  | LT_EXTENT_BIT_MAP | LT_TRASH_EXTENT_BIT_MAP | LT_JOURNAL_BLOCKS | LT_BAD_BLOCK_BIT_MAP | LT_EXTENTS

record PancakeFSLayoutItem =
  li_layout_type :: LayoutType
  li_block_index :: u64
  li_block_count :: u64

definition layout_item :: "LayoutType \<Rightarrow> PancakeFSLayoutItem" where
  "layout_item t = \<lparr>li_layout_type = t, li_block_index = 0, li_block_count = 0\<rparr>"

definition k_start_padding_block_count :: u64 where
  "k_start_padding_block_count = 4"

text \<open>
  What \<^verbatim>\<open>pancake_block.h\<close> says of the super block: its index and the size of its backup. Nothing uses
  the two constants.
\<close>

definition k_super_block_index :: int where
  "k_super_block_index = 0"

definition k_backup_super_block_size :: int where
  "k_backup_super_block_size = 1"

record PancakeLayout =
  pl_start_padding :: PancakeFSLayoutItem
  pl_super_block :: PancakeFSLayoutItem
  pl_super_block_backup :: PancakeFSLayoutItem
  pl_extent_bit_map :: PancakeFSLayoutItem
  pl_padding_blocks :: PancakeFSLayoutItem
  pl_extent_blocks :: PancakeFSLayoutItem

definition new_PancakeLayout :: PancakeLayout where
  "new_PancakeLayout = \<lparr>
     pl_start_padding = layout_item LT_PADDING,
     pl_super_block = layout_item LT_SUPER_BLOCK,
     pl_super_block_backup = layout_item LT_SUPER_BLOCK_BACKUP,
     pl_extent_bit_map = layout_item LT_EXTENT_BIT_MAP,
     pl_padding_blocks = layout_item LT_PADDING,
     pl_extent_blocks = layout_item LT_EXTENTS\<rparr>"

definition set_item :: "u64 \<Rightarrow> u64 \<Rightarrow> PancakeFSLayoutItem \<Rightarrow> PancakeFSLayoutItem" where
  "set_item index count it = it\<lparr>li_block_index := index, li_block_count := count\<rparr>"

definition extentBlockCount :: "u64 \<Rightarrow> u32" where
  "extentBlockCount device_size = ucast (device_size div word_of_nat k_block_data_size - 1)"

text \<open>
  The number of bitmap blocks: the quotient of the 32-bit division, rounded up, as a 64-bit
  value (\<^verbatim>\<open>sizeof(uint8_t)\<close> is 1).
\<close>

definition ext_bitmap_block_count :: "u32 \<Rightarrow> u64" where
  "ext_bitmap_block_count extent_block_count =
    (let n = ucast (extent_block_count div word_of_nat k_block_data_size)
     in if (ucast extent_block_count :: u64) mod word_of_nat k_block_data_size \<noteq> 0 then n + 1 else n)"

definition BuildLayout :: "u64 \<Rightarrow> PancakeLayout \<Rightarrow> PancakeLayout" where
  "BuildLayout device_size L =
    (let meta_blocks = word_of_nat (k_extent_block_size div k_block_size) :: u64;
         extent_block_count = extentBlockCount device_size;
         start_padding = set_item 0 k_start_padding_block_count (pl_start_padding L);
         super_block = set_item (li_block_index start_padding + li_block_count start_padding) 1
           (pl_super_block L);
         super_block_backup = set_item (li_block_index super_block + li_block_count super_block) 1
           (pl_super_block_backup L);
         extent_bit_map = set_item (li_block_index super_block_backup + li_block_count super_block_backup)
           (ext_bitmap_block_count extent_block_count) (pl_extent_bit_map L);
         padding_index = li_block_index extent_bit_map + li_block_count extent_bit_map;
         padding_blocks = set_item padding_index (meta_blocks - padding_index) (pl_padding_blocks L);
         extent_blocks = set_item (li_block_index padding_blocks + li_block_count padding_blocks)
           (ucast extent_block_count) (pl_extent_blocks L)
     in \<lparr>pl_start_padding = start_padding, pl_super_block = super_block,
         pl_super_block_backup = super_block_backup, pl_extent_bit_map = extent_bit_map,
         pl_padding_blocks = padding_blocks, pl_extent_blocks = extent_blocks\<rparr>)"

definition SuperBlockLayout :: "PancakeLayout \<Rightarrow> PancakeFSLayoutItem" where
  "SuperBlockLayout L = pl_super_block L"

definition SuperBlockBackupLayout :: "PancakeLayout \<Rightarrow> PancakeFSLayoutItem" where
  "SuperBlockBackupLayout L = pl_super_block_backup L"

definition ExtentBitmapLayout :: "PancakeLayout \<Rightarrow> PancakeFSLayoutItem" where
  "ExtentBitmapLayout L = pl_extent_bit_map L"

definition ExtentsBlocksLayout :: "PancakeLayout \<Rightarrow> PancakeFSLayoutItem" where
  "ExtentsBlocksLayout L = pl_extent_blocks L"

section \<open>The numbers\<close>

lemma unat_ext_bitmap_block_count:
  "unat (ext_bitmap_block_count n) = (unat n + 4063) div 4064"
proof -
  have n: "unat (ucast n :: u64) = unat n" by (simp add: unat_ucast_up)
  have q: "unat (ucast (n div 4064) :: u64) = unat n div 4064"
    by (simp add: unat_ucast_up unat_div)
  have m: "((ucast n :: u64) mod 4064 \<noteq> 0) \<longleftrightarrow> unat n mod 4064 \<noteq> 0"
    by (simp add: unat_eq_zero [symmetric] unat_mod n)
  have "unat n div 4064 < 2 ^ 32" using unsigned_less [of n, where ?'a = nat] by (simp add: div_less_dividend order_le_less_trans [OF div_le_dividend])
  then have "unat ((ucast (n div 4064) :: u64) + 1) = unat n div 4064 + 1"
    by (simp add: unat_word_ariths q)
  moreover have "(unat n + 4063) div 4064 = (if unat n mod 4064 \<noteq> 0 then unat n div 4064 + 1 else unat n div 4064)"
    using ceil_div [of 4064 "unat n"] by simp
  ultimately show ?thesis
    by (simp add: ext_bitmap_block_count_def Let_def m q)
qed

lemma BuildLayout_items:
  shows "pl_start_padding (BuildLayout s L) = set_item 0 4 (pl_start_padding L)"
    and "pl_super_block (BuildLayout s L) = set_item 4 1 (pl_super_block L)"
    and "pl_super_block_backup (BuildLayout s L) = set_item 5 1 (pl_super_block_backup L)"
    and "pl_extent_bit_map (BuildLayout s L) =
      set_item 6 (ext_bitmap_block_count (extentBlockCount s)) (pl_extent_bit_map L)"
    and "pl_padding_blocks (BuildLayout s L) = set_item (6 + ext_bitmap_block_count (extentBlockCount s))
      (16384 - (6 + ext_bitmap_block_count (extentBlockCount s))) (pl_padding_blocks L)"
    and "pl_extent_blocks (BuildLayout s L) = set_item 16384 (ucast (extentBlockCount s)) (pl_extent_blocks L)"
  by (simp_all add: BuildLayout_def Let_def set_item_def k_start_padding_block_count_def k_extent_block_size_def)

lemma set_item_simps [simp]:
  "li_block_index (set_item i c it) = i" "li_block_count (set_item i c it) = c"
  "li_layout_type (set_item i c it) = li_layout_type it"
  by (simp_all add: set_item_def)

lemma ceil_mult: "n \<le> (n + 4063) div 4064 * (4064 :: nat)" "(n + 4063) div 4064 * (4064 :: nat) < n + 4064"
  using mod_less_divisor [of 4064 "n + 4063"] div_mult_mod_eq [of "n + 4063" 4064] by linarith+

lemma unat_extentBlockCount:
  assumes "4064 \<le> unat s"
  shows "unat (extentBlockCount s) = (unat s div 4064 - 1) mod 2 ^ 32"
proof -
  have "1 \<le> s div 4064" using assms by (simp add: word_le_nat_alt unat_div)
  then have "unat (s div 4064 - 1) = unat s div 4064 - 1"
    by (simp add: unat_sub unat_div)
  then show ?thesis by (simp add: extentBlockCount_def unat_ucast)
qed

section \<open>Properties\<close>

text \<open>The items in the order of their blocks.\<close>

definition layout_items :: "PancakeLayout \<Rightarrow> PancakeFSLayoutItem list" where
  "layout_items L = [pl_start_padding L, pl_super_block L, pl_super_block_backup L, pl_extent_bit_map L,
     pl_padding_blocks L, pl_extent_blocks L]"

text \<open>
  C27. For every device size the super block is block 4, its backup block 5, and the extent bitmap
  starts at block 6 with just enough blocks for one byte per extent; the extents start at block
  16384 (64 MB), also when the subtraction that computes the padding wraps around. Of what the headers
  announce, the backup has its size, but the super block is not at \<^verbatim>\<open>k_super_block_index\<close>, and there are
  no regions for a journal bitmap and journal blocks: the items of a new layout are padding, super block,
  backup, extent bitmap, padding and extents, one right behind the other up to the second padding.
\<close>

theorem BuildLayout_regions:
  fixes s :: u64 and L :: PancakeLayout
  defines "L' \<equiv> BuildLayout s L" and "n \<equiv> unat (extentBlockCount s)"
  shows "li_block_index (SuperBlockLayout L') = 4 \<and> li_block_count (SuperBlockLayout L') = 1
    \<and> li_block_index (SuperBlockBackupLayout L') = 5 \<and> li_block_count (SuperBlockBackupLayout L') = 1
    \<and> li_block_index (ExtentBitmapLayout L') = 6
    \<and> n \<le> unat (li_block_count (ExtentBitmapLayout L')) * k_block_data_size
    \<and> unat (li_block_count (ExtentBitmapLayout L')) * k_block_data_size < n + k_block_data_size
    \<and> li_block_index (ExtentsBlocksLayout L') = 16384 \<and> unat (li_block_count (ExtentsBlocksLayout L')) = n
    \<and> int (unat (li_block_index (SuperBlockLayout L'))) \<noteq> k_super_block_index
    \<and> int (unat (li_block_count (SuperBlockBackupLayout L'))) = k_backup_super_block_size
    \<and> li_block_index (pl_start_padding L') = 0 \<and> li_block_count (pl_start_padding L') = k_start_padding_block_count
    \<and> li_block_index (pl_padding_blocks L') = li_block_index (ExtentBitmapLayout L') + li_block_count (ExtentBitmapLayout L')
    \<and> map li_layout_type (layout_items (BuildLayout s new_PancakeLayout)) =
        [LT_PADDING, LT_SUPER_BLOCK, LT_SUPER_BLOCK_BACKUP, LT_EXTENT_BIT_MAP, LT_PADDING, LT_EXTENTS]"
proof -
  have "(n + 4063) div 4064 * 4064 < n + 4064" and "n \<le> (n + 4063) div 4064 * 4064"
    by (simp_all add: ceil_mult)
  moreover have "map li_layout_type (layout_items (BuildLayout s new_PancakeLayout)) =
      [LT_PADDING, LT_SUPER_BLOCK, LT_SUPER_BLOCK_BACKUP, LT_EXTENT_BIT_MAP, LT_PADDING, LT_EXTENTS]"
    by (simp add: layout_items_def BuildLayout_items new_PancakeLayout_def layout_item_def)
  ultimately show ?thesis
    by (simp add: L'_def n_def SuperBlockLayout_def SuperBlockBackupLayout_def ExtentBitmapLayout_def
        ExtentsBlocksLayout_def BuildLayout_items unat_ext_bitmap_block_count unat_ucast_up
        k_super_block_index_def k_backup_super_block_size_def k_start_padding_block_count_def)
qed

text \<open>
  C28. The extent bitmap ends before the extents exactly when the layout has at most 66560192
  extents; then the padding fills the gap.
\<close>

theorem BuildLayout_bitmap_before_extents_iff:
  fixes s :: u64 and L :: PancakeLayout
  defines "bitmap \<equiv> ExtentBitmapLayout (BuildLayout s L)" and "extents \<equiv> ExtentsBlocksLayout (BuildLayout s L)"
    and "padding \<equiv> pl_padding_blocks (BuildLayout s L)"
  shows "(unat (li_block_index bitmap) + unat (li_block_count bitmap) + unat (li_block_count padding)
      = unat (li_block_index extents)) = (unat (extentBlockCount s) \<le> 66560192)"
proof -
  let ?b = "(unat (extentBlockCount s) + 4063) div 4064"
  have "?b < 2 ^ 32" using ceil_mult(2) [of "unat (extentBlockCount s)"]
      unsigned_less [of "extentBlockCount s", where ?'a = nat] by simp
  then have start: "unat (6 + ext_bitmap_block_count (extentBlockCount s)) = 6 + ?b"
    by (simp add: unat_word_ariths unat_ext_bitmap_block_count)
  define b where "b = ext_bitmap_block_count (extentBlockCount s)"
  have wrap: "unat (16384 - (6 + b)) = (if ?b \<le> 16378 then 16378 - ?b else 2 ^ 64 + 16378 - ?b)"
    unfolding unat_sub_if' using start by (simp add: b_def)
  have "?b \<le> 16378 \<longleftrightarrow> unat (extentBlockCount s) \<le> 66560192"
    using ceil_mult [of "unat (extentBlockCount s)"] by linarith
  moreover have "unat b = ?b" by (simp add: b_def unat_ext_bitmap_block_count)
  ultimately show ?thesis
    using wrap \<open>?b < 2 ^ 32\<close>
    by (simp add: bitmap_def extents_def padding_def ExtentBitmapLayout_def ExtentsBlocksLayout_def
        BuildLayout_items flip: b_def)
qed

text \<open>
  C29. The number of extents is computed with the payload size of a 4 KB block (4064) in place of
  the size of an extent (64 MB): on every device of at least the minimum size (and below the
  17 TB at which 32 bits overflow) the extents are laid out over more than 16000 times the device.
  Dividing by the extent size would have made them fit.
\<close>

theorem BuildLayout_overcommits:
  assumes "k_min_device_size \<le> s" and "unat s < 2 ^ 32 * k_block_data_size"
  shows "16000 * unat s < unat (li_block_count (ExtentsBlocksLayout (BuildLayout s L))) * k_extent_block_size
    \<and> 16384 * k_block_size + (unat s div k_extent_block_size - 1) * k_extent_block_size \<le> unat s"
proof -
  have s: "2 ^ 27 \<le> unat s"
    using assms(1) by (simp add: k_min_device_size_def k_extent_block_size_def word_le_nat_alt)
  have "unat s div 4064 - 1 < 2 ^ 32" using assms(2) by (simp add: less_mult_imp_div_less less_imp_diff_less)
  then have n: "unat (extentBlockCount s) = unat s div 4064 - 1"
    using s by (simp add: unat_extentBlockCount)
  have "unat s < 4064 * (unat s div 4064) + 4064"
    using mod_less_divisor [of 4064 "unat s"] mult_div_mod_eq [of 4064 "unat s"] by linarith
  then have "16000 * unat s < (unat s div 4064 - 1) * 67108864"
    using s by (simp add: diff_mult_distrib)
  moreover have "unat s div 67108864 * 67108864 \<le> unat s" by simp
  ultimately show ?thesis
    using s by (simp add: ExtentsBlocksLayout_def BuildLayout_items unat_ucast_up n
        k_extent_block_size_def diff_mult_distrib)
qed

theorem BuildLayout_overcommits_witness:
  "16000 * unat (2 ^ 30 :: u64) < unat (li_block_count (ExtentsBlocksLayout (BuildLayout (2 ^ 30) new_PancakeLayout)))
    * k_extent_block_size"
  using BuildLayout_overcommits [of "2 ^ 30" new_PancakeLayout]
  by (simp add: k_min_device_size_def k_extent_block_size_def)

end
