(* ===== verification/Allocator.thy ===== *)
theory Allocator
  imports Prelude
begin

text \<open>
  The abstract allocator an extent manager implements: slots below a capacity, owners that hold
  one slot each, and steps that either leave the allocation alone or give one free slot to one
  new owner. What follows for any run of steps is proved here once.
\<close>

text \<open>
  A state is consistent when owners and used slots correspond one to one and every owner is
  recorded with the place of its slot.
\<close>

definition slots_consistent :: "nat set \<Rightarrow> ('k \<rightharpoonup> 'v) \<Rightarrow> (nat \<Rightarrow> 'v) \<Rightarrow> nat \<Rightarrow> bool" where
  "slots_consistent used owner place capacity \<longleftrightarrow> used \<subseteq> {..<capacity} \<and>
    (\<exists>f. bij_betw f (dom owner) used \<and> (\<forall>k \<in> dom owner. owner k = Some (place (f k))))"

lemma slots_consistent_empty: "slots_consistent {} Map.empty place capacity"
  by (simp add: slots_consistent_def bij_betw_def)

lemma slots_consistent_insert:
  assumes "slots_consistent used owner place capacity" and "i < capacity" and "i \<notin> used" and "owner k = None"
  shows "slots_consistent (insert i used) (owner(k \<mapsto> place i)) place capacity"
proof -
  from assms(1) obtain f where f: "bij_betw f (dom owner) used" "\<forall>k \<in> dom owner. owner k = Some (place (f k))"
    by (auto simp: slots_consistent_def)
  have k: "k \<notin> dom owner" using assms(4) by auto
  have "bij_betw (f(k := i)) (dom owner) used"
    using f(1) k by (subst bij_betw_cong [of _ _ f]) auto
  then have "bij_betw (f(k := i)) (insert k (dom owner)) (insert i used)"
    using k assms(3) notIn_Un_bij_betw [of k "dom owner" "f(k := i)" used] by simp
  moreover have "\<forall>x \<in> dom (owner(k \<mapsto> place i)). (owner(k \<mapsto> place i)) x = Some (place ((f(k := i)) x))"
    using f(2) k by auto
  ultimately show ?thesis
    using assms(1,2) by (auto simp: slots_consistent_def intro!: exI [of _ "f(k := i)"])
qed

lemma slots_consistent_card:
  assumes "slots_consistent used owner place capacity"
  shows "card (dom owner) = card used" and "card used \<le> capacity"
proof -
  show "card (dom owner) = card used"
    using assms by (auto simp: slots_consistent_def dest: bij_betw_same_card)
  show "card used \<le> capacity"
    using assms card_mono [of "{..<capacity}" used] by (auto simp: slots_consistent_def)
qed

lemma slots_consistent_distinct:
  assumes "slots_consistent used owner place capacity" and "inj_on place used"
    and "owner k = Some v" and "owner l = Some v"
  shows "k = l"
proof -
  from assms(1) obtain f where f: "bij_betw f (dom owner) used" "\<forall>k \<in> dom owner. owner k = Some (place (f k))"
    by (auto simp: slots_consistent_def)
  have "place (f k) = v" "place (f l) = v"
    using bspec [OF f(2) domI [where m = owner, OF assms(3)]] bspec [OF f(2) domI [where m = owner, OF assms(4)]] assms(3,4) by simp_all
  then have "place (f k) = place (f l)" by simp
  moreover have "f k \<in> used" "f l \<in> used" using f(1) assms(3,4) by (auto simp: bij_betw_def)
  ultimately have "f k = f l" using assms(2) by (simp add: inj_on_def)
  then show ?thesis using f(1) assms(3,4) by (auto simp: bij_betw_def inj_on_def)
qed

lemma slots_consistent_slot:
  assumes "slots_consistent used owner place capacity" and "owner k = Some v"
  shows "\<exists>i \<in> used. v = place i"
proof -
  from assms(1) obtain f where f: "bij_betw f (dom owner) used" "\<forall>k \<in> dom owner. owner k = Some (place (f k))"
    by (auto simp: slots_consistent_def)
  have "f k \<in> used" using f(1) domI [where m = owner, OF assms(2)] by (auto simp: bij_betw_def)
  moreover have "v = place (f k)" using bspec [OF f(2) domI [where m = owner, OF assms(2)]] assms(2) by simp
  ultimately show ?thesis by blast
qed

locale allocator =
  fixes step :: "'s \<Rightarrow> 's \<Rightarrow> bool"
    and used :: "'s \<Rightarrow> nat set"
    and owner :: "'s \<Rightarrow> ('k \<rightharpoonup> 'v)"
    and place :: "'s \<Rightarrow> nat \<Rightarrow> 'v"
    and capacity :: "'s \<Rightarrow> nat"
  assumes step_frame: "step s t \<Longrightarrow> place t = place s \<and> capacity t = capacity s"
    and step_alloc: "step s t \<Longrightarrow> used t = used s \<and> owner t = owner s \<or>
      (\<exists>i k. i < capacity s \<and> i \<notin> used s \<and> owner s k = None \<and>
        used t = insert i (used s) \<and> owner t = (owner s)(k \<mapsto> place s i))"
begin

lemma step_consistent:
  assumes "step s t" and "slots_consistent (used s) (owner s) (place s) (capacity s)"
  shows "slots_consistent (used t) (owner t) (place t) (capacity t)"
  using step_alloc [OF assms(1)] step_frame [OF assms(1)] assms(2) by (auto intro: slots_consistent_insert)

lemma run_consistent:
  assumes "step\<^sup>*\<^sup>* s t" and "slots_consistent (used s) (owner s) (place s) (capacity s)"
  shows "slots_consistent (used t) (owner t) (place t) (capacity t)"
  using assms by (induction rule: rtranclp_induct) (auto intro: step_consistent)

lemma run_frame: "step\<^sup>*\<^sup>* s t \<Longrightarrow> place t = place s \<and> capacity t = capacity s"
  by (induction rule: rtranclp_induct) (auto dest: step_frame)

lemma run_keeps:
  assumes "step\<^sup>*\<^sup>* s t"
  shows "used s \<subseteq> used t" and "owner s \<subseteq>\<^sub>m owner t"
proof -
  have "used s \<subseteq> used t \<and> owner s \<subseteq>\<^sub>m owner t"
    using assms
  proof (induction rule: rtranclp_induct)
    case (step t u)
    then show ?case
      using step_alloc [OF step.hyps(2)] by (auto simp: map_le_def dom_def)
  qed simp
  then show "used s \<subseteq> used t" and "owner s \<subseteq>\<^sub>m owner t" by simp_all
qed

end

end
