(* ===== verification/Extent_Mgr.thy ===== *)
theory Extent_Mgr
  imports Pancake_Io Allocator
begin

text \<open>
  \<^verbatim>\<open>PancakeExtentManager\<close> of \<^verbatim>\<open>pancake_extent_mgr.h/.cc\<close>: which extent block of a device
  holds which extent, in memory and in the bitmap blocks of the device. Every operation runs
  under \<^verbatim>\<open>with_lock(mutex_, ...)\<close>, so it is one function of the state; awaiting a write is
  running it. The state holds the \<^verbatim>\<open>PancakeIO\<close> object the shared pointer refers to.
\<close>

section \<open>State\<close>

record 'd PancakeExtentManager =
  em_pancake_io :: "'d PancakeIO"
  em_offset :: u64
  em_bitmap_block_count :: u32
  em_extent_block_count :: u32
  em_extent_block_size :: u32
  em_extent_blocks_offset :: u64
  em_bitmap :: "bool list"
  em_cursor :: u32
  em_used_cnt :: u32
  em_extent_offset_map :: "u64 \<rightharpoonup> u64"

definition new_PancakeExtentManager :: "'d PancakeIO \<Rightarrow> 'd PancakeExtentManager" where
  "new_PancakeExtentManager io = \<lparr>em_pancake_io = io, em_offset = 0, em_bitmap_block_count = 0,
     em_extent_block_count = 0, em_extent_block_size = 0, em_extent_blocks_offset = 0,
     em_bitmap = [], em_cursor = 0, em_used_cnt = 0, em_extent_offset_map = Map.empty\<rparr>"

text \<open>\<^verbatim>\<open>std::vector::resize(n, v)\<close> keeps what fits and fills up with \<open>v\<close>.\<close>

definition vector_resize :: "nat \<Rightarrow> 'a \<Rightarrow> 'a list \<Rightarrow> 'a list" where
  "vector_resize n v xs = take n xs @ replicate (n - length xs) v"

definition Init :: "'d PancakeExtentManager \<Rightarrow> u64 \<Rightarrow> u32 \<Rightarrow> u32 \<Rightarrow> u32 \<Rightarrow> u64
    \<Rightarrow> ErrorCode \<times> 'd PancakeExtentManager" where
  "Init m offset bitmap_block_count extent_block_count extent_block_size extent_blocks_offset =
    (let max_blocks = bitmap_block_count * word_of_nat k_block_data_size
     in if extent_block_count > max_blocks then (DATANODE_STORAGE_FS_INIT_FAILED, m)
        else if \<not> IsBlockAlign offset then (DATANODE_STORAGE_FS_INIT_FAILED, m)
        else if \<not> IsBlockAlign extent_blocks_offset then (DATANODE_STORAGE_FS_INIT_FAILED, m)
        else (PANCAKE_STORE_OK, m\<lparr>em_offset := offset,
               em_bitmap_block_count := bitmap_block_count,
               em_extent_block_count := extent_block_count,
               em_extent_block_size := extent_block_size,
               em_extent_blocks_offset := extent_blocks_offset,
               em_bitmap := vector_resize (unat extent_block_count) False (em_bitmap m),
               em_extent_offset_map := Map.empty\<rparr>))"

section \<open>Where things lie on the device\<close>

definition bitmapIndex :: "u64 \<Rightarrow> u32" where
  "bitmapIndex extent_block_index = ucast (extent_block_index div word_of_nat k_block_data_size)"

text \<open>The product is a 32-bit one.\<close>

definition bitmapBlockDeviceOffset :: "'d PancakeExtentManager \<Rightarrow> u32 \<Rightarrow> u64" where
  "bitmapBlockDeviceOffset m bitmap_block_index =
    em_offset m + ucast (bitmap_block_index * word_of_nat k_block_size)"

definition extentBlockDeviceOffset :: "'d PancakeExtentManager \<Rightarrow> u32 \<Rightarrow> u64" where
  "extentBlockDeviceOffset m extent_block_index =
    ucast extent_block_index * ucast (em_extent_block_size m) + em_extent_blocks_offset m"

section \<open>Bitmap blocks\<close>

text \<open>
  The loop of \<^verbatim>\<open>cloneBitMapBlockWithoutLock\<close>, \<open>n\<close> iterations from \<open>i\<close> on. A byte holds
  one block, in its bit 0 (\<^verbatim>\<open>sizeof(uint8_t)\<close> is 1). Reading the vector past its end is
  undefined.
\<close>

fun clone_bits :: "bool list \<Rightarrow> nat \<Rightarrow> nat \<Rightarrow> nat \<Rightarrow> bytes \<Rightarrow> bytes outcome" where
  "clone_bits bitmap start i 0 bytes = Return bytes"
| "clone_bits bitmap start i (Suc n) bytes =
    (let inner_index = (i - start) div 1; inner_offset = (i - start) mod 1
     in if length bitmap \<le> i then Undefined
        else clone_bits bitmap start (Suc i) n
          (if \<not> bitmap ! i
           then bytes[inner_index := bytes ! inner_index AND NOT (push_bit inner_offset 1)]
           else bytes[inner_index := bytes ! inner_index OR push_bit inner_offset 1]))"

text \<open>
  The indices are \<^verbatim>\<open>int\<close>: a product or sum that does not fit is undefined, and the count
  converts modulo \<open>2 ^ 32\<close>.
\<close>

definition cloneBitMapBlockWithoutLock :: "'d PancakeExtentManager \<Rightarrow> u32 \<Rightarrow> BitMapBlock outcome" where
  "cloneBitMapBlockWithoutLock m ext_block_index =
    (let block_index = sint (bitmapIndex (ucast ext_block_index));
         start = block_index * int k_block_data_size;
         stop = start + int k_block_data_size
     in if 2 ^ 31 \<le> start \<or> 2 ^ 31 \<le> stop then Undefined
        else
          let stop = min stop (sint (em_extent_block_count m))
          in outcome_bind (clone_bits (em_bitmap m) (nat start) (nat start) (nat (stop - start))
               (bm_bitmap zero_BitMapBlock))
             (\<lambda>bytes. Return (zero_BitMapBlock\<lparr>bm_bitmap := bytes\<rparr>)))"

definition markExtentBlockUsed :: "BitMapBlock \<Rightarrow> u32 \<Rightarrow> BitMapBlock" where
  "markExtentBlockUsed b ext_block_index =
    (let inner_ext_index = unat ext_block_index mod k_block_data_size;
         inner_index = inner_ext_index div 1; inner_offset = inner_ext_index mod 1
     in b\<lparr>bm_bitmap := (bm_bitmap b)[inner_index := bm_bitmap b ! inner_index OR push_bit inner_offset 1]\<rparr>)"

definition markExtentBlockUnused :: "BitMapBlock \<Rightarrow> u32 \<Rightarrow> BitMapBlock" where
  "markExtentBlockUnused b ext_block_index =
    (let inner_ext_index = unat ext_block_index mod k_block_data_size;
         inner_index = inner_ext_index div 1; inner_offset = inner_ext_index mod 1
     in b\<lparr>bm_bitmap := (bm_bitmap b)[inner_index := bm_bitmap b ! inner_index AND NOT (push_bit inner_offset 1)]\<rparr>)"

section \<open>Operations\<close>

text \<open>
  The search of \<^verbatim>\<open>AddExtent\<close>, \<open>n\<close> iterations: the index found, or the sentinel
  \<^verbatim>\<open>numeric_limits<uint32_t>::max()\<close>, and the cursor. The remainder by zero and a read past
  the end of the vector are undefined.
\<close>

definition no_block :: u32 where
  "no_block = 0xFFFFFFFF"

fun find_unused :: "u32 \<Rightarrow> bool list \<Rightarrow> nat \<Rightarrow> u32 \<Rightarrow> (u32 \<times> u32) outcome" where
  "find_unused bitmap_block_count bitmap 0 cursor = Return (no_block, cursor)"
| "find_unused bitmap_block_count bitmap (Suc n) cursor =
    (if bitmap_block_count = 0 then Undefined
     else
       let cursor = cursor mod bitmap_block_count
       in if length bitmap \<le> unat cursor then Undefined
          else if \<not> bitmap ! unat cursor then Return (cursor, cursor + 1)
          else find_unused bitmap_block_count bitmap n (cursor + 1))"

text \<open>
  The tail both operations share: clone the bitmap block, mark one block of it, fill the footer
  and write the block.
\<close>

definition write_bitmap_block :: "'d file_api \<Rightarrow> platform \<Rightarrow> (BitMapBlock \<Rightarrow> u32 \<Rightarrow> BitMapBlock)
    \<Rightarrow> 'd PancakeExtentManager \<Rightarrow> u32 \<Rightarrow> (ErrorCode \<times> 'd PancakeExtentManager) outcome" where
  "write_bitmap_block F P mark m index =
    outcome_bind (cloneBitMapBlockWithoutLock m index) (\<lambda>bitmap_block.
      let bitmap_block = mark bitmap_block index;
          bitmap_block = bitmap_block\<lparr>bm_footer :=
            FillWithoutExtentId (word_of_nat k_block_data_size) (bm_footer bitmap_block)\<rparr>;
          bitmap_block_offset = bitmapBlockDeviceOffset m (bitmapIndex (ucast index))
      in outcome_bind (BitMapBlock_Serialize P bitmap_block) (\<lambda>(bitmap_block_bytes, _).
         outcome_bind (WriteAt F (em_pancake_io m) bitmap_block_offset bitmap_block_bytes) (\<lambda>(err_code, io).
         Return (err_code, m\<lparr>em_pancake_io := io\<rparr>))))"

definition AddExtent :: "'d file_api \<Rightarrow> platform \<Rightarrow> 'd PancakeExtentManager \<Rightarrow> ExtentHeaderBlock
    \<Rightarrow> (ErrorCode \<times> 'd PancakeExtentManager \<times> ExtentHeaderBlock) outcome" where
  "AddExtent F P m ext_header =
    (if em_extent_offset_map m (eh_extent_id ext_header) \<noteq> None
     then Return (DATANODE_STORAGE_EXTENT_ALREADY_EXISTS, m, ext_header)
     else if em_used_cnt m = em_extent_block_count m
     then Return (DATANODE_STORAGE_FS_FULL, m, ext_header)
     else outcome_bind (find_unused (em_bitmap_block_count m) (em_bitmap m)
            (unat (em_extent_block_count m)) (em_cursor m)) (\<lambda>(ext_block_index, cursor).
       let m = m\<lparr>em_cursor := cursor\<rparr>
       in if ext_block_index = no_block then Return (PANCAKE_STORE_CODE_ERROR, m, ext_header)
          else
            let ext_device_offset = extentBlockDeviceOffset m ext_block_index;
                ext_header = ext_header\<lparr>eh_bitmap_ext_index := ext_block_index\<rparr>
            in outcome_bind (ExtentHeaderBlock_Serialize P ext_header) (\<lambda>(ext_header_bytes, ext_header).
               outcome_bind (WriteAt F (em_pancake_io m) ext_device_offset ext_header_bytes) (\<lambda>(err_code, io).
               let m = m\<lparr>em_pancake_io := io\<rparr>
               in if IsNotOk err_code then Return (err_code, m, ext_header)
                  else outcome_bind (write_bitmap_block F P markExtentBlockUsed m ext_block_index) (\<lambda>(err_code, m).
                    if IsNotOk err_code then Return (err_code, m, ext_header)
                    else Return (PANCAKE_STORE_OK,
                      m\<lparr>em_bitmap := (em_bitmap m)[unat ext_block_index := True],
                        em_extent_offset_map := (em_extent_offset_map m)(eh_extent_id ext_header \<mapsto> ext_device_offset)\<rparr>,
                      ext_header))))))"

text \<open>
  \<open>tmp\<close> is the indeterminate content of the local \<^verbatim>\<open>tmp_ext_header\<close>. An extent that is not
  in the map is only logged: the code goes on. Assigning past the end of the vector is undefined.
\<close>

definition DelExtent :: "'d file_api \<Rightarrow> platform \<Rightarrow> ExtentHeaderBlock \<Rightarrow> 'd PancakeExtentManager
    \<Rightarrow> ExtentHeaderBlock \<Rightarrow> (ErrorCode \<times> 'd PancakeExtentManager) outcome" where
  "DelExtent F P tmp m ext_header =
    (let index = eh_bitmap_ext_index ext_header;
         extent_block_offset = extentBlockDeviceOffset m index
     in outcome_bind (ReadAt F (em_pancake_io m) extent_block_offset (word_of_nat k_block_size) [])
          (\<lambda>(err_code, read_buf).
        if IsNotOk err_code then Return (err_code, m)
        else case ExtentHeaderBlock_Deserialize P tmp read_buf of (err_code, tmp_ext_header) \<Rightarrow>
          if IsNotOk err_code then Return (err_code, m)
          else if eh_extent_id tmp_ext_header \<noteq> eh_extent_id ext_header
          then Return (DATANODE_STORAGE_INTERNAL_ERROR, m)
          else outcome_bind (write_bitmap_block F P markExtentBlockUnused m index) (\<lambda>(err_code, m).
            if IsNotOk err_code then Return (err_code, m)
            else if length (em_bitmap m) \<le> unat index then Undefined
            else Return (PANCAKE_STORE_OK, m\<lparr>em_bitmap := (em_bitmap m)[unat index := False]\<rparr>))))"

definition CurrentAllocCount :: "'d PancakeExtentManager \<Rightarrow> u32" where
  "CurrentAllocCount m = em_used_cnt m"

definition CurrentFreeCount :: "'d PancakeExtentManager \<Rightarrow> u32" where
  "CurrentFreeCount m = em_extent_block_count m - em_used_cnt m"

section \<open>The search\<close>

lemma cursor_less: "0 < nb \<Longrightarrow> unat ((c :: u32) mod nb) < unat nb"
  by (simp add: word_gt_0_no word_mod_less_divisor flip: word_less_nat_alt)

lemma cursor_Suc: "0 < nb \<Longrightarrow> unat ((c :: u32) mod nb + 1) = unat c mod unat nb + 1"
  using cursor_less [of nb c] unsigned_less [of nb, where ?'a = nat]
  by (subst unat_plus_if') (simp add: unat_mod)

lemma find_unused_total:
  assumes "0 < nb" and "unat nb \<le> length bitmap"
  shows "\<exists>i c. find_unused nb bitmap n cursor = Return (i, c)"
proof (induction n arbitrary: cursor)
  case (Suc n)
  have "unat (cursor mod nb) < length bitmap" using cursor_less [OF assms(1)] assms(2) by (rule order.strict_trans2)
  moreover have "nb \<noteq> 0" using assms(1) by auto
  ultimately show ?case using Suc.IH by (simp add: Let_def)
qed simp

lemma find_unused_found:
  assumes "find_unused nb bitmap n cursor = Return (i, c)" and "i \<noteq> no_block"
  shows "unat i < unat nb \<and> unat i < length bitmap \<and> \<not> bitmap ! unat i \<and> c = i + 1"
  using assms
proof (induction n arbitrary: cursor)
  case (Suc n)
  have "nb \<noteq> 0" using Suc.prems by auto
  then have "0 < nb" by (simp add: word_neq_0_conv)
  then show ?case
    using Suc cursor_less [of nb cursor] by (auto simp: Let_def not_le split: if_splits)
qed simp

lemma find_unused_none:
  assumes "find_unused nb bitmap n cursor = Return (no_block, c)" and "k < n"
  shows "bitmap ! ((unat cursor + k) mod unat nb)"
  using assms
proof (induction n arbitrary: cursor k)
  case (Suc n)
  have "nb \<noteq> 0" using Suc.prems by auto
  then have nb: "0 < nb" by (simp add: word_neq_0_conv)
  have "cursor mod nb \<noteq> no_block"
    using cursor_less [OF nb, of cursor] unsigned_less [of nb, where ?'a = nat] by (auto simp: no_block_def)
  then have head: "bitmap ! unat (cursor mod nb)"
    and rest: "find_unused nb bitmap n (cursor mod nb + 1) = Return (no_block, c)"
    using Suc.prems nb by (auto simp: Let_def split: if_splits)
  show ?case
  proof (cases k)
    case 0
    then show ?thesis using head by (simp add: unat_mod)
  next
    case (Suc k')
    then have "bitmap ! ((unat (cursor mod nb + 1) + k') mod unat nb)"
      using Suc.IH [OF rest] Suc.prems(2) by simp
    moreover have "(unat cursor mod unat nb + 1 + k') mod unat nb = (unat cursor + k) mod unat nb"
      unfolding Suc by (simp only: add.assoc mod_add_left_eq) simp
    ultimately show ?thesis by (simp only: cursor_Suc [OF nb])
  qed
qed simp

lemma find_unused_all_used:
  assumes "find_unused nb bitmap n cursor = Return (no_block, c)" and "unat nb \<le> n" and "i < unat nb"
  shows "bitmap ! i"
proof -
  define k where "k = (i + (unat nb - unat cursor mod unat nb)) mod unat nb"
  have c: "unat cursor mod unat nb < unat nb" using assms(3) by simp
  have "(unat cursor + k) mod unat nb = (unat cursor mod unat nb + (i + (unat nb - unat cursor mod unat nb))) mod unat nb"
    unfolding k_def by (simp only: mod_simps)
  also have "\<dots> = (i + unat nb) mod unat nb" using c by (simp add: algebra_simps)
  also have "\<dots> = i" using assms(3) by simp
  finally have "(unat cursor + k) mod unat nb = i" .
  moreover have "k < unat nb" using assms(3) by (simp add: k_def)
  then have "k < n" using assms(2) by simp
  ultimately show ?thesis using find_unused_none [OF assms(1)] by blast
qed

section \<open>Bitmap blocks\<close>

text \<open>One byte per block, and the bytes of bitmap block \<open>j\<close>, zeros behind the last block.\<close>

definition block_bytes :: "bool list \<Rightarrow> bytes" where
  "block_bytes = map (\<lambda>b. if b then 1 else 0)"

definition slice_bytes :: "bool list \<Rightarrow> nat \<Rightarrow> bytes" where
  "slice_bytes bitmap j =
    (let s = take 4064 (drop (j * 4064) bitmap) in block_bytes s @ replicate (4064 - length s) 0)"

lemma length_block_bytes [simp]: "length (block_bytes bs) = length bs"
  by (simp add: block_bytes_def)

lemma length_slice_bytes [simp]: "length (slice_bytes bitmap j) = 4064"
  by (simp add: slice_bytes_def Let_def)

lemma slice_bytes_nth:
  "i < 4064 \<Longrightarrow> slice_bytes bitmap j ! i =
    (if j * 4064 + i < length bitmap \<and> bitmap ! (j * 4064 + i) then 1 else 0)"
  by (auto simp: slice_bytes_def Let_def nth_append block_bytes_def)

lemma clone_bits_eq:
  assumes "i = start + length pre" and "0 < n \<longrightarrow> i + n \<le> length bitmap" and "n \<le> q"
  shows "clone_bits bitmap start i n (pre @ replicate q 0) =
    Return (pre @ block_bytes (take n (drop i bitmap)) @ replicate (q - n) 0)"
  using assms
proof (induction n arbitrary: i pre q)
  case (Suc n)
  then obtain q' where q: "q = Suc q'" by (cases q) auto
  have i: "i < length bitmap" using Suc.prems by simp
  have "clone_bits bitmap start i (Suc n) (pre @ replicate q 0) =
      clone_bits bitmap start (Suc i) n ((pre @ [if bitmap ! i then 1 else 0]) @ replicate q' 0)"
    using i by (simp add: Suc.prems(1) q Let_def nth_append list_update_append)
  also have "\<dots> = Return ((pre @ [if bitmap ! i then 1 else 0]) @ block_bytes (take n (drop (Suc i) bitmap))
      @ replicate (q' - n) 0)"
    using Suc.prems by (intro Suc.IH) (simp_all add: q)
  also have "(pre @ [if bitmap ! i then 1 else 0]) @ block_bytes (take n (drop (Suc i) bitmap))
      @ replicate (q' - n) 0 = pre @ block_bytes (take (Suc n) (drop i bitmap)) @ replicate (q - Suc n) 0"
    using i by (simp add: q block_bytes_def Cons_nth_drop_Suc [OF i, symmetric])
  finally show ?case .
qed (simp add: block_bytes_def)

text \<open>The bitmap block the code writes for block \<open>j\<close> of a vector.\<close>

definition bitmap_block_of :: "bool list \<Rightarrow> nat \<Rightarrow> BitMapBlock" where
  "bitmap_block_of bitmap j = \<lparr>bm_bitmap = slice_bytes bitmap j,
     bm_footer = FillWithoutExtentId (word_of_nat k_block_data_size) zero_footer\<rparr>"

lemma wf_bitmap_block_of [simp]: "wf_BitMapBlock (bitmap_block_of bitmap j)"
  by (simp add: bitmap_block_of_def wf_simps FillWithoutExtentId_def zero_footer_def)

lemma unat_bitmapIndex: "unat (bitmapIndex (ucast (i :: u32))) = unat i div 4064"
proof -
  have "unat i div 4064 < 2 ^ 32"
    using unsigned_less [of i, where ?'a = nat] div_le_dividend [of "unat i" 4064] by simp
  then show ?thesis by (simp add: bitmapIndex_def unat_ucast unat_div)
qed

lemma sint_small:
  assumes "unat (w :: u32) < 2 ^ 31"
  shows "sint w = int (unat w)"
proof -
  have "int (unat w) < int (2 ^ 31)" using assms by (simp only: of_nat_less_iff)
  then have "uint w < 2 ^ 31" by simp
  moreover have "- (2 ^ 31) \<le> uint w" by (rule order_trans [OF _ unsigned_greater_eq]) simp
  ultimately show ?thesis by (simp add: sint_uint signed_take_bit_int_eq_self)
qed

lemma sint_large:
  assumes "2 ^ 31 \<le> unat (w :: u32)"
  shows "sint w < 0"
proof -
  have "int (2 ^ 31) \<le> int (unat w)" using assms by (simp only: of_nat_le_iff)
  then have "2 ^ 31 \<le> uint w" by simp
  moreover have "uint w < 2 ^ 32" using unsigned_less [of w, where ?'a = int] by simp
  ultimately show ?thesis
    by (simp add: sint_uint signed_take_bit_eq_take_bit_shift take_bit_eq_mod mod_pos_geq mod_pos_pos_trivial)
qed

text \<open>
  For counts that fit into \<^verbatim>\<open>int\<close> the clone is the slice of the vector; beyond, the loop
  bound is negative and the clone is empty.
\<close>

lemma clone_start_less:
  assumes "unat i + 8128 \<le> 2 ^ 31"
  shows "cloneBitMapBlockWithoutLock m i =
    (let start = unat i div 4064 * 4064;
         stop = min (int start + 4064) (sint (em_extent_block_count m))
     in outcome_bind (clone_bits (em_bitmap m) start start (nat (stop - int start)) (replicate 4064 0))
          (\<lambda>bytes. Return (zero_BitMapBlock\<lparr>bm_bitmap := bytes\<rparr>)))"
proof -
  have le: "unat i div 4064 * 4064 \<le> unat i" by simp
  have "unat i div 4064 < 2 ^ 31" using assms div_le_dividend [of "unat i" 4064] by linarith
  then have s: "sint (bitmapIndex (ucast i)) = int (unat i div 4064)"
    by (simp add: sint_small unat_bitmapIndex)
  have "int d * 4064 + 4064 < 2147483648" if "d * 4064 \<le> n" and "n + 8128 \<le> 2147483648" for d n :: nat
    using that by linarith
  from this [OF le] have "int (unat i div 4064) * 4064 + 4064 < 2147483648" using assms by simp
  then have "\<not> 2 ^ 31 \<le> int (unat i div 4064) * 4064 + 4064" "\<not> 2 ^ 31 \<le> int (unat i div 4064) * 4064"
    by simp_all
  moreover have "nat (int (unat i div 4064) * 4064) = unat i div 4064 * 4064" by simp
  ultimately show ?thesis
    by (simp add: cloneBitMapBlockWithoutLock_def Let_def s zero_BitMapBlock_def)
qed

lemma clone_eq:
  assumes "length (em_bitmap m) = unat (em_extent_block_count m)" and "unat (em_extent_block_count m) < 2 ^ 31"
    and "unat i + 8128 \<le> 2 ^ 31"
  shows "cloneBitMapBlockWithoutLock m i =
    Return (zero_BitMapBlock\<lparr>bm_bitmap := slice_bytes (em_bitmap m) (unat i div 4064)\<rparr>)"
proof -
  let ?s = "unat i div 4064 * 4064" and ?n = "length (em_bitmap m)"
  have "nat (min (int s + 4064) (int k) - int s) = min 4064 (k - s)" for s k :: nat
    by linarith
  then have stop: "nat (min (int ?s + 4064) (sint (em_extent_block_count m)) - int ?s) = min 4064 (?n - ?s)"
    using assms(1,2) by (simp only: sint_small)
  have "clone_bits (em_bitmap m) ?s ?s (min 4064 (?n - ?s)) ([] @ replicate 4064 0) =
      Return ([] @ block_bytes (take (min 4064 (?n - ?s)) (drop ?s (em_bitmap m))) @ replicate (4064 - min 4064 (?n - ?s)) 0)"
    by (rule clone_bits_eq) auto
  moreover have "take (min 4064 (?n - ?s)) (drop ?s (em_bitmap m)) = take 4064 (drop ?s (em_bitmap m))"
    by (auto simp: min_def)
  ultimately have "clone_bits (em_bitmap m) ?s ?s (min 4064 (?n - ?s)) (replicate 4064 0) =
      Return (slice_bytes (em_bitmap m) (unat i div 4064))"
    by (simp add: slice_bytes_def Let_def min.commute)
  then show ?thesis
    unfolding clone_start_less [OF assms(3)] Let_def stop by simp
qed

lemma clone_beyond_int:
  assumes "2 ^ 31 \<le> unat (em_extent_block_count m)" and "unat i + 8128 \<le> 2 ^ 31"
  shows "cloneBitMapBlockWithoutLock m i = Return zero_BitMapBlock"
proof -
  have "sint (em_extent_block_count m) < 0"
    using assms(1) by (rule sint_large)
  then show ?thesis by (simp add: clone_start_less [OF assms(2)] Let_def zero_BitMapBlock_def)
qed

text \<open>Marking block \<open>i\<close> in the clone is cloning the vector with block \<open>i\<close> changed.\<close>

lemma slice_bytes_update:
  assumes "i < length bitmap"
  shows "(slice_bytes bitmap (i div 4064))[i mod 4064 := if v then 1 else 0] = slice_bytes (bitmap[i := v]) (i div 4064)"
proof (rule nth_equalityI)
  fix k assume "k < length ((slice_bytes bitmap (i div 4064))[i mod 4064 := if v then 1 else 0])"
  then have k: "k < 4064" by simp
  have "i div 4064 * 4064 + k = i \<longleftrightarrow> k = i mod 4064"
    using div_mult_mod_eq [of i 4064] by linarith
  then show "(slice_bytes bitmap (i div 4064))[i mod 4064 := if v then 1 else 0] ! k =
      slice_bytes (bitmap[i := v]) (i div 4064) ! k"
    using k assms by (auto simp: slice_bytes_nth nth_list_update)
qed simp

lemma slice_bytes_other:
  assumes "j \<noteq> i div 4064"
  shows "slice_bytes (bitmap[i := v]) j = slice_bytes bitmap j"
proof (rule nth_equalityI)
  fix k assume "k < length (slice_bytes (bitmap[i := v]) j)"
  then have k: "k < 4064" by simp
  have "i \<noteq> j * 4064 + k" using assms k by (auto simp: div_nat_eqI)
  then show "slice_bytes (bitmap[i := v]) j ! k = slice_bytes bitmap j ! k"
    using k by (simp add: slice_bytes_nth)
qed simp

lemma mark_used_slice:
  assumes "unat i < length bitmap"
  shows "(markExtentBlockUsed (b\<lparr>bm_bitmap := slice_bytes bitmap (unat i div 4064)\<rparr>) i) =
    b\<lparr>bm_bitmap := slice_bytes (bitmap[unat i := True]) (unat i div 4064)\<rparr>"
proof -
  have "slice_bytes bitmap (unat i div 4064) ! (unat i mod 4064) OR 1 = (1 :: u8)"
    by (simp add: slice_bytes_nth)
  then show ?thesis
    using slice_bytes_update [OF assms, of True] by (simp add: markExtentBlockUsed_def Let_def)
qed

lemma mark_unused_slice:
  assumes "unat i < length bitmap"
  shows "(markExtentBlockUnused (b\<lparr>bm_bitmap := slice_bytes bitmap (unat i div 4064)\<rparr>) i) =
    b\<lparr>bm_bitmap := slice_bytes (bitmap[unat i := False]) (unat i div 4064)\<rparr>"
proof -
  have "slice_bytes bitmap (unat i div 4064) ! (unat i mod 4064) AND NOT 1 = (0 :: u8)"
    by (simp add: slice_bytes_nth)
  then show ?thesis
    using slice_bytes_update [OF assms, of False] by (simp add: markExtentBlockUnused_def Let_def)
qed

section \<open>What an operation leaves behind\<close>

lemma write_bitmap_block_frame:
  "write_bitmap_block F P mark m i = Return (e, m') \<Longrightarrow> \<exists>io. m' = m\<lparr>em_pancake_io := io\<rparr>"
  by (auto simp: write_bitmap_block_def outcome_bind_Return_iff Let_def split: prod.splits)

text \<open>
  Under the conditions of the code's own use the block written is the one of the vector with
  block \<open>i\<close> changed.
\<close>

lemma write_bitmap_block_eq:
  assumes mark: "\<And>b. mark (b\<lparr>bm_bitmap := slice_bytes (em_bitmap m) (unat i div 4064)\<rparr>) i =
      b\<lparr>bm_bitmap := slice_bytes ((em_bitmap m)[unat i := v]) (unat i div 4064)\<rparr>"
    and "length (em_bitmap m) = unat (em_extent_block_count m)" and "unat (em_extent_block_count m) < 2 ^ 31"
    and "unat i + 8128 \<le> 2 ^ 31"
  obtains bs b where "BitMapBlock_Serialize P (bitmap_block_of ((em_bitmap m)[unat i := v]) (unat i div 4064)) = Return (bs, b)"
    and "length bs = k_block_size"
    and "write_bitmap_block F P mark m i =
      outcome_bind (WriteAt F (em_pancake_io m) (bitmapBlockDeviceOffset m (bitmapIndex (ucast i))) bs)
        (\<lambda>(e, io). Return (e, m\<lparr>em_pancake_io := io\<rparr>))"
proof -
  let ?b = "bitmap_block_of ((em_bitmap m)[unat i := v]) (unat i div 4064)"
  obtain bs b where ser: "BitMapBlock_Serialize P ?b = Return (bs, b)" and len: "length bs = k_block_size"
    using BitMapBlock_Serialize_eq [OF wf_bitmap_block_of, of P] by (auto simp: k_block_size_eq)
  have block: "(mark (zero_BitMapBlock\<lparr>bm_bitmap := slice_bytes (em_bitmap m) (unat i div 4064)\<rparr>) i)
      \<lparr>bm_footer := FillWithoutExtentId (word_of_nat k_block_data_size)
        (bm_footer (mark (zero_BitMapBlock\<lparr>bm_bitmap := slice_bytes (em_bitmap m) (unat i div 4064)\<rparr>) i))\<rparr> = ?b"
    unfolding mark by (simp add: bitmap_block_of_def zero_BitMapBlock_def)
  have "write_bitmap_block F P mark m i =
      outcome_bind (WriteAt F (em_pancake_io m) (bitmapBlockDeviceOffset m (bitmapIndex (ucast i))) bs)
        (\<lambda>(e, io). Return (e, m\<lparr>em_pancake_io := io\<rparr>))"
    unfolding write_bitmap_block_def clone_eq [OF assms(2-4)] outcome_bind.simps Let_def block ser prod.case ..
  then show thesis using ser len that by blast
qed

lemma ExtentHeaderBlock_Serialize_keeps:
  "ExtentHeaderBlock_Serialize P h = Return (bs, h') \<Longrightarrow>
    eh_extent_id h' = eh_extent_id h \<and> eh_bitmap_ext_index h' = eh_bitmap_ext_index h"
  by (auto simp: ExtentHeaderBlock_Serialize_def Let_def cpp_assert_def split: if_splits)

lemma AddExtent_OK:
  assumes "AddExtent F P m h = Return (PANCAKE_STORE_OK, m', h')"
  obtains i c bs io io' where "em_extent_offset_map m (eh_extent_id h) = None"
    and "find_unused (em_bitmap_block_count m) (em_bitmap m) (unat (em_extent_block_count m)) (em_cursor m) = Return (i, c)"
    and "i \<noteq> no_block"
    and "ExtentHeaderBlock_Serialize P (h\<lparr>eh_bitmap_ext_index := i\<rparr>) = Return (bs, h')"
    and "WriteAt F (em_pancake_io m) (extentBlockDeviceOffset m i) bs = Return (PANCAKE_STORE_OK, io)"
    and "write_bitmap_block F P markExtentBlockUsed (m\<lparr>em_cursor := c, em_pancake_io := io\<rparr>) i =
      Return (PANCAKE_STORE_OK, m\<lparr>em_cursor := c, em_pancake_io := io'\<rparr>)"
    and "m' = m\<lparr>em_cursor := c, em_pancake_io := io', em_bitmap := (em_bitmap m)[unat i := True],
      em_extent_offset_map := (em_extent_offset_map m)(eh_extent_id h \<mapsto> extentBlockDeviceOffset m i)\<rparr>"
proof -
  from assms obtain i c bs io m2 where 1: "em_extent_offset_map m (eh_extent_id h) = None"
    "find_unused (em_bitmap_block_count m) (em_bitmap m) (unat (em_extent_block_count m)) (em_cursor m) = Return (i, c)"
    "i \<noteq> no_block" "ExtentHeaderBlock_Serialize P (h\<lparr>eh_bitmap_ext_index := i\<rparr>) = Return (bs, h')"
    "WriteAt F (em_pancake_io m) (extentBlockDeviceOffset m i) bs = Return (PANCAKE_STORE_OK, io)"
    and w: "write_bitmap_block F P markExtentBlockUsed (m\<lparr>em_cursor := c, em_pancake_io := io\<rparr>) i =
      Return (PANCAKE_STORE_OK, m2)"
    and m': "m' = m2\<lparr>em_bitmap := (em_bitmap m2)[unat i := True],
      em_extent_offset_map := (em_extent_offset_map m2)(eh_extent_id h' \<mapsto> extentBlockDeviceOffset m i)\<rparr>"
    by (auto simp: AddExtent_def outcome_bind_Return_iff Let_def extentBlockDeviceOffset_def IsNotOk_def
        split: if_splits prod.splits)
  from write_bitmap_block_frame [OF w] obtain io' where m2: "m2 = m\<lparr>em_cursor := c, em_pancake_io := io'\<rparr>"
    by auto
  have "eh_extent_id h' = eh_extent_id h"
    using ExtentHeaderBlock_Serialize_keeps [OF 1(4)] by simp
  then show thesis using 1 w m' by (intro that [of i c bs io io']) (simp_all add: m2)
qed

lemma AddExtent_error_frame:
  assumes "AddExtent F P m h = Return (e, m', h')" and "e \<noteq> PANCAKE_STORE_OK"
  shows "m' = m\<lparr>em_cursor := em_cursor m', em_pancake_io := em_pancake_io m'\<rparr>"
  using assms by (auto simp: AddExtent_def outcome_bind_Return_iff Let_def IsNotOk_def
      split: if_splits prod.splits dest!: write_bitmap_block_frame)

section \<open>Steps and reachable states\<close>

inductive mgr_step :: "'d file_api \<Rightarrow> platform \<Rightarrow> 'd PancakeExtentManager \<Rightarrow> 'd PancakeExtentManager \<Rightarrow> bool"
  for F :: "'d file_api" and P :: platform where
  step_Init: "Init m off nb cnt block_size ext_off = (e, m') \<Longrightarrow> mgr_step F P m m'"
| step_AddExtent: "AddExtent F P m h = Return (e, m', h') \<Longrightarrow> mgr_step F P m m'"
| step_DelExtent: "DelExtent F P tmp m h = Return (e, m') \<Longrightarrow> mgr_step F P m m'"

inductive add_step :: "'d file_api \<Rightarrow> platform \<Rightarrow> 'd PancakeExtentManager \<Rightarrow> 'd PancakeExtentManager \<Rightarrow> bool"
  for F :: "'d file_api" and P :: platform where
  add: "AddExtent F P m h = Return (e, m', h') \<Longrightarrow> add_step F P m m'"

inductive_cases mgr_stepE: "mgr_step F P m m'"
inductive_simps add_step_iff: "add_step F P m m'"

definition used_blocks :: "'d PancakeExtentManager \<Rightarrow> nat set" where
  "used_blocks m = {i. i < length (em_bitmap m) \<and> em_bitmap m ! i}"

definition block_place :: "'d PancakeExtentManager \<Rightarrow> nat \<Rightarrow> u64" where
  "block_place m i = extentBlockDeviceOffset m (word_of_nat i)"

lemma AddExtent_frame:
  assumes "AddExtent F P m h = Return (e, m', h')"
  shows "em_offset m' = em_offset m" "em_bitmap_block_count m' = em_bitmap_block_count m"
    "em_extent_block_count m' = em_extent_block_count m" "em_extent_block_size m' = em_extent_block_size m"
    "em_extent_blocks_offset m' = em_extent_blocks_offset m" "em_used_cnt m' = em_used_cnt m"
    "length (em_bitmap m') = length (em_bitmap m)"
proof -
  have "em_offset m' = em_offset m \<and> em_bitmap_block_count m' = em_bitmap_block_count m \<and>
    em_extent_block_count m' = em_extent_block_count m \<and> em_extent_block_size m' = em_extent_block_size m \<and>
    em_extent_blocks_offset m' = em_extent_blocks_offset m \<and> em_used_cnt m' = em_used_cnt m \<and>
    length (em_bitmap m') = length (em_bitmap m)"
  proof (cases "e = PANCAKE_STORE_OK")
    case True
    then show ?thesis using assms by (auto elim!: AddExtent_OK)
  next
    case False
    show ?thesis by (subst (1 2 3 4 5 6 7) AddExtent_error_frame [OF assms False]) simp
  qed
  then show "em_offset m' = em_offset m" "em_bitmap_block_count m' = em_bitmap_block_count m"
    "em_extent_block_count m' = em_extent_block_count m" "em_extent_block_size m' = em_extent_block_size m"
    "em_extent_blocks_offset m' = em_extent_blocks_offset m" "em_used_cnt m' = em_used_cnt m"
    "length (em_bitmap m') = length (em_bitmap m)" by simp_all
qed

lemma block_place_eq: "block_place m i =
    ucast (word_of_nat i :: u32) * ucast (em_extent_block_size m) + em_extent_blocks_offset m"
  by (simp add: block_place_def extentBlockDeviceOffset_def)

lemma AddExtent_alloc:
  assumes "AddExtent F P m h = Return (PANCAKE_STORE_OK, m', h')"
  shows "\<exists>i. i < unat (em_bitmap_block_count m) \<and> i < length (em_bitmap m) \<and> \<not> em_bitmap m ! i \<and>
    em_extent_offset_map m (eh_extent_id h) = None \<and> em_bitmap m' = (em_bitmap m)[i := True] \<and>
    em_extent_offset_map m' = (em_extent_offset_map m)(eh_extent_id h \<mapsto> block_place m i)"
  using assms
proof (rule AddExtent_OK)
  fix i c bs io io'
  assume "find_unused (em_bitmap_block_count m) (em_bitmap m) (unat (em_extent_block_count m)) (em_cursor m) = Return (i, c)"
    and "i \<noteq> no_block" and "em_extent_offset_map m (eh_extent_id h) = None"
    and m': "m' = m\<lparr>em_cursor := c, em_pancake_io := io', em_bitmap := (em_bitmap m)[unat i := True],
      em_extent_offset_map := (em_extent_offset_map m)(eh_extent_id h \<mapsto> extentBlockDeviceOffset m i)\<rparr>"
  then show ?thesis
    using find_unused_found [of "em_bitmap_block_count m" "em_bitmap m" "unat (em_extent_block_count m)" "em_cursor m" i c]
    by (intro exI [of _ "unat i"]) (simp add: block_place_def)
qed

interpretation extents: allocator "add_step F P" used_blocks em_extent_offset_map block_place
  "\<lambda>m. unat (em_bitmap_block_count m)" for F :: "'d file_api" and P
proof
  fix m m' :: "'d PancakeExtentManager"
  assume "add_step F P m m'"
  then obtain h e h' where add: "AddExtent F P m h = Return (e, m', h')" by (auto simp: add_step_iff)
  show "block_place m' = block_place m \<and> unat (em_bitmap_block_count m') = unat (em_bitmap_block_count m)"
    by (simp add: fun_eq_iff block_place_eq AddExtent_frame [OF add])
  show "used_blocks m' = used_blocks m \<and> em_extent_offset_map m' = em_extent_offset_map m \<or>
      (\<exists>i k. i < unat (em_bitmap_block_count m) \<and> i \<notin> used_blocks m \<and> em_extent_offset_map m k = None \<and>
        used_blocks m' = insert i (used_blocks m) \<and>
        em_extent_offset_map m' = (em_extent_offset_map m)(k \<mapsto> block_place m i))"
  proof (cases "e = PANCAKE_STORE_OK")
    case True
    with AddExtent_alloc add obtain i where "i < unat (em_bitmap_block_count m)" "i < length (em_bitmap m)"
      "\<not> em_bitmap m ! i" "em_extent_offset_map m (eh_extent_id h) = None" "em_bitmap m' = (em_bitmap m)[i := True]"
      "em_extent_offset_map m' = (em_extent_offset_map m)(eh_extent_id h \<mapsto> block_place m i)" by blast
    then show ?thesis
      by (intro disjI2 exI [of _ i] exI [of _ "eh_extent_id h"]) (auto simp: used_blocks_def nth_list_update)
  next
    case False
    have "em_bitmap m' = em_bitmap m \<and> em_extent_offset_map m' = em_extent_offset_map m"
      by (subst (1 2) AddExtent_error_frame [OF add False]) simp
    then show ?thesis by (simp add: used_blocks_def)
  qed
qed

end
