(* ===== verification/Extent_Allocation.thy ===== *)
theory Extent_Allocation
  imports Extent_Mgr
begin

text \<open>
  What \<^verbatim>\<open>PancakeExtentManager\<close> does with its memory state: initialisation, the reachable
  states, which block an extent gets, when the search fails, and that no two extents share a
  block. The device is looked at in \<open>Extent_Persistence\<close>.
\<close>

section \<open>Initialisation\<close>

lemma length_vector_resize [simp]: "length (vector_resize n v xs) = n"
  by (simp add: vector_resize_def)

lemma nth_vector_resize: "i < n \<Longrightarrow> vector_resize n v xs ! i = (if i < length xs then xs ! i else v)"
  by (simp add: vector_resize_def nth_append)

lemma Init_cases:
  assumes "Init m off nb cnt bsize ext_off = (e, m')"
  shows "e = DATANODE_STORAGE_FS_INIT_FAILED \<and> m' = m \<or>
    e = PANCAKE_STORE_OK \<and> m' = m\<lparr>em_offset := off, em_bitmap_block_count := nb, em_extent_block_count := cnt,
      em_extent_block_size := bsize, em_extent_blocks_offset := ext_off,
      em_bitmap := vector_resize (unat cnt) False (em_bitmap m), em_extent_offset_map := Map.empty\<rparr>"
  using assms by (auto simp: Init_def Let_def split: if_splits)

text \<open>
  \<^verbatim>\<open>Init\<close> accepts exactly the block-aligned offsets with an extent count that is at most
  the product of bitmap blocks and 4064 \<^emph>\<open>modulo\<close> \<open>2 ^ 32\<close>; otherwise it changes nothing.
  An accepted call sizes the vector to the count and forgets every extent.
\<close>

theorem Init_spec:
  fixes m :: "'d PancakeExtentManager"
  shows "Init m off nb cnt bsize ext_off =
    (if unat cnt \<le> unat nb * 4064 mod 2 ^ 32 \<and> 4096 dvd unat off \<and> 4096 dvd unat ext_off
     then (PANCAKE_STORE_OK, m\<lparr>em_offset := off, em_bitmap_block_count := nb, em_extent_block_count := cnt,
       em_extent_block_size := bsize, em_extent_blocks_offset := ext_off,
       em_bitmap := map (\<lambda>i. i < length (em_bitmap m) \<and> em_bitmap m ! i) [0..<unat cnt],
       em_extent_offset_map := Map.empty\<rparr>)
     else (DATANODE_STORAGE_FS_INIT_FAILED, m))"
proof -
  have "vector_resize (unat cnt) False (em_bitmap m) = map (\<lambda>i. i < length (em_bitmap m) \<and> em_bitmap m ! i) [0..<unat cnt]"
    by (intro nth_equalityI) (auto simp: nth_vector_resize)
  moreover have "unat (nb * 4064) = unat nb * 4064 mod 2 ^ 32"
    by (simp add: unat_word_ariths)
  ultimately show ?thesis
    by (auto simp: Init_def Let_def IsBlockAlign_iff word_less_nat_alt)
qed

text \<open>
  \<^verbatim>\<open>Init\<close> on a manager that is in use keeps the used blocks and the cursor but not the
  extents: with no fewer blocks than before, exactly the old blocks stay taken, and no extent
  owns them any more.
\<close>

theorem Init_again_leaks:
  assumes "Init m off nb cnt bsize ext_off = (PANCAKE_STORE_OK, m')"
    and "length (em_bitmap m) \<le> unat cnt"
  shows "used_blocks m' = used_blocks m \<and> em_extent_offset_map m' = Map.empty \<and> em_cursor m' = em_cursor m"
  using Init_cases [OF assms(1)] assms(2)
  by (auto simp: used_blocks_def nth_vector_resize split: if_splits)

theorem Init_again_leaks_witness:
  "\<exists>m'. used_blocks m' = {0} \<and> em_extent_offset_map m' = Map.empty \<and>
    Init (new_PancakeExtentManager sparse_io\<lparr>em_bitmap := [True]\<rparr>) 0 1 2 4096 4096 = (PANCAKE_STORE_OK, m')"
proof -
  let ?m = "new_PancakeExtentManager sparse_io\<lparr>em_bitmap := [True]\<rparr>"
  have init: "Init ?m 0 1 2 4096 4096 = (PANCAKE_STORE_OK, snd (Init ?m 0 1 2 4096 4096))"
    by (simp add: Init_def Let_def IsBlockAlign_def)
  have "used_blocks ?m = {0}" by (auto simp: used_blocks_def new_PancakeExtentManager_def)
  then show ?thesis
    using Init_again_leaks [OF init] init by (auto simp: new_PancakeExtentManager_def)
qed

section \<open>Reachable states\<close>

text \<open>What every operation keeps.\<close>

definition wf_manager :: "'d PancakeExtentManager \<Rightarrow> bool" where
  "wf_manager m \<longleftrightarrow> length (em_bitmap m) = unat (em_extent_block_count m) \<and> em_used_cnt m = 0"

lemma DelExtent_frame:
  assumes "DelExtent F P tmp m h = Return (e, m')"
  shows "m' = m\<lparr>em_pancake_io := em_pancake_io m', em_bitmap := em_bitmap m'\<rparr> \<and>
    length (em_bitmap m') = length (em_bitmap m)"
  using assms by (auto simp: DelExtent_def outcome_bind_Return_iff Let_def split: if_splits prod.splits
      dest!: write_bitmap_block_frame)

lemma DelExtent_counts:
  assumes "DelExtent F P tmp m h = Return (e, m')"
  shows "em_extent_block_count m' = em_extent_block_count m" and "em_used_cnt m' = em_used_cnt m"
  by (subst DelExtent_frame [OF assms, THEN conjunct1], simp)+

lemma mgr_step_wf:
  assumes "mgr_step F P m m'" and "wf_manager m"
  shows "wf_manager m'"
  using assms(1)
proof cases
  case (step_Init off nb cnt block_size ext_off e)
  then show ?thesis using Init_cases [OF step_Init] assms(2) by (auto simp: wf_manager_def)
next
  case (step_AddExtent h e h')
  then show ?thesis using AddExtent_frame [OF step_AddExtent] assms(2) by (simp add: wf_manager_def)
next
  case (step_DelExtent tmp h e)
  then show ?thesis
    using DelExtent_counts [OF step_DelExtent] DelExtent_frame [OF step_DelExtent] assms(2)
    by (simp add: wf_manager_def)
qed

lemma reachable_wf:
  assumes "(mgr_step F P)\<^sup>*\<^sup>* (new_PancakeExtentManager io) m"
  shows "wf_manager m"
  using assms
proof (induction rule: rtranclp_induct)
  case base
  show ?case by (simp add: wf_manager_def new_PancakeExtentManager_def)
next
  case (step m m')
  then show ?case by (simp add: mgr_step_wf)
qed

lemma WriteAt_errors:
  "WriteAt F io off bs = Return (e, io') \<Longrightarrow>
    e \<in> {PANCAKE_STORE_OK, DATANODE_STORAGE_NOT_BLOCK_ALIGNED, DATANODE_STORAGE_IO_WRITE_AT_FAILED}"
  by (auto simp: WriteAt_def split: if_splits option.splits prod.splits)

lemma write_bitmap_block_errors:
  "write_bitmap_block F P mark m i = Return (e, m') \<Longrightarrow>
    e \<in> {PANCAKE_STORE_OK, DATANODE_STORAGE_NOT_BLOCK_ALIGNED, DATANODE_STORAGE_IO_WRITE_AT_FAILED}"
  by (auto simp: write_bitmap_block_def outcome_bind_Return_iff Let_def split: prod.splits dest!: WriteAt_errors)

text \<open>
  C16. In every state the operations lead to, whatever was added and deleted before, the count of
  allocated extents is 0 and the count of free ones is the number of blocks
  (\<^verbatim>\<open>used_cnt_\<close> is never increased), so \<^verbatim>\<open>AddExtent\<close> reports a full device only when
  there is no block at all.
\<close>

theorem reachable_counts:
  assumes "(mgr_step F P)\<^sup>*\<^sup>* (new_PancakeExtentManager io) m"
  shows "length (em_bitmap m) = unat (em_extent_block_count m) \<and> CurrentAllocCount m = 0
    \<and> CurrentFreeCount m = em_extent_block_count m
    \<and> (AddExtent F P m h = Return (DATANODE_STORAGE_FS_FULL, m', h') \<longrightarrow> em_extent_block_count m = 0)"
proof -
  have wf: "wf_manager m" using assms by (rule reachable_wf)
  have "em_extent_block_count m = 0" if "AddExtent F P m h = Return (DATANODE_STORAGE_FS_FULL, m', h')"
    using that wf by (auto simp: AddExtent_def wf_manager_def outcome_bind_Return_iff Let_def
        split: if_splits prod.splits dest!: WriteAt_errors write_bitmap_block_errors)
  then show ?thesis
    using wf by (simp add: wf_manager_def CurrentAllocCount_def CurrentFreeCount_def)
qed

section \<open>When an extent is added\<close>

text \<open>Sums and products of aligned offsets stay aligned when they wrap around.\<close>

lemma aligned_mod:
  "4096 dvd (n :: nat) \<Longrightarrow> 4096 dvd n mod 18446744073709551616"
  "4096 dvd (n :: nat) \<Longrightarrow> 4096 dvd n mod 4294967296"
  by (rule dvd_mod, simp_all)+

lemma aligned_extent_offset:
  assumes "4096 dvd unat (em_extent_block_size m)" and "4096 dvd unat (em_extent_blocks_offset m)"
  shows "IsBlockAlign (extentBlockDeviceOffset m i)"
proof -
  have "unat (extentBlockDeviceOffset m i) =
      (unat i * unat (em_extent_block_size m) mod 2 ^ 64 + unat (em_extent_blocks_offset m)) mod 2 ^ 64"
    by (simp add: extentBlockDeviceOffset_def unat_word_ariths unat_ucast_up)
  then show ?thesis using assms by (simp add: IsBlockAlign_iff aligned_mod dvd_add)
qed

lemma aligned_bitmap_offset:
  assumes "4096 dvd unat (em_offset m)"
  shows "IsBlockAlign (bitmapBlockDeviceOffset m j)"
proof -
  have "unat (bitmapBlockDeviceOffset m j) = (unat (em_offset m) + unat j * 4096 mod 2 ^ 32) mod 2 ^ 64"
    by (simp add: bitmapBlockDeviceOffset_def unat_word_ariths unat_ucast_up)
  then show ?thesis using assms by (simp add: IsBlockAlign_iff aligned_mod dvd_add)
qed

definition writes_succeed :: "'d file_api \<Rightarrow> bool" where
  "writes_succeed F \<longleftrightarrow> (\<forall>d off bs. fst (dma_write F d off bs) = Some (length bs))"

lemma WriteAt_succeeds:
  assumes "writes_succeed F" and "IsBlockAlign off" and "length bs = k_block_size" and "io_device_fd io \<noteq> None"
  obtains io' where "WriteAt F io off bs = Return (PANCAKE_STORE_OK, io')" and "io_device_fd io' \<noteq> None"
proof -
  from assms(4) obtain d where d: "io_device_fd io = Some d" by auto
  obtain d' where w: "dma_write F d off bs = (Some (length bs), d')"
    using assms(1) by (metis writes_succeed_def prod.collapse)
  have "IsBlockAlign (word_of_nat (length bs))" using assms(3) by (simp add: IsBlockAlign_def)
  then have "WriteAt F io off bs = Return (PANCAKE_STORE_OK, io\<lparr>io_device_fd := Some d'\<rparr>)"
    using assms(2) by (simp add: WriteAt_def d w)
  then show thesis by (rule that) simp
qed

text \<open>
  The manager of a device: aligned, with at least one bitmap block, no more of them than extents,
  and no more than the code's \<^verbatim>\<open>int\<close> arithmetic can count.
\<close>

definition sound_manager :: "'d PancakeExtentManager \<Rightarrow> bool" where
  "sound_manager m \<longleftrightarrow> wf_manager m \<and> 0 < unat (em_bitmap_block_count m)
    \<and> unat (em_bitmap_block_count m) \<le> unat (em_extent_block_count m)
    \<and> unat (em_bitmap_block_count m) + 8128 \<le> 2 ^ 31
    \<and> 4096 dvd unat (em_offset m) \<and> 4096 dvd unat (em_extent_blocks_offset m)
    \<and> 4096 dvd unat (em_extent_block_size m)"

lemma write_bitmap_block_total:
  assumes "length (em_bitmap m) = unat (em_extent_block_count m)" and "unat i + 8128 \<le> 2 ^ 31"
  obtains bs where "length bs = k_block_size"
    and "write_bitmap_block F P markExtentBlockUsed m i =
      outcome_bind (WriteAt F (em_pancake_io m) (bitmapBlockDeviceOffset m (bitmapIndex (ucast i))) bs)
        (\<lambda>(e, io). Return (e, m\<lparr>em_pancake_io := io\<rparr>))"
proof -
  obtain b where clone: "cloneBitMapBlockWithoutLock m i = Return b" and wf: "wf_BitMapBlock b"
  proof (cases "unat (em_extent_block_count m) < 2 ^ 31")
    case True
    from clone_eq [OF assms(1) this assms(2)] show thesis
      by (rule that) (simp add: wf_simps zero_BitMapBlock_def zero_footer_def)
  next
    case False
    then have "2 ^ 31 \<le> unat (em_extent_block_count m)" by simp
    from clone_beyond_int [OF this assms(2)] show thesis by (rule that) simp
  qed
  let ?b = "(markExtentBlockUsed b i)\<lparr>bm_footer :=
      FillWithoutExtentId (word_of_nat k_block_data_size) (bm_footer (markExtentBlockUsed b i))\<rparr>"
  have "wf_BitMapBlock ?b" using wf by (simp add: wf_simps markExtentBlockUsed_def FillWithoutExtentId_def Let_def)
  then obtain bs b' where ser: "BitMapBlock_Serialize P ?b = Return (bs, b')" and len: "length bs = k_block_size"
    using BitMapBlock_Serialize_eq [of ?b P] by auto
  have "write_bitmap_block F P markExtentBlockUsed m i =
      outcome_bind (WriteAt F (em_pancake_io m) (bitmapBlockDeviceOffset m (bitmapIndex (ucast i))) bs)
        (\<lambda>(e, io). Return (e, m\<lparr>em_pancake_io := io\<rparr>))"
    unfolding write_bitmap_block_def clone outcome_bind.simps Let_def ser prod.case ..
  with len show thesis by (rule that)
qed

lemma wf_header_index: "wf_ExtentHeaderBlock (h\<lparr>eh_bitmap_ext_index := k\<rparr>) = wf_ExtentHeaderBlock h"
  by (simp add: wf_simps)

lemma AddExtent_progress:
  assumes "sound_manager m" and "writes_succeed F" and "io_device_fd (em_pancake_io m) \<noteq> None"
    and "wf_ExtentHeaderBlock h" and "em_extent_offset_map m (eh_extent_id h) = None"
    and "i < unat (em_bitmap_block_count m)" and "\<not> em_bitmap m ! i"
  shows "\<exists>m' h'. AddExtent F P m h = Return (PANCAKE_STORE_OK, m', h')"
proof -
  note sound = assms(1) [unfolded sound_manager_def wf_manager_def]
  have nb: "0 < em_bitmap_block_count m" "unat (em_bitmap_block_count m) \<le> length (em_bitmap m)"
    using sound by (simp_all add: word_less_nat_alt)
  obtain k c where find: "find_unused (em_bitmap_block_count m) (em_bitmap m) (unat (em_extent_block_count m)) (em_cursor m)
      = Return (k, c)"
    using find_unused_total [OF nb] by blast
  have k: "k \<noteq> no_block"
    using find_unused_all_used [of _ _ _ _ c i] find sound assms(6,7) by auto
  then have k_less: "unat k < length (em_bitmap m)"
    using find_unused_found [OF find] by simp
  obtain bs h' where ser: "ExtentHeaderBlock_Serialize P (h\<lparr>eh_bitmap_ext_index := k\<rparr>) = Return (bs, h')"
    and len: "length bs = k_block_size"
    using ExtentHeaderBlock_Serialize_length [of "h\<lparr>eh_bitmap_ext_index := k\<rparr>" P] assms(4)
    by (metis wf_header_index)
  have aligned: "IsBlockAlign (extentBlockDeviceOffset m k)"
    by (rule aligned_extent_offset) (use sound in simp_all)
  obtain io where w1: "WriteAt F (em_pancake_io m) (extentBlockDeviceOffset m k) bs = Return (PANCAKE_STORE_OK, io)"
    and io: "io_device_fd io \<noteq> None"
    using assms(2) aligned len assms(3) by (rule WriteAt_succeeds)
  let ?m = "m\<lparr>em_cursor := c, em_pancake_io := io\<rparr>"
  have counts: "length (em_bitmap ?m) = unat (em_extent_block_count ?m)" "unat k + 8128 \<le> 2 ^ 31"
    using sound find_unused_found [OF find k] by simp_all
  obtain bs2 where len2: "length bs2 = k_block_size"
    and w2: "write_bitmap_block F P markExtentBlockUsed ?m k =
      outcome_bind (WriteAt F (em_pancake_io ?m) (bitmapBlockDeviceOffset ?m (bitmapIndex (ucast k))) bs2)
        (\<lambda>(e, io). Return (e, ?m\<lparr>em_pancake_io := io\<rparr>))"
    using counts by (rule write_bitmap_block_total)
  have aligned2: "IsBlockAlign (bitmapBlockDeviceOffset ?m (bitmapIndex (ucast k)))"
    by (rule aligned_bitmap_offset) (use sound in simp)
  obtain io2 where "WriteAt F io (bitmapBlockDeviceOffset ?m (bitmapIndex (ucast k))) bs2 = Return (PANCAKE_STORE_OK, io2)"
    using assms(2) aligned2 len2 io by (rule WriteAt_succeeds)
  then have w3: "write_bitmap_block F P markExtentBlockUsed ?m k = Return (PANCAKE_STORE_OK, ?m\<lparr>em_pancake_io := io2\<rparr>)"
    by (simp add: w2)
  have off: "extentBlockDeviceOffset (m\<lparr>em_cursor := c\<rparr>) k = extentBlockDeviceOffset m k"
    by (simp add: extentBlockDeviceOffset_def)
  have "em_used_cnt m \<noteq> em_extent_block_count m" using sound by auto
  then show ?thesis
    using w1 w3 k by (simp add: AddExtent_def assms(5) find ser off Let_def)
qed

text \<open>An open manager of one bitmap block over two extents of a sparse device.\<close>

definition two_extents :: "(nat \<Rightarrow> u8) PancakeExtentManager" where
  "two_extents = snd (Init (new_PancakeExtentManager sparse_io) 0 1 2 4096 4096)"

lemma two_extents_Init: "Init (new_PancakeExtentManager sparse_io) 0 1 2 4096 4096 = (PANCAKE_STORE_OK, two_extents)"
  by (simp add: two_extents_def Init_def Let_def IsBlockAlign_def)

lemma two_extents_eq: "two_extents = \<lparr>em_pancake_io = sparse_io, em_offset = 0, em_bitmap_block_count = 1,
    em_extent_block_count = 2, em_extent_block_size = 4096, em_extent_blocks_offset = 4096,
    em_bitmap = [False, False], em_cursor = 0, em_used_cnt = 0, em_extent_offset_map = Map.empty\<rparr>"
proof -
  have "replicate 2 False = [False, False]" by (simp add: numeral_2_eq_2)
  then show ?thesis
    by (simp add: two_extents_def Init_def Let_def IsBlockAlign_def new_PancakeExtentManager_def vector_resize_def)
qed

lemma writes_succeed_sparse: "writes_succeed sparse_file"
  by (simp add: writes_succeed_def sparse_file_def)

lemma sound_two_extents: "sound_manager two_extents"
  by (simp add: sound_manager_def wf_manager_def two_extents_eq)

lemma two_extents_add:
  obtains m' h' where "AddExtent sparse_file P two_extents zero_ExtentHeaderBlock = Return (PANCAKE_STORE_OK, m', h')"
  using AddExtent_progress [OF sound_two_extents writes_succeed_sparse, of zero_ExtentHeaderBlock 0 P]
  by (auto simp: two_extents_eq sparse_io_def)

theorem reachable_counts_witness:
  "\<exists>m. used_blocks m \<noteq> {} \<and> CurrentAllocCount m = 0 \<and> CurrentFreeCount m = 2 \<and>
    (mgr_step sparse_file (x86_host True))\<^sup>*\<^sup>* (new_PancakeExtentManager sparse_io) m"
proof -
  obtain m h where add: "AddExtent sparse_file (x86_host True) two_extents zero_ExtentHeaderBlock = Return (PANCAKE_STORE_OK, m, h)"
    by (rule two_extents_add)
  have "mgr_step sparse_file (x86_host True) (new_PancakeExtentManager sparse_io) two_extents"
    using two_extents_Init by (rule step_Init)
  then have reach: "(mgr_step sparse_file (x86_host True))\<^sup>*\<^sup>* (new_PancakeExtentManager sparse_io) m"
    using step_AddExtent [OF add] by (meson r_into_rtranclp rtranclp.rtrancl_into_rtrancl)
  have "used_blocks m \<noteq> {}"
    using AddExtent_alloc [OF add] by (auto simp: used_blocks_def)
  then show ?thesis
    using reachable_counts [OF reach] AddExtent_frame(3) [OF add] reach
    by (intro exI [of _ m]) (simp add: two_extents_eq)
qed

section \<open>Properties of AddExtent and DelExtent\<close>

text \<open>
  C12. \<^verbatim>\<open>AddExtent\<close> is all or nothing on the memory state: on OK one block that was free, below
  the number of bitmap blocks, is marked used, its index is put into the caller's header and the
  new extent is recorded at the block's place; on any other code the used blocks and the extents
  are those from before.
\<close>

theorem AddExtent_all_or_nothing:
  assumes "AddExtent F P m h = Return (e, m', h')"
  shows "if e = PANCAKE_STORE_OK
    then \<exists>i. i < unat (em_bitmap_block_count m) \<and> i \<notin> used_blocks m \<and> used_blocks m' = insert i (used_blocks m)
      \<and> unat (eh_bitmap_ext_index h') = i \<and> em_extent_offset_map m (eh_extent_id h) = None
      \<and> em_extent_offset_map m' = (em_extent_offset_map m)(eh_extent_id h \<mapsto> extentBlockDeviceOffset m (eh_bitmap_ext_index h'))
    else used_blocks m' = used_blocks m \<and> em_extent_offset_map m' = em_extent_offset_map m"
proof (cases "e = PANCAKE_STORE_OK")
  case True
  with assms have ok: "AddExtent F P m h = Return (PANCAKE_STORE_OK, m', h')" by simp
  show ?thesis
    using ok
  proof (rule AddExtent_OK)
    fix i c bs io io'
    assume find: "find_unused (em_bitmap_block_count m) (em_bitmap m) (unat (em_extent_block_count m)) (em_cursor m) = Return (i, c)"
      and "i \<noteq> no_block" and "em_extent_offset_map m (eh_extent_id h) = None"
      and ser: "ExtentHeaderBlock_Serialize P (h\<lparr>eh_bitmap_ext_index := i\<rparr>) = Return (bs, h')"
      and m': "m' = m\<lparr>em_cursor := c, em_pancake_io := io', em_bitmap := (em_bitmap m)[unat i := True],
        em_extent_offset_map := (em_extent_offset_map m)(eh_extent_id h \<mapsto> extentBlockDeviceOffset m i)\<rparr>"
    moreover have "eh_bitmap_ext_index h' = i" using ExtentHeaderBlock_Serialize_keeps [OF ser] by simp
    moreover have "used_blocks m' = insert (unat i) (used_blocks m)"
      using find_unused_found [OF find \<open>i \<noteq> no_block\<close>] by (auto simp: m' used_blocks_def nth_list_update)
    ultimately show ?thesis
      using find_unused_found [OF find] True by (simp add: used_blocks_def)
  qed
next
  case False
  have "em_bitmap m' = em_bitmap m \<and> em_extent_offset_map m' = em_extent_offset_map m"
    by (subst (1 2) AddExtent_error_frame [OF assms False]) simp
  then show ?thesis using False by (simp add: used_blocks_def)
qed

theorem AddExtent_all_or_nothing_witness:
  "\<exists>m h i. AddExtent sparse_file (be_host False) two_extents zero_ExtentHeaderBlock = Return (PANCAKE_STORE_OK, m, h)
    \<and> used_blocks m = insert i (used_blocks two_extents)"
proof -
  obtain m h where add: "AddExtent sparse_file (be_host False) two_extents zero_ExtentHeaderBlock = Return (PANCAKE_STORE_OK, m, h)"
    by (rule two_extents_add)
  then show ?thesis using AddExtent_all_or_nothing [OF add] by auto
qed

text \<open>
  C11. Whatever extents are added, with whatever results, to a manager freshly initialised with
  extents of a nonzero size: no two extents share a place on the device, every extent lies on a
  used block and every used block holds exactly one extent; and there are never more extents than
  \<^emph>\<open>bitmap blocks\<close>, however many extent blocks there are.
\<close>

theorem extents_share_nothing:
  assumes "Init (new_PancakeExtentManager io) off nb cnt bsize ext_off = (PANCAKE_STORE_OK, m0)"
    and "(add_step F P)\<^sup>*\<^sup>* m0 m" and "bsize \<noteq> 0"
  shows "inj_on (em_extent_offset_map m) (dom (em_extent_offset_map m))
    \<and> (\<forall>off' \<in> ran (em_extent_offset_map m). \<exists>i \<in> used_blocks m. off' = extentBlockDeviceOffset m (word_of_nat i))
    \<and> card (dom (em_extent_offset_map m)) = card (used_blocks m)
    \<and> card (used_blocks m) \<le> unat nb"
proof -
  have m0: "used_blocks m0 = {}" "em_extent_offset_map m0 = Map.empty" "em_bitmap_block_count m0 = nb"
    "em_extent_block_size m0 = bsize"
    using Init_cases [OF assms(1)] by (auto simp: used_blocks_def nth_vector_resize new_PancakeExtentManager_def)
  have c: "slots_consistent (used_blocks m) (em_extent_offset_map m) (block_place m) (unat (em_bitmap_block_count m))"
    by (rule extents.run_consistent [OF assms(2)]) (simp add: m0 slots_consistent_empty)
  have frame: "block_place m = block_place m0" "unat (em_bitmap_block_count m) = unat nb"
    using extents.run_frame [OF assms(2)] m0(3) by simp_all
  have "inj_on (block_place m) (used_blocks m)"
  proof (rule inj_onI)
    fix i j assume i: "i \<in> used_blocks m" and j: "j \<in> used_blocks m" and eq: "block_place m i = block_place m j"
    have "i < unat nb" "j < unat nb" using c i j by (auto simp: slots_consistent_def frame)
    then have small: "i < 2 ^ 32" "j < 2 ^ 32"
      using unsigned_less [of nb, where ?'a = nat] by simp_all
    have prod: "unat (ucast (word_of_nat k :: u32) * ucast bsize :: u64) = k * unat bsize" if "k < 2 ^ 32" for k
    proof -
      have "k * unat bsize \<le> (2 ^ 32 - 1) * (2 ^ 32 - 1)"
        using that unsigned_less [of bsize, where ?'a = nat] by (intro mult_le_mono) simp_all
      then have "k * unat bsize < 18446744073709551616" by simp
      then show ?thesis using that by (simp add: unat_word_ariths unat_ucast_up unat_of_nat)
    qed
    have "ucast (word_of_nat i :: u32) * ucast bsize = (ucast (word_of_nat j :: u32) * ucast bsize :: u64)"
      using eq by (simp add: frame block_place_eq m0)
    then have "i * unat bsize = j * unat bsize" using prod [OF small(1)] prod [OF small(2)] by metis
    moreover have "unat bsize \<noteq> 0" using assms(3) by (simp add: unat_eq_zero)
    ultimately show "i = j" by simp
  qed
  then have "inj_on (em_extent_offset_map m) (dom (em_extent_offset_map m))"
    using slots_consistent_distinct [OF c] by (auto simp: inj_on_def dom_def)
  moreover have "\<forall>off' \<in> ran (em_extent_offset_map m). \<exists>i \<in> used_blocks m. off' = extentBlockDeviceOffset m (word_of_nat i)"
    using slots_consistent_slot [OF c] by (auto simp: ran_def block_place_def)
  ultimately show ?thesis
    using slots_consistent_card [OF c] frame(2) by simp
qed

theorem extents_share_nothing_witness:
  "\<exists>m. (add_step sparse_file (x86_host False))\<^sup>*\<^sup>* two_extents m \<and> card (used_blocks m) \<le> 1 \<and> used_blocks m \<noteq> {}"
proof -
  obtain m h where add: "AddExtent sparse_file (x86_host False) two_extents zero_ExtentHeaderBlock = Return (PANCAKE_STORE_OK, m, h)"
    by (rule two_extents_add)
  then have run: "(add_step sparse_file (x86_host False))\<^sup>*\<^sup>* two_extents m"
    by (intro r_into_rtranclp) (rule add_step.add)
  have "used_blocks m \<noteq> {}" using AddExtent_alloc [OF add] by (auto simp: used_blocks_def)
  moreover have "card (used_blocks m) \<le> 1"
    using extents_share_nothing [OF two_extents_Init run] by simp
  ultimately show ?thesis using run by blast
qed

text \<open>
  C13. The search wraps around at the number of bitmap blocks, not of extent blocks: with no
  more bitmap blocks than extents, \<^verbatim>\<open>AddExtent\<close> gives up with the code error exactly when the
  extent is new and the first \<^verbatim>\<open>bitmap_block_count\<close> blocks are used, however many of the
  others are free.
\<close>

theorem AddExtent_gives_up_iff:
  assumes "wf_manager m" and "em_bitmap_block_count m \<noteq> 0"
    and "unat (em_bitmap_block_count m) \<le> unat (em_extent_block_count m)"
  shows "(\<exists>m' h'. AddExtent F P m h = Return (PANCAKE_STORE_CODE_ERROR, m', h')) =
    (em_extent_offset_map m (eh_extent_id h) = None \<and> {..<unat (em_bitmap_block_count m)} \<subseteq> used_blocks m)"
proof -
  have nb: "0 < em_bitmap_block_count m" "unat (em_bitmap_block_count m) \<le> length (em_bitmap m)"
    and "em_extent_block_count m \<noteq> 0"
    using assms by (auto simp: wf_manager_def word_neq_0_conv [symmetric] unat_eq_zero)
  then have cnt: "em_used_cnt m \<noteq> em_extent_block_count m"
    using assms(1) by (simp add: wf_manager_def)
  obtain k c where find: "find_unused (em_bitmap_block_count m) (em_bitmap m) (unat (em_extent_block_count m)) (em_cursor m)
      = Return (k, c)"
    using find_unused_total [OF nb] by blast
  have k: "k = no_block \<longleftrightarrow> {..<unat (em_bitmap_block_count m)} \<subseteq> used_blocks m"
  proof
    assume "k = no_block"
    then have "find_unused (em_bitmap_block_count m) (em_bitmap m) (unat (em_extent_block_count m)) (em_cursor m) =
        Return (no_block, c)" using find by simp
    from find_unused_all_used [OF this assms(3)]
    show "{..<unat (em_bitmap_block_count m)} \<subseteq> used_blocks m"
      using nb(2) by (auto simp: used_blocks_def)
  next
    assume all: "{..<unat (em_bitmap_block_count m)} \<subseteq> used_blocks m"
    show "k = no_block"
    proof (rule ccontr)
      assume "k \<noteq> no_block"
      from find_unused_found [OF find this] have "unat k < unat (em_bitmap_block_count m)" "unat k \<notin> used_blocks m"
        by (simp_all add: used_blocks_def)
      with all show False by auto
    qed
  qed
  have "\<not> (\<exists>m' h'. AddExtent F P m h = Return (PANCAKE_STORE_CODE_ERROR, m', h'))" if "k \<noteq> no_block"
    using that by (auto simp: AddExtent_def find outcome_bind_Return_iff Let_def
        split: if_splits prod.splits dest!: WriteAt_errors write_bitmap_block_errors)
  moreover have "AddExtent F P m h = Return (PANCAKE_STORE_CODE_ERROR, m\<lparr>em_cursor := c\<rparr>, h)"
    if "k = no_block" and "em_extent_offset_map m (eh_extent_id h) = None"
    using that cnt by (simp add: AddExtent_def find)
  moreover have "AddExtent F P m h = Return (DATANODE_STORAGE_EXTENT_ALREADY_EXISTS, m, h)"
    if "em_extent_offset_map m (eh_extent_id h) \<noteq> None"
    using that by (simp add: AddExtent_def)
  ultimately show ?thesis using k by fastforce
qed

theorem AddExtent_gives_up_iff_witness:
  "1 \<notin> used_blocks (two_extents\<lparr>em_bitmap := [True, False]\<rparr>) \<and>
    (\<exists>m' h'. AddExtent sparse_file (x86_host True) (two_extents\<lparr>em_bitmap := [True, False]\<rparr>) zero_ExtentHeaderBlock =
      Return (PANCAKE_STORE_CODE_ERROR, m', h'))"
  by (subst AddExtent_gives_up_iff) (auto simp: two_extents_eq wf_manager_def used_blocks_def)

text \<open>
  C14. As long as one of the first \<^verbatim>\<open>bitmap_block_count\<close> blocks is free, a sound manager on an
  open device whose writes succeed adds every new extent: no branch of the code gives up and
  nothing is undefined.
\<close>

theorem AddExtent_succeeds:
  assumes "sound_manager m" and "writes_succeed F" and "io_device_fd (em_pancake_io m) \<noteq> None"
    and "wf_ExtentHeaderBlock h" and "em_extent_offset_map m (eh_extent_id h) = None"
    and "i < unat (em_bitmap_block_count m)" and "i \<notin> used_blocks m"
  shows "\<exists>m' h'. AddExtent F P m h = Return (PANCAKE_STORE_OK, m', h')"
proof -
  have "i < length (em_bitmap m)" using assms(1,6) by (simp add: sound_manager_def wf_manager_def)
  then show ?thesis
    using assms(7) by (intro AddExtent_progress [OF assms(1-6)]) (simp add: used_blocks_def)
qed

theorem AddExtent_succeeds_witness:
  "\<exists>m' h'. AddExtent sparse_file (x86_host False) two_extents zero_ExtentHeaderBlock = Return (PANCAKE_STORE_OK, m', h')"
  by (rule AddExtent_succeeds [OF sound_two_extents writes_succeed_sparse, of _ 0])
    (simp_all add: two_extents_eq sparse_io_def used_blocks_def)

lemma find_unused_past_end:
  assumes "length bitmap < unat nb" and "list_all (\<lambda>b. b) bitmap"
    and "0 < n" and "length bitmap < unat cursor mod unat nb + n"
  shows "find_unused nb bitmap n cursor = Undefined"
  using assms(3,4)
proof (induction n arbitrary: cursor)
  case (Suc n)
  have nb: "0 < nb" using assms(1) by (simp add: word_less_nat_alt)
  show ?case
  proof (cases "length bitmap \<le> unat (cursor mod nb)")
    case False
    then have c: "unat cursor mod unat nb < length bitmap" by (simp add: unat_mod)
    then have "n \<noteq> 0" using Suc.prems(2) by (cases n) simp_all
    moreover have "unat (cursor mod nb + 1) mod unat nb = unat cursor mod unat nb + 1"
      using c assms(1) by (simp add: cursor_Suc [OF nb])
    ultimately have "find_unused nb bitmap n (cursor mod nb + 1) = Undefined"
      using Suc.prems by (intro Suc.IH) simp_all
    then show ?thesis using False assms(2) by (simp add: Let_def list_all_length)
  qed (simp add: Let_def)
qed simp

text \<open>
  With more bitmap blocks than extents (which \<^verbatim>\<open>Init\<close> accepts) the same wrap-around reads
  past the end of the vector: once all blocks are used and the cursor has moved, adding a new
  extent is undefined behaviour.
\<close>

theorem AddExtent_past_the_end:
  assumes "wf_manager m" and "unat (em_extent_block_count m) < unat (em_bitmap_block_count m)"
    and "em_extent_block_count m \<noteq> 0" and "list_all (\<lambda>b. b) (em_bitmap m)"
    and "em_cursor m mod em_bitmap_block_count m \<noteq> 0" and "em_extent_offset_map m (eh_extent_id h) = None"
  shows "AddExtent F P m h = Undefined"
proof -
  have "unat (em_cursor m) mod unat (em_bitmap_block_count m) \<noteq> 0"
    using assms(5) by (simp add: unat_eq_zero [symmetric] unat_mod)
  then have "find_unused (em_bitmap_block_count m) (em_bitmap m) (unat (em_extent_block_count m)) (em_cursor m) = Undefined"
    using assms(1-4) by (intro find_unused_past_end) (auto simp: wf_manager_def unat_gt_0)
  then show ?thesis
    using assms(1,3,6) by (auto simp: AddExtent_def wf_manager_def)
qed

theorem AddExtent_past_the_end_witness:
  "\<exists>m. Init (new_PancakeExtentManager sparse_io) 0 2 1 4096 8192 = (PANCAKE_STORE_OK, m) \<and>
    AddExtent sparse_file (x86_host True) (m\<lparr>em_bitmap := [True], em_cursor := 1\<rparr>) zero_ExtentHeaderBlock = Undefined"
proof -
  obtain m where init: "Init (new_PancakeExtentManager sparse_io) 0 2 1 4096 8192 = (PANCAKE_STORE_OK, m)"
    by (simp add: Init_def Let_def IsBlockAlign_def)
  have "AddExtent sparse_file (x86_host True) (m\<lparr>em_bitmap := [True], em_cursor := 1\<rparr>) zero_ExtentHeaderBlock = Undefined"
    by (rule AddExtent_past_the_end) (use Init_cases [OF init] in \<open>auto simp: wf_manager_def new_PancakeExtentManager_def\<close>)
  with init show ?thesis by blast
qed

lemma write_bitmap_block_map:
  "write_bitmap_block F P mark (m\<lparr>em_extent_offset_map := M\<rparr>) i =
    outcome_bind (write_bitmap_block F P mark m i) (\<lambda>(e, m'). Return (e, m'\<lparr>em_extent_offset_map := M\<rparr>))"
proof -
  have clone: "cloneBitMapBlockWithoutLock (m\<lparr>em_extent_offset_map := M\<rparr>) i = cloneBitMapBlockWithoutLock m i"
    by (simp add: cloneBitMapBlockWithoutLock_def Let_def)
  have off: "bitmapBlockDeviceOffset (m\<lparr>em_extent_offset_map := M\<rparr>) j = bitmapBlockDeviceOffset m j" for j
    by (simp add: bitmapBlockDeviceOffset_def)
  have comm: "m\<lparr>em_extent_offset_map := M, em_pancake_io := io\<rparr> = m\<lparr>em_pancake_io := io, em_extent_offset_map := M\<rparr>" for io
    by simp
  have io: "em_pancake_io (m\<lparr>em_extent_offset_map := M\<rparr>) = em_pancake_io m" by simp
  show ?thesis
    unfolding write_bitmap_block_def clone off io comm Let_def case_prod_unfold outcome_bind_assoc
      outcome_bind.simps fst_conv snd_conv ..
qed

text \<open>
  \<^verbatim>\<open>DelExtent\<close> neither depends on the extents recorded in the manager nor changes them: an
  extent that was never added is deleted like any other (the ``not found'' branch only logs), and
  a deleted extent stays recorded, so that it cannot be added again.
\<close>

theorem DelExtent_ignores_extents:
  "DelExtent F P tmp (m\<lparr>em_extent_offset_map := M\<rparr>) h =
    outcome_bind (DelExtent F P tmp m h) (\<lambda>(e, m'). Return (e, m'\<lparr>em_extent_offset_map := M\<rparr>))"
proof -
  let ?i = "eh_bitmap_ext_index h"
  have off: "extentBlockDeviceOffset (m\<lparr>em_extent_offset_map := M\<rparr>) ?i = extentBlockDeviceOffset m ?i"
    by (simp add: extentBlockDeviceOffset_def)
  show ?thesis
  proof (cases "ReadAt F (em_pancake_io m) (extentBlockDeviceOffset m ?i) (word_of_nat k_block_size) []")
    case (Return r)
    obtain e buf where r: "r = (e, buf)" by (cases r)
    obtain e2 th where d: "ExtentHeaderBlock_Deserialize P tmp buf = (e2, th)" by fastforce
    show ?thesis
      unfolding DelExtent_def Let_def off write_bitmap_block_map
      by (cases "write_bitmap_block F P markExtentBlockUnused m ?i")
        (use Return in \<open>auto simp: r d\<close>)
  qed (simp_all add: DelExtent_def Let_def off)
qed

end
