(* ===== verification/Extent_Persistence.thy ===== *)
theory Extent_Persistence
  imports Extent_Allocation
begin

text \<open>
  What \<^verbatim>\<open>PancakeExtentManager\<close> does to its device: the bitmap blocks on the device refine the
  vector in memory, the headers lie at the places recorded, and what the extent header codec makes
  of \<^verbatim>\<open>DelExtent\<close>.
\<close>

section \<open>The regions of the device\<close>

text \<open>
  The regions do not overlap and the offsets do not wrap around: the bitmap blocks come first, and
  an extent block has room for its header.
\<close>

definition laid_out :: "'d PancakeExtentManager \<Rightarrow> bool" where
  "laid_out m \<longleftrightarrow> wf_manager m
    \<and> unat (em_bitmap_block_count m) \<le> 2 ^ 20
    \<and> unat (em_bitmap_block_count m) \<le> unat (em_extent_block_count m)
    \<and> unat (em_extent_block_count m) + 8128 \<le> 2 ^ 31
    \<and> unat (em_offset m) + unat (em_bitmap_block_count m) * k_block_size \<le> unat (em_extent_blocks_offset m)
    \<and> unat (em_extent_blocks_offset m) + unat (em_extent_block_count m) * unat (em_extent_block_size m) \<le> 2 ^ 64
    \<and> k_block_size \<le> unat (em_extent_block_size m)"

definition bitmap_addr :: "'d PancakeExtentManager \<Rightarrow> nat \<Rightarrow> nat" where
  "bitmap_addr m j = unat (em_offset m) + j * k_block_size"

definition extent_addr :: "'d PancakeExtentManager \<Rightarrow> nat \<Rightarrow> nat" where
  "extent_addr m i = unat (em_extent_blocks_offset m) + i * unat (em_extent_block_size m)"

lemma unat_extentBlockDeviceOffset:
  assumes "laid_out m" and "unat i < unat (em_extent_block_count m)"
  shows "unat (extentBlockDeviceOffset m i) = extent_addr m (unat i)"
proof -
  have step: "(unat i + 1) * unat (em_extent_block_size m) \<le> unat (em_extent_block_count m) * unat (em_extent_block_size m)"
    using assms(2) by (intro mult_right_mono) simp_all
  then have "unat (em_extent_blocks_offset m) + unat i * unat (em_extent_block_size m) + 4096 \<le> 18446744073709551616"
    using assms(1) by (simp add: laid_out_def)
  then show ?thesis
    by (simp add: extentBlockDeviceOffset_def extent_addr_def unat_word_ariths unat_ucast_up)
qed

lemma unat_bitmapBlockDeviceOffset:
  fixes i :: u32
  assumes "laid_out m" and "unat i div 4064 < unat (em_bitmap_block_count m)"
  shows "unat (bitmapBlockDeviceOffset m (bitmapIndex (ucast i))) = bitmap_addr m (unat i div 4064)"
proof -
  have "unat i div 4064 < 1048576" using assms by (simp add: laid_out_def)
  then have "unat (bitmapIndex (ucast i) * 4096 :: u32) = unat i div 4064 * 4096"
    by (simp add: unat_word_ariths unat_bitmapIndex)
  moreover have "unat (em_offset m) + unat i div 4064 * 4096 < 18446744073709551616"
    using assms unsigned_less [of "em_extent_blocks_offset m", where ?'a = nat] by (simp add: laid_out_def)
  ultimately show ?thesis
    by (simp add: bitmapBlockDeviceOffset_def bitmap_addr_def unat_word_ariths unat_ucast_up)
qed

lemma bitmap_below_extents:
  assumes "laid_out m" and "j < unat (em_bitmap_block_count m)"
  shows "bitmap_addr m j + k_block_size \<le> extent_addr m i"
proof -
  have "bitmap_addr m j + k_block_size \<le> unat (em_offset m) + unat (em_bitmap_block_count m) * k_block_size"
    using assms(2) by (simp add: bitmap_addr_def)
  also have "\<dots> \<le> unat (em_extent_blocks_offset m)" using assms(1) by (simp add: laid_out_def)
  finally show ?thesis by (simp add: extent_addr_def)
qed

lemma bitmap_apart:
  assumes "j \<noteq> k"
  shows "bitmap_addr m j + k_block_size \<le> bitmap_addr m k \<or> bitmap_addr m k + k_block_size \<le> bitmap_addr m j"
  using assms by (auto simp: bitmap_addr_def)

lemma extents_apart:
  assumes "laid_out m" and "i \<noteq> k"
  shows "extent_addr m i + k_block_size \<le> extent_addr m k \<or> extent_addr m k + k_block_size \<le> extent_addr m i"
proof -
  have step: "p * s + 4096 \<le> q * s" if "p < q" and "4096 \<le> s" for p q s :: nat
  proof -
    have "(p + 1) * s \<le> q * s" using that(1) by (intro mult_right_mono) simp_all
    then show ?thesis using that(2) by simp
  qed
  have "4096 \<le> unat (em_extent_block_size m)" using assms(1) by (simp add: laid_out_def)
  then show ?thesis
    using assms(2) step [of i k "unat (em_extent_block_size m)"] step [of k i "unat (em_extent_block_size m)"]
    by (auto simp: extent_addr_def nat_neq_iff)
qed

section \<open>The refinement relation\<close>

text \<open>
  A bitmap block is current when the device has a block there that the reader accepts and that
  holds, byte by byte, its slice of the vector. The bitmap is on the device when every block is
  current. From one state to the next a block is either made current or stays, on the device and
  in memory, as it was.
\<close>

definition block_current :: "('d \<Rightarrow> nat \<Rightarrow> u8) \<Rightarrow> platform \<Rightarrow> 'd PancakeExtentManager \<Rightarrow> nat \<Rightarrow> bool" where
  "block_current content P m j \<longleftrightarrow> (\<exists>b.
     BitMapBlock_Deserialize P zero_BitMapBlock (block_at content (em_pancake_io m) (bitmap_addr m j)) = (PANCAKE_STORE_OK, b)
     \<and> bm_bitmap b = slice_bytes (em_bitmap m) j)"

definition bitmap_on_device :: "('d \<Rightarrow> nat \<Rightarrow> u8) \<Rightarrow> platform \<Rightarrow> 'd PancakeExtentManager \<Rightarrow> bool" where
  "bitmap_on_device content P m \<longleftrightarrow> (\<forall>j < unat (em_bitmap_block_count m). block_current content P m j)"

definition block_kept :: "('d \<Rightarrow> nat \<Rightarrow> u8) \<Rightarrow> 'd PancakeExtentManager \<Rightarrow> 'd PancakeExtentManager \<Rightarrow> nat \<Rightarrow> bool" where
  "block_kept content m m' j \<longleftrightarrow>
     block_at content (em_pancake_io m') (bitmap_addr m' j) = block_at content (em_pancake_io m) (bitmap_addr m j)
     \<and> slice_bytes (em_bitmap m') j = slice_bytes (em_bitmap m) j"

definition bitmap_refreshed :: "('d \<Rightarrow> nat \<Rightarrow> u8) \<Rightarrow> platform \<Rightarrow> 'd PancakeExtentManager \<Rightarrow> 'd PancakeExtentManager \<Rightarrow> bool" where
  "bitmap_refreshed content P m m' \<longleftrightarrow> em_bitmap_block_count m' = em_bitmap_block_count m
     \<and> (\<forall>j < unat (em_bitmap_block_count m). block_current content P m' j \<or> block_kept content m m' j)"

lemma block_kept_current: "block_kept content m m' j \<Longrightarrow> block_current content P m j \<Longrightarrow> block_current content P m' j"
  by (simp add: block_kept_def block_current_def)

lemma bitmap_refreshed_refl [simp]: "bitmap_refreshed content P m m"
  by (simp add: bitmap_refreshed_def block_kept_def)

lemma bitmap_refreshed_trans:
  assumes "bitmap_refreshed content P m m'" and "bitmap_refreshed content P m' m''"
  shows "bitmap_refreshed content P m m''"
  using assms block_kept_current unfolding bitmap_refreshed_def block_kept_def by metis

lemma bitmap_refreshed_on_device:
  "bitmap_refreshed content P m m' \<Longrightarrow> bitmap_on_device content P m \<Longrightarrow> bitmap_on_device content P m'"
  using block_kept_current unfolding bitmap_refreshed_def bitmap_on_device_def by metis

lemma addr_frame [simp]:
  "bitmap_addr (m\<lparr>em_cursor := c\<rparr>) = bitmap_addr m" "bitmap_addr (m\<lparr>em_pancake_io := io\<rparr>) = bitmap_addr m"
  "bitmap_addr (m\<lparr>em_bitmap := bm\<rparr>) = bitmap_addr m" "bitmap_addr (m\<lparr>em_extent_offset_map := M\<rparr>) = bitmap_addr m"
  "extent_addr (m\<lparr>em_cursor := c\<rparr>) = extent_addr m" "extent_addr (m\<lparr>em_pancake_io := io\<rparr>) = extent_addr m"
  "extent_addr (m\<lparr>em_bitmap := bm\<rparr>) = extent_addr m" "extent_addr (m\<lparr>em_extent_offset_map := M\<rparr>) = extent_addr m"
  by (simp_all add: fun_eq_iff bitmap_addr_def extent_addr_def)

lemma laid_out_frame [simp]:
  "laid_out (m\<lparr>em_cursor := c\<rparr>) = laid_out m" "laid_out (m\<lparr>em_pancake_io := io\<rparr>) = laid_out m"
  "laid_out (m\<lparr>em_extent_offset_map := M\<rparr>) = laid_out m"
  "length bm = length (em_bitmap m) \<Longrightarrow> laid_out (m\<lparr>em_bitmap := bm\<rparr>) = laid_out m"
  by (simp_all add: laid_out_def wf_manager_def)

lemma em_io_inject [simp]: "m\<lparr>em_pancake_io := io\<rparr> = m\<lparr>em_pancake_io := io'\<rparr> \<longleftrightarrow> io = io'"
proof
  assume "m\<lparr>em_pancake_io := io\<rparr> = m\<lparr>em_pancake_io := io'\<rparr>"
  then have "em_pancake_io (m\<lparr>em_pancake_io := io\<rparr>) = em_pancake_io (m\<lparr>em_pancake_io := io'\<rparr>)" by simp
  then show "io = io'" by simp
qed simp

text \<open>A search result below the bitmap block count lies in a bitmap block of the device.\<close>

lemma div_below:
  assumes "(i :: nat) < n"
  shows "i div 4064 < n"
  using assms div_le_dividend [of i 4064] by linarith

text \<open>
  The effect on the device of the writes both operations make: one bitmap block, and for
  \<^verbatim>\<open>AddExtent\<close> one header before it.
\<close>

context block_device
begin

lemma write_bitmap_block_device:
  assumes "laid_out m"
    and mark: "\<And>b. mark (b\<lparr>bm_bitmap := slice_bytes (em_bitmap m) (unat i div 4064)\<rparr>) i =
      b\<lparr>bm_bitmap := slice_bytes ((em_bitmap m)[unat i := v]) (unat i div 4064)\<rparr>"
    and i: "unat i < length (em_bitmap m)" "unat i div 4064 < unat (em_bitmap_block_count m)"
    and w: "write_bitmap_block F P mark m i = Return (PANCAKE_STORE_OK, m\<lparr>em_pancake_io := io'\<rparr>)"
  obtains bs b where "BitMapBlock_Serialize P (bitmap_block_of ((em_bitmap m)[unat i := v]) (unat i div 4064)) = Return (bs, b)"
    and "block_at content io' (bitmap_addr m (unat i div 4064)) = bs"
    and "\<And>a. a + k_block_size \<le> bitmap_addr m (unat i div 4064) \<or> bitmap_addr m (unat i div 4064) + k_block_size \<le> a \<Longrightarrow>
      block_at content io' a = block_at content (em_pancake_io m) a"
proof -
  have counts: "length (em_bitmap m) = unat (em_extent_block_count m)" "unat (em_extent_block_count m) < 2 ^ 31"
    "unat i + 8128 \<le> 2 ^ 31"
    using assms(1) i by (simp_all add: laid_out_def wf_manager_def)
  obtain bs b where ser: "BitMapBlock_Serialize P (bitmap_block_of ((em_bitmap m)[unat i := v]) (unat i div 4064)) = Return (bs, b)"
    and len: "length bs = k_block_size"
    and eq: "write_bitmap_block F P mark m i =
      outcome_bind (WriteAt F (em_pancake_io m) (bitmapBlockDeviceOffset m (bitmapIndex (ucast i))) bs)
        (\<lambda>(e, io). Return (e, m\<lparr>em_pancake_io := io\<rparr>))"
    by (rule write_bitmap_block_eq [of mark m i v P F, OF mark counts])
  from w have w1: "WriteAt F (em_pancake_io m) (bitmapBlockDeviceOffset m (bitmapIndex (ucast i))) bs = Return (PANCAKE_STORE_OK, io')"
    unfolding eq by (auto simp: outcome_bind_Return_iff)
  have "unat (bitmapBlockDeviceOffset m (bitmapIndex (ucast i))) = bitmap_addr m (unat i div 4064)"
    by (rule unat_bitmapBlockDeviceOffset [OF assms(1) i(2)])
  then show thesis
    using that [OF ser] WriteAt_block [OF w1 len] WriteAt_other [OF w1 len] by simp
qed

lemma AddExtent_device:
  assumes "laid_out m" and "wf_ExtentHeaderBlock h" and "AddExtent F P m h = Return (PANCAKE_STORE_OK, m', h')"
  obtains i bs bs2 b where "eh_bitmap_ext_index h' = i" and "unat i < unat (em_bitmap_block_count m)"
    and "ExtentHeaderBlock_Serialize P (h\<lparr>eh_bitmap_ext_index := i\<rparr>) = Return (bs, h')"
    and "block_at content (em_pancake_io m') (extent_addr m (unat i)) = bs"
    and "BitMapBlock_Serialize P (bitmap_block_of ((em_bitmap m)[unat i := True]) (unat i div 4064)) = Return (bs2, b)"
    and "block_at content (em_pancake_io m') (bitmap_addr m (unat i div 4064)) = bs2"
    and "\<And>a. a + k_block_size \<le> extent_addr m (unat i) \<or> extent_addr m (unat i) + k_block_size \<le> a \<Longrightarrow>
      a + k_block_size \<le> bitmap_addr m (unat i div 4064) \<or> bitmap_addr m (unat i div 4064) + k_block_size \<le> a \<Longrightarrow>
      block_at content (em_pancake_io m') a = block_at content (em_pancake_io m) a"
    and "em_bitmap m' = (em_bitmap m)[unat i := True]"
proof -
  from assms(3) obtain i c bs io io' where
    find: "find_unused (em_bitmap_block_count m) (em_bitmap m) (unat (em_extent_block_count m)) (em_cursor m) = Return (i, c)"
    and i: "i \<noteq> no_block"
    and ser: "ExtentHeaderBlock_Serialize P (h\<lparr>eh_bitmap_ext_index := i\<rparr>) = Return (bs, h')"
    and w1: "WriteAt F (em_pancake_io m) (extentBlockDeviceOffset m i) bs = Return (PANCAKE_STORE_OK, io)"
    and w2: "write_bitmap_block F P markExtentBlockUsed (m\<lparr>em_cursor := c, em_pancake_io := io\<rparr>) i =
      Return (PANCAKE_STORE_OK, m\<lparr>em_cursor := c, em_pancake_io := io'\<rparr>)"
    and m': "m' = m\<lparr>em_cursor := c, em_pancake_io := io', em_bitmap := (em_bitmap m)[unat i := True],
      em_extent_offset_map := (em_extent_offset_map m)(eh_extent_id h \<mapsto> extentBlockDeviceOffset m i)\<rparr>"
    by (rule AddExtent_OK)
  have less: "unat i < unat (em_bitmap_block_count m)" "unat i < length (em_bitmap m)"
    using find_unused_found [OF find i] by simp_all
  have wf: "wf_ExtentHeaderBlock (h\<lparr>eh_bitmap_ext_index := i\<rparr>)" using assms(2) by (simp add: wf_header_index)
  have len: "length bs = k_block_size"
    using ExtentHeaderBlock_Serialize_length [OF wf, of P] ser by auto
  have e: "unat (extentBlockDeviceOffset m i) = extent_addr m (unat i)"
    using less(1) assms(1) by (intro unat_extentBlockDeviceOffset) (simp_all add: laid_out_def)
  let ?m = "m\<lparr>em_cursor := c, em_pancake_io := io\<rparr>"
  have j: "unat i div 4064 < unat (em_bitmap_block_count m)" by (rule div_below [OF less(1)])
  obtain bs2 b where ser2: "BitMapBlock_Serialize P (bitmap_block_of ((em_bitmap m)[unat i := True]) (unat i div 4064)) = Return (bs2, b)"
    and map: "block_at content io' (bitmap_addr m (unat i div 4064)) = bs2"
    and other: "\<And>a. a + k_block_size \<le> bitmap_addr m (unat i div 4064) \<or> bitmap_addr m (unat i div 4064) + k_block_size \<le> a \<Longrightarrow>
      block_at content io' a = block_at content io a"
  proof (rule write_bitmap_block_device [of ?m markExtentBlockUsed i True P io'])
    show "laid_out ?m" using assms(1) by simp
  qed (use less j w2 mark_used_slice in simp_all)
  have "block_at content io' (extent_addr m (unat i)) = bs"
    using other [of "extent_addr m (unat i)"] WriteAt_block [OF w1 len] bitmap_below_extents [OF assms(1) j]
    by (simp add: e)
  then show thesis
    using that [of i bs bs2 b] ExtentHeaderBlock_Serialize_keeps [OF ser] less ser ser2 map other
      WriteAt_other [OF w1 len] by (simp add: m' e)
qed

end

text \<open>
  One bitmap block rewritten, for the vector changed at the same place, makes that block current
  and keeps the others.
\<close>

lemma bitmap_block_current:
  assumes "net_order P"
    and ser: "BitMapBlock_Serialize P (bitmap_block_of ((em_bitmap m)[i := v]) (i div 4064)) = Return (bs, b)"
    and at: "block_at content (em_pancake_io m') (bitmap_addr m (i div 4064)) = bs"
    and bm: "em_bitmap m' = (em_bitmap m)[i := v]"
    and frame: "em_offset m' = em_offset m"
  shows "block_current content P m' (i div 4064)"
proof -
  have "BitMapBlock_Deserialize P zero_BitMapBlock bs = (PANCAKE_STORE_OK, b)"
    by (rule net_order.BitMapBlock_deser_ser [OF assms(1) wf_bitmap_block_of ser])
  moreover have "bm_bitmap b = slice_bytes (em_bitmap m') (i div 4064)"
    using ser unfolding BitMapBlock_Serialize_eq(1) [OF wf_bitmap_block_of]
    by (auto simp: bm_upd_def bitmap_block_of_def bm)
  ultimately show ?thesis using at by (simp add: block_current_def bitmap_addr_def frame)
qed

lemma bitmap_block_rewritten:
  assumes "net_order P"
    and ser: "BitMapBlock_Serialize P (bitmap_block_of ((em_bitmap m)[i := v]) (i div 4064)) = Return (bs, b)"
    and at: "block_at content (em_pancake_io m') (bitmap_addr m (i div 4064)) = bs"
    and rest: "\<And>j. j < unat (em_bitmap_block_count m) \<Longrightarrow> j \<noteq> i div 4064 \<Longrightarrow>
      block_at content (em_pancake_io m') (bitmap_addr m j) = block_at content (em_pancake_io m) (bitmap_addr m j)"
    and bm: "em_bitmap m' = (em_bitmap m)[i := v]"
    and frame: "em_offset m' = em_offset m" "em_bitmap_block_count m' = em_bitmap_block_count m"
  shows "bitmap_refreshed content P m m'"
  unfolding bitmap_refreshed_def
proof (intro conjI allI impI frame)
  fix j assume j: "j < unat (em_bitmap_block_count m)"
  show "block_current content P m' j \<or> block_kept content m m' j"
  proof (cases "j = i div 4064")
    case True
    then show ?thesis using bitmap_block_current [OF assms(1) ser at bm frame(1)] by simp
  next
    case False
    then show ?thesis using rest [OF j] by (simp add: block_kept_def bitmap_addr_def bm frame slice_bytes_other)
  qed
qed

lemma AddExtent_refreshes:
  assumes "block_device F content" and "net_order P" and "laid_out m"
    and "wf_ExtentHeaderBlock h" and "AddExtent F P m h = Return (PANCAKE_STORE_OK, m', h')"
  shows "bitmap_refreshed content P m m'"
proof (rule block_device.AddExtent_device [OF assms(1,3,4,5)])
  fix i bs bs2 b
  assume less: "unat i < unat (em_bitmap_block_count m)"
    and ser2: "BitMapBlock_Serialize P (bitmap_block_of ((em_bitmap m)[unat i := True]) (unat i div 4064)) = Return (bs2, b)"
    and map: "block_at content (em_pancake_io m') (bitmap_addr m (unat i div 4064)) = bs2"
    and rest: "\<And>a. a + k_block_size \<le> extent_addr m (unat i) \<or> extent_addr m (unat i) + k_block_size \<le> a \<Longrightarrow>
      a + k_block_size \<le> bitmap_addr m (unat i div 4064) \<or> bitmap_addr m (unat i div 4064) + k_block_size \<le> a \<Longrightarrow>
      block_at content (em_pancake_io m') a = block_at content (em_pancake_io m) a"
    and bm: "em_bitmap m' = (em_bitmap m)[unat i := True]"
  show ?thesis
  proof (rule bitmap_block_rewritten [OF assms(2) ser2 map _ bm AddExtent_frame(1,2) [OF assms(5)]])
    fix j assume "j < unat (em_bitmap_block_count m)" and "j \<noteq> unat i div 4064"
    then show "block_at content (em_pancake_io m') (bitmap_addr m j) = block_at content (em_pancake_io m) (bitmap_addr m j)"
      using bitmap_below_extents [OF assms(3)] bitmap_apart by (intro rest) simp_all
  qed
qed

lemma DelExtent_OK:
  assumes "DelExtent F P tmp m g = Return (PANCAKE_STORE_OK, m')"
  obtains buf b io' where "ReadAt F (em_pancake_io m) (extentBlockDeviceOffset m (eh_bitmap_ext_index g)) (word_of_nat k_block_size) []
      = Return (PANCAKE_STORE_OK, buf)"
    and "ExtentHeaderBlock_Deserialize P tmp buf = (PANCAKE_STORE_OK, b)" and "eh_extent_id b = eh_extent_id g"
    and "write_bitmap_block F P markExtentBlockUnused m (eh_bitmap_ext_index g) = Return (PANCAKE_STORE_OK, m\<lparr>em_pancake_io := io'\<rparr>)"
    and "unat (eh_bitmap_ext_index g) < length (em_bitmap m)"
    and "m' = m\<lparr>em_pancake_io := io', em_bitmap := (em_bitmap m)[unat (eh_bitmap_ext_index g) := False]\<rparr>"
proof -
  from assms obtain buf b m2 where 1: "ReadAt F (em_pancake_io m) (extentBlockDeviceOffset m (eh_bitmap_ext_index g)) (word_of_nat k_block_size) []
      = Return (PANCAKE_STORE_OK, buf)" "ExtentHeaderBlock_Deserialize P tmp buf = (PANCAKE_STORE_OK, b)" "eh_extent_id b = eh_extent_id g"
    and w: "write_bitmap_block F P markExtentBlockUnused m (eh_bitmap_ext_index g) = Return (PANCAKE_STORE_OK, m2)"
    and 2: "unat (eh_bitmap_ext_index g) < length (em_bitmap m2)"
      "m' = m2\<lparr>em_bitmap := (em_bitmap m2)[unat (eh_bitmap_ext_index g) := False]\<rparr>"
    by (simp add: DelExtent_def Let_def outcome_bind_Return_iff IsNotOk_def not_le split: if_split_asm prod.split_asm) blast+
  from write_bitmap_block_frame [OF w] obtain io' where m2: "m2 = m\<lparr>em_pancake_io := io'\<rparr>" by blast
  show thesis
    by (rule that [of buf b io'])
      (use 1 w 2 in \<open>simp_all add: m2\<close>)
qed

lemma DelExtent_device:
  assumes "block_device F content" and "net_order P" and "laid_out m"
    and "unat (eh_bitmap_ext_index g) div 4064 < unat (em_bitmap_block_count m)"
    and "DelExtent F P tmp m g = Return (PANCAKE_STORE_OK, m')"
  shows "bitmap_refreshed content P m m'"
    and "block_at content (em_pancake_io m') (extent_addr m k) = block_at content (em_pancake_io m) (extent_addr m k)"
proof -
  let ?i = "eh_bitmap_ext_index g"
  obtain io' where w: "write_bitmap_block F P markExtentBlockUnused m ?i = Return (PANCAKE_STORE_OK, m\<lparr>em_pancake_io := io'\<rparr>)"
    and less: "unat ?i < length (em_bitmap m)"
    and m': "m' = m\<lparr>em_pancake_io := io', em_bitmap := (em_bitmap m)[unat ?i := False]\<rparr>"
    using DelExtent_OK [OF assms(5)] by metis
  obtain bs c where ser: "BitMapBlock_Serialize P (bitmap_block_of ((em_bitmap m)[unat ?i := False]) (unat ?i div 4064)) = Return (bs, c)"
    and at: "block_at content io' (bitmap_addr m (unat ?i div 4064)) = bs"
    and other: "\<And>a. a + k_block_size \<le> bitmap_addr m (unat ?i div 4064) \<or> bitmap_addr m (unat ?i div 4064) + k_block_size \<le> a \<Longrightarrow>
      block_at content io' a = block_at content (em_pancake_io m) a"
    by (rule block_device.write_bitmap_block_device [OF assms(1,3) mark_unused_slice [OF less] less assms(4) w]) (rule that)
  show "bitmap_refreshed content P m m'"
  proof (rule bitmap_block_rewritten [OF assms(2) ser])
    fix k assume "k \<noteq> unat ?i div 4064"
    then show "block_at content (em_pancake_io m') (bitmap_addr m k) = block_at content (em_pancake_io m) (bitmap_addr m k)"
      using other bitmap_apart [of k "unat ?i div 4064" m] by (simp add: m')
  qed (simp_all add: m' at)
  show "block_at content (em_pancake_io m') (extent_addr m k) = block_at content (em_pancake_io m) (extent_addr m k)"
    using other bitmap_below_extents [OF assms(3,4), of k] by (simp add: m')
qed

section \<open>Properties\<close>

text \<open>
  C1. A successful \<^verbatim>\<open>AddExtent\<close> keeps the bitmap on the device equal to the vector in memory:
  if before the call every bitmap block of the device was accepted by
  \<^verbatim>\<open>BitMapBlock::Deserialize\<close> with the bytes of its part of the vector, the same holds
  afterwards for the vector with the new block marked. The serialised header lies at the start of
  that extent block, and every other extent block starts with what it did before.
\<close>

theorem AddExtent_refines_device:
  assumes "block_device F content" and "net_order P" and "laid_out m" and "bitmap_on_device content P m"
    and "wf_ExtentHeaderBlock h" and "AddExtent F P m h = Return (PANCAKE_STORE_OK, m', h')"
  shows "bitmap_on_device content P m' \<and> laid_out m'
    \<and> (\<exists>bs. ExtentHeaderBlock_Serialize P (h\<lparr>eh_bitmap_ext_index := eh_bitmap_ext_index h'\<rparr>) = Return (bs, h')
        \<and> block_at content (em_pancake_io m') (extent_addr m (unat (eh_bitmap_ext_index h'))) = bs)
    \<and> (\<forall>k. k \<noteq> unat (eh_bitmap_ext_index h') \<longrightarrow>
        block_at content (em_pancake_io m') (extent_addr m k) = block_at content (em_pancake_io m) (extent_addr m k))"
proof (rule block_device.AddExtent_device [OF assms(1,3,5,6)])
  fix i bs
  assume idx: "eh_bitmap_ext_index h' = i" and less: "unat i < unat (em_bitmap_block_count m)"
    and ser: "ExtentHeaderBlock_Serialize P (h\<lparr>eh_bitmap_ext_index := i\<rparr>) = Return (bs, h')"
    and head: "block_at content (em_pancake_io m') (extent_addr m (unat i)) = bs"
    and rest: "\<And>a. a + k_block_size \<le> extent_addr m (unat i) \<or> extent_addr m (unat i) + k_block_size \<le> a \<Longrightarrow>
      a + k_block_size \<le> bitmap_addr m (unat i div 4064) \<or> bitmap_addr m (unat i div 4064) + k_block_size \<le> a \<Longrightarrow>
      block_at content (em_pancake_io m') a = block_at content (em_pancake_io m) a"
  have "bitmap_on_device content P m'"
    using bitmap_refreshed_on_device [OF AddExtent_refreshes [OF assms(1-3,5,6)] assms(4)] .
  moreover have "laid_out m'" using assms(3) by (simp add: laid_out_def wf_manager_def AddExtent_frame [OF assms(6)])
  moreover have "block_at content (em_pancake_io m') (extent_addr m k) = block_at content (em_pancake_io m) (extent_addr m k)"
    if "k \<noteq> unat i" for k
    using extents_apart [OF assms(3) that] bitmap_below_extents [OF assms(3) div_below [OF less], of k] by (intro rest) simp_all
  ultimately show ?thesis using ser head by (simp add: idx)
qed

lemma ReadAt_returns:
  assumes "io_device_fd io \<noteq> None"
  obtains e buf' where "ReadAt F io off len buf = Return (e, buf')"
    and "e \<in> {PANCAKE_STORE_OK, DATANODE_STORAGE_NOT_BLOCK_ALIGNED, DATANODE_STORAGE_IO_READ_AT_FAILED}"
proof -
  from assms obtain d where "io_device_fd io = Some d" by auto
  then show thesis
    using that by (cases "IsBlockAlign off \<and> IsBlockAlign len"; cases "dma_read_exactly F d off len")
      (auto simp: ReadAt_def)
qed

text \<open>
  C15. An extent that was just added cannot be deleted: \<^verbatim>\<open>DelExtent\<close> with its index, whatever
  else the header passed says, finds the header \<^verbatim>\<open>AddExtent\<close> wrote, and the reader refuses it
  (it skips a byte the writer wrote). The call fails with the magic error, or the read error of the
  device, and the manager stays as it is.
\<close>

theorem added_extent_not_deletable:
  assumes "block_device F content" and "net_order P" and "laid_out m"
    and "wf_ExtentHeaderBlock h" and "AddExtent F P m h = Return (PANCAKE_STORE_OK, m', h')"
    and "eh_bitmap_ext_index g = eh_bitmap_ext_index h'"
  shows "DelExtent F P tmp m' g = Return (DATANODE_STORAGE_BLOCK_MAGIC_ILLEGAL, m')
    \<or> DelExtent F P tmp m' g = Return (DATANODE_STORAGE_NOT_BLOCK_ALIGNED, m')
    \<or> DelExtent F P tmp m' g = Return (DATANODE_STORAGE_IO_READ_AT_FAILED, m')"
proof (rule block_device.AddExtent_device [OF assms(1,3,4,5)])
  fix i bs
  assume idx: "eh_bitmap_ext_index h' = i" and less: "unat i < unat (em_bitmap_block_count m)"
    and ser: "ExtentHeaderBlock_Serialize P (h\<lparr>eh_bitmap_ext_index := i\<rparr>) = Return (bs, h')"
    and head: "block_at content (em_pancake_io m') (extent_addr m (unat i)) = bs"
  have off: "extentBlockDeviceOffset m' i = extentBlockDeviceOffset m i"
    by (simp add: extentBlockDeviceOffset_def AddExtent_frame [OF assms(5)])
  have "unat (extentBlockDeviceOffset m i) = extent_addr m (unat i)"
    using less assms(3) by (intro unat_extentBlockDeviceOffset) (simp_all add: laid_out_def)
  then have read: "buf = bs"
    if "ReadAt F (em_pancake_io m') (extentBlockDeviceOffset m' i) (word_of_nat k_block_size) [] = Return (PANCAKE_STORE_OK, buf)" for buf
    using block_device.ReadAt_block [OF assms(1) that] by (simp add: off head)
  have "wf_ExtentHeaderBlock (h\<lparr>eh_bitmap_ext_index := i\<rparr>)" using assms(4) by (simp add: wf_header_index)
  from ExtentHeaderBlock_refused [OF assms(2) this ser]
  have refused: "fst (ExtentHeaderBlock_Deserialize P tmp bs) = DATANODE_STORAGE_BLOCK_MAGIC_ILLEGAL" .
  have "io_device_fd (em_pancake_io m') \<noteq> None"
  proof
    assume "io_device_fd (em_pancake_io m') = None"
    then have "bs = []" using head by (simp add: block_at_def)
    moreover have "length bs = k_block_size"
      using ExtentHeaderBlock_Serialize_length [OF \<open>wf_ExtentHeaderBlock (h\<lparr>eh_bitmap_ext_index := i\<rparr>)\<close>, of P] ser by auto
    ultimately show False by simp
  qed
  then obtain e1 buf where
    r: "ReadAt F (em_pancake_io m') (extentBlockDeviceOffset m' i) (word_of_nat k_block_size) [] = Return (e1, buf)"
    and e1: "e1 \<in> {PANCAKE_STORE_OK, DATANODE_STORAGE_NOT_BLOCK_ALIGNED, DATANODE_STORAGE_IO_READ_AT_FAILED}"
    by (rule ReadAt_returns)
  show ?thesis
  proof (cases "e1 = PANCAKE_STORE_OK")
    case True
    with r have "buf = bs" by (intro read) simp
    then have "DelExtent F P tmp m' g = Return (DATANODE_STORAGE_BLOCK_MAGIC_ILLEGAL, m')"
      using r True refused
      by (cases "ExtentHeaderBlock_Deserialize P tmp bs") (simp add: DelExtent_def Let_def assms(6) idx)
    then show ?thesis ..
  next
    case False
    then have "DelExtent F P tmp m' g = Return (e1, m')"
      using r by (simp add: DelExtent_def Let_def assms(6) idx)
    then show ?thesis using e1 False by auto
  qed
qed

text \<open>
  C6. A successful \<^verbatim>\<open>DelExtent\<close> clears exactly the bit of the index it was given, and the bitmap
  on the device stays equal to the vector in memory. It happens only when the extent block starts
  with a header block that the reader accepts and that has the extent id of the request; no header
  on the device and no recorded extent changes.
\<close>

theorem DelExtent_refines_device:
  assumes "block_device F content" and "net_order P" and "laid_out m" and "bitmap_on_device content P m"
    and "unat (eh_bitmap_ext_index g) div k_block_data_size < unat (em_bitmap_block_count m)"
    and "DelExtent F P tmp m g = Return (PANCAKE_STORE_OK, m')"
  shows "bitmap_on_device content P m' \<and> laid_out m'
    \<and> em_bitmap m' = (em_bitmap m)[unat (eh_bitmap_ext_index g) := False]
    \<and> em_extent_offset_map m' = em_extent_offset_map m
    \<and> (\<exists>b. ExtentHeaderBlock_Deserialize P tmp
          (block_at content (em_pancake_io m) (extent_addr m (unat (eh_bitmap_ext_index g)))) = (PANCAKE_STORE_OK, b)
        \<and> eh_extent_id b = eh_extent_id g)
    \<and> (\<forall>k. block_at content (em_pancake_io m') (extent_addr m k) = block_at content (em_pancake_io m) (extent_addr m k))"
proof (rule DelExtent_OK [OF assms(6)])
  fix buf b io'
  let ?i = "eh_bitmap_ext_index g"
  assume read: "ReadAt F (em_pancake_io m) (extentBlockDeviceOffset m ?i) (word_of_nat k_block_size) [] = Return (PANCAKE_STORE_OK, buf)"
    and b: "ExtentHeaderBlock_Deserialize P tmp buf = (PANCAKE_STORE_OK, b)" "eh_extent_id b = eh_extent_id g"
    and less: "unat ?i < length (em_bitmap m)"
    and m': "m' = m\<lparr>em_pancake_io := io', em_bitmap := (em_bitmap m)[unat ?i := False]\<rparr>"
  have j: "unat ?i div 4064 < unat (em_bitmap_block_count m)" using assms(5) by simp
  have "unat (extentBlockDeviceOffset m ?i) = extent_addr m (unat ?i)"
    using less assms(3) by (intro unat_extentBlockDeviceOffset) (simp_all add: laid_out_def wf_manager_def)
  then have buf: "buf = block_at content (em_pancake_io m) (extent_addr m (unat ?i))"
    using block_device.ReadAt_block [OF assms(1) read] by simp
  note effect = DelExtent_device [OF assms(1-3) j assms(6)]
  have "bitmap_on_device content P m'" by (rule bitmap_refreshed_on_device [OF effect(1) assms(4)])
  moreover have "laid_out m'" using assms(3) by (simp add: m')
  moreover have "em_extent_offset_map m' = em_extent_offset_map m" by (simp add: m')
  ultimately show ?thesis using b effect(2) by (simp add: buf m')
qed

text \<open>
  C17. When the number of extents does not fit into \<^verbatim>\<open>int\<close>, the clone of the bitmap is empty, and
  \<^verbatim>\<open>AddExtent\<close> replaces the bitmap block on the device by one in which only the new extent is
  used: every earlier allocation of that block is lost on the device.
\<close>

theorem AddExtent_forgets_beyond_int:
  assumes "block_device F content" and "net_order P" and "2 ^ 31 \<le> unat (em_extent_block_count m)"
    and "unat (em_bitmap_block_count m) \<le> 2 ^ 20"
    and "AddExtent F P m h = Return (PANCAKE_STORE_OK, m', h')"
  shows "\<exists>b. BitMapBlock_Deserialize P zero_BitMapBlock
      (block_at content (em_pancake_io m') (unat (bitmapBlockDeviceOffset m (bitmapIndex (ucast (eh_bitmap_ext_index h'))))))
      = (PANCAKE_STORE_OK, b)
    \<and> bm_bitmap b = (replicate k_block_data_size 0)[unat (eh_bitmap_ext_index h') mod k_block_data_size := 1]"
proof (rule AddExtent_OK [OF assms(5)])
  fix i c bs io io'
  assume find: "find_unused (em_bitmap_block_count m) (em_bitmap m) (unat (em_extent_block_count m)) (em_cursor m) = Return (i, c)"
    and i: "i \<noteq> no_block"
    and ser: "ExtentHeaderBlock_Serialize P (h\<lparr>eh_bitmap_ext_index := i\<rparr>) = Return (bs, h')"
    and w: "write_bitmap_block F P markExtentBlockUsed (m\<lparr>em_cursor := c, em_pancake_io := io\<rparr>) i =
      Return (PANCAKE_STORE_OK, m\<lparr>em_cursor := c, em_pancake_io := io'\<rparr>)"
    and m': "m' = m\<lparr>em_cursor := c, em_pancake_io := io', em_bitmap := (em_bitmap m)[unat i := True],
      em_extent_offset_map := (em_extent_offset_map m)(eh_extent_id h \<mapsto> extentBlockDeviceOffset m i)\<rparr>"
  let ?m = "m\<lparr>em_cursor := c, em_pancake_io := io\<rparr>"
  let ?b = "\<lparr>bm_bitmap = (replicate k_block_data_size 0)[unat i mod k_block_data_size := 1],
    bm_footer = FillWithoutExtentId (word_of_nat k_block_data_size) zero_footer\<rparr>"
  have "unat i < unat (em_bitmap_block_count m)" using find_unused_found [OF find i] by simp
  then have clone: "cloneBitMapBlockWithoutLock ?m i = Return zero_BitMapBlock"
    using assms(3,4) by (intro clone_beyond_int) simp_all
  have off: "bitmapBlockDeviceOffset ?m = bitmapBlockDeviceOffset m"
    by (simp add: fun_eq_iff bitmapBlockDeviceOffset_def)
  have wf: "wf_BitMapBlock ?b" by (simp add: wf_simps FillWithoutExtentId_def zero_footer_def)
  then obtain bs2 b where ser2: "BitMapBlock_Serialize P ?b = Return (bs2, b)" and len2: "length bs2 = k_block_size"
    and b: "bm_bitmap b = bm_bitmap ?b"
    using BitMapBlock_Serialize_eq [OF wf, of P] by (auto simp: bm_upd_def)
  have block: "(markExtentBlockUsed zero_BitMapBlock i)\<lparr>bm_footer :=
      FillWithoutExtentId (word_of_nat k_block_data_size) (bm_footer (markExtentBlockUsed zero_BitMapBlock i))\<rparr> = ?b"
    by (simp add: markExtentBlockUsed_def Let_def zero_BitMapBlock_def)
  have "outcome_bind (WriteAt F io (bitmapBlockDeviceOffset m (bitmapIndex (ucast i))) bs2)
      (\<lambda>(e, io). Return (e, ?m\<lparr>em_pancake_io := io\<rparr>)) = Return (PANCAKE_STORE_OK, m\<lparr>em_cursor := c, em_pancake_io := io'\<rparr>)"
    using w unfolding write_bitmap_block_def clone outcome_bind.simps Let_def block ser2 prod.case off by simp
  then obtain io2 where w2: "WriteAt F io (bitmapBlockDeviceOffset m (bitmapIndex (ucast i))) bs2 = Return (PANCAKE_STORE_OK, io2)"
    and "m\<lparr>em_cursor := c, em_pancake_io := io2\<rparr> = m\<lparr>em_cursor := c, em_pancake_io := io'\<rparr>"
    by (auto simp: outcome_bind_Return_iff)
  then have "em_pancake_io (m\<lparr>em_cursor := c, em_pancake_io := io2\<rparr>) = em_pancake_io (m\<lparr>em_cursor := c, em_pancake_io := io'\<rparr>)"
    by metis
  then have "io2 = io'" by simp
  then have "block_at content io' (unat (bitmapBlockDeviceOffset m (bitmapIndex (ucast i)))) = bs2"
    using block_device.WriteAt_block [OF assms(1) w2 len2] by simp
  moreover have "BitMapBlock_Deserialize P zero_BitMapBlock bs2 = (PANCAKE_STORE_OK, b)"
    by (rule net_order.BitMapBlock_deser_ser [OF assms(2) wf ser2])
  moreover have "eh_bitmap_ext_index h' = i" using ExtentHeaderBlock_Serialize_keeps [OF ser] by simp
  ultimately show ?thesis using b by (simp add: m')
qed

section \<open>Witnesses\<close>

text \<open>
  A sparse device for \<open>two_extents\<close>: the bitmap block of \<open>bits\<close> in block 0, the header block
  of the first extent in block 1.
\<close>

definition bitmap_bytes :: "platform \<Rightarrow> bool list \<Rightarrow> bytes" where
  "bitmap_bytes P bits = BitMapBlock_body P (bitmap_block_of bits 0)
     @ net32 P (CRC32 (BitMapBlock_body P (bitmap_block_of bits 0))
       (length (BitMapBlock_body P (bitmap_block_of bits 0))))"

definition formatted :: "platform \<Rightarrow> bool list \<Rightarrow> bytes \<Rightarrow> (nat \<Rightarrow> u8) PancakeExtentManager" where
  "formatted P bits hdr = two_extents\<lparr>em_bitmap := bits, em_pancake_io := sparse_io\<lparr>io_device_fd :=
     Some (\<lambda>a. if a < k_block_size then bitmap_bytes P bits ! a
       else if a < 2 * k_block_size then hdr ! (a - k_block_size) else 0)\<rparr>\<rparr>"

definition blank :: "platform \<Rightarrow> (nat \<Rightarrow> u8) PancakeExtentManager" where
  "blank P = formatted P [False, False] (replicate k_block_size 0)"

lemma formatted_fields:
  "em_bitmap (formatted P bits hdr) = bits" "em_bitmap_block_count (formatted P bits hdr) = 1"
  "em_extent_block_count (formatted P bits hdr) = 2" "em_extent_block_size (formatted P bits hdr) = 4096"
  "em_extent_blocks_offset (formatted P bits hdr) = 4096" "em_offset (formatted P bits hdr) = 0"
  "em_used_cnt (formatted P bits hdr) = 0" "em_extent_offset_map (formatted P bits hdr) = Map.empty"
  "io_device_fd (em_pancake_io (formatted P bits hdr)) \<noteq> None"
  by (simp_all add: formatted_def two_extents_eq)

lemma laid_out_formatted: "length bits = 2 \<Longrightarrow> laid_out (formatted P bits hdr)"
  by (simp add: laid_out_def wf_manager_def formatted_fields)

lemma formatted_bitmap:
  assumes "net_order P"
  shows "bitmap_on_device (\<lambda>d. d) P (formatted P bits hdr)"
proof -
  let ?b = "bitmap_block_of bits 0"
  note ser = BitMapBlock_Serialize_eq [OF wf_bitmap_block_of [of bits 0], of P]
  have len: "length (bitmap_bytes P bits) = 4096" by (simp add: bitmap_bytes_def ser(2))
  have "map (\<lambda>i. if i < 4096 then bitmap_bytes P bits ! i else if i < 8192 then hdr ! (i - 4096) else 0) [0..<4096] = bitmap_bytes P bits"
    by (rule nth_equalityI) (simp_all add: len)
  then have "block_at (\<lambda>d. d) (em_pancake_io (formatted P bits hdr)) (bitmap_addr (formatted P bits hdr) 0) = bitmap_bytes P bits"
    by (simp add: block_at_def formatted_def bitmap_addr_def two_extents_eq cong: if_cong)
  moreover have "BitMapBlock_Deserialize P zero_BitMapBlock (bitmap_bytes P bits) =
      (PANCAKE_STORE_OK, bm_upd (\<lambda>f. f\<lparr>bf_magic := k_block_magic,
        bf_crc := CRC32 (BitMapBlock_body P ?b) (length (BitMapBlock_body P ?b))\<rparr>) ?b)"
    unfolding bitmap_bytes_def
    by (rule net_order.BitMapBlock_deser_ser [OF assms wf_bitmap_block_of ser(1)])
  ultimately show ?thesis
    by (simp add: bitmap_on_device_def block_current_def formatted_fields bm_upd_def bitmap_block_of_def)
qed

lemma blank_facts: "laid_out (blank P)" "net_order P \<Longrightarrow> bitmap_on_device (\<lambda>d. d) P (blank P)"
  by (simp_all add: blank_def laid_out_formatted formatted_bitmap)

lemma blank_add:
  obtains m' h' where "AddExtent sparse_file P (blank P) zero_ExtentHeaderBlock = Return (PANCAKE_STORE_OK, m', h')"
proof -
  have "sound_manager (blank P)" by (simp add: sound_manager_def wf_manager_def blank_def formatted_fields)
  from AddExtent_progress [OF this writes_succeed_sparse, of zero_ExtentHeaderBlock 0 P] that
  show thesis by (auto simp: blank_def formatted_fields)
qed

theorem AddExtent_refines_device_witness:
  "\<exists>m. bitmap_on_device (\<lambda>d. d) (x86_host True) m \<and> used_blocks m \<noteq> {}"
proof -
  obtain m h where add: "AddExtent sparse_file (x86_host True) (blank (x86_host True)) zero_ExtentHeaderBlock =
      Return (PANCAKE_STORE_OK, m, h)"
    by (rule blank_add)
  have "bitmap_on_device (\<lambda>d. d) (x86_host True) m"
    using AddExtent_refines_device [OF sparse.block_device_axioms x86.net_order_axioms blank_facts(1)
        blank_facts(2) [OF x86.net_order_axioms] wf_zero_ExtentHeaderBlock add] by blast
  moreover have "used_blocks m \<noteq> {}" using AddExtent_alloc [OF add] by (auto simp: used_blocks_def)
  ultimately show ?thesis by blast
qed

theorem added_extent_not_deletable_witness:
  "\<exists>m h e. AddExtent sparse_file (x86_host True) (blank (x86_host True)) zero_ExtentHeaderBlock = Return (PANCAKE_STORE_OK, m, h)
    \<and> DelExtent sparse_file (x86_host True) zero_ExtentHeaderBlock m h = Return (e, m) \<and> e \<noteq> PANCAKE_STORE_OK"
proof -
  let ?P = "x86_host True"
  obtain m h where add: "AddExtent sparse_file ?P (blank ?P) zero_ExtentHeaderBlock = Return (PANCAKE_STORE_OK, m, h)"
    by (rule blank_add)
  show ?thesis
    using added_extent_not_deletable [OF sparse.block_device_axioms x86.net_order_axioms blank_facts(1)
        wf_zero_ExtentHeaderBlock add refl, of zero_ExtentHeaderBlock] add by auto
qed

text \<open>
  A device whose first extent is used and carries a header in the layout the reader expects.
\<close>

definition occupied :: "platform \<Rightarrow> (nat \<Rightarrow> u8) PancakeExtentManager" where
  "occupied P = formatted P [True, False] (shifted_header P (replicate 4059 0) (replicate 24 0) 0)"

lemma occupied_del:
  assumes "net_order P"
  obtains m' where "DelExtent sparse_file P zero_ExtentHeaderBlock (occupied P) zero_ExtentHeaderBlock = Return (PANCAKE_STORE_OK, m')"
proof -
  let ?m = "occupied P" and ?hdr = "shifted_header P (replicate 4059 0) (replicate 24 0) 0"
  have "host64 P (replicate 8 0) = 0"
    using net_order.host_net(3) [OF assms, of 0] by (simp add: net_order.net_bytes [OF assms] le_bytes_zero)
  then obtain b where b: "ExtentHeaderBlock_Deserialize P zero_ExtentHeaderBlock ?hdr = (PANCAKE_STORE_OK, b)" "eh_extent_id b = 0"
    using ExtentHeaderBlock_accepts_shifted [OF assms, of "replicate 4059 0" "replicate 24 0" zero_ExtentHeaderBlock 0] by auto
  have "map (\<lambda>i. if 4096 + i < 8192 then ?hdr ! i else 0) [0..<4096] = ?hdr"
    by (rule nth_equalityI) (simp_all add: length_shifted_header [simplified])
  then have read: "ReadAt sparse_file (em_pancake_io ?m) (extentBlockDeviceOffset ?m 0) 4096 [] = Return (PANCAKE_STORE_OK, ?hdr)"
    by (simp add: ReadAt_def occupied_def formatted_def two_extents_eq extentBlockDeviceOffset_def IsBlockAlign_def sparse_file_def sparse_io_def cong: if_cong)
  have fields: "unat 0 < length (em_bitmap ?m)" "length (em_bitmap ?m) = unat (em_extent_block_count ?m)"
    "unat (em_extent_block_count ?m) < 2 ^ 31" "unat (0 :: u32) + 8128 \<le> 2 ^ 31"
    by (simp_all add: occupied_def formatted_fields)
  obtain bs where len: "length bs = k_block_size" and w: "write_bitmap_block sparse_file P markExtentBlockUnused ?m 0 =
      outcome_bind (WriteAt sparse_file (em_pancake_io ?m) (bitmapBlockDeviceOffset ?m (bitmapIndex (ucast (0 :: u32)))) bs)
        (\<lambda>(e, io). Return (e, ?m\<lparr>em_pancake_io := io\<rparr>))"
    by (rule write_bitmap_block_eq [of markExtentBlockUnused ?m 0 False P sparse_file, OF mark_unused_slice [OF fields(1)] fields(2-4)])
  have "IsBlockAlign (bitmapBlockDeviceOffset ?m (bitmapIndex (ucast (0 :: u32))))"
    by (simp add: bitmapBlockDeviceOffset_def occupied_def formatted_fields bitmapIndex_def IsBlockAlign_def)
  from WriteAt_succeeds [OF writes_succeed_sparse this len, of "em_pancake_io ?m"]
  obtain io' where "WriteAt sparse_file (em_pancake_io ?m) (bitmapBlockDeviceOffset ?m (bitmapIndex (ucast (0 :: u32)))) bs = Return (PANCAKE_STORE_OK, io')"
    by (auto simp: occupied_def formatted_fields)
  then show thesis
    using read b w that by (simp add: DelExtent_def zero_ExtentHeaderBlock_def Let_def occupied_def formatted_fields)
qed

theorem DelExtent_refines_device_witness:
  "\<exists>m m'. bitmap_on_device (\<lambda>d. d) (x86_host True) m \<and> used_blocks m = {0}
    \<and> DelExtent sparse_file (x86_host True) zero_ExtentHeaderBlock m zero_ExtentHeaderBlock = Return (PANCAKE_STORE_OK, m')
    \<and> bitmap_on_device (\<lambda>d. d) (x86_host True) m' \<and> em_bitmap m' = [False, False]"
proof -
  let ?P = "x86_host True"
  have before: "laid_out (occupied ?P)" "bitmap_on_device (\<lambda>d. d) ?P (occupied ?P)" "em_bitmap (occupied ?P) = [True, False]"
    "unat (eh_bitmap_ext_index zero_ExtentHeaderBlock) div k_block_data_size < unat (em_bitmap_block_count (occupied ?P))"
    by (simp_all add: occupied_def laid_out_formatted formatted_bitmap [OF x86.net_order_axioms] formatted_fields zero_ExtentHeaderBlock_def)
  obtain m' where del: "DelExtent sparse_file ?P zero_ExtentHeaderBlock (occupied ?P) zero_ExtentHeaderBlock = Return (PANCAKE_STORE_OK, m')"
    by (rule occupied_del [OF x86.net_order_axioms])
  from DelExtent_refines_device [OF sparse.block_device_axioms x86.net_order_axioms before(1,2,4) del]
  have "bitmap_on_device (\<lambda>d. d) ?P m'" "em_bitmap m' = [False, False]"
    by (simp_all add: before(3) zero_ExtentHeaderBlock_def)
  moreover have "used_blocks (occupied ?P) = {0}" by (auto simp: used_blocks_def before(3) less_2_cases_iff nth_Cons')
  ultimately show ?thesis using before(2) del by blast
qed

text \<open>A device of \<open>2 ^ 31\<close> extents, of which the code uses the first.\<close>

definition huge :: "(nat \<Rightarrow> u8) PancakeExtentManager" where
  "huge = two_extents\<lparr>em_extent_block_count := 2147483648, em_bitmap := replicate 2147483648 False\<rparr>"

theorem AddExtent_forgets_beyond_int_witness:
  "\<exists>m h b. AddExtent sparse_file (x86_host True) huge zero_ExtentHeaderBlock = Return (PANCAKE_STORE_OK, m, h)
    \<and> BitMapBlock_Deserialize (x86_host True) zero_BitMapBlock (block_at (\<lambda>d. d) (em_pancake_io m)
      (unat (bitmapBlockDeviceOffset huge (bitmapIndex (ucast (eh_bitmap_ext_index h)))))) = (PANCAKE_STORE_OK, b)
    \<and> bm_bitmap b = (replicate k_block_data_size 0)[unat (eh_bitmap_ext_index h) mod k_block_data_size := 1]"
proof -
  let ?P = "x86_host True"
  have "sound_manager huge" and "unat (em_bitmap_block_count huge) \<le> 2 ^ 20"
    and big: "2 ^ 31 \<le> unat (em_extent_block_count huge)"
    by (simp_all add: sound_manager_def wf_manager_def huge_def two_extents_eq)
  moreover have "io_device_fd (em_pancake_io huge) \<noteq> None" "em_extent_offset_map huge (eh_extent_id zero_ExtentHeaderBlock) = None"
    "0 < unat (em_bitmap_block_count huge)" "\<not> em_bitmap huge ! 0"
    by (simp_all add: huge_def two_extents_eq sparse_io_def)
  ultimately obtain m h where add: "AddExtent sparse_file ?P huge zero_ExtentHeaderBlock = Return (PANCAKE_STORE_OK, m, h)"
    using AddExtent_progress [of huge sparse_file zero_ExtentHeaderBlock 0 ?P] writes_succeed_sparse by auto
  from AddExtent_forgets_beyond_int [OF sparse.block_device_axioms x86.net_order_axioms big
      \<open>unat (em_bitmap_block_count huge) \<le> 2 ^ 20\<close> add]
  obtain b where "BitMapBlock_Deserialize ?P zero_BitMapBlock (block_at (\<lambda>d. d) (em_pancake_io m)
      (unat (bitmapBlockDeviceOffset huge (bitmapIndex (ucast (eh_bitmap_ext_index h)))))) = (PANCAKE_STORE_OK, b)"
    and "bm_bitmap b = (replicate k_block_data_size 0)[unat (eh_bitmap_ext_index h) mod k_block_data_size := 1]"
    by (elim exE conjE)
  with add show ?thesis by (intro exI conjI)
qed

end
