(* ===== verification/Extent_Runs.thy ===== *)
theory Extent_Runs
  imports Extent_Persistence
begin

text \<open>
  Runs of the two operations on a device that does not fail: whatever each call returns, and
  whatever the bitmap region held before, every bitmap block is either untouched, on the device and
  in memory, or holds its part of the vector.
\<close>

section \<open>What a failing call leaves on the device\<close>

lemma WriteAt_failed:
  assumes "writes_succeed F" and "WriteAt F io off bs = Return (e, io')" and "e \<noteq> PANCAKE_STORE_OK"
  shows "io' = io"
  using assms by (auto simp: WriteAt_def writes_succeed_def split: if_splits option.splits prod.splits)
    (metis fst_conv option.distinct(1) option.inject)+

lemma write_bitmap_block_write:
  "write_bitmap_block F P mark m i = Return (e, m') \<Longrightarrow>
    \<exists>off bs io. WriteAt F (em_pancake_io m) off bs = Return (e, io) \<and> m' = m\<lparr>em_pancake_io := io\<rparr>"
  by (auto simp: write_bitmap_block_def outcome_bind_Return_iff Let_def split: prod.splits)

lemma write_bitmap_block_failed:
  assumes "writes_succeed F" and "write_bitmap_block F P mark m i = Return (e, m')" and "e \<noteq> PANCAKE_STORE_OK"
  shows "m' = m"
proof -
  from write_bitmap_block_write [OF assms(2)] obtain off bs io
    where "WriteAt F (em_pancake_io m) off bs = Return (e, io)" and m': "m' = m\<lparr>em_pancake_io := io\<rparr>" by blast
  with WriteAt_failed [OF assms(1) _ assms(3)] show ?thesis by simp
qed

text \<open>A refused \<^verbatim>\<open>DelExtent\<close> has written nothing.\<close>

lemma DelExtent_failed:
  assumes "writes_succeed F" and "DelExtent F P tmp m g = Return (e, m')" and "e \<noteq> PANCAKE_STORE_OK"
  shows "m' = m"
proof -
  from assms(2,3) have "m' = m \<or> write_bitmap_block F P markExtentBlockUnused m (eh_bitmap_ext_index g) = Return (e, m')"
    by (auto simp: DelExtent_def outcome_bind_Return_iff Let_def split: if_splits prod.splits)
  then show ?thesis using write_bitmap_block_failed [OF assms(1) _ assms(3)] by blast
qed

text \<open>A refused \<^verbatim>\<open>AddExtent\<close> has written at most the header of the block it had found.\<close>

lemma AddExtent_failed:
  assumes "writes_succeed F" and "AddExtent F P m h = Return (e, m', h')" and "e \<noteq> PANCAKE_STORE_OK"
    and "em_pancake_io m' \<noteq> em_pancake_io m"
  obtains i c bs h2 where "find_unused (em_bitmap_block_count m) (em_bitmap m) (unat (em_extent_block_count m)) (em_cursor m) = Return (i, c)"
    and "i \<noteq> no_block" and "ExtentHeaderBlock_Serialize P (h\<lparr>eh_bitmap_ext_index := i\<rparr>) = Return (bs, h2)"
    and "WriteAt F (em_pancake_io m) (extentBlockDeviceOffset m i) bs = Return (PANCAKE_STORE_OK, em_pancake_io m')"
proof -
  from assms(2-4) obtain i c bs e1 io where
    1: "find_unused (em_bitmap_block_count m) (em_bitmap m) (unat (em_extent_block_count m)) (em_cursor m) = Return (i, c)"
    "i \<noteq> no_block" "ExtentHeaderBlock_Serialize P (h\<lparr>eh_bitmap_ext_index := i\<rparr>) = Return (bs, h')"
    and w: "WriteAt F (em_pancake_io m) (extentBlockDeviceOffset m i) bs = Return (e1, io)"
    and m': "if IsNotOk e1 then m' = m\<lparr>em_cursor := c, em_pancake_io := io\<rparr>
      else write_bitmap_block F P markExtentBlockUsed (m\<lparr>em_cursor := c, em_pancake_io := io\<rparr>) i = Return (e, m')"
    by (auto simp: AddExtent_def outcome_bind_Return_iff Let_def extentBlockDeviceOffset_def split: if_splits prod.splits)
  have "e1 = PANCAKE_STORE_OK"
  proof (rule ccontr)
    assume "e1 \<noteq> PANCAKE_STORE_OK"
    with WriteAt_failed [OF assms(1) w] m' assms(4) show False by simp
  qed
  moreover from this m' have "m' = m\<lparr>em_cursor := c, em_pancake_io := io\<rparr>"
    using write_bitmap_block_failed [OF assms(1) _ assms(3)] by simp
  ultimately show thesis using that [of i c bs h'] 1 w by simp
qed

section \<open>Every call returns\<close>

lemma WriteAt_returns:
  assumes "io_device_fd io \<noteq> None"
  obtains e io' where "WriteAt F io off bs = Return (e, io')" and "io_device_fd io' \<noteq> None"
proof -
  from assms obtain d where d: "io_device_fd io = Some d" by auto
  obtain r d' where "dma_write F d off bs = (r, d')" by fastforce
  then have "\<exists>e io'. WriteAt F io off bs = Return (e, io') \<and> io_device_fd io' \<noteq> None"
    using d by (auto simp: WriteAt_def split: option.splits)
  then show thesis using that by blast
qed

lemma write_bitmap_block_returns:
  assumes "laid_out m" and "io_device_fd (em_pancake_io m) \<noteq> None" and "unat i < length (em_bitmap m)"
    and mark: "\<And>b. mark (b\<lparr>bm_bitmap := slice_bytes (em_bitmap m) (unat i div 4064)\<rparr>) i =
      b\<lparr>bm_bitmap := slice_bytes ((em_bitmap m)[unat i := v]) (unat i div 4064)\<rparr>"
  obtains e io' where "write_bitmap_block F P mark m i = Return (e, m\<lparr>em_pancake_io := io'\<rparr>)"
proof -
  have counts: "length (em_bitmap m) = unat (em_extent_block_count m)" "unat (em_extent_block_count m) < 2 ^ 31"
    "unat i + 8128 \<le> 2 ^ 31"
    using assms(1,3) by (simp_all add: laid_out_def wf_manager_def)
  obtain bs where "write_bitmap_block F P mark m i =
      outcome_bind (WriteAt F (em_pancake_io m) (bitmapBlockDeviceOffset m (bitmapIndex (ucast i))) bs)
        (\<lambda>(e, io). Return (e, m\<lparr>em_pancake_io := io\<rparr>))"
    by (rule write_bitmap_block_eq [of mark m i v P F, OF mark counts])
  moreover obtain e io' where "WriteAt F (em_pancake_io m) (bitmapBlockDeviceOffset m (bitmapIndex (ucast i))) bs = Return (e, io')"
    by (rule WriteAt_returns [OF assms(2)])
  ultimately show thesis using that by simp
qed

lemma AddExtent_returns:
  assumes "laid_out m" and "0 < em_bitmap_block_count m" and "io_device_fd (em_pancake_io m) \<noteq> None"
    and "wf_ExtentHeaderBlock h"
  shows "\<exists>e m' h'. AddExtent F P m h = Return (e, m', h')"
proof -
  have "unat (em_bitmap_block_count m) \<le> length (em_bitmap m)" using assms(1) by (simp add: laid_out_def wf_manager_def)
  from find_unused_total [OF assms(2) this] obtain i c where
    find: "find_unused (em_bitmap_block_count m) (em_bitmap m) (unat (em_extent_block_count m)) (em_cursor m) = Return (i, c)"
    by blast
  show ?thesis
  proof (cases "i = no_block")
    case True
    then show ?thesis by (simp add: AddExtent_def find Let_def)
  next
    case False
    have less: "unat i < length (em_bitmap m)" using find_unused_found [OF find False] by simp
    have "wf_ExtentHeaderBlock (h\<lparr>eh_bitmap_ext_index := i\<rparr>)" using assms(4) by (simp add: wf_header_index)
    then obtain bs h' where ser: "ExtentHeaderBlock_Serialize P (h\<lparr>eh_bitmap_ext_index := i\<rparr>) = Return (bs, h')"
      by (rule ExtentHeaderBlock_Serialize_length [of _ P])
    obtain e io where w: "WriteAt F (em_pancake_io m) (extentBlockDeviceOffset m i) bs = Return (e, io)" and "io_device_fd io \<noteq> None"
      by (rule WriteAt_returns [OF assms(3)])
    then obtain e2 io2 where "write_bitmap_block F P markExtentBlockUsed (m\<lparr>em_cursor := c, em_pancake_io := io\<rparr>) i =
        Return (e2, m\<lparr>em_cursor := c, em_pancake_io := io2\<rparr>)"
      using write_bitmap_block_returns [of "m\<lparr>em_cursor := c, em_pancake_io := io\<rparr>" i markExtentBlockUsed True F P]
        mark_used_slice less assms(1) by auto
    then show ?thesis
      using less w by (simp add: AddExtent_def find Let_def ser extentBlockDeviceOffset_def)
  qed
qed

lemma DelExtent_returns:
  assumes "laid_out m" and "io_device_fd (em_pancake_io m) \<noteq> None" and "unat (eh_bitmap_ext_index g) < length (em_bitmap m)"
  shows "\<exists>e m'. DelExtent F P tmp m g = Return (e, m')"
proof -
  obtain e buf where r: "ReadAt F (em_pancake_io m) (extentBlockDeviceOffset m (eh_bitmap_ext_index g)) (word_of_nat k_block_size) [] = Return (e, buf)"
    by (rule ReadAt_returns [OF assms(2)])
  obtain e2 b where d: "ExtentHeaderBlock_Deserialize P tmp buf = (e2, b)" by fastforce
  obtain e3 io' where "write_bitmap_block F P markExtentBlockUnused m (eh_bitmap_ext_index g) = Return (e3, m\<lparr>em_pancake_io := io'\<rparr>)"
    by (rule write_bitmap_block_returns [where mark = markExtentBlockUnused and v = False, OF assms mark_unused_slice [OF assms(3)]])
  then show ?thesis using r d assms(3) by (simp add: DelExtent_def Let_def)
qed

text \<open>What every call keeps, whatever the device does.\<close>

lemma write_bitmap_block_keeps:
  assumes "write_bitmap_block F P mark m i = Return (e, m')" and "io_device_fd (em_pancake_io m) \<noteq> None"
  shows "\<exists>io. m' = m\<lparr>em_pancake_io := io\<rparr> \<and> io_device_fd io \<noteq> None"
  using write_bitmap_block_write [OF assms(1)] WriteAt_keeps_open [OF _ assms(2)] by blast

lemma DelExtent_keeps:
  assumes "DelExtent F P tmp m g = Return (e, m')" and "io_device_fd (em_pancake_io m) \<noteq> None"
  shows "\<exists>io bm. m' = m\<lparr>em_pancake_io := io, em_bitmap := bm\<rparr> \<and> io_device_fd io \<noteq> None
    \<and> length bm = length (em_bitmap m)"
proof -
  from assms(1) consider "m' = m"
    | m2 where "write_bitmap_block F P markExtentBlockUnused m (eh_bitmap_ext_index g) = Return (e, m2)"
        "m' = m2 \<or> m' = m2\<lparr>em_bitmap := (em_bitmap m2)[unat (eh_bitmap_ext_index g) := False]\<rparr>"
    by (auto simp: DelExtent_def outcome_bind_Return_iff Let_def IsNotOk_def split: if_splits prod.splits)
  then show ?thesis
  proof cases
    case 1
    then show ?thesis using assms(2) by (intro exI [of _ "em_pancake_io m"] exI [of _ "em_bitmap m"]) simp
  next
    case 2
    obtain io where m2: "m2 = m\<lparr>em_pancake_io := io\<rparr>" and io: "io_device_fd io \<noteq> None"
      using write_bitmap_block_keeps [OF 2(1) assms(2)] by blast
    from 2(2) show ?thesis
    proof
      assume "m' = m2"
      with m2 io show ?thesis by (intro exI [of _ io] exI [of _ "em_bitmap m"]) simp
    next
      assume "m' = m2\<lparr>em_bitmap := (em_bitmap m2)[unat (eh_bitmap_ext_index g) := False]\<rparr>"
      with m2 io show ?thesis
        by (intro exI [of _ io] exI [of _ "(em_bitmap m)[unat (eh_bitmap_ext_index g) := False]"]) simp
    qed
  qed
qed

definition io_open :: "'d PancakeIO \<Rightarrow> bool" where
  "io_open io \<longleftrightarrow> io_device_fd io \<noteq> None"

lemma WriteAt_open: "WriteAt F io off bs = Return (e, io') \<Longrightarrow> io_open io \<Longrightarrow> io_open io'"
  unfolding io_open_def by (rule WriteAt_keeps_open)

lemma write_bitmap_block_open:
  "write_bitmap_block F P mark m i = Return (e, m') \<Longrightarrow> io_open (em_pancake_io m) \<Longrightarrow> io_open (em_pancake_io m')"
  using write_bitmap_block_keeps unfolding io_open_def by fastforce

lemma AddExtent_open:
  assumes "AddExtent F P m h = Return (e, m', h')" and "io_open (em_pancake_io m)"
  shows "io_open (em_pancake_io m')"
proof -
  have "returns_only (\<lambda>(e, m', h'). io_open (em_pancake_io m')) (AddExtent F P m h)"
    using assms(2) unfolding AddExtent_def Let_def
    by (auto intro!: returns_only_bind) (fastforce dest: WriteAt_open write_bitmap_block_open)+
  then show ?thesis using assms(1) by (simp add: returns_only_def)
qed

section \<open>Runs\<close>

text \<open>One call of either operation, with any header and any result.\<close>

inductive edit_step :: "'d file_api \<Rightarrow> platform \<Rightarrow> 'd PancakeExtentManager \<Rightarrow> 'd PancakeExtentManager \<Rightarrow> bool"
  for F :: "'d file_api" and P :: platform where
  edit_Add: "wf_ExtentHeaderBlock h \<Longrightarrow> AddExtent F P m h = Return (e, m', h') \<Longrightarrow> edit_step F P m m'"
| edit_Del: "DelExtent F P tmp m g = Return (e, m') \<Longrightarrow> edit_step F P m m'"

text \<open>The bitmap blocks have a bit for every extent block.\<close>

definition bitmap_covers :: "'d PancakeExtentManager \<Rightarrow> bool" where
  "bitmap_covers m \<longleftrightarrow> unat (em_extent_block_count m) \<le> unat (em_bitmap_block_count m) * k_block_data_size"

lemma refused_AddExtent_keeps:
  assumes "block_device F content" and "writes_succeed F" and "laid_out m" and "wf_ExtentHeaderBlock h"
    and "AddExtent F P m h = Return (e, m', h')" and "e \<noteq> PANCAKE_STORE_OK" and "j < unat (em_bitmap_block_count m)"
  shows "block_kept content m m' j"
proof -
  have addr: "bitmap_addr m' j = bitmap_addr m j" by (simp add: bitmap_addr_def AddExtent_frame [OF assms(5)])
  have bm: "em_bitmap m' = em_bitmap m"
    by (subst AddExtent_error_frame [OF assms(5,6)]) simp
  have "block_at content (em_pancake_io m') (bitmap_addr m j) = block_at content (em_pancake_io m) (bitmap_addr m j)"
  proof (cases "em_pancake_io m' = em_pancake_io m")
    case False
    then obtain i c bs h2 where
      find: "find_unused (em_bitmap_block_count m) (em_bitmap m) (unat (em_extent_block_count m)) (em_cursor m) = Return (i, c)"
        "i \<noteq> no_block"
      and ser: "ExtentHeaderBlock_Serialize P (h\<lparr>eh_bitmap_ext_index := i\<rparr>) = Return (bs, h2)"
      and w: "WriteAt F (em_pancake_io m) (extentBlockDeviceOffset m i) bs = Return (PANCAKE_STORE_OK, em_pancake_io m')"
      by (rule AddExtent_failed [OF assms(2,5,6)])
    have "wf_ExtentHeaderBlock (h\<lparr>eh_bitmap_ext_index := i\<rparr>)" using assms(4) by (simp add: wf_header_index)
    then have len: "length bs = k_block_size"
      using ExtentHeaderBlock_Serialize_length [of "h\<lparr>eh_bitmap_ext_index := i\<rparr>" P] ser by auto
    have "unat (extentBlockDeviceOffset m i) = extent_addr m (unat i)"
      using find_unused_found [OF find] assms(3) by (intro unat_extentBlockDeviceOffset) (simp_all add: laid_out_def)
    then show ?thesis
      using block_device.WriteAt_other [OF assms(1) w len] bitmap_below_extents [OF assms(3,7)] by simp
  qed simp
  then show ?thesis by (simp add: block_kept_def addr bm)
qed

lemma edit_step_refreshes:
  assumes "block_device F content" and "net_order P" and "writes_succeed F"
    and "edit_step F P m m'" and "laid_out m" and "bitmap_covers m"
  shows "laid_out m' \<and> bitmap_covers m' \<and> bitmap_refreshed content P m m'"
  using assms(4)
proof cases
  case (edit_Add h e h')
  note frame = AddExtent_frame [OF edit_Add(2)]
  have "bitmap_refreshed content P m m'"
  proof (cases "e = PANCAKE_STORE_OK")
    case True
    with edit_Add show ?thesis by (intro AddExtent_refreshes [OF assms(1,2,5)]) simp_all
  next
    case False
    then show ?thesis
      using refused_AddExtent_keeps [OF assms(1,3,5) edit_Add] by (simp add: bitmap_refreshed_def frame)
  qed
  then show ?thesis using assms(5,6) by (simp add: laid_out_def wf_manager_def bitmap_covers_def frame)
next
  case (edit_Del tmp g e)
  show ?thesis
  proof (cases "e = PANCAKE_STORE_OK")
    case True
    with edit_Del have del: "DelExtent F P tmp m g = Return (PANCAKE_STORE_OK, m')" by simp
    obtain io' where less: "unat (eh_bitmap_ext_index g) < length (em_bitmap m)"
      and m': "m' = m\<lparr>em_pancake_io := io', em_bitmap := (em_bitmap m)[unat (eh_bitmap_ext_index g) := False]\<rparr>"
      using DelExtent_OK [OF del] by metis
    have "unat (eh_bitmap_ext_index g) < unat (em_bitmap_block_count m) * 4064"
      using less assms(5,6) by (simp add: laid_out_def wf_manager_def bitmap_covers_def)
    then have "unat (eh_bitmap_ext_index g) div 4064 < unat (em_bitmap_block_count m)"
      by (rule less_mult_imp_div_less)
    from DelExtent_device(1) [OF assms(1,2,5) this del] show ?thesis
      using assms(5,6) by (simp add: m' bitmap_covers_def)
  next
    case False
    with DelExtent_failed [OF assms(3) edit_Del] assms(5,6) show ?thesis by simp
  qed
qed

lemma edit_step_keeps:
  assumes "edit_step F P m m'" and "laid_out m" and "io_open (em_pancake_io m)"
  shows "laid_out m' \<and> io_open (em_pancake_io m') \<and> em_bitmap_block_count m' = em_bitmap_block_count m
    \<and> em_extent_block_count m' = em_extent_block_count m"
  using assms(1)
proof cases
  case (edit_Add h e h')
  then show ?thesis
    using assms(2) AddExtent_open [OF edit_Add(2) assms(3)]
    by (simp add: laid_out_def wf_manager_def AddExtent_frame [OF edit_Add(2)])
next
  case (edit_Del tmp g e)
  have "io_device_fd (em_pancake_io m) \<noteq> None" using assms(3) by (simp add: io_open_def)
  then show ?thesis using DelExtent_keeps [OF edit_Del] assms(2) by (auto simp: io_open_def)
qed

lemma edit_run_keeps:
  assumes "(edit_step F P)\<^sup>*\<^sup>* m m'" and "laid_out m" and "io_open (em_pancake_io m)"
  shows "laid_out m' \<and> io_open (em_pancake_io m') \<and> em_bitmap_block_count m' = em_bitmap_block_count m
    \<and> em_extent_block_count m' = em_extent_block_count m"
  using assms(1)
  by (induction rule: rtranclp_induct) (use assms(2,3) edit_step_keeps in \<open>simp, metis\<close>)

lemma edit_run_refreshes:
  assumes "block_device F content" and "net_order P" and "writes_succeed F"
    and "laid_out m" and "bitmap_covers m" and "(edit_step F P)\<^sup>*\<^sup>* m m'"
  shows "laid_out m' \<and> bitmap_covers m' \<and> bitmap_refreshed content P m m'"
  using assms(6)
proof (induction rule: rtranclp_induct)
  case base
  then show ?case using assms(4,5) by simp
next
  case (step m1 m2)
  then show ?case using edit_step_refreshes [OF assms(1-3)] bitmap_refreshed_trans by blast
qed

section \<open>Properties\<close>

text \<open>
  On a device that does not fail, after any run of \<^verbatim>\<open>AddExtent\<close> and \<^verbatim>\<open>DelExtent\<close> calls with any
  headers and any results, each bitmap block is either as it was before the run, on the device and
  in memory, or the device holds a block there that the reader accepts with exactly the bits of the
  vector. So a device whose bitmap agreed with memory before the run agrees after it, and on one whose
  bitmap was never written the blocks the run touched agree.
\<close>

theorem runs_refine_device:
  assumes "block_device F content" and "net_order P" and "writes_succeed F"
    and "laid_out m" and "bitmap_covers m" and "(edit_step F P)\<^sup>*\<^sup>* m m'"
  shows "(\<forall>j < unat (em_bitmap_block_count m). block_current content P m' j \<or> block_kept content m m' j)
    \<and> (bitmap_on_device content P m \<longrightarrow> bitmap_on_device content P m') \<and> laid_out m'"
  using edit_run_refreshes [OF assms] bitmap_refreshed_on_device by (auto simp: bitmap_refreshed_def)

text \<open>
  C10. Every call returns. On a manager of a layout with an open device, after any run of calls and
  whatever the device answers to each read and write, \<^verbatim>\<open>AddExtent\<close> comes back from its search and
  returns an error code, and so does \<^verbatim>\<open>DelExtent\<close> for every index below the number of extents: no
  assertion fails and nothing is read or written outside the vector.
\<close>

theorem calls_return:
  assumes "laid_out m" and "0 < em_bitmap_block_count m" and "io_open (em_pancake_io m)"
    and "(edit_step F P)\<^sup>*\<^sup>* m m'" and "wf_ExtentHeaderBlock h"
    and "unat (eh_bitmap_ext_index g) < unat (em_extent_block_count m)"
  shows "(\<exists>e m'' h'. AddExtent F P m' h = Return (e, m'', h')) \<and> (\<exists>e m''. DelExtent F P tmp m' g = Return (e, m''))"
proof -
  from edit_run_keeps [OF assms(4,1,3)]
  have m': "laid_out m'" "em_bitmap_block_count m' = em_bitmap_block_count m"
      "em_extent_block_count m' = em_extent_block_count m"
    and dev: "io_device_fd (em_pancake_io m') \<noteq> None"
    by (simp_all add: io_open_def)
  have "unat (eh_bitmap_ext_index g) < length (em_bitmap m')"
    using m' assms(6) by (simp add: laid_out_def wf_manager_def)
  then show ?thesis
    using AddExtent_returns [OF m'(1) _ dev assms(5)] DelExtent_returns [OF m'(1) dev] m'(2) assms(2) by simp
qed

section \<open>Witnesses\<close>

text \<open>
  On a device whose bitmap region was never written, one call makes the only bitmap block current.
\<close>

theorem runs_refine_device_witness:
  "\<exists>m. (edit_step sparse_file (x86_host True))\<^sup>*\<^sup>* two_extents m \<and> em_bitmap m \<noteq> em_bitmap two_extents
    \<and> bitmap_on_device (\<lambda>d. d) (x86_host True) m"
proof -
  let ?P = "x86_host True"
  obtain m h where add: "AddExtent sparse_file ?P two_extents zero_ExtentHeaderBlock = Return (PANCAKE_STORE_OK, m, h)"
    by (rule two_extents_add)
  have laid: "laid_out two_extents" "bitmap_covers two_extents"
    by (simp_all add: laid_out_def wf_manager_def bitmap_covers_def two_extents_eq)
  have run: "(edit_step sparse_file ?P)\<^sup>*\<^sup>* two_extents m"
    by (rule r_into_rtranclp) (rule edit_Add [OF wf_zero_ExtentHeaderBlock add])
  have two_extents_length: "length (em_bitmap two_extents) = 2" by (simp add: two_extents_eq)
  obtain i where i: "i < length (em_bitmap two_extents)" "\<not> em_bitmap two_extents ! i" "em_bitmap m = (em_bitmap two_extents)[i := True]"
    using AddExtent_alloc [OF add] by blast
  then have "slice_bytes (em_bitmap m) 0 ! i \<noteq> slice_bytes (em_bitmap two_extents) 0 ! i"
    using i(1) by (simp add: slice_bytes_nth two_extents_length)
  then have "slice_bytes (em_bitmap m) 0 \<noteq> slice_bytes (em_bitmap two_extents) 0" by auto
  then have "\<not> block_kept (\<lambda>d. d) two_extents m 0" and "em_bitmap m \<noteq> em_bitmap two_extents"
    by (auto simp: block_kept_def)
  moreover have "em_bitmap_block_count two_extents = 1" "em_bitmap_block_count m = 1"
    by (simp_all add: AddExtent_frame [OF add] two_extents_eq)
  ultimately show ?thesis
    using runs_refine_device [OF sparse.block_device_axioms x86.net_order_axioms writes_succeed_sparse laid run] run
    by (auto simp: bitmap_on_device_def)
qed

text \<open>A device on which every access fails.\<close>

definition dead_file :: "unit file_api" where
  "dead_file = \<lparr>open_file_dma = (\<lambda>_. None), dma_read_exactly = (\<lambda>_ _ _. None), dma_write = (\<lambda>d _ _. (None, d))\<rparr>"

definition dead_manager :: "unit PancakeExtentManager" where
  "dead_manager = snd (Init (new_PancakeExtentManager \<lparr>io_device_path = [], io_device_id = 1, io_device_fd = Some ()\<rparr>)
     0 1 2 4096 4096)"

theorem calls_return_witness:
  "(\<exists>e m h. AddExtent dead_file (x86_host True) dead_manager zero_ExtentHeaderBlock = Return (e, m, h))
    \<and> (\<exists>e m. DelExtent dead_file (x86_host True) zero_ExtentHeaderBlock dead_manager zero_ExtentHeaderBlock = Return (e, m))"
proof -
  have "laid_out dead_manager" "0 < em_bitmap_block_count dead_manager" "io_open (em_pancake_io dead_manager)"
    "unat (eh_bitmap_ext_index zero_ExtentHeaderBlock) < unat (em_extent_block_count dead_manager)"
    by (simp_all add: dead_manager_def Init_def Let_def IsBlockAlign_def new_PancakeExtentManager_def laid_out_def
        wf_manager_def vector_resize_def io_open_def zero_ExtentHeaderBlock_def)
  from calls_return [OF this(1-3) rtranclp.rtrancl_refl wf_zero_ExtentHeaderBlock this(4), of dead_file "x86_host True"]
  show ?thesis by blast
qed

end
