(* ===== verification/Extent_Faults.thy ===== *)
theory Extent_Faults
  imports Extent_Runs
begin

text \<open>
  Runs of the two operations on a device on which every access may fail: a write that does not
  succeed may leave anything in its range. What a failing call can damage, that no run of calls
  loses an extent, and which bitmap blocks can be trusted after such a run.
\<close>

section \<open>What a call leaves alone on the device\<close>

definition apart :: "nat \<Rightarrow> nat \<Rightarrow> bool" where
  "apart a b \<longleftrightarrow> a + k_block_size \<le> b \<or> b + k_block_size \<le> a"

lemma bitmap_addr_apart: "j \<noteq> k \<Longrightarrow> apart (bitmap_addr m j) (bitmap_addr m k)"
  unfolding apart_def by (rule bitmap_apart)

lemma extent_addr_apart: "laid_out m \<Longrightarrow> i \<noteq> k \<Longrightarrow> apart (extent_addr m i) (extent_addr m k)"
  unfolding apart_def by (rule extents_apart)

lemma regions_apart:
  "laid_out m \<Longrightarrow> j < unat (em_bitmap_block_count m) \<Longrightarrow> apart (bitmap_addr m j) (extent_addr m i)"
  "laid_out m \<Longrightarrow> j < unat (em_bitmap_block_count m) \<Longrightarrow> apart (extent_addr m i) (bitmap_addr m j)"
  unfolding apart_def using bitmap_below_extents by blast+

text \<open>Every way through \<^verbatim>\<open>AddExtent\<close> that returns, by how far it gets with its writes.\<close>

lemma AddExtent_writes:
  assumes "AddExtent F P m h = Return (e, m', h')"
  obtains (none) "em_pancake_io m' = em_pancake_io m" and "e \<noteq> PANCAKE_STORE_OK"
  | (header) i c bs where "find_unused (em_bitmap_block_count m) (em_bitmap m) (unat (em_extent_block_count m)) (em_cursor m) = Return (i, c)"
      and "i \<noteq> no_block" and "ExtentHeaderBlock_Serialize P (h\<lparr>eh_bitmap_ext_index := i\<rparr>) = Return (bs, h')"
      and "WriteAt F (em_pancake_io m) (extentBlockDeviceOffset m i) bs = Return (e, em_pancake_io m')"
      and "e \<noteq> PANCAKE_STORE_OK"
  | (bitmap) i c bs io m2 where "find_unused (em_bitmap_block_count m) (em_bitmap m) (unat (em_extent_block_count m)) (em_cursor m) = Return (i, c)"
      and "i \<noteq> no_block" and "ExtentHeaderBlock_Serialize P (h\<lparr>eh_bitmap_ext_index := i\<rparr>) = Return (bs, h')"
      and "WriteAt F (em_pancake_io m) (extentBlockDeviceOffset m i) bs = Return (PANCAKE_STORE_OK, io)"
      and "write_bitmap_block F P markExtentBlockUsed (m\<lparr>em_cursor := c, em_pancake_io := io\<rparr>) i = Return (e, m2)"
      and "em_pancake_io m' = em_pancake_io m2"
proof (cases "em_extent_offset_map m (eh_extent_id h) \<noteq> None \<or> em_used_cnt m = em_extent_block_count m")
  case True
  with assms show thesis by (intro that(1)) (auto simp: AddExtent_def split: if_splits)
next
  case False
  with assms obtain i c where find: "find_unused (em_bitmap_block_count m) (em_bitmap m) (unat (em_extent_block_count m)) (em_cursor m) = Return (i, c)"
    by (auto simp: AddExtent_def outcome_bind_Return_iff)
  show thesis
  proof (cases "i = no_block")
    case True
    with assms False find show thesis by (intro that(1)) (auto simp: AddExtent_def Let_def)
  next
    case found: False
    with assms False find obtain bs h2 e1 io
      where ser: "ExtentHeaderBlock_Serialize P (h\<lparr>eh_bitmap_ext_index := i\<rparr>) = Return (bs, h2)"
        and w: "WriteAt F (em_pancake_io m) (extentBlockDeviceOffset m i) bs = Return (e1, io)"
      by (auto simp: AddExtent_def Let_def outcome_bind_Return_iff extentBlockDeviceOffset_def)
    note run = assms [unfolded AddExtent_def] False find found ser w
    show thesis
    proof (cases "e1 = PANCAKE_STORE_OK")
      case True
      with run obtain e2 m2 where b: "write_bitmap_block F P markExtentBlockUsed (m\<lparr>em_cursor := c, em_pancake_io := io\<rparr>) i = Return (e2, m2)"
        by (auto simp: Let_def outcome_bind_Return_iff extentBlockDeviceOffset_def)
      with run True have "e2 = e" and "h2 = h'" and "em_pancake_io m' = em_pancake_io m2"
        by (auto simp: Let_def extentBlockDeviceOffset_def IsNotOk_def split: if_splits)
      then show thesis using find found ser w b True by (intro that(3) [of i c bs io m2]) simp_all
    next
      case failed: False
      with run have "e1 = e" and "h2 = h'" and "io = em_pancake_io m'"
        by (auto simp: Let_def extentBlockDeviceOffset_def IsNotOk_def)
      then show thesis using find found ser w failed by (intro that(2) [of i c bs]) simp_all
    qed
  qed
qed

text \<open>What it does to the vector and the map, whatever it returns.\<close>

lemma AddExtent_memory:
  assumes "AddExtent F P m h = Return (e, m', h')"
  shows "em_bitmap m' = (if e = PANCAKE_STORE_OK then (em_bitmap m)[unat (eh_bitmap_ext_index h') := True] else em_bitmap m)"
    and "em_extent_offset_map m' = (if e = PANCAKE_STORE_OK
      then (em_extent_offset_map m)(eh_extent_id h \<mapsto> block_place m (unat (eh_bitmap_ext_index h'))) else em_extent_offset_map m)"
proof -
  have "em_bitmap m' = (em_bitmap m)[unat (eh_bitmap_ext_index h') := True] \<and>
      em_extent_offset_map m' = (em_extent_offset_map m)(eh_extent_id h \<mapsto> block_place m (unat (eh_bitmap_ext_index h')))"
    if "e = PANCAKE_STORE_OK"
    using assms [unfolded that]
  proof (rule AddExtent_OK)
    fix i c bs io io'
    assume "ExtentHeaderBlock_Serialize P (h\<lparr>eh_bitmap_ext_index := i\<rparr>) = Return (bs, h')"
      and "m' = m\<lparr>em_cursor := c, em_pancake_io := io', em_bitmap := (em_bitmap m)[unat i := True],
        em_extent_offset_map := (em_extent_offset_map m)(eh_extent_id h \<mapsto> extentBlockDeviceOffset m i)\<rparr>"
    then show ?thesis by (auto dest!: ExtentHeaderBlock_Serialize_keeps simp: block_place_def)
  qed
  moreover have "em_bitmap m' = em_bitmap m \<and> em_extent_offset_map m' = em_extent_offset_map m" if "e \<noteq> PANCAKE_STORE_OK"
    by (subst (1 2) AddExtent_error_frame [OF assms that]) simp
  ultimately show "em_bitmap m' = (if e = PANCAKE_STORE_OK then (em_bitmap m)[unat (eh_bitmap_ext_index h') := True] else em_bitmap m)"
    and "em_extent_offset_map m' = (if e = PANCAKE_STORE_OK
      then (em_extent_offset_map m)(eh_extent_id h \<mapsto> block_place m (unat (eh_bitmap_ext_index h'))) else em_extent_offset_map m)"
    by simp_all
qed

lemma DelExtent_memory:
  assumes "DelExtent F P tmp m g = Return (e, m')"
  shows "em_bitmap m' = (if e = PANCAKE_STORE_OK then (em_bitmap m)[unat (eh_bitmap_ext_index g) := False] else em_bitmap m)"
    and "em_extent_offset_map m' = em_extent_offset_map m"
proof -
  show "em_extent_offset_map m' = em_extent_offset_map m"
    by (subst DelExtent_frame [OF assms, THEN conjunct1]) simp
  show "em_bitmap m' = (if e = PANCAKE_STORE_OK then (em_bitmap m)[unat (eh_bitmap_ext_index g) := False] else em_bitmap m)"
  proof (cases "e = PANCAKE_STORE_OK")
    case True
    from DelExtent_OK [OF assms [unfolded True]] show ?thesis using True by (metis PancakeExtentManager.select_convs(7)
        PancakeExtentManager.surjective PancakeExtentManager.update_convs(7))
  next
    case False
    with assms show ?thesis by (auto simp: DelExtent_def outcome_bind_Return_iff Let_def IsNotOk_def
        split: if_splits prod.splits dest!: write_bitmap_block_frame)
  qed
qed

context block_device
begin

lemma write_bitmap_block_elsewhere:
  assumes "laid_out m"
    and mark: "\<And>b. mark (b\<lparr>bm_bitmap := slice_bytes (em_bitmap m) (unat i div 4064)\<rparr>) i =
      b\<lparr>bm_bitmap := slice_bytes ((em_bitmap m)[unat i := v]) (unat i div 4064)\<rparr>"
    and i: "unat i < length (em_bitmap m)" "unat i div 4064 < unat (em_bitmap_block_count m)"
    and w: "write_bitmap_block F P mark m i = Return (e, m')"
    and a: "apart a (bitmap_addr m (unat i div 4064))"
  shows "block_at content (em_pancake_io m') a = block_at content (em_pancake_io m) a"
proof -
  have counts: "length (em_bitmap m) = unat (em_extent_block_count m)" "unat (em_extent_block_count m) < 2 ^ 31"
    "unat i + 8128 \<le> 2 ^ 31"
    using assms(1) i by (simp_all add: laid_out_def wf_manager_def)
  obtain bs where len: "length bs = k_block_size" and "write_bitmap_block F P mark m i =
      outcome_bind (WriteAt F (em_pancake_io m) (bitmapBlockDeviceOffset m (bitmapIndex (ucast i))) bs)
        (\<lambda>(e, io). Return (e, m\<lparr>em_pancake_io := io\<rparr>))"
    by (rule write_bitmap_block_eq [of mark m i v P F, OF mark counts])
  with w have "WriteAt F (em_pancake_io m) (bitmapBlockDeviceOffset m (bitmapIndex (ucast i))) bs = Return (e, em_pancake_io m')"
    by (auto simp: outcome_bind_Return_iff)
  from WriteAt_other [OF this len] a show ?thesis
    by (simp add: unat_bitmapBlockDeviceOffset [OF assms(1) i(2)] apart_def)
qed

lemma AddExtent_elsewhere:
  assumes "laid_out m" and "wf_ExtentHeaderBlock h" and "AddExtent F P m h = Return (e, m', h')"
  obtains (none) "em_pancake_io m' = em_pancake_io m" and "e \<noteq> PANCAKE_STORE_OK"
  | (written) i where "i = unat (eh_bitmap_ext_index h')" and "i < unat (em_bitmap_block_count m)"
      and "i < length (em_bitmap m)" and "\<not> em_bitmap m ! i"
      and "\<And>a. apart a (extent_addr m i) \<Longrightarrow> apart a (bitmap_addr m (i div 4064)) \<Longrightarrow>
        block_at content (em_pancake_io m') a = block_at content (em_pancake_io m) a"
proof -
  have free: "unat (eh_bitmap_ext_index h') = unat i \<and> unat i < unat (em_bitmap_block_count m) \<and> unat i < length (em_bitmap m)
      \<and> \<not> em_bitmap m ! unat i \<and> length bs = k_block_size \<and> unat (extentBlockDeviceOffset m i) = extent_addr m (unat i)"
    if find: "find_unused (em_bitmap_block_count m) (em_bitmap m) (unat (em_extent_block_count m)) (em_cursor m) = Return (i, c)" "i \<noteq> no_block"
      and ser: "ExtentHeaderBlock_Serialize P (h\<lparr>eh_bitmap_ext_index := i\<rparr>) = Return (bs, h')" for i c bs
  proof -
    have "wf_ExtentHeaderBlock (h\<lparr>eh_bitmap_ext_index := i\<rparr>)" using assms(2) by (simp add: wf_header_index)
    then have "length bs = k_block_size"
      using ExtentHeaderBlock_Serialize_length [of "h\<lparr>eh_bitmap_ext_index := i\<rparr>" P] ser by auto
    moreover have "unat (extentBlockDeviceOffset m i) = extent_addr m (unat i)"
      using find_unused_found [OF find] assms(1) by (intro unat_extentBlockDeviceOffset) (simp_all add: laid_out_def)
    ultimately show ?thesis
      using find_unused_found [OF find] ExtentHeaderBlock_Serialize_keeps [OF ser] by simp
  qed
  from assms(3) show thesis
  proof (cases rule: AddExtent_writes)
    case none
    then show thesis by (rule that(1))
  next
    case (header i c bs)
    note facts = free [OF header(1-3)]
    show thesis
      by (rule that(2) [of "unat i"]) (use facts WriteAt_other [OF header(4)] in \<open>simp_all add: apart_def\<close>)
  next
    case (bitmap i c bs io m2)
    note facts = free [OF bitmap(1-3)]
    let ?m = "m\<lparr>em_cursor := c, em_pancake_io := io\<rparr>"
    have "block_at content (em_pancake_io m2) a = block_at content io a" if "apart a (bitmap_addr m (unat i div 4064))" for a
      using write_bitmap_block_elsewhere [of ?m markExtentBlockUsed i True P e m2 a] mark_used_slice [of i "em_bitmap m"]
        that facts div_below [of "unat i"] assms(1) bitmap(5) by simp
    then show thesis
      by (intro that(2) [of "unat i"]) (use facts WriteAt_other [OF bitmap(4)] bitmap(6) in \<open>simp_all add: apart_def\<close>)
  qed
qed

lemma DelExtent_elsewhere:
  assumes "laid_out m" and "unat (eh_bitmap_ext_index g) < length (em_bitmap m)"
    and "unat (eh_bitmap_ext_index g) div 4064 < unat (em_bitmap_block_count m)"
    and "DelExtent F P tmp m g = Return (e, m')"
    and "apart a (bitmap_addr m (unat (eh_bitmap_ext_index g) div 4064))"
  shows "block_at content (em_pancake_io m') a = block_at content (em_pancake_io m) a"
proof -
  from assms(4) consider "em_pancake_io m' = em_pancake_io m"
    | m2 e2 where "write_bitmap_block F P markExtentBlockUnused m (eh_bitmap_ext_index g) = Return (e2, m2)"
        "em_pancake_io m' = em_pancake_io m2"
    by (auto simp: DelExtent_def outcome_bind_Return_iff Let_def IsNotOk_def split: if_splits prod.splits)
  then show ?thesis
  proof cases
    case 2
    from write_bitmap_block_elsewhere [OF assms(1) mark_unused_slice [OF assms(2)] assms(2,3) 2(1) assms(5)] 2(2)
    show ?thesis by simp
  qed simp
qed

end


section \<open>Runs\<close>

text \<open>
  One call of either operation on an extent block of the device, with its result and the bitmap
  block it is about; and a run of calls, with the bitmap blocks whose last call failed.
\<close>

inductive faulty_step :: "'d file_api \<Rightarrow> platform \<Rightarrow> 'd PancakeExtentManager \<Rightarrow> ErrorCode \<Rightarrow> nat
    \<Rightarrow> 'd PancakeExtentManager \<Rightarrow> bool"
  for F :: "'d file_api" and P :: platform where
  faulty_Add: "wf_ExtentHeaderBlock h \<Longrightarrow> AddExtent F P m h = Return (e, m', h') \<Longrightarrow>
    faulty_step F P m e (unat (eh_bitmap_ext_index h') div k_block_data_size) m'"
| faulty_Del: "unat (eh_bitmap_ext_index g) < unat (em_extent_block_count m) \<Longrightarrow> DelExtent F P tmp m g = Return (e, m') \<Longrightarrow>
    faulty_step F P m e (unat (eh_bitmap_ext_index g) div k_block_data_size) m'"

inductive faulty_run :: "'d file_api \<Rightarrow> platform \<Rightarrow> 'd PancakeExtentManager \<Rightarrow> nat set \<Rightarrow> 'd PancakeExtentManager \<Rightarrow> bool"
  for F :: "'d file_api" and P :: platform and m :: "'d PancakeExtentManager" where
  faulty_start: "faulty_run F P m {} m"
| faulty_next: "faulty_run F P m suspect m' \<Longrightarrow> faulty_step F P m' e j m'' \<Longrightarrow>
    faulty_run F P m (if e = PANCAKE_STORE_OK then suspect - {j} else insert j suspect) m''"

lemma faulty_step_frame:
  assumes "faulty_step F P m e j m'"
  shows "em_offset m' = em_offset m" "em_bitmap_block_count m' = em_bitmap_block_count m"
    "em_extent_block_count m' = em_extent_block_count m" "em_extent_block_size m' = em_extent_block_size m"
    "em_extent_blocks_offset m' = em_extent_blocks_offset m" "em_used_cnt m' = em_used_cnt m"
    "length (em_bitmap m') = length (em_bitmap m)"
proof -
  have "em_offset m' = em_offset m \<and> em_bitmap_block_count m' = em_bitmap_block_count m \<and>
      em_extent_block_count m' = em_extent_block_count m \<and> em_extent_block_size m' = em_extent_block_size m \<and>
      em_extent_blocks_offset m' = em_extent_blocks_offset m \<and> em_used_cnt m' = em_used_cnt m \<and>
      length (em_bitmap m') = length (em_bitmap m)"
    using assms
  proof cases
    case (faulty_Add h h')
    then show ?thesis by (simp add: AddExtent_frame)
  next
    case (faulty_Del g tmp)
    then obtain io bm where "m' = m\<lparr>em_pancake_io := io, em_bitmap := bm\<rparr>" and "length bm = length (em_bitmap m)"
      using DelExtent_frame by blast
    then show ?thesis by simp
  qed
  then show "em_offset m' = em_offset m" "em_bitmap_block_count m' = em_bitmap_block_count m"
    "em_extent_block_count m' = em_extent_block_count m" "em_extent_block_size m' = em_extent_block_size m"
    "em_extent_blocks_offset m' = em_extent_blocks_offset m" "em_used_cnt m' = em_used_cnt m"
    "length (em_bitmap m') = length (em_bitmap m)" by simp_all
qed

lemma faulty_step_keeps:
  assumes "faulty_step F P m e j m'"
  shows "laid_out m' = laid_out m" and "bitmap_covers m' = bitmap_covers m"
    and "bitmap_addr m' = bitmap_addr m" and "extent_addr m' = extent_addr m" and "block_place m' = block_place m"
  by (simp_all add: laid_out_def wf_manager_def bitmap_covers_def fun_eq_iff bitmap_addr_def extent_addr_def
      block_place_eq faulty_step_frame [OF assms])

section \<open>The bitmap blocks\<close>

lemma AddExtent_current:
  assumes "block_device F content" and "net_order P" and "laid_out m"
    and "wf_ExtentHeaderBlock h" and "AddExtent F P m h = Return (PANCAKE_STORE_OK, m', h')"
  shows "block_current content P m' (unat (eh_bitmap_ext_index h') div 4064)"
  by (rule block_device.AddExtent_device [OF assms(1,3,4,5)])
    (use bitmap_block_current [OF assms(2) _ _ _ AddExtent_frame(1) [OF assms(5)]] in blast)

lemma DelExtent_current:
  assumes "block_device F content" and "net_order P" and "laid_out m"
    and "unat (eh_bitmap_ext_index g) div 4064 < unat (em_bitmap_block_count m)"
    and "DelExtent F P tmp m g = Return (PANCAKE_STORE_OK, m')"
  shows "block_current content P m' (unat (eh_bitmap_ext_index g) div 4064)"
proof -
  let ?i = "eh_bitmap_ext_index g"
  obtain io' where w: "write_bitmap_block F P markExtentBlockUnused m ?i = Return (PANCAKE_STORE_OK, m\<lparr>em_pancake_io := io'\<rparr>)"
    and less: "unat ?i < length (em_bitmap m)"
    and m': "m' = m\<lparr>em_pancake_io := io', em_bitmap := (em_bitmap m)[unat ?i := False]\<rparr>"
    using DelExtent_OK [OF assms(5)] by metis
  obtain bs c where "BitMapBlock_Serialize P (bitmap_block_of ((em_bitmap m)[unat ?i := False]) (unat ?i div 4064)) = Return (bs, c)"
    and "block_at content io' (bitmap_addr m (unat ?i div 4064)) = bs"
    by (rule block_device.write_bitmap_block_device [OF assms(1,3) mark_unused_slice [OF less] less assms(4) w])
  then show ?thesis by (intro bitmap_block_current [OF assms(2), where i = "unat ?i" and v = False]) (simp_all add: m')
qed

text \<open>A call that succeeds makes its bitmap block current, whatever was there before; any call leaves the others alone.\<close>

lemma covered_index:
  assumes "laid_out m" and "bitmap_covers m" and "unat i < unat (em_extent_block_count m)"
  shows "unat i < length (em_bitmap m)" and "unat i div 4064 < unat (em_bitmap_block_count m)"
  using assms by (simp_all add: laid_out_def wf_manager_def bitmap_covers_def less_mult_imp_div_less)

lemma faulty_step_bitmap:
  assumes "block_device F content" and "net_order P" and "laid_out m" and "bitmap_covers m"
    and step: "faulty_step F P m e j m'" and k: "k < unat (em_bitmap_block_count m)"
  shows "if k = j then e = PANCAKE_STORE_OK \<longrightarrow> block_current content P m' k else block_kept content m m' k"
  using step
proof cases
  case (faulty_Add h h')
  note add = faulty_Add(3) and wf = faulty_Add(2)
  have "block_kept content m m' k" if "k \<noteq> j"
  proof (rule block_device.AddExtent_elsewhere [OF assms(1,3) wf add])
    assume "em_pancake_io m' = em_pancake_io m" "e \<noteq> PANCAKE_STORE_OK"
    then show ?thesis by (simp add: block_kept_def faulty_step_keeps(3) [OF step] AddExtent_memory [OF add])
  next
    fix i assume i: "i = unat (eh_bitmap_ext_index h')"
      and same: "\<And>a. apart a (extent_addr m i) \<Longrightarrow> apart a (bitmap_addr m (i div 4064)) \<Longrightarrow>
        block_at content (em_pancake_io m') a = block_at content (em_pancake_io m) a"
    have "i div 4064 \<noteq> k" using that faulty_Add(1) i by simp
    then show ?thesis
      using i same regions_apart(1) [OF assms(3) k] bitmap_addr_apart [of k "i div 4064" m]
      by (simp add: block_kept_def faulty_step_keeps(3) [OF step] slice_bytes_other AddExtent_memory [OF add])
  qed
  then show ?thesis using AddExtent_current [OF assms(1-3) wf] add faulty_Add(1) by simp
next
  case (faulty_Del g tmp)
  note less = covered_index [OF assms(3,4) faulty_Del(2)] and del = faulty_Del(3)
  have "block_kept content m m' k" if "k \<noteq> j"
    using block_device.DelExtent_elsewhere [OF assms(1,3) less del] bitmap_addr_apart [of k j m] that faulty_Del(1)
    by (simp add: block_kept_def faulty_step_keeps(3) [OF step] slice_bytes_other DelExtent_memory [OF del])
  then show ?thesis using DelExtent_current [OF assms(1-3) less(2)] del faulty_Del(1) by auto
qed

lemma faulty_run_keeps:
  assumes "faulty_run F P m suspect m'"
  shows "laid_out m' = laid_out m" "bitmap_covers m' = bitmap_covers m" "em_bitmap_block_count m' = em_bitmap_block_count m"
  using assms by induction (simp_all add: faulty_step_keeps faulty_step_frame)

section \<open>The headers\<close>

text \<open>
  Every extent recorded in memory has a used block, lies there, and the device has at its start the
  serialisation of a header with its id.
\<close>

definition extent_stored :: "('d \<Rightarrow> nat \<Rightarrow> u8) \<Rightarrow> platform \<Rightarrow> 'd PancakeExtentManager \<Rightarrow> u64 \<Rightarrow> nat \<Rightarrow> bool" where
  "extent_stored content P m extent_id i \<longleftrightarrow> i < length (em_bitmap m) \<and> em_bitmap m ! i
    \<and> (\<exists>h bs h'. wf_ExtentHeaderBlock h \<and> eh_extent_id h = extent_id
        \<and> ExtentHeaderBlock_Serialize P h = Return (bs, h')
        \<and> block_at content (em_pancake_io m) (extent_addr m i) = bs)"

definition extents_stored :: "('d \<Rightarrow> nat \<Rightarrow> u8) \<Rightarrow> platform \<Rightarrow> 'd PancakeExtentManager \<Rightarrow> bool" where
  "extents_stored content P m \<longleftrightarrow> (\<forall>extent_id off. em_extent_offset_map m extent_id = Some off \<longrightarrow>
     (\<exists>i. off = block_place m i \<and> extent_stored content P m extent_id i))"

text \<open>Two stored extents do not share a block: its bytes tell the id.\<close>

lemma extent_stored_id:
  assumes "net_order P" and "extent_stored content P m x i" and "extent_stored content P m y j"
    and "extent_addr m i = extent_addr m j"
  shows "x = y"
  using assms net_order.ExtentHeaderBlock_stored_id [OF assms(1)] unfolding extent_stored_def by metis

lemma extents_stored_inj:
  assumes "net_order P" and "laid_out m" and "extents_stored content P m"
  shows "inj_on (em_extent_offset_map m) (dom (em_extent_offset_map m))"
proof (rule inj_onI)
  fix x y assume xy: "x \<in> dom (em_extent_offset_map m)" "y \<in> dom (em_extent_offset_map m)"
    "em_extent_offset_map m x = em_extent_offset_map m y"
  then obtain off where "em_extent_offset_map m x = Some off" "em_extent_offset_map m y = Some off" by auto
  then obtain i j where off: "block_place m i = block_place m j"
    and i: "extent_stored content P m x i" and j: "extent_stored content P m y j"
    using assms(3) unfolding extents_stored_def by metis
  have addr: "unat (block_place m k) = extent_addr m k" if "extent_stored content P m z k" for z k
  proof -
    have k: "k < unat (em_extent_block_count m)"
      using that assms(2) by (simp add: extent_stored_def laid_out_def wf_manager_def)
    then have "unat (word_of_nat k :: u32) = k" using unsigned_less [of "em_extent_block_count m", where ?'a = nat]
      by (simp add: unat_of_nat)
    then show ?thesis using unat_extentBlockDeviceOffset [OF assms(2), of "word_of_nat k"] k by (simp add: block_place_def)
  qed
  have "extent_addr m i = extent_addr m j" using addr [OF i] addr [OF j] off by simp
  with extent_stored_id [OF assms(1) i j] show "x = y" .
qed

lemma extent_stored_kept:
  assumes "extent_stored content P m x i" and "length (em_bitmap m') = length (em_bitmap m)" and "em_bitmap m' ! i"
    and "extent_addr m' = extent_addr m"
    and "block_at content (em_pancake_io m') (extent_addr m i) = block_at content (em_pancake_io m) (extent_addr m i)"
  shows "extent_stored content P m' x i"
  using assms by (auto simp: extent_stored_def)

text \<open>The reader refuses the header of a stored extent, so deleting it fails.\<close>

lemma stored_not_deletable:
  assumes "block_device F content" and "net_order P" and "laid_out m"
    and "extent_stored content P m x (unat (eh_bitmap_ext_index g))" and "DelExtent F P tmp m g = Return (e, m')"
  shows "e \<noteq> PANCAKE_STORE_OK"
proof
  assume "e = PANCAKE_STORE_OK"
  with assms(5) obtain buf b where
    read: "ReadAt F (em_pancake_io m) (extentBlockDeviceOffset m (eh_bitmap_ext_index g)) (word_of_nat k_block_size) [] = Return (PANCAKE_STORE_OK, buf)"
    and ok: "ExtentHeaderBlock_Deserialize P tmp buf = (PANCAKE_STORE_OK, b)"
    using DelExtent_OK [of F P tmp m g m'] by metis
  from assms(4) obtain h bs h' where h: "wf_ExtentHeaderBlock h" "ExtentHeaderBlock_Serialize P h = Return (bs, h')"
    and at: "block_at content (em_pancake_io m) (extent_addr m (unat (eh_bitmap_ext_index g))) = bs"
    and less: "unat (eh_bitmap_ext_index g) < length (em_bitmap m)"
    by (auto simp: extent_stored_def)
  have "unat (extentBlockDeviceOffset m (eh_bitmap_ext_index g)) = extent_addr m (unat (eh_bitmap_ext_index g))"
    using less assms(3) by (intro unat_extentBlockDeviceOffset) (simp_all add: laid_out_def wf_manager_def)
  then have "buf = bs" using block_device.ReadAt_block [OF assms(1) read] at by simp
  with ok ExtentHeaderBlock_refused [OF assms(2) h, of tmp] show False by simp
qed

text \<open>No call, whatever it returns, loses a stored extent; a successful \<^verbatim>\<open>AddExtent\<close> stores a new one.\<close>

lemma faulty_step_stored:
  assumes "block_device F content" and "net_order P" and "laid_out m" and "bitmap_covers m"
    and step: "faulty_step F P m e j m'" and stored: "extent_stored content P m x i"
  shows "extent_stored content P m' x i"
proof -
  have i: "i < length (em_bitmap m)" "em_bitmap m ! i" using stored by (simp_all add: extent_stored_def)
  note kept = extent_stored_kept [OF stored faulty_step_frame(7) [OF step] _ faulty_step_keeps(4) [OF step]]
  from step show ?thesis
  proof cases
    case (faulty_Add h h')
    note add = faulty_Add(3) and wf = faulty_Add(2)
    have "block_at content (em_pancake_io m') (extent_addr m i) = block_at content (em_pancake_io m) (extent_addr m i)"
    proof (rule block_device.AddExtent_elsewhere [OF assms(1,3) wf add])
      fix k assume k: "k < unat (em_bitmap_block_count m)" "\<not> em_bitmap m ! k"
        and same: "\<And>a. apart a (extent_addr m k) \<Longrightarrow> apart a (bitmap_addr m (k div 4064)) \<Longrightarrow>
          block_at content (em_pancake_io m') a = block_at content (em_pancake_io m) a"
      have "i \<noteq> k" using i k by auto
      then show ?thesis
        using extent_addr_apart [OF assms(3)] regions_apart(2) [OF assms(3) div_below [OF k(1)]] by (intro same) simp_all
    qed simp
    moreover have "em_bitmap m' ! i" using i by (cases "unat (eh_bitmap_ext_index h') = i") (simp_all add: AddExtent_memory [OF add])
    ultimately show ?thesis by (intro kept)
  next
    case (faulty_Del g tmp)
    note less = covered_index [OF assms(3,4) faulty_Del(2)] and del = faulty_Del(3)
    have "block_at content (em_pancake_io m') (extent_addr m i) = block_at content (em_pancake_io m) (extent_addr m i)"
      using block_device.DelExtent_elsewhere [OF assms(1,3) less del] regions_apart(2) [OF assms(3) less(2)] by simp
    moreover have "em_bitmap m' ! i"
      using i stored_not_deletable [OF assms(1-3) _ del, of x] stored
      by (cases "unat (eh_bitmap_ext_index g) = i") (auto simp: DelExtent_memory [OF del])
    ultimately show ?thesis by (intro kept)
  qed
qed

lemma AddExtent_stores:
  assumes "block_device F content" and "laid_out m"
    and "wf_ExtentHeaderBlock h" and "AddExtent F P m h = Return (PANCAKE_STORE_OK, m', h')"
  shows "extent_stored content P m' (eh_extent_id h) (unat (eh_bitmap_ext_index h'))"
proof (rule block_device.AddExtent_device [OF assms(1-4)])
  fix i bs
  assume idx: "eh_bitmap_ext_index h' = i" and less: "unat i < unat (em_bitmap_block_count m)"
    and ser: "ExtentHeaderBlock_Serialize P (h\<lparr>eh_bitmap_ext_index := i\<rparr>) = Return (bs, h')"
    and head: "block_at content (em_pancake_io m') (extent_addr m (unat i)) = bs"
    and bm: "em_bitmap m' = (em_bitmap m)[unat i := True]"
  have "unat i < length (em_bitmap m)" using less assms(2) by (simp add: laid_out_def wf_manager_def)
  moreover have "extent_addr m' = extent_addr m" by (simp add: fun_eq_iff extent_addr_def AddExtent_frame [OF assms(4)])
  moreover have "\<exists>g bs g'. wf_ExtentHeaderBlock g \<and> eh_extent_id g = eh_extent_id h
      \<and> ExtentHeaderBlock_Serialize P g = Return (bs, g')
      \<and> block_at content (em_pancake_io m') (extent_addr m (unat i)) = bs"
    using assms(3) ser head by (intro exI [of _ "h\<lparr>eh_bitmap_ext_index := i\<rparr>"]) (simp add: wf_header_index)
  ultimately show ?thesis by (simp add: extent_stored_def idx bm)
qed

lemma faulty_step_extents:
  assumes "block_device F content" and "net_order P" and "laid_out m" and "bitmap_covers m"
    and step: "faulty_step F P m e j m'" and stored: "extents_stored content P m"
  shows "extents_stored content P m' \<and> em_extent_offset_map m \<subseteq>\<^sub>m em_extent_offset_map m'"
proof -
  note place = faulty_step_keeps(5) [OF step]
  have old: "\<exists>i. off = block_place m' i \<and> extent_stored content P m' x i" if "em_extent_offset_map m x = Some off" for x off
    using that stored faulty_step_stored [OF assms(1-4) step] unfolding extents_stored_def place by blast
  from step show ?thesis
  proof cases
    case (faulty_Add h h')
    note add = faulty_Add(3)
    show ?thesis
    proof (cases "e = PANCAKE_STORE_OK")
      case True
      with add have ok: "AddExtent F P m h = Return (PANCAKE_STORE_OK, m', h')" by simp
      have new: "extent_stored content P m' (eh_extent_id h) (unat (eh_bitmap_ext_index h'))"
        by (rule AddExtent_stores [OF assms(1,3) faulty_Add(2) ok])
      have "em_extent_offset_map m (eh_extent_id h) = None" using AddExtent_alloc [OF ok] by blast
      then show ?thesis
        using old new by (auto simp: extents_stored_def AddExtent_memory(2) [OF ok] place map_le_def)
    next
      case False
      then show ?thesis using old by (simp add: extents_stored_def AddExtent_memory(2) [OF add])
    qed
  next
    case (faulty_Del g tmp)
    then show ?thesis using old by (simp add: extents_stored_def DelExtent_memory(2))
  qed
qed

text \<open>Over a run, a bitmap block whose last call did not fail is current or untouched.\<close>

lemma faulty_run_bitmap:
  assumes "block_device F content" and "net_order P" and "laid_out m" and "bitmap_covers m"
    and "faulty_run F P m suspect m'" and "k < unat (em_bitmap_block_count m)" and "k \<notin> suspect"
  shows "block_current content P m' k \<or> block_kept content m m' k"
  using assms(5,7)
proof induction
  case faulty_start
  show ?case by (simp add: block_kept_def)
next
  case (faulty_next suspect m1 e j m2)
  note run = faulty_next.hyps(1)
  have "laid_out m1" "bitmap_covers m1" "k < unat (em_bitmap_block_count m1)"
    using assms(3,4,6) by (simp_all add: faulty_run_keeps [OF run])
  note step = faulty_step_bitmap [OF assms(1,2) this(1,2) faulty_next.hyps(2) this(3)]
  show ?case
  proof (cases "k = j")
    case True
    then show ?thesis using step faulty_next.prems by (simp split: if_splits)
  next
    case False
    then have kept: "block_kept content m1 m2 k" using step by simp
    have "k \<notin> suspect" using False faulty_next.prems by (simp split: if_splits)
    then have "block_current content P m1 k \<or> block_kept content m m1 k" by (rule faulty_next.IH)
    then show ?thesis using kept block_kept_current [OF kept] by (auto simp: block_kept_def)
  qed
qed

section \<open>Properties\<close>

text \<open>
  C4. No run of calls loses an extent, on any device: writes may fail and leave anything in their range,
  calls may return any result. If every extent recorded in memory has its used block and, at the start
  of that block on the device, the serialisation of a header with its id, then the same holds after any
  run of \<^verbatim>\<open>AddExtent\<close> and \<^verbatim>\<open>DelExtent\<close> calls, and the extents recorded before are still recorded, at the
  same offsets.
\<close>

theorem faulty_runs_lose_no_extent:
  assumes "block_device F content" and "net_order P" and "laid_out m" and "bitmap_covers m"
    and "extents_stored content P m" and "faulty_run F P m suspect m'"
  shows "extents_stored content P m' \<and> em_extent_offset_map m \<subseteq>\<^sub>m em_extent_offset_map m'"
  using assms(6)
proof induction
  case faulty_start
  show ?case using assms(5) by simp
next
  case (faulty_next suspect m1 e j m2)
  have "laid_out m1" "bitmap_covers m1" using assms(3,4) by (simp_all add: faulty_run_keeps [OF faulty_next.hyps(1)])
  from faulty_step_extents [OF assms(1,2) this faulty_next.hyps(2)] faulty_next.IH show ?case
    by (auto intro: map_le_trans)
qed

text \<open>
  C7. After such a run the bitmap on the device can be trusted but for the blocks whose last call
  failed: every other bitmap block is as it was before the run, on the device and in memory, or the
  device holds a block there that the reader accepts with exactly the bits of the vector. A call that
  succeeds repairs its block.
\<close>

theorem faulty_runs_bitmap:
  assumes "block_device F content" and "net_order P" and "laid_out m" and "bitmap_covers m"
    and "faulty_run F P m suspect m'" and "k < unat (em_bitmap_block_count m)" and "k \<notin> suspect"
  shows "block_current content P m' k \<or> block_kept content m m' k"
  using assms by (rule faulty_run_bitmap)

section \<open>Witnesses\<close>

theorem faulty_runs_lose_no_extent_witness:
  "\<exists>m. em_extent_offset_map m (eh_extent_id zero_ExtentHeaderBlock) \<noteq> None \<and> extents_stored (\<lambda>d. d) (x86_host True) m"
proof -
  let ?P = "x86_host True"
  obtain m h where add: "AddExtent sparse_file ?P (blank ?P) zero_ExtentHeaderBlock = Return (PANCAKE_STORE_OK, m, h)"
    by (rule blank_add)
  have "bitmap_covers (blank ?P)" "extents_stored (\<lambda>d. d) ?P (blank ?P)"
    by (simp_all add: bitmap_covers_def extents_stored_def blank_def formatted_fields)
  from faulty_runs_lose_no_extent [OF sparse.block_device_axioms x86.net_order_axioms blank_facts(1) this
      faulty_next [OF faulty_start faulty_Add [OF wf_zero_ExtentHeaderBlock add]]]
  have "extents_stored (\<lambda>d. d) ?P m" by blast
  then show ?thesis by (intro exI [of _ m]) (simp add: AddExtent_memory(2) [OF add])
qed

text \<open>
  A device that tears every write to its first two blocks, where \<open>torn_manager\<close> has its bitmap: the
  first half arrives, then the write throws.
\<close>

definition torn_file :: "(nat \<Rightarrow> u8) file_api" where
  "torn_file = sparse_file\<lparr>dma_write := (\<lambda>d off bs.
     if unat off < 8192
     then (None, \<lambda>a. if unat off \<le> a \<and> a < unat off + length bs div 2 then bs ! (a - unat off) else d a)
     else dma_write sparse_file d off bs)\<rparr>"

interpretation torn: block_device torn_file "\<lambda>d. d"
  by unfold_locales (auto simp: torn_file_def sparse_file_def split: if_splits)

definition torn_manager :: "(nat \<Rightarrow> u8) PancakeExtentManager" where
  "torn_manager = snd (Init (new_PancakeExtentManager sparse_io) 0 2 2 4096 8192)"

lemma torn_manager_eq: "torn_manager = \<lparr>em_pancake_io = sparse_io, em_offset = 0, em_bitmap_block_count = 2,
    em_extent_block_count = 2, em_extent_block_size = 4096, em_extent_blocks_offset = 8192,
    em_bitmap = [False, False], em_cursor = 0, em_used_cnt = 0, em_extent_offset_map = Map.empty\<rparr>"
proof -
  have "replicate 2 False = [False, False]" by (simp add: numeral_2_eq_2)
  then show ?thesis
    by (simp add: torn_manager_def Init_def Let_def IsBlockAlign_def new_PancakeExtentManager_def vector_resize_def)
qed

lemma torn_add:
  obtains m h where "AddExtent torn_file P torn_manager zero_ExtentHeaderBlock = Return (DATANODE_STORAGE_IO_WRITE_AT_FAILED, m, h)"
    and "eh_bitmap_ext_index h = 0"
proof -
  let ?m = "torn_manager\<lparr>em_cursor := 1\<rparr>"
  have find: "find_unused (em_bitmap_block_count torn_manager) (em_bitmap torn_manager)
      (unat (em_extent_block_count torn_manager)) (em_cursor torn_manager) = Return (0, 1)"
  proof -
    have "find_unused 2 [False, False] (Suc (Suc 0)) 0 = Return (0, 1)" by (simp add: Let_def)
    then have "find_unused 2 [False, False] 2 0 = Return (0, 1)" by (simp only: numeral_2_eq_2)
    then show ?thesis by (simp add: torn_manager_eq)
  qed
  have "wf_ExtentHeaderBlock (zero_ExtentHeaderBlock\<lparr>eh_bitmap_ext_index := 0\<rparr>)" by (simp add: wf_header_index)
  then obtain bs h where ser: "ExtentHeaderBlock_Serialize P (zero_ExtentHeaderBlock\<lparr>eh_bitmap_ext_index := 0\<rparr>) = Return (bs, h)"
    and len: "length bs = k_block_size"
    by (rule ExtentHeaderBlock_Serialize_length [of _ P])
  obtain io where w: "WriteAt torn_file (em_pancake_io ?m) (extentBlockDeviceOffset ?m 0) bs = Return (PANCAKE_STORE_OK, io)"
    and io: "io_device_fd io \<noteq> None"
    using len by (simp add: WriteAt_def torn_manager_eq sparse_io_def extentBlockDeviceOffset_def IsBlockAlign_def torn_file_def sparse_file_def)
  let ?n = "?m\<lparr>em_pancake_io := io\<rparr>"
  have fields: "unat 0 < length (em_bitmap ?n)" "length (em_bitmap ?n) = unat (em_extent_block_count ?n)"
    "unat (em_extent_block_count ?n) < 2 ^ 31" "unat (0 :: u32) + 8128 \<le> 2 ^ 31"
    by (simp_all add: torn_manager_eq)
  obtain bs2 where "length bs2 = k_block_size" and b: "write_bitmap_block torn_file P markExtentBlockUsed ?n 0 =
      outcome_bind (WriteAt torn_file (em_pancake_io ?n) (bitmapBlockDeviceOffset ?n (bitmapIndex (ucast (0 :: u32)))) bs2)
        (\<lambda>(e, io). Return (e, ?n\<lparr>em_pancake_io := io\<rparr>))"
    by (rule write_bitmap_block_eq [of markExtentBlockUsed ?n 0 True P torn_file, OF mark_used_slice [OF fields(1)] fields(2-4)])
  then obtain m where "write_bitmap_block torn_file P markExtentBlockUsed ?n 0 = Return (DATANODE_STORAGE_IO_WRITE_AT_FAILED, m)"
    using io by (auto simp: WriteAt_def bitmapBlockDeviceOffset_def torn_manager_eq bitmapIndex_def IsBlockAlign_def torn_file_def)
  then have "AddExtent torn_file P torn_manager zero_ExtentHeaderBlock = Return (DATANODE_STORAGE_IO_WRITE_AT_FAILED, m, h)"
    using find ser w by (simp add: AddExtent_def Let_def no_block_def torn_manager_eq IsNotOk_def)
  moreover have "eh_bitmap_ext_index h = 0" using ExtentHeaderBlock_Serialize_keeps [OF ser] by simp
  ultimately show thesis by (rule that)
qed

text \<open>The torn call leaves the second bitmap block alone; only the first is suspect.\<close>

theorem faulty_runs_bitmap_witness:
  "\<exists>m h. AddExtent torn_file (x86_host True) torn_manager zero_ExtentHeaderBlock = Return (DATANODE_STORAGE_IO_WRITE_AT_FAILED, m, h)
    \<and> (block_current (\<lambda>d. d) (x86_host True) m 1 \<or> block_kept (\<lambda>d. d) torn_manager m 1)"
proof -
  let ?P = "x86_host True"
  obtain m h where add: "AddExtent torn_file ?P torn_manager zero_ExtentHeaderBlock = Return (DATANODE_STORAGE_IO_WRITE_AT_FAILED, m, h)"
    and "eh_bitmap_ext_index h = 0"
    by (rule torn_add)
  then have run: "faulty_run torn_file ?P torn_manager {0} m"
    using faulty_next [OF faulty_start faulty_Add [OF wf_zero_ExtentHeaderBlock add]] by simp
  have "laid_out torn_manager" "bitmap_covers torn_manager" "1 < unat (em_bitmap_block_count torn_manager)"
    by (simp_all add: laid_out_def wf_manager_def bitmap_covers_def torn_manager_eq)
  from faulty_runs_bitmap [OF torn.block_device_axioms x86.net_order_axioms this(1,2) run this(3)] add
  show ?thesis by auto
qed

end
