(* ===== verification/Extent_Concurrency.thy ===== *)
theory Extent_Concurrency
  imports Extent_Runs
begin

text \<open>
  Many tasks on one \<^verbatim>\<open>PancakeExtentManager\<close>. Its operations suspend at every \<^verbatim>\<open>co_await\<close>, where other
  tasks run; what keeps them apart is \<^verbatim>\<open>seastar::with_lock(mutex_, ...)\<close>. Here each operation is cut
  at its suspension points, the tasks take turns in any order, and the atomic operations of
  \<open>Extent_Mgr\<close> are what they amount to.
\<close>

section \<open>The operations, cut at their suspension points\<close>

datatype mgr_call = Call_AddExtent ExtentHeaderBlock
  | Call_DelExtent ExtentHeaderBlock ExtentHeaderBlock \<comment> \<open>the indeterminate local, the argument\<close>
  | Call_AllocCount | Call_FreeCount

datatype mgr_answer = Added ErrorCode ExtentHeaderBlock | Deleted ErrorCode | Count u32

text \<open>
  Where a task is once it has the lock: at the start, or suspended in one of the four accesses, with
  the local variables it needs afterwards.
\<close>

datatype mgr_phase = Begin mgr_call
  | Header_Write u32 u64 ExtentHeaderBlock bytes
  | Add_Bitmap_Write u32 u64 ExtentHeaderBlock u64 bytes
  | Header_Read ExtentHeaderBlock ExtentHeaderBlock
  | Del_Bitmap_Write ExtentHeaderBlock u64 bytes

definition marked_block_bytes :: "platform \<Rightarrow> (BitMapBlock \<Rightarrow> u32 \<Rightarrow> BitMapBlock)
    \<Rightarrow> 'd PancakeExtentManager \<Rightarrow> u32 \<Rightarrow> bytes outcome" where
  "marked_block_bytes P mark m index =
    outcome_bind (cloneBitMapBlockWithoutLock m index) (\<lambda>bitmap_block.
      let bitmap_block = mark bitmap_block index;
          bitmap_block = bitmap_block\<lparr>bm_footer :=
            FillWithoutExtentId (word_of_nat k_block_data_size) (bm_footer bitmap_block)\<rparr>
      in outcome_bind (BitMapBlock_Serialize P bitmap_block) (\<lambda>(bitmap_block_bytes, _). Return bitmap_block_bytes))"

text \<open>
  From one suspension point to the next: \<open>Inl\<close> is where the task is suspended next, \<open>Inr\<close> is what it
  returns.
\<close>

type_synonym 'd turn = "((mgr_phase + mgr_answer) \<times> 'd PancakeExtentManager) outcome"

definition add_begin :: "platform \<Rightarrow> ExtentHeaderBlock \<Rightarrow> 'd PancakeExtentManager \<Rightarrow> 'd turn" where
  "add_begin P ext_header m =
    (if em_extent_offset_map m (eh_extent_id ext_header) \<noteq> None
     then Return (Inr (Added DATANODE_STORAGE_EXTENT_ALREADY_EXISTS ext_header), m)
     else if em_used_cnt m = em_extent_block_count m
     then Return (Inr (Added DATANODE_STORAGE_FS_FULL ext_header), m)
     else outcome_bind (find_unused (em_bitmap_block_count m) (em_bitmap m)
            (unat (em_extent_block_count m)) (em_cursor m)) (\<lambda>(ext_block_index, cursor).
       let m = m\<lparr>em_cursor := cursor\<rparr>
       in if ext_block_index = no_block then Return (Inr (Added PANCAKE_STORE_CODE_ERROR ext_header), m)
          else
            let ext_device_offset = extentBlockDeviceOffset m ext_block_index;
                ext_header = ext_header\<lparr>eh_bitmap_ext_index := ext_block_index\<rparr>
            in outcome_bind (ExtentHeaderBlock_Serialize P ext_header) (\<lambda>(ext_header_bytes, ext_header).
              Return (Inl (Header_Write ext_block_index ext_device_offset ext_header ext_header_bytes), m))))"

definition add_header_write :: "'d file_api \<Rightarrow> platform \<Rightarrow> u32 \<Rightarrow> u64 \<Rightarrow> ExtentHeaderBlock \<Rightarrow> bytes
    \<Rightarrow> 'd PancakeExtentManager \<Rightarrow> 'd turn" where
  "add_header_write F P ext_block_index ext_device_offset ext_header ext_header_bytes m =
    outcome_bind (WriteAt F (em_pancake_io m) ext_device_offset ext_header_bytes) (\<lambda>(err_code, io).
      let m = m\<lparr>em_pancake_io := io\<rparr>
      in if IsNotOk err_code then Return (Inr (Added err_code ext_header), m)
         else
           let bitmap_block_offset = bitmapBlockDeviceOffset m (bitmapIndex (ucast ext_block_index))
           in outcome_bind (marked_block_bytes P markExtentBlockUsed m ext_block_index) (\<lambda>bitmap_block_bytes.
             Return (Inl (Add_Bitmap_Write ext_block_index ext_device_offset ext_header bitmap_block_offset bitmap_block_bytes), m)))"

definition add_bitmap_write :: "'d file_api \<Rightarrow> u32 \<Rightarrow> u64 \<Rightarrow> ExtentHeaderBlock \<Rightarrow> u64 \<Rightarrow> bytes
    \<Rightarrow> 'd PancakeExtentManager \<Rightarrow> 'd turn" where
  "add_bitmap_write F ext_block_index ext_device_offset ext_header bitmap_block_offset bitmap_block_bytes m =
    outcome_bind (WriteAt F (em_pancake_io m) bitmap_block_offset bitmap_block_bytes) (\<lambda>(err_code, io).
      let m = m\<lparr>em_pancake_io := io\<rparr>
      in if IsNotOk err_code then Return (Inr (Added err_code ext_header), m)
         else Return (Inr (Added PANCAKE_STORE_OK ext_header),
           m\<lparr>em_bitmap := (em_bitmap m)[unat ext_block_index := True],
             em_extent_offset_map := (em_extent_offset_map m)(eh_extent_id ext_header \<mapsto> ext_device_offset)\<rparr>))"

definition del_header_read :: "'d file_api \<Rightarrow> platform \<Rightarrow> ExtentHeaderBlock \<Rightarrow> ExtentHeaderBlock
    \<Rightarrow> 'd PancakeExtentManager \<Rightarrow> 'd turn" where
  "del_header_read F P tmp ext_header m =
    (let index = eh_bitmap_ext_index ext_header
     in outcome_bind (ReadAt F (em_pancake_io m) (extentBlockDeviceOffset m index) (word_of_nat k_block_size) [])
          (\<lambda>(err_code, read_buf).
        if IsNotOk err_code then Return (Inr (Deleted err_code), m)
        else case ExtentHeaderBlock_Deserialize P tmp read_buf of (err_code, tmp_ext_header) \<Rightarrow>
          if IsNotOk err_code then Return (Inr (Deleted err_code), m)
          else if eh_extent_id tmp_ext_header \<noteq> eh_extent_id ext_header
          then Return (Inr (Deleted DATANODE_STORAGE_INTERNAL_ERROR), m)
          else
            let bitmap_block_offset = bitmapBlockDeviceOffset m (bitmapIndex (ucast index))
            in outcome_bind (marked_block_bytes P markExtentBlockUnused m index) (\<lambda>bitmap_block_bytes.
              Return (Inl (Del_Bitmap_Write ext_header bitmap_block_offset bitmap_block_bytes), m))))"

definition del_bitmap_write :: "'d file_api \<Rightarrow> ExtentHeaderBlock \<Rightarrow> u64 \<Rightarrow> bytes \<Rightarrow> 'd PancakeExtentManager \<Rightarrow> 'd turn" where
  "del_bitmap_write F ext_header bitmap_block_offset bitmap_block_bytes m =
    (let index = eh_bitmap_ext_index ext_header
     in outcome_bind (WriteAt F (em_pancake_io m) bitmap_block_offset bitmap_block_bytes) (\<lambda>(err_code, io).
        let m = m\<lparr>em_pancake_io := io\<rparr>
        in if IsNotOk err_code then Return (Inr (Deleted err_code), m)
           else if length (em_bitmap m) \<le> unat index then Undefined
           else Return (Inr (Deleted PANCAKE_STORE_OK), m\<lparr>em_bitmap := (em_bitmap m)[unat index := False]\<rparr>)))"

fun phase_step :: "'d file_api \<Rightarrow> platform \<Rightarrow> mgr_phase \<Rightarrow> 'd PancakeExtentManager \<Rightarrow> 'd turn" where
  "phase_step F P (Begin (Call_AddExtent h)) m = add_begin P h m"
| "phase_step F P (Begin (Call_DelExtent tmp g)) m = Return (Inl (Header_Read tmp g), m)"
| "phase_step F P (Begin Call_AllocCount) m = Return (Inr (Count (CurrentAllocCount m)), m)"
| "phase_step F P (Begin Call_FreeCount) m = Return (Inr (Count (CurrentFreeCount m)), m)"
| "phase_step F P (Header_Write i off h bs) m = add_header_write F P i off h bs m"
| "phase_step F P (Add_Bitmap_Write i off h boff bs) m = add_bitmap_write F i off h boff bs m"
| "phase_step F P (Header_Read tmp g) m = del_header_read F P tmp g m"
| "phase_step F P (Del_Bitmap_Write g boff bs) m = del_bitmap_write F g boff bs m"

section \<open>Running a call to its end\<close>

fun phase_rank :: "mgr_phase \<Rightarrow> nat" where
  "phase_rank (Begin c) = 3"
| "phase_rank (Header_Write i off h bs) = 2"
| "phase_rank (Header_Read tmp g) = 2"
| "phase_rank (Add_Bitmap_Write i off h boff bs) = 1"
| "phase_rank (Del_Bitmap_Write g boff bs) = 1"

lemma phase_step_rank:
  assumes "phase_step F P ph m = Return (Inl ph', m')"
  shows "phase_rank ph' < phase_rank ph"
  using assms
  by (cases "(F, P, ph, m)" rule: phase_step.cases)
    (auto simp: add_begin_def add_header_write_def add_bitmap_write_def del_header_read_def del_bitmap_write_def
      outcome_bind_Return_iff Let_def split: if_splits prod.splits)

lemma outcome_bind_cong [fundef_cong]:
  "r = r' \<Longrightarrow> (\<And>x. r' = Return x \<Longrightarrow> f x = f' x) \<Longrightarrow> outcome_bind r f = outcome_bind r' f'"
  by (cases r) auto

function finish_call :: "'d file_api \<Rightarrow> platform \<Rightarrow> mgr_phase \<Rightarrow> 'd PancakeExtentManager
    \<Rightarrow> (mgr_answer \<times> 'd PancakeExtentManager) outcome" where
  "finish_call F P ph m = outcome_bind (phase_step F P ph m) (\<lambda>(next, m').
     case next of Inl ph' \<Rightarrow> finish_call F P ph' m' | Inr a \<Rightarrow> Return (a, m'))"
  by pat_completeness auto
termination
  by (relation "measure (\<lambda>(F, P, ph, m). phase_rank ph)") (auto dest: phase_step_rank)

declare finish_call.simps [simp del]

lemma finish_call_next:
  "phase_step F P ph m = Return (Inl ph', m') \<Longrightarrow> finish_call F P ph m = finish_call F P ph' m'"
  "phase_step F P ph m = Return (Inr a, m') \<Longrightarrow> finish_call F P ph m = Return (a, m')"
  by (simp_all add: finish_call.simps [of F P ph])

text \<open>The same call in one step: the operations of \<open>Extent_Mgr\<close>.\<close>

fun atomic_call :: "'d file_api \<Rightarrow> platform \<Rightarrow> mgr_call \<Rightarrow> 'd PancakeExtentManager
    \<Rightarrow> (mgr_answer \<times> 'd PancakeExtentManager) outcome" where
  "atomic_call F P (Call_AddExtent h) m = outcome_bind (AddExtent F P m h) (\<lambda>(e, m', h'). Return (Added e h', m'))"
| "atomic_call F P (Call_DelExtent tmp g) m = outcome_bind (DelExtent F P tmp m g) (\<lambda>(e, m'). Return (Deleted e, m'))"
| "atomic_call F P Call_AllocCount m = Return (Count (CurrentAllocCount m), m)"
| "atomic_call F P Call_FreeCount m = Return (Count (CurrentFreeCount m), m)"

lemma outcome_bind_case_prod: "outcome_bind (case x of (a, b) \<Rightarrow> g a b) f = (case x of (a, b) \<Rightarrow> outcome_bind (g a b) f)"
  by (cases x) simp

lemma outcome_bind_if: "outcome_bind (if c then r else r') f = (if c then outcome_bind r f else outcome_bind r' f)"
  by simp

lemmas bind_simps = outcome_bind_assoc outcome_bind_case_prod outcome_bind_if

lemma write_bitmap_block_split:
  "write_bitmap_block F P mark m i = outcome_bind (marked_block_bytes P mark m i) (\<lambda>bs.
     outcome_bind (WriteAt F (em_pancake_io m) (bitmapBlockDeviceOffset m (bitmapIndex (ucast i))) bs)
       (\<lambda>(e, io). Return (e, m\<lparr>em_pancake_io := io\<rparr>)))"
  by (simp add: write_bitmap_block_def marked_block_bytes_def Let_def bind_simps)

lemma offset_frame [simp]:
  "extentBlockDeviceOffset (m\<lparr>em_cursor := c\<rparr>) i = extentBlockDeviceOffset m i"
  "extentBlockDeviceOffset (m\<lparr>em_pancake_io := io\<rparr>) i = extentBlockDeviceOffset m i"
  by (simp_all add: extentBlockDeviceOffset_def)

lemma finish_Add_Bitmap_Write: "finish_call F P (Add_Bitmap_Write i off h boff bs) m =
    outcome_bind (WriteAt F (em_pancake_io m) boff bs) (\<lambda>(e, io).
      let m = m\<lparr>em_pancake_io := io\<rparr>
      in if IsNotOk e then Return (Added e h, m)
         else Return (Added PANCAKE_STORE_OK h, m\<lparr>em_bitmap := (em_bitmap m)[unat i := True],
           em_extent_offset_map := (em_extent_offset_map m)(eh_extent_id h \<mapsto> off)\<rparr>))"
  by (auto simp: finish_call.simps [of F P "Add_Bitmap_Write i off h boff bs"] add_bitmap_write_def bind_simps Let_def
      intro!: outcome_bind_cong split: prod.split)

lemma finish_Header_Write: "finish_call F P (Header_Write i off h bs) m =
    outcome_bind (WriteAt F (em_pancake_io m) off bs) (\<lambda>(e, io).
      let m = m\<lparr>em_pancake_io := io\<rparr>
      in if IsNotOk e then Return (Added e h, m)
         else outcome_bind (write_bitmap_block F P markExtentBlockUsed m i) (\<lambda>(e, m).
           if IsNotOk e then Return (Added e h, m)
           else Return (Added PANCAKE_STORE_OK h, m\<lparr>em_bitmap := (em_bitmap m)[unat i := True],
             em_extent_offset_map := (em_extent_offset_map m)(eh_extent_id h \<mapsto> off)\<rparr>)))"
  by (auto simp: finish_call.simps [of F P "Header_Write i off h bs"] add_header_write_def finish_Add_Bitmap_Write
      write_bitmap_block_split bind_simps Let_def intro!: outcome_bind_cong split: prod.split)

lemma finish_AddExtent: "finish_call F P (Begin (Call_AddExtent h)) m = atomic_call F P (Call_AddExtent h) m"
  by (auto simp: finish_call.simps [of F P "Begin (Call_AddExtent h)"] add_begin_def finish_Header_Write AddExtent_def
      bind_simps Let_def intro!: outcome_bind_cong split: prod.split)

lemma finish_Del_Bitmap_Write: "finish_call F P (Del_Bitmap_Write g boff bs) m =
    outcome_bind (WriteAt F (em_pancake_io m) boff bs) (\<lambda>(e, io).
      let m = m\<lparr>em_pancake_io := io\<rparr>
      in if IsNotOk e then Return (Deleted e, m)
         else if length (em_bitmap m) \<le> unat (eh_bitmap_ext_index g) then Undefined
         else Return (Deleted PANCAKE_STORE_OK, m\<lparr>em_bitmap := (em_bitmap m)[unat (eh_bitmap_ext_index g) := False]\<rparr>))"
  by (auto simp: finish_call.simps [of F P "Del_Bitmap_Write g boff bs"] del_bitmap_write_def bind_simps Let_def
      intro!: outcome_bind_cong split: prod.split)

lemma finish_DelExtent: "finish_call F P (Begin (Call_DelExtent tmp g)) m = atomic_call F P (Call_DelExtent tmp g) m"
proof -
  have "finish_call F P (Header_Read tmp g) m = atomic_call F P (Call_DelExtent tmp g) m"
    by (auto simp: finish_call.simps [of F P "Header_Read tmp g"] del_header_read_def finish_Del_Bitmap_Write DelExtent_def
        write_bitmap_block_split bind_simps Let_def intro!: outcome_bind_cong split: prod.split)
  then show ?thesis by (simp add: finish_call.simps [of F P "Begin (Call_DelExtent tmp g)"])
qed

lemma finish_Begin: "finish_call F P (Begin c) m = atomic_call F P c m"
  by (cases c) (simp_all only: finish_AddExtent finish_DelExtent finish_call.simps [of F P "Begin Call_AllocCount"]
      finish_call.simps [of F P "Begin Call_FreeCount"] phase_step.simps atomic_call.simps outcome_bind.simps prod.case sum.case)

section \<open>Tasks\<close>

text \<open>
  A task makes calls. It waits for the lock, has it, or has got its answer. \<^verbatim>\<open>seastar::with_lock\<close> lets
  one waiting task in when nobody has the lock, and gives the lock back with the answer. Which waiting
  task is left open here, so that what is shown holds for any lock; \<open>Extent_Queue\<close> has the lock of
  seastar, which serves the waiting tasks in the order of their calls.
\<close>

datatype mgr_task = Idle | Waiting mgr_call | Running mgr_call mgr_phase | Finished mgr_call mgr_answer

record 'd mgr_system =
  sy_manager :: "'d PancakeExtentManager"
  sy_mutex :: "nat option" \<comment> \<open>the task that holds \<^verbatim>\<open>mutex_\<close>\<close>
  sy_tasks :: "nat \<Rightarrow> mgr_task"

text \<open>The label of a step is what it answers: the task, its call and the answer.\<close>

type_synonym answered = "nat \<times> mgr_call \<times> mgr_answer"

inductive sys_step :: "'d file_api \<Rightarrow> platform \<Rightarrow> 'd mgr_system \<Rightarrow> answered list \<Rightarrow> 'd mgr_system \<Rightarrow> bool"
  for F :: "'d file_api" and P :: platform where
  sys_call: "sy_tasks s t = Idle \<or> sy_tasks s t = Finished c' a \<Longrightarrow>
    sys_step F P s [] (s\<lparr>sy_tasks := (sy_tasks s)(t := Waiting c)\<rparr>)"
| sys_lock: "sy_mutex s = None \<Longrightarrow> sy_tasks s t = Waiting c \<Longrightarrow>
    sys_step F P s [] (s\<lparr>sy_mutex := Some t, sy_tasks := (sy_tasks s)(t := Running c (Begin c))\<rparr>)"
| sys_turn: "sy_tasks s t = Running c ph \<Longrightarrow> phase_step F P ph (sy_manager s) = Return (Inl ph', m') \<Longrightarrow>
    sys_step F P s [] (s\<lparr>sy_manager := m', sy_tasks := (sy_tasks s)(t := Running c ph')\<rparr>)"
| sys_answer: "sy_tasks s t = Running c ph \<Longrightarrow> phase_step F P ph (sy_manager s) = Return (Inr a, m') \<Longrightarrow>
    sys_step F P s [(t, c, a)]
      (s\<lparr>sy_manager := m', sy_mutex := None, sy_tasks := (sy_tasks s)(t := Finished c a)\<rparr>)"

inductive sys_run :: "'d file_api \<Rightarrow> platform \<Rightarrow> 'd mgr_system \<Rightarrow> answered list \<Rightarrow> 'd mgr_system \<Rightarrow> bool"
  for F :: "'d file_api" and P :: platform and s :: "'d mgr_system" where
  run_start: "sys_run F P s [] s"
| run_next: "sys_run F P s log s' \<Longrightarrow> sys_step F P s' l s'' \<Longrightarrow> sys_run F P s (log @ l) s''"

text \<open>The calls one after the other, each in one step.\<close>

fun atomic_run :: "'d file_api \<Rightarrow> platform \<Rightarrow> 'd PancakeExtentManager \<Rightarrow> answered list \<Rightarrow> 'd PancakeExtentManager \<Rightarrow> bool" where
  "atomic_run F P m [] m' \<longleftrightarrow> m' = m"
| "atomic_run F P m ((t, c, a) # log) m' \<longleftrightarrow>
    (case atomic_call F P c m of Return (a', m1) \<Rightarrow> a' = a \<and> atomic_run F P m1 log m' | _ \<Rightarrow> False)"

lemma atomic_run_snoc:
  "atomic_run F P m (log @ [(t, c, a)]) m' \<longleftrightarrow> (\<exists>m1. atomic_run F P m log m1 \<and> atomic_call F P c m1 = Return (a, m'))"
  by (induction F P m log m' rule: atomic_run.induct) (auto split: outcome.splits)

text \<open>
  What ties the two together: only the holder of the lock runs, and running it to its end does from
  here what its whole call does from the state the last answer left.
\<close>

definition pending :: "'d file_api \<Rightarrow> platform \<Rightarrow> 'd mgr_system \<Rightarrow> 'd PancakeExtentManager \<Rightarrow> bool" where
  "pending F P s m \<longleftrightarrow> (\<forall>t c ph. sy_tasks s t = Running c ph \<longrightarrow> sy_mutex s = Some t) \<and>
     (case sy_mutex s of None \<Rightarrow> sy_manager s = m
      | Some t \<Rightarrow> \<exists>c ph. sy_tasks s t = Running c ph \<and> finish_call F P ph (sy_manager s) = atomic_call F P c m)"

lemma pending_running:
  assumes "pending F P s m" and "sy_tasks s t = Running c ph"
  shows "sy_mutex s = Some t" and "finish_call F P ph (sy_manager s) = atomic_call F P c m"
proof -
  show mutex: "sy_mutex s = Some t" using assms unfolding pending_def by blast
  show "finish_call F P ph (sy_manager s) = atomic_call F P c m"
    using assms mutex by (simp add: pending_def)
qed

lemma sys_step_pending:
  assumes "sys_step F P s l s'" and "pending F P s m"
  shows "\<exists>m'. atomic_run F P m l m' \<and> pending F P s' m'"
  using assms(1)
proof cases
  case (sys_call t c' a c)
  then have "pending F P s' m" using assms(2) by (auto simp: pending_def split: option.splits)
  then show ?thesis using sys_call by simp
next
  case (sys_lock t c)
  then have "pending F P s' m" using assms(2) by (auto simp: pending_def finish_Begin)
  then show ?thesis using sys_lock by simp
next
  case (sys_turn t c ph ph' m')
  note running = pending_running [OF assms(2) sys_turn(3)]
  have "finish_call F P ph' m' = atomic_call F P c m"
    using running(2) finish_call_next(1) [OF sys_turn(4)] by simp
  then have "pending F P s' m" using assms(2) running(1) sys_turn by (auto simp: pending_def)
  then show ?thesis using sys_turn by simp
next
  case (sys_answer t c ph a m')
  note running = pending_running [OF assms(2) sys_answer(3)]
  have "atomic_call F P c m = Return (a, m')"
    using running(2) finish_call_next(2) [OF sys_answer(4)] by simp
  moreover have "pending F P s' m'" using assms(2) running(1) sys_answer by (auto simp: pending_def)
  ultimately show ?thesis using sys_answer by auto
qed

lemma atomic_run_append:
  "atomic_run F P m (log @ log') m' \<longleftrightarrow> (\<exists>m1. atomic_run F P m log m1 \<and> atomic_run F P m1 log' m')"
  by (induction F P m log m' rule: atomic_run.induct) (auto split: outcome.splits)

lemma sys_run_pending:
  assumes "sys_run F P s log s'" and "pending F P s m"
  shows "\<exists>m'. atomic_run F P m log m' \<and> pending F P s' m'"
  using assms(1)
proof induction
  case run_start
  show ?case using assms(2) by auto
next
  case (run_next log s' l s'')
  then obtain m1 where "atomic_run F P m log m1" "pending F P s' m1" by blast
  moreover from this sys_step_pending [OF run_next.hyps(2)] obtain m2 where "atomic_run F P m1 l m2" "pending F P s'' m2" by blast
  ultimately show ?case by (auto simp: atomic_run_append)
qed

definition at_rest :: "'d mgr_system \<Rightarrow> bool" where
  "at_rest s \<longleftrightarrow> sy_mutex s = None \<and> (\<forall>t c ph. sy_tasks s t \<noteq> Running c ph)"

lemma at_rest_pending: "at_rest s \<Longrightarrow> pending F P s (sy_manager s)"
  by (simp add: at_rest_def pending_def)

section \<open>The holder of the lock\<close>

lemma sys_run_trans: "sys_run F P s' log' s'' \<Longrightarrow> sys_run F P s log s' \<Longrightarrow> sys_run F P s (log @ log') s''"
proof (induction rule: sys_run.induct)
  case (run_next log' s1 l s2)
  then show ?case using sys_run.run_next [of F P s "log @ log'" s1 l s2] by simp
qed simp

text \<open>A task that has the lock and whose call would return can take its turns up to its answer.\<close>

lemma holder_answers:
  assumes "finish_call F P ph m = Return (a, m')" and "sy_manager s = m" and "sy_tasks s t = Running c ph"
  shows "sys_run F P s [(t, c, a)] (s\<lparr>sy_manager := m', sy_mutex := None, sy_tasks := (sy_tasks s)(t := Finished c a)\<rparr>)"
  using assms
proof (induction "phase_rank ph" arbitrary: ph m s rule: less_induct)
  case less
  from less.prems(1) obtain r m1 where turn: "phase_step F P ph m = Return (r, m1)"
    by (auto simp: finish_call.simps [of F P ph] outcome_bind_Return_iff)
  show ?case
  proof (cases r)
    case (Inl ph')
    let ?s = "s\<lparr>sy_manager := m1, sy_tasks := (sy_tasks s)(t := Running c ph')\<rparr>"
    have step: "sys_step F P s [] ?s" using less.prems turn Inl by (intro sys_turn) simp_all
    have "finish_call F P ph' m1 = Return (a, m')" using less.prems(1) turn Inl by (simp add: finish_call_next(1))
    moreover have "phase_rank ph' < phase_rank ph" using phase_step_rank turn Inl by blast
    ultimately have "sys_run F P ?s [(t, c, a)] (?s\<lparr>sy_manager := m', sy_mutex := None, sy_tasks := (sy_tasks ?s)(t := Finished c a)\<rparr>)"
      by (intro less.hyps [of ph' m1]) simp_all
    then show ?thesis using sys_run_trans [OF _ run_next [OF run_start step]] by simp
  next
    case (Inr a')
    with less.prems(1) turn have "a' = a \<and> m1 = m'" by (simp add: finish_call_next(2))
    then show ?thesis
      using run_next [OF run_start sys_answer [OF less.prems(3)]] less.prems(2) turn Inr by simp
  qed
qed

text \<open>The arguments the operations are written for.\<close>

fun call_ok :: "'d PancakeExtentManager \<Rightarrow> mgr_call \<Rightarrow> bool" where
  "call_ok m (Call_AddExtent h) = wf_ExtentHeaderBlock h"
| "call_ok m (Call_DelExtent tmp g) = (unat (eh_bitmap_ext_index g) < unat (em_extent_block_count m))"
| "call_ok m Call_AllocCount = True"
| "call_ok m Call_FreeCount = True"

lemma atomic_run_edits:
  "atomic_run F P m log m' \<Longrightarrow> \<forall>(t, c, a) \<in> set log. call_ok m0 c \<Longrightarrow> (edit_step F P)\<^sup>*\<^sup>* m m'"
proof (induction F P m log m' rule: atomic_run.induct)
  case (2 F P m t c a log m')
  then obtain m1 where call: "atomic_call F P c m = Return (a, m1)" and rest: "(edit_step F P)\<^sup>*\<^sup>* m1 m'"
    by (auto split: outcome.splits)
  have "m1 = m \<or> edit_step F P m m1"
    using call "2.prems"(2) by (cases c) (auto simp: outcome_bind_Return_iff intro: edit_Add edit_Del)
  then show ?case using rest by (auto intro: converse_rtranclp_into_rtranclp)
qed simp

text \<open>A call with such arguments returns, whatever the device answers.\<close>

lemma atomic_call_returns:
  assumes "laid_out m" and "0 < em_bitmap_block_count m" and "io_open (em_pancake_io m)" and "call_ok m c"
  shows "\<exists>a m'. atomic_call F P c m = Return (a, m')"
proof (cases c)
  case (Call_AddExtent h)
  with assms(4) AddExtent_returns [OF assms(1,2), of h F P] assms(3) show ?thesis
    by (auto simp: io_open_def)
next
  case (Call_DelExtent tmp g)
  with assms(1,4) have "unat (eh_bitmap_ext_index g) < length (em_bitmap m)"
    by (simp add: laid_out_def wf_manager_def)
  from DelExtent_returns [OF assms(1) _ this, of F P tmp] assms(3) show ?thesis
    by (auto simp: io_open_def Call_DelExtent)
qed simp_all

lemma atomic_run_keeps:
  assumes "atomic_run F P m log m'" and "\<forall>(t, c, a) \<in> set log. call_ok m c"
    and "laid_out m" and "0 < em_bitmap_block_count m" and "io_open (em_pancake_io m)"
  shows "laid_out m'" and "0 < em_bitmap_block_count m'" and "io_open (em_pancake_io m')" and "call_ok m' c = call_ok m c"
proof -
  note keeps = edit_run_keeps [OF atomic_run_edits [OF assms(1,2)] assms(3,5)]
  from keeps assms(4) show "laid_out m'" "0 < em_bitmap_block_count m'" "io_open (em_pancake_io m')" by simp_all
  from keeps show "call_ok m' c = call_ok m c" by (cases c) simp_all
qed

section \<open>Properties\<close>

text \<open>
  C2. Concurrent calls are atomic. Whatever the order in which tasks call the manager, get its lock and
  run from one \<^verbatim>\<open>co_await\<close> to the next, with a device that may answer anything, the answers are those of
  the same calls made one after the other in the order of the answers, each in one step, and when
  nobody has the lock the manager is in the state those calls leave. At most one task is inside an
  operation, the one that holds the lock, and running it on amounts to its whole call.
\<close>

theorem concurrent_calls_atomic:
  assumes "at_rest s" and "sys_run F P s log s'"
  shows "\<exists>m. atomic_run F P (sy_manager s) log m
    \<and> (sy_mutex s' = None \<longrightarrow> sy_manager s' = m)
    \<and> (\<forall>t c ph. sy_tasks s' t = Running c ph \<longrightarrow>
        sy_mutex s' = Some t \<and> finish_call F P ph (sy_manager s') = atomic_call F P c m)"
proof -
  from sys_run_pending [OF assms(2) at_rest_pending [OF assms(1)]]
  obtain m where run: "atomic_run F P (sy_manager s) log m" and p: "pending F P s' m" by blast
  moreover have "sy_mutex s' = None \<longrightarrow> sy_manager s' = m" using p by (simp add: pending_def split: option.splits)
  ultimately show ?thesis using pending_running [OF p] by (intro exI [of _ m]) auto
qed

section \<open>Witnesses\<close>

text \<open>
  Two tasks on one device: the first is in the middle of \<^verbatim>\<open>AddExtent\<close> when the second asks for the same
  extent and waits; it gets its turn after the first has its answer.
\<close>

definition two_tasks :: "(nat \<Rightarrow> u8) mgr_system" where
  "two_tasks = \<lparr>sy_manager = two_extents, sy_mutex = None, sy_tasks = (\<lambda>_. Idle)\<rparr>"

abbreviation add_zero :: mgr_call where
  "add_zero \<equiv> Call_AddExtent zero_ExtentHeaderBlock"

lemma at_rest_two_tasks: "at_rest two_tasks"
  by (simp add: at_rest_def two_tasks_def)

definition one_waits :: "(nat \<Rightarrow> u8) mgr_system" where
  "one_waits = two_tasks\<lparr>sy_mutex := Some 0,
     sy_tasks := ((\<lambda>_. Idle)(0 := Running add_zero (Begin add_zero), 1 := Waiting add_zero))\<rparr>"

lemma two_tasks_wait: "sys_run sparse_file P two_tasks [] one_waits"
proof -
  let ?s1 = "two_tasks\<lparr>sy_tasks := (\<lambda>_. Idle)(0 := Waiting add_zero)\<rparr>"
  let ?s2 = "?s1\<lparr>sy_mutex := Some 0, sy_tasks := (sy_tasks ?s1)(0 := Running add_zero (Begin add_zero))\<rparr>"
  have "sys_step sparse_file P two_tasks [] ?s1"
    using sys_call [of two_tasks 0 _ _ sparse_file P add_zero] by (simp add: two_tasks_def)
  moreover have "sys_step sparse_file P ?s1 [] ?s2" by (rule sys_lock) (simp_all add: two_tasks_def)
  moreover have "sys_step sparse_file P ?s2 [] (?s2\<lparr>sy_tasks := (sy_tasks ?s2)(1 := Waiting add_zero)\<rparr>)"
    by (rule sys_call) (simp add: two_tasks_def)
  ultimately show ?thesis
    using run_next [OF run_next [OF run_next [OF run_start]]] by (fastforce simp: fun_upd_twist one_waits_def)
qed

theorem concurrent_calls_atomic_witness:
  "\<exists>h s. sys_run sparse_file (x86_host True) two_tasks
      [(0, add_zero, Added PANCAKE_STORE_OK h), (1, add_zero, Added DATANODE_STORAGE_EXTENT_ALREADY_EXISTS zero_ExtentHeaderBlock)] s
    \<and> sy_mutex s = None
    \<and> atomic_run sparse_file (x86_host True) two_extents
      [(0, add_zero, Added PANCAKE_STORE_OK h), (1, add_zero, Added DATANODE_STORAGE_EXTENT_ALREADY_EXISTS zero_ExtentHeaderBlock)]
      (sy_manager s)"
proof -
  let ?P = "x86_host True" and ?exists = "Added DATANODE_STORAGE_EXTENT_ALREADY_EXISTS zero_ExtentHeaderBlock"
  obtain m h where add: "AddExtent sparse_file ?P two_extents zero_ExtentHeaderBlock = Return (PANCAKE_STORE_OK, m, h)"
    by (rule two_extents_add)
  let ?ok = "Added PANCAKE_STORE_OK h"
  let ?s1 = "one_waits\<lparr>sy_manager := m, sy_mutex := None, sy_tasks := (sy_tasks one_waits)(0 := Finished add_zero ?ok)\<rparr>"
  let ?s2 = "?s1\<lparr>sy_mutex := Some 1, sy_tasks := (sy_tasks ?s1)(1 := Running add_zero (Begin add_zero))\<rparr>"
  let ?s3 = "?s2\<lparr>sy_manager := m, sy_mutex := None, sy_tasks := (sy_tasks ?s2)(1 := Finished add_zero ?exists)\<rparr>"
  have "finish_call sparse_file ?P (Begin add_zero) two_extents = Return (?ok, m)" by (simp add: finish_Begin add)
  then have first: "sys_run sparse_file ?P one_waits [(0, add_zero, ?ok)] ?s1"
    by (rule holder_answers) (simp_all add: one_waits_def two_tasks_def)
  have lock: "sys_step sparse_file ?P ?s1 [] ?s2" by (rule sys_lock) (simp_all add: one_waits_def)
  have "em_extent_offset_map m (eh_extent_id zero_ExtentHeaderBlock) \<noteq> None"
    using AddExtent_alloc [OF add] by auto
  then have "finish_call sparse_file ?P (Begin add_zero) m = Return (?exists, m)"
    by (simp add: finish_Begin AddExtent_def)
  then have "sys_run sparse_file ?P ?s2 [(1, add_zero, ?exists)] ?s3"
    by (rule holder_answers) simp_all
  from sys_run_trans [OF this run_next [OF sys_run_trans [OF first two_tasks_wait] lock]]
  have run: "sys_run sparse_file ?P two_tasks [(0, add_zero, ?ok), (1, add_zero, ?exists)] ?s3" by simp
  from concurrent_calls_atomic [OF at_rest_two_tasks run] run show ?thesis
    by (intro exI [of _ h] exI [of _ ?s3]) (auto simp: two_tasks_def)
qed

end
