(* ===== verification/Extent_Tasks.thy ===== *)
theory Extent_Tasks
  imports Extent_Faults Extent_Concurrency
begin

text \<open>
  Tasks on one manager whose device may fail: what \<open>Extent_Concurrency\<close> says about turns and
  \<open>Extent_Faults\<close> about single calls, put together for runs of any number of tasks.
\<close>

section \<open>Tasks on a device that fails\<close>

text \<open>What a call answers is recorded: an \<^verbatim>\<open>AddExtent\<close> that answered OK has its extent in the map, at its block.\<close>

definition recorded :: "'d PancakeExtentManager \<Rightarrow> answered \<Rightarrow> bool" where
  "recorded m x \<longleftrightarrow> (\<forall>t h h'. x = (t, Call_AddExtent h, Added PANCAKE_STORE_OK h') \<longrightarrow>
     em_extent_offset_map m (eh_extent_id h) = Some (block_place m (unat (eh_bitmap_ext_index h'))))"

text \<open>One task's call between two answers, in one step, on a device that may fail.\<close>

definition keeps_extents :: "'d PancakeExtentManager \<Rightarrow> 'd PancakeExtentManager \<Rightarrow> bool" where
  "keeps_extents m m' \<longleftrightarrow> em_extent_offset_map m \<subseteq>\<^sub>m em_extent_offset_map m' \<and> laid_out m' = laid_out m
     \<and> bitmap_covers m' = bitmap_covers m \<and> block_place m' = block_place m
     \<and> em_extent_block_count m' = em_extent_block_count m"

lemma keeps_extents_trans: "keeps_extents m m1 \<Longrightarrow> keeps_extents m1 m2 \<Longrightarrow> keeps_extents m m2"
  by (auto simp: keeps_extents_def intro: map_le_trans)

lemma recorded_kept: "recorded m x \<Longrightarrow> keeps_extents m m' \<Longrightarrow> recorded m' x"
  by (fastforce simp: recorded_def keeps_extents_def map_le_def dom_def)

lemma call_ok_count: "em_extent_block_count m' = em_extent_block_count m \<Longrightarrow> call_ok m' c = call_ok m c"
  by (cases c) simp_all

lemma atomic_call_extents:
  assumes "block_device F content" and "net_order P" and "laid_out m" and "bitmap_covers m" and "extents_stored content P m"
    and "atomic_call F P c m = Return (a, m1)" and "call_ok m c"
  shows "extents_stored content P m1 \<and> keeps_extents m m1 \<and> recorded m1 (t, c, a)"
proof -
  have step: "extents_stored content P m1 \<and> keeps_extents m m1" if "faulty_step F P m e j m1" for e j
    using faulty_step_extents [OF assms(1-4) that assms(5)] faulty_step_keeps [OF that] faulty_step_frame [OF that]
    by (simp add: keeps_extents_def)
  show ?thesis
  proof (cases c)
    case (Call_AddExtent h)
    with assms(6) obtain e h' where add: "AddExtent F P m h = Return (e, m1, h')" and a: "a = Added e h'"
      by (auto simp: outcome_bind_Return_iff)
    have kept: "extents_stored content P m1 \<and> keeps_extents m m1"
      using step [OF faulty_Add [OF _ add]] assms(7) Call_AddExtent by simp
    then have "recorded m1 (t, c, a)"
      using AddExtent_memory(2) [OF add] by (simp add: recorded_def keeps_extents_def Call_AddExtent a)
    with kept show ?thesis by blast
  next
    case (Call_DelExtent tmp g)
    with assms(6) obtain e where del: "DelExtent F P tmp m g = Return (e, m1)" by (auto simp: outcome_bind_Return_iff)
    show ?thesis
      using step [OF faulty_Del [OF _ del]] assms(7) Call_DelExtent by (simp add: recorded_def)
  qed (use assms(5,6) in \<open>auto simp: keeps_extents_def recorded_def\<close>)
qed

lemma atomic_run_extents:
  assumes "block_device F content" and "net_order P"
  shows "atomic_run F P m log m' \<Longrightarrow> laid_out m \<Longrightarrow> bitmap_covers m \<Longrightarrow> extents_stored content P m
    \<Longrightarrow> \<forall>(t, c, a) \<in> set log. call_ok m c
    \<Longrightarrow> extents_stored content P m' \<and> keeps_extents m m' \<and> (\<forall>x \<in> set log. recorded m' x)"
proof (induction log arbitrary: m)
  case Nil
  then show ?case by (simp add: keeps_extents_def)
next
  case (Cons x log)
  obtain t c a where x: "x = (t, c, a)" by (cases x)
  with Cons.prems(1) obtain m1 where call: "atomic_call F P c m = Return (a, m1)" and rest: "atomic_run F P m1 log m'"
    by (auto split: outcome.splits)
  have first: "extents_stored content P m1 \<and> keeps_extents m m1 \<and> recorded m1 x"
    unfolding x using Cons.prems(5) x by (intro atomic_call_extents [OF assms Cons.prems(2-4) call]) simp
  then have same: "call_ok m1 = call_ok m"
    by (intro ext call_ok_count) (simp add: keeps_extents_def)
  have "extents_stored content P m' \<and> keeps_extents m1 m' \<and> (\<forall>x \<in> set log. recorded m' x)"
    using first same Cons.prems by (intro Cons.IH [OF rest]) (simp_all add: keeps_extents_def)
  then show ?case using first keeps_extents_trans [of m m1 m'] recorded_kept [of m1 x m'] by auto
qed

section \<open>One call\<close>

text \<open>A manager nobody uses, and one task that makes one call.\<close>

definition idle_system :: "'d PancakeExtentManager \<Rightarrow> 'd mgr_system" where
  "idle_system m = \<lparr>sy_manager = m, sy_mutex = None, sy_tasks = (\<lambda>_. Idle)\<rparr>"

lemma one_call_runs:
  assumes "atomic_call F P c m = Return (a, m')"
  obtains sys' where "sys_run F P (idle_system m) [(0, c, a)] sys'" and "sy_mutex sys' = None" and "sy_manager sys' = m'"
proof -
  let ?s1 = "(idle_system m)\<lparr>sy_tasks := (\<lambda>_. Idle)(0 := Waiting c)\<rparr>"
  let ?s2 = "?s1\<lparr>sy_mutex := Some 0, sy_tasks := (sy_tasks ?s1)(0 := Running c (Begin c))\<rparr>"
  have "sys_step F P (idle_system m) [] ?s1"
    using sys_call [of "idle_system m" 0 _ _ F P c] by (simp add: idle_system_def)
  moreover have "sys_step F P ?s1 [] ?s2" by (rule sys_lock) (simp_all add: idle_system_def)
  ultimately have start: "sys_run F P (idle_system m) [] ?s2" using run_next [OF run_next [OF run_start]] by fastforce
  have "finish_call F P (Begin c) m = Return (a, m')" by (simp add: finish_Begin assms)
  then have "sys_run F P ?s2 [(0, c, a)] (?s2\<lparr>sy_manager := m', sy_mutex := None, sy_tasks := (sy_tasks ?s2)(0 := Finished c a)\<rparr>)"
    (is "sys_run F P _ _ ?s3")
    by (rule holder_answers) (simp_all add: idle_system_def)
  then have "sys_run F P (idle_system m) [(0, c, a)] ?s3" using sys_run_trans [OF _ start] by fastforce
  moreover have "sy_mutex ?s3 = None" "sy_manager ?s3 = m'" by simp_all
  ultimately show thesis by (rule that)
qed

end
