(* ===== verification/Extent_Queue.thy ===== *)
theory Extent_Queue
  imports Extent_Concurrency
begin

text \<open>
  Many tasks on one \<^verbatim>\<open>PancakeExtentManager\<close> under a fair lock. The lock is a parameter; its contract
  \<open>fair_lock\<close> is what \<^verbatim>\<open>seastar::shared_mutex\<close> does: tasks it cannot let in are kept as a queue, and the
  task that leaves hands the lock to the first of them, without the lock being free in between.
  When calls are made and what the device answers remains open.
\<close>

section \<open>The lock\<close>

text \<open>
  \<^verbatim>\<open>lock()\<close> for a task says whether the task has the lock at once; \<^verbatim>\<open>unlock()\<close> says which task has it next.
\<close>

record 'l lock_api =
  lk_lock :: "nat \<Rightarrow> 'l \<Rightarrow> bool \<times> 'l"
  lk_unlock :: "'l \<Rightarrow> nat option \<times> 'l"

locale fair_lock =
  fixes L :: "'l lock_api" and holder :: "'l \<Rightarrow> nat option" and queue :: "'l \<Rightarrow> nat list"
  assumes free: "holder l = None \<Longrightarrow> queue l = []"
    and lock_free: "holder l = None \<Longrightarrow> lk_lock L t l = (ok, l') \<Longrightarrow> ok \<and> holder l' = Some t \<and> queue l' = []"
    and lock_taken: "holder l = Some u \<Longrightarrow> lk_lock L t l = (ok, l') \<Longrightarrow> \<not> ok \<and> holder l' = Some u \<and> queue l' = queue l @ [t]"
    and unlock_last: "holder l = Some u \<Longrightarrow> queue l = [] \<Longrightarrow> lk_unlock L l = (next, l') \<Longrightarrow> next = None \<and> holder l' = None"
    and unlock_next: "holder l = Some u \<Longrightarrow> queue l = w # ws \<Longrightarrow> lk_unlock L l = (next, l') \<Longrightarrow> next = Some w \<and> holder l' = Some w \<and> queue l' = ws"

section \<open>Tasks under the lock\<close>

record ('d, 'l) queue_system =
  qs_system :: "'d mgr_system"
  qs_lock :: 'l \<comment> \<open>the state of \<^verbatim>\<open>mutex_\<close>\<close>

datatype queue_event = Called nat mgr_call | Turned nat | Answered nat mgr_call mgr_answer

fun internal :: "queue_event \<Rightarrow> bool" where
  "internal (Called t c) = False"
| "internal (Turned t) = True"
| "internal (Answered t c a) = True"

abbreviation set_task :: "nat \<Rightarrow> mgr_task \<Rightarrow> 'd mgr_system \<Rightarrow> 'd mgr_system" where
  "set_task t x s \<equiv> s\<lparr>sy_tasks := (sy_tasks s)(t := x)\<rparr>"

text \<open>A call: \<^verbatim>\<open>with_lock\<close> starts the operation if the lock is free, or the task waits.\<close>

definition queue_lock :: "'l lock_api \<Rightarrow> nat \<Rightarrow> mgr_call \<Rightarrow> ('d, 'l) queue_system \<Rightarrow> ('d, 'l) queue_system" where
  "queue_lock L t c q = (let s = qs_system q in case lk_lock L t (qs_lock q) of (ok, l) \<Rightarrow>
     if ok then \<lparr>qs_system = set_task t (Running c (Begin c)) (s\<lparr>sy_mutex := Some t\<rparr>), qs_lock = l\<rparr>
     else \<lparr>qs_system = set_task t (Waiting c) s, qs_lock = l\<rparr>)"

text \<open>The end of \<^verbatim>\<open>with_lock\<close>: the operation of the task that has the lock next starts.\<close>

definition queue_unlock :: "'l lock_api \<Rightarrow> ('d, 'l) queue_system \<Rightarrow> ('d, 'l) queue_system" where
  "queue_unlock L q = (let s = qs_system q in case lk_unlock L (qs_lock q) of (next, l) \<Rightarrow>
     case next of
       None \<Rightarrow> \<lparr>qs_system = s\<lparr>sy_mutex := None\<rparr>, qs_lock = l\<rparr>
     | Some w \<Rightarrow> (case sy_tasks s w of
           Waiting c \<Rightarrow> \<lparr>qs_system = set_task w (Running c (Begin c)) (s\<lparr>sy_mutex := Some w\<rparr>), qs_lock = l\<rparr>
         | _ \<Rightarrow> \<lparr>qs_system = s\<lparr>sy_mutex := Some w\<rparr>, qs_lock = l\<rparr>))"

inductive queue_step :: "'d file_api \<Rightarrow> platform \<Rightarrow> 'l lock_api \<Rightarrow> ('d, 'l) queue_system \<Rightarrow> queue_event
    \<Rightarrow> ('d, 'l) queue_system \<Rightarrow> bool"
  for F :: "'d file_api" and P :: platform and L :: "'l lock_api" where
  queue_call: "sy_tasks (qs_system q) t = Idle \<or> sy_tasks (qs_system q) t = Finished c' a \<Longrightarrow>
    queue_step F P L q (Called t c) (queue_lock L t c q)"
| queue_turn: "sy_tasks (qs_system q) t = Running c ph \<Longrightarrow>
    phase_step F P ph (sy_manager (qs_system q)) = Return (Inl ph', m) \<Longrightarrow>
    queue_step F P L q (Turned t) (q\<lparr>qs_system := set_task t (Running c ph') ((qs_system q)\<lparr>sy_manager := m\<rparr>)\<rparr>)"
| queue_answer: "sy_tasks (qs_system q) t = Running c ph \<Longrightarrow>
    phase_step F P ph (sy_manager (qs_system q)) = Return (Inr a, m) \<Longrightarrow>
    queue_step F P L q (Answered t c a)
      (queue_unlock L (q\<lparr>qs_system := set_task t (Finished c a) ((qs_system q)\<lparr>sy_manager := m\<rparr>)\<rparr>))"

inductive queue_run :: "'d file_api \<Rightarrow> platform \<Rightarrow> 'l lock_api \<Rightarrow> ('d, 'l) queue_system \<Rightarrow> queue_event list
    \<Rightarrow> ('d, 'l) queue_system \<Rightarrow> bool"
  for F :: "'d file_api" and P :: platform and L :: "'l lock_api" and q :: "('d, 'l) queue_system" where
  queue_start: "queue_run F P L q [] q"
| queue_next: "queue_run F P L q evs q' \<Longrightarrow> queue_step F P L q' ev q'' \<Longrightarrow> queue_run F P L q (evs @ [ev]) q''"

text \<open>Nobody has the lock or waits for it.\<close>

definition quiet :: "('l \<Rightarrow> nat option) \<Rightarrow> ('d, 'l) queue_system \<Rightarrow> bool" where
  "quiet holder q \<longleftrightarrow> holder (qs_lock q) = None \<and> sy_mutex (qs_system q) = None
     \<and> (\<forall>t. sy_tasks (qs_system q) t = Idle \<or> (\<exists>c a. sy_tasks (qs_system q) t = Finished c a))"

text \<open>The calls that were made and the answers that were given, in their order.\<close>

fun called :: "queue_event \<Rightarrow> (nat \<times> mgr_call) list" where
  "called (Called t c) = [(t, c)]"
| "called (Turned t) = []"
| "called (Answered t c a) = []"

fun answer_of :: "queue_event \<Rightarrow> answered list" where
  "answer_of (Called t c) = []"
| "answer_of (Turned t) = []"
| "answer_of (Answered t c a) = [(t, c, a)]"

definition calls_made :: "queue_event list \<Rightarrow> (nat \<times> mgr_call) list" where
  "calls_made evs = concat (map called evs)"

definition answers_given :: "queue_event list \<Rightarrow> answered list" where
  "answers_given evs = concat (map answer_of evs)"

definition internal_steps :: "queue_event list \<Rightarrow> nat" where
  "internal_steps evs = length (filter internal evs)"

definition call_of :: "answered \<Rightarrow> nat \<times> mgr_call" where
  "call_of x = (fst x, fst (snd x))"

lemma events_snoc [simp]:
  "calls_made [] = []" "answers_given [] = []" "internal_steps [] = 0"
  "calls_made (evs @ [ev]) = calls_made evs @ called ev"
  "answers_given (evs @ [ev]) = answers_given evs @ answer_of ev"
  "internal_steps (evs @ [ev]) = internal_steps evs + (if internal ev then 1 else 0)"
  by (simp_all add: calls_made_def answers_given_def internal_steps_def)

text \<open>The turns the task inside still has, at most.\<close>

definition turns_left :: "'d mgr_system \<Rightarrow> nat" where
  "turns_left s = (case sy_mutex s of None \<Rightarrow> 0
     | Some t \<Rightarrow> (case sy_tasks s t of Running c ph \<Rightarrow> phase_rank ph | _ \<Rightarrow> 0))"

lemma phase_rank_pos: "0 < phase_rank ph"
  by (cases ph) simp_all

section \<open>The queue\<close>

context fair_lock begin

text \<open>
  The open calls \<open>cs\<close> are that of the task inside and those of the tasks in the queue, in this order.
\<close>

definition open_calls :: "('d, 'l) queue_system \<Rightarrow> (nat \<times> mgr_call) list \<Rightarrow> bool" where
  "open_calls q cs \<longleftrightarrow> holder (qs_lock q) = sy_mutex (qs_system q) \<and> distinct (map fst cs)
     \<and> (\<forall>t c ph. sy_tasks (qs_system q) t = Running c ph \<longrightarrow> sy_mutex (qs_system q) = Some t)
     \<and> (case sy_mutex (qs_system q) of None \<Rightarrow> cs = []
        | Some t \<Rightarrow> \<exists>c ph ws. cs = (t, c) # ws \<and> sy_tasks (qs_system q) t = Running c ph
            \<and> map fst ws = queue (qs_lock q) \<and> (\<forall>w c. (w, c) \<in> set ws \<longrightarrow> sy_tasks (qs_system q) w = Waiting c))"

lemma open_calls_none:
  assumes "open_calls q cs" and "sy_mutex (qs_system q) = None"
  shows "cs = []" and "holder (qs_lock q) = None" and "sy_tasks (qs_system q) t \<noteq> Running c ph"
  using assms unfolding open_calls_def by (force, force, metis option.distinct(1))

lemma open_calls_inside:
  assumes "open_calls q cs" and "sy_mutex (qs_system q) = Some t"
  obtains c ph ws where "cs = (t, c) # ws" and "sy_tasks (qs_system q) t = Running c ph"
    and "map fst ws = queue (qs_lock q)" and "holder (qs_lock q) = Some t" and "distinct (t # map fst ws)"
    and "\<And>v d. (v, d) \<in> set ws \<Longrightarrow> sy_tasks (qs_system q) v = Waiting d"
    and "\<And>v d ph. v \<noteq> t \<Longrightarrow> sy_tasks (qs_system q) v \<noteq> Running d ph"
proof -
  from assms obtain c ph ws where "cs = (t, c) # ws" "sy_tasks (qs_system q) t = Running c ph"
    "map fst ws = queue (qs_lock q)" "\<forall>v d. (v, d) \<in> set ws \<longrightarrow> sy_tasks (qs_system q) v = Waiting d"
    by (auto simp: open_calls_def)
  moreover from assms(1) have "distinct (map fst cs)" "holder (qs_lock q) = sy_mutex (qs_system q)"
    unfolding open_calls_def by blast+
  moreover have "sy_tasks (qs_system q) v \<noteq> Running d ph" if "v \<noteq> t" for v d ph
    using assms that unfolding open_calls_def by (metis option.inject)
  ultimately show thesis using assms(2) by (intro that [of c ws ph]) auto
qed

lemma open_calls_insideI:
  assumes "sy_mutex (qs_system q) = Some t" and "holder (qs_lock q) = Some t" and "sy_tasks (qs_system q) t = Running c ph"
    and "map fst ws = queue (qs_lock q)" and "distinct (t # map fst ws)"
    and "\<And>v d. (v, d) \<in> set ws \<Longrightarrow> sy_tasks (qs_system q) v = Waiting d"
    and "\<And>v d ph. v \<noteq> t \<Longrightarrow> sy_tasks (qs_system q) v \<noteq> Running d ph"
  shows "open_calls q ((t, c) # ws)"
proof -
  have "\<exists>c' ph ws'. (t, c) # ws = (t, c') # ws' \<and> sy_tasks (qs_system q) t = Running c' ph
      \<and> map fst ws' = queue (qs_lock q) \<and> (\<forall>v d. (v, d) \<in> set ws' \<longrightarrow> sy_tasks (qs_system q) v = Waiting d)"
    using assms(3,4,6) by blast
  moreover have "\<forall>v d ph. sy_tasks (qs_system q) v = Running d ph \<longrightarrow> sy_mutex (qs_system q) = Some v"
    using assms(1,7) by metis
  ultimately show ?thesis using assms(1,2,5) unfolding open_calls_def by simp
qed

lemma open_calls_running:
  assumes "open_calls q cs" and "sy_tasks (qs_system q) t = Running c ph"
  shows "sy_mutex (qs_system q) = Some t" and "turns_left (qs_system q) = phase_rank ph" and "cs = (t, c) # tl cs"
proof -
  show mutex: "sy_mutex (qs_system q) = Some t" using assms unfolding open_calls_def by blast
  then show "turns_left (qs_system q) = phase_rank ph" using assms(2) by (simp add: turns_left_def)
  from assms(1) mutex show "cs = (t, c) # tl cs" by (rule open_calls_inside) (use assms(2) in simp)
qed

lemma open_calls_lock:
  assumes "open_calls q cs" and "sy_tasks (qs_system q) t = Idle \<or> sy_tasks (qs_system q) t = Finished c' a"
  shows "open_calls (queue_lock L t c q) (cs @ [(t, c)])"
    and "turns_left (qs_system (queue_lock L t c q)) = (if cs = [] then 3 else turns_left (qs_system q))"
    and "sys_run F P (qs_system q) [] (qs_system (queue_lock L t c q))"
proof -
  let ?s = "qs_system q" and ?s1 = "set_task t (Waiting c) (qs_system q)"
  obtain ok l where lock: "lk_lock L t (qs_lock q) = (ok, l)" by (cases "lk_lock L t (qs_lock q)")
  have call: "sys_run F P ?s [] ?s1"
    using run_next [OF run_start sys_call [of ?s t c' a F P c]] assms(2) by simp
  have "open_calls (queue_lock L t c q) (cs @ [(t, c)])
    \<and> turns_left (qs_system (queue_lock L t c q)) = (if cs = [] then 3 else turns_left (qs_system q))
    \<and> sys_run F P (qs_system q) [] (qs_system (queue_lock L t c q))"
  proof (cases "sy_mutex ?s")
    case None
    note none = open_calls_none [OF assms(1) None]
    note l = lock_free [OF none(2) lock]
    then have q': "queue_lock L t c q = \<lparr>qs_system = set_task t (Running c (Begin c)) (?s\<lparr>sy_mutex := Some t\<rparr>), qs_lock = l\<rparr>"
      by (simp add: queue_lock_def lock Let_def)
    have "open_calls (queue_lock L t c q) ((t, c) # [])"
      by (rule open_calls_insideI) (use l none(3) in \<open>simp_all add: q' split: if_splits\<close>)
    moreover have "sys_step F P ?s1 [] (set_task t (Running c (Begin c)) (?s1\<lparr>sy_mutex := Some t\<rparr>))"
      using sys_lock [of ?s1 t c F P] None by simp
    from run_next [OF call this] have "sys_run F P ?s [] (qs_system (queue_lock L t c q))" by (simp add: q')
    ultimately show ?thesis by (simp add: none(1)) (simp add: q' turns_left_def)
  next
    case (Some u)
    from assms(1) Some show ?thesis
    proof (rule open_calls_inside)
      fix d ph ws
      assume cs: "cs = (u, d) # ws" and run: "sy_tasks ?s u = Running d ph" and queue: "map fst ws = queue (qs_lock q)"
        and held: "holder (qs_lock q) = Some u" and dist: "distinct (u # map fst ws)"
        and waits: "\<And>v d. (v, d) \<in> set ws \<Longrightarrow> sy_tasks ?s v = Waiting d"
        and only: "\<And>v d ph. v \<noteq> u \<Longrightarrow> sy_tasks ?s v \<noteq> Running d ph"
      note l = lock_taken [OF held lock]
      then have q': "queue_lock L t c q = \<lparr>qs_system = ?s1, qs_lock = l\<rparr>" by (simp add: queue_lock_def lock Let_def)
      have t: "t \<noteq> u" "\<And>d. (t, d) \<notin> set ws" using run waits assms(2) by force+
      then have "t \<notin> fst ` set ws" by auto
      then have "t \<notin> set (queue (qs_lock q))" using queue by (metis set_map)
      have "open_calls (queue_lock L t c q) ((u, d) # (ws @ [(t, c)]))"
        by (rule open_calls_insideI [where ph = ph])
          (use l Some run queue dist t only waits \<open>t \<notin> set (queue (qs_lock q))\<close> in \<open>auto simp: q' split: if_splits\<close>)
      then show ?thesis using call t(1) by (simp add: cs) (simp add: q' turns_left_def Some)
    qed
  qed
  then show "open_calls (queue_lock L t c q) (cs @ [(t, c)])"
    "turns_left (qs_system (queue_lock L t c q)) = (if cs = [] then 3 else turns_left (qs_system q))"
    "sys_run F P (qs_system q) [] (qs_system (queue_lock L t c q))" by blast+
qed

lemma open_calls_turn:
  assumes "open_calls q cs" and "sy_tasks (qs_system q) t = Running c ph"
    and "q' = q\<lparr>qs_system := set_task t (Running c ph') ((qs_system q)\<lparr>sy_manager := m\<rparr>)\<rparr>"
  shows "open_calls q' cs" and "turns_left (qs_system q') = phase_rank ph'"
proof -
  note mutex = open_calls_running(1) [OF assms(1,2)]
  then show "turns_left (qs_system q') = phase_rank ph'" by (simp add: assms(3) turns_left_def)
  from assms(1) mutex show "open_calls q' cs"
  proof (rule open_calls_inside)
    fix d ph1 ws
    assume inside: "cs = (t, d) # ws" "sy_tasks (qs_system q) t = Running d ph1" "map fst ws = queue (qs_lock q)"
      "holder (qs_lock q) = Some t" "distinct (t # map fst ws)"
      and waits: "\<And>v d. (v, d) \<in> set ws \<Longrightarrow> sy_tasks (qs_system q) v = Waiting d"
      and only: "\<And>v d ph. v \<noteq> t \<Longrightarrow> sy_tasks (qs_system q) v \<noteq> Running d ph"
    have "\<And>d. (t, d) \<notin> set ws" using waits inside(2) by fastforce
    then have "open_calls q' ((t, c) # ws)"
      by (intro open_calls_insideI [where ph = ph']) (use inside mutex waits only in \<open>auto simp: assms(3)\<close>)
    then show "open_calls q' cs" using inside(1,2) assms(2) by simp
  qed
qed

lemma open_calls_answer:
  assumes "open_calls q cs" and "sy_tasks (qs_system q) t = Running c ph"
    and "phase_step F P ph (sy_manager (qs_system q)) = Return (Inr a, m)"
    and "q' = queue_unlock L (q\<lparr>qs_system := set_task t (Finished c a) ((qs_system q)\<lparr>sy_manager := m\<rparr>)\<rparr>)"
  shows "open_calls q' (tl cs)" and "turns_left (qs_system q') = (if tl cs = [] then 0 else 3)"
    and "sys_run F P (qs_system q) [(t, c, a)] (qs_system q')"
proof -
  let ?s = "qs_system q"
  let ?s1 = "?s\<lparr>sy_manager := m, sy_mutex := None, sy_tasks := (sy_tasks ?s)(t := Finished c a)\<rparr>"
  note mutex = open_calls_running(1) [OF assms(1,2)]
  have answer: "sys_run F P ?s [(t, c, a)] ?s1"
    using run_next [OF run_start sys_answer [OF assms(2,3)]] by simp
  obtain n l where unlock: "lk_unlock L (qs_lock q) = (n, l)" by (cases "lk_unlock L (qs_lock q)")
  from assms(1) mutex have "open_calls q' (tl cs) \<and> turns_left (qs_system q') = (if tl cs = [] then 0 else 3)
    \<and> sys_run F P ?s [(t, c, a)] (qs_system q')"
  proof (rule open_calls_inside)
    fix d ph1 ws
    assume cs: "cs = (t, d) # ws" and queue: "map fst ws = queue (qs_lock q)" and dist: "distinct (t # map fst ws)"
      and held: "holder (qs_lock q) = Some t"
      and waits: "\<And>v d. (v, d) \<in> set ws \<Longrightarrow> sy_tasks ?s v = Waiting d"
      and only: "\<And>v d ph. v \<noteq> t \<Longrightarrow> sy_tasks ?s v \<noteq> Running d ph"
    show ?thesis
    proof (cases ws)
      case Nil
      then have l: "n = None" "holder l = None" using unlock_last [OF held _ unlock] queue by simp_all
      have "qs_system q' = ?s1" using l by (simp add: assms(4) queue_unlock_def unlock Let_def)
      moreover have "qs_lock q' = l" using l by (simp add: assms(4) queue_unlock_def unlock Let_def)
      ultimately show ?thesis using answer l only by (simp add: cs Nil open_calls_def turns_left_def)
    next
      case (Cons x rest)
      obtain w e where x: "x = (w, e)" by (cases x)
      have l: "n = Some w" "holder l = Some w" "queue l = map fst rest"
        using unlock_next [OF held _ unlock, of w "map fst rest"] queue Cons x by simp_all
      have w: "sy_tasks ?s w = Waiting e" "w \<noteq> t" using waits dist Cons x by simp_all
      let ?s2 = "set_task w (Running e (Begin e)) (?s1\<lparr>sy_mutex := Some w\<rparr>)"
      have q': "qs_system q' = ?s2" "qs_lock q' = l"
        using l(1) w by (simp_all add: assms(4) queue_unlock_def unlock Let_def)
      have "open_calls q' ((w, e) # rest)"
        by (rule open_calls_insideI [where ph = "Begin e"])
          (use l dist waits only Cons x in \<open>auto simp: q' rev_image_eqI\<close>)
      moreover have "sys_step F P ?s1 [] ?s2" using sys_lock [of ?s1 w e F P] w by simp
      from run_next [OF answer this] have "sys_run F P ?s [(t, c, a)] (qs_system q')" by (simp add: q')
      ultimately show ?thesis by (simp add: cs Cons x) (simp add: q' turns_left_def)
    qed
  qed
  then show "open_calls q' (tl cs)" and "turns_left (qs_system q') = (if tl cs = [] then 0 else 3)"
    and "sys_run F P ?s [(t, c, a)] (qs_system q')" by blast+
qed

text \<open>
  A step keeps the open calls in their order, takes from the steps they need, and is a run of the tasks
  under a lock that lets in whom it likes.
\<close>

definition work_left :: "('d, 'l) queue_system \<Rightarrow> (nat \<times> mgr_call) list \<Rightarrow> nat" where
  "work_left q cs = turns_left (qs_system q) + 3 * length (tl cs)"

lemma queue_step_open:
  assumes "queue_step F P L q ev q'" and "open_calls q cs"
  obtains cs' where "open_calls q' cs'" and "cs @ called ev = map call_of (answer_of ev) @ cs'"
    and "work_left q' cs' + (if internal ev then 1 else 0) \<le> work_left q cs + 3 * length (called ev)"
    and "sys_run F P (qs_system q) (answer_of ev) (qs_system q')"
  using assms(1)
proof cases
  case (queue_call t c' a c)
  note lock = open_calls_lock [OF assms(2) queue_call(3), where c = c]
  have "work_left q' (cs @ [(t, c)]) \<le> work_left q cs + 3"
    using lock(2) by (cases cs) (simp_all add: work_left_def queue_call(2))
  then show thesis using that [of "cs @ [(t, c)]"] lock(1,3) queue_call(1,2) by simp
next
  case (queue_turn t c ph ph' m)
  note turn = open_calls_turn [OF assms(2) queue_turn(3,2)]
  have "work_left q' cs + 1 \<le> work_left q cs"
    using phase_step_rank [OF queue_turn(4)] turn(2) open_calls_running(2) [OF assms(2) queue_turn(3)]
    by (simp add: work_left_def)
  then show thesis
    using that [of cs] turn(1) run_next [OF run_start sys_turn [OF queue_turn(3,4)]] queue_turn(1,2) by simp
next
  case (queue_answer t c ph a m)
  note answer = open_calls_answer [OF assms(2) queue_answer(3,4,2)]
  note inside = open_calls_running [OF assms(2) queue_answer(3)]
  have "work_left q' (tl cs) + 1 \<le> work_left q cs"
    using answer(2) inside(2) phase_rank_pos [of ph] by (cases "tl cs") (simp_all add: work_left_def)
  moreover have "cs = call_of (t, c, a) # tl cs" using inside(3) by (simp add: call_of_def)
  ultimately show thesis using that [of "tl cs"] answer(1,3) queue_answer(1) by simp
qed

lemma quiet_open:
  assumes "quiet holder q"
  shows "open_calls q []" and "work_left q [] = 0" and "at_rest (qs_system q)"
proof -
  have "sy_tasks (qs_system q) t \<noteq> Running c ph" for t c ph
    using assms unfolding quiet_def by (metis mgr_task.distinct(3,11))
  with assms show "open_calls q []" "work_left q [] = 0" "at_rest (qs_system q)"
    by (simp_all add: quiet_def open_calls_def work_left_def turns_left_def at_rest_def)
qed

lemma queue_run_open:
  assumes "queue_run F P L q evs q'" and "quiet holder q"
  obtains cs where "open_calls q' cs" and "calls_made evs = map call_of (answers_given evs) @ cs"
    and "work_left q' cs + internal_steps evs \<le> 3 * length (calls_made evs)"
    and "sys_run F P (qs_system q) (answers_given evs) (qs_system q')"
proof -
  from assms(1) have "\<exists>cs. open_calls q' cs \<and> calls_made evs = map call_of (answers_given evs) @ cs
    \<and> work_left q' cs + internal_steps evs \<le> 3 * length (calls_made evs)
    \<and> sys_run F P (qs_system q) (answers_given evs) (qs_system q')"
  proof induction
    case queue_start
    show ?case using quiet_open [OF assms(2)] by (intro exI [of _ "[]"]) (simp add: run_start)
  next
    case (queue_next evs q1 ev q2)
    then obtain cs where cs: "open_calls q1 cs" "calls_made evs = map call_of (answers_given evs) @ cs"
      "work_left q1 cs + internal_steps evs \<le> 3 * length (calls_made evs)"
      "sys_run F P (qs_system q) (answers_given evs) (qs_system q1)" by blast
    obtain cs' where "open_calls q2 cs'" and step: "cs @ called ev = map call_of (answer_of ev) @ cs'"
      and "work_left q2 cs' + (if internal ev then 1 else 0) \<le> work_left q1 cs + 3 * length (called ev)"
      and run: "sys_run F P (qs_system q1) (answer_of ev) (qs_system q2)"
      by (rule queue_step_open [OF queue_next.hyps(2) cs(1)])
    moreover have "length cs + length (called ev) = length (answer_of ev) + length cs'"
      using arg_cong [OF step, of length] by simp
    ultimately show ?case using cs(2,3) sys_run_trans [OF run cs(4)] step by (intro exI [of _ cs']) simp
  qed
  then show thesis using that by blast
qed

lemma queue_goes_on:
  assumes "open_calls q cs" and "pending F P (qs_system q) m" and "cs \<noteq> []"
    and "\<And>t c. (t, c) \<in> set cs \<Longrightarrow> \<exists>a m'. atomic_call F P c m = Return (a, m')"
  shows "\<exists>ev q'. internal ev \<and> queue_step F P L q ev q'"
proof -
  obtain t c ph where running: "sy_tasks (qs_system q) t = Running c ph" and "(t, c) \<in> set cs"
    using assms(1,3) by (auto simp: open_calls_def split: option.splits)
  then obtain a m' where "finish_call F P ph (sy_manager (qs_system q)) = Return (a, m')"
    using pending_running(2) [OF assms(2) running] assms(4) [of t c] by auto
  then obtain r m1 where turn: "phase_step F P ph (sy_manager (qs_system q)) = Return (r, m1)"
    by (auto simp: finish_call.simps [of F P ph] outcome_bind_Return_iff)
  show ?thesis
  proof (cases r)
    case (Inl ph')
    with queue_turn [OF running, of F P] turn show ?thesis by (intro exI [of _ "Turned t"]) auto
  next
    case (Inr a')
    with queue_answer [OF running, of F P] turn show ?thesis by (intro exI [of _ "Answered t c a'"]) auto
  qed
qed

lemma queue_run_goes_on:
  assumes "quiet holder q" and "laid_out (sy_manager (qs_system q))" and "0 < em_bitmap_block_count (sy_manager (qs_system q))"
    and "io_open (em_pancake_io (sy_manager (qs_system q)))" and "queue_run F P L q evs q'"
    and "\<forall>(t, c) \<in> set (calls_made evs). call_ok (sy_manager (qs_system q)) c"
    and "length (answers_given evs) < length (calls_made evs)"
  shows "\<exists>ev q''. internal ev \<and> queue_step F P L q' ev q''"
proof -
  let ?m0 = "sy_manager (qs_system q)"
  obtain cs where cs: "open_calls q' cs" "calls_made evs = map call_of (answers_given evs) @ cs"
    and run: "sys_run F P (qs_system q) (answers_given evs) (qs_system q')"
    by (rule queue_run_open [OF assms(5,1)])
  obtain m where run: "atomic_run F P ?m0 (answers_given evs) m" and p: "pending F P (qs_system q') m"
    using sys_run_pending [OF run at_rest_pending [OF quiet_open(3) [OF assms(1)]]] by blast
  have "call_of x \<in> set (calls_made evs)" if "x \<in> set (answers_given evs)" for x
    using that by (simp add: cs(2))
  then have "\<forall>(t, c, a) \<in> set (answers_given evs). call_ok ?m0 c"
    using assms(6) by (fastforce simp: call_of_def)
  note keeps = atomic_run_keeps [OF run this assms(2-4)]
  have "\<exists>a m'. atomic_call F P c m = Return (a, m')" if "(t, c) \<in> set cs" for t c
    using atomic_call_returns [OF keeps(1-3)] keeps(4) assms(6) that unfolding cs(2) by fastforce
  moreover have "cs \<noteq> []" using assms(7) by (auto simp: cs(2))
  ultimately show ?thesis using queue_goes_on [OF cs(1) p] by blast
qed

lemma queue_run_bound:
  assumes "queue_run F P L q evs q'" and "quiet holder q"
  shows "internal_steps evs < 3 * (length (answers_given evs) + 1)"
proof -
  obtain cs where cs: "open_calls q' cs" "calls_made evs = map call_of (answers_given evs) @ cs"
    and work: "work_left q' cs + internal_steps evs \<le> 3 * length (calls_made evs)"
    by (rule queue_run_open [OF assms])
  show ?thesis
  proof (cases cs)
    case (Cons x ws)
    then have "0 < turns_left (qs_system q')"
      using cs(1) phase_rank_pos by (auto simp: open_calls_def turns_left_def split: option.splits)
    then show ?thesis using work Cons by (simp add: cs(2) work_left_def)
  qed (use work in \<open>simp add: cs(2)\<close>)
qed

end

section \<open>A fair lock\<close>

text \<open>The holder and the queue themselves, as a lock that keeps the contract.\<close>

definition list_lock :: "(nat option \<times> nat list) lock_api" where
  "list_lock = \<lparr>
     lk_lock = (\<lambda>t l. case l of (None, ws) \<Rightarrow> (True, Some t, []) | (Some u, ws) \<Rightarrow> (False, Some u, ws @ [t])),
     lk_unlock = (\<lambda>l. case snd l of [] \<Rightarrow> (None, None, []) | w # ws \<Rightarrow> (Some w, Some w, ws))\<rparr>"

definition lock_queue :: "nat option \<times> nat list \<Rightarrow> nat list" where
  "lock_queue l = (case fst l of None \<Rightarrow> [] | Some t \<Rightarrow> snd l)"

interpretation list_lock: fair_lock list_lock fst lock_queue
  by unfold_locales (auto simp: list_lock_def lock_queue_def split: option.splits list.splits prod.splits)

section \<open>Properties\<close>

text \<open>
  C9. Every call is answered, in its turn. Tasks call the manager of a layout with an open device, at
  any time and with arguments the operations are written for, under a fair lock; the device answers
  what it likes. In every state they can get into, the answers given so far are those of the first calls
  made, in the order of the calls, with the results the calls have when they are made one after the other;
  the call with \<open>k\<close> calls before it has its answer once the tasks inside have made \<open>3 (k + 1)\<close> steps,
  whichever calls are made meanwhile; and as long as there is a call without an answer, the task inside
  can make a step.
\<close>

theorem calls_answered_in_turn:
  assumes "fair_lock L holder queue" and "quiet holder q"
    and "laid_out (sy_manager (qs_system q))" and "0 < em_bitmap_block_count (sy_manager (qs_system q))"
    and "io_open (em_pancake_io (sy_manager (qs_system q)))" and "queue_run F P L q evs q'"
    and "\<forall>(t, c) \<in> set (calls_made evs). call_ok (sy_manager (qs_system q)) c"
  shows "map call_of (answers_given evs) = take (length (answers_given evs)) (calls_made evs)
    \<and> (\<exists>m. atomic_run F P (sy_manager (qs_system q)) (answers_given evs) m)
    \<and> (\<forall>k < length (calls_made evs). 3 * (k + 1) \<le> internal_steps evs \<longrightarrow> k < length (answers_given evs))
    \<and> (length (answers_given evs) < length (calls_made evs) \<longrightarrow> (\<exists>ev q''. internal ev \<and> queue_step F P L q' ev q''))"
proof -
  obtain cs where cs: "calls_made evs = map call_of (answers_given evs) @ cs"
    and run: "sys_run F P (qs_system q) (answers_given evs) (qs_system q')"
    by (rule fair_lock.queue_run_open [OF assms(1,6,2)])
  have "\<exists>m. atomic_run F P (sy_manager (qs_system q)) (answers_given evs) m"
    using sys_run_pending [OF run at_rest_pending [OF fair_lock.quiet_open(3) [OF assms(1,2)]]] by blast
  moreover have "internal_steps evs < 3 * (length (answers_given evs) + 1)"
    by (rule fair_lock.queue_run_bound [OF assms(1,6,2)])
  then have "\<forall>k < length (calls_made evs). 3 * (k + 1) \<le> internal_steps evs \<longrightarrow> k < length (answers_given evs)" by auto
  moreover have "map call_of (answers_given evs) = take (length (answers_given evs)) (calls_made evs)" by (simp add: cs)
  ultimately show ?thesis using fair_lock.queue_run_goes_on [OF assms] by blast
qed

section \<open>Witness\<close>

text \<open>Two tasks ask for the same extent, one has the lock and the other is in the queue: there is a step.\<close>

theorem calls_answered_in_turn_witness:
  "\<exists>q ev q'. queue_run sparse_file (x86_host True) list_lock \<lparr>qs_system = two_tasks, qs_lock = (None, [])\<rparr>
      [Called 0 add_zero, Called 1 add_zero] q
    \<and> qs_lock q = (Some 0, [1]) \<and> internal ev \<and> queue_step sparse_file (x86_host True) list_lock q ev q'"
proof -
  let ?P = "x86_host True" and ?q = "\<lparr>qs_system = two_tasks, qs_lock = (None, [])\<rparr> :: (nat \<Rightarrow> u8, nat option \<times> nat list) queue_system"
  let ?q1 = "queue_lock list_lock 0 add_zero ?q"
  let ?q2 = "queue_lock list_lock 1 add_zero ?q1"
  have "queue_step sparse_file ?P list_lock ?q (Called 0 add_zero) ?q1" by (rule queue_call) (simp add: two_tasks_def)
  moreover have "queue_step sparse_file ?P list_lock ?q1 (Called 1 add_zero) ?q2"
    by (rule queue_call) (simp add: two_tasks_def queue_lock_def list_lock_def)
  ultimately have run: "queue_run sparse_file ?P list_lock ?q [Called 0 add_zero, Called 1 add_zero] ?q2"
    using queue_next [OF queue_next [OF queue_start]] by fastforce
  have "laid_out (sy_manager two_tasks)" "0 < em_bitmap_block_count (sy_manager two_tasks)" "io_open (em_pancake_io (sy_manager two_tasks))"
    by (simp_all add: two_tasks_def laid_out_def wf_manager_def two_extents_eq io_open_def sparse_io_def)
  moreover have "quiet fst ?q" by (simp add: quiet_def two_tasks_def)
  ultimately obtain ev q' where "internal ev" "queue_step sparse_file ?P list_lock ?q2 ev q'"
    using calls_answered_in_turn [OF list_lock.fair_lock_axioms _ _ _ _ run] by (auto simp: calls_made_def answers_given_def)
  moreover have "qs_lock ?q2 = (Some 0, [1])" by (simp add: two_tasks_def queue_lock_def list_lock_def)
  ultimately show ?thesis using run by blast
qed

end
