(* ===== verification/Extent_Readback.thy ===== *)
theory Extent_Readback
  imports Extent_Faults
begin

text \<open>
  What can be read of the bitmap. The code writes bitmap blocks and never reads one; what
  \<^verbatim>\<open>PancakeIO::ReadAt\<close> at the offset of a block and \<^verbatim>\<open>BitMapBlock::Deserialize\<close> would return is
  stated here of the two operations themselves, after any run of calls on a device that fails.
\<close>

section \<open>Reading a block that is current\<close>

context net_order begin

lemma BitMapBlock_accepted_any:
  assumes "BitMapBlock_Deserialize P c bs = (PANCAKE_STORE_OK, b)"
  shows "BitMapBlock_Deserialize P c' bs = (PANCAKE_STORE_OK, b)"
  using BitMapBlock_accepted [OF assms] BitMapBlock_deser_ser by blast

end

lemma block_current_read:
  fixes i :: u32
  assumes "block_device F content" and "net_order P" and "laid_out m" and "unat i < unat (em_extent_block_count m)"
    and "unat i div 4064 < unat (em_bitmap_block_count m)" and "block_current content P m (unat i div 4064)"
    and "ReadAt F (em_pancake_io m) (bitmapBlockDeviceOffset m (bitmapIndex (ucast i))) (word_of_nat k_block_size) []
      = Return (PANCAKE_STORE_OK, buf)"
  obtains b where "\<And>c. BitMapBlock_Deserialize P c buf = (PANCAKE_STORE_OK, b)"
    and "bm_bitmap b = slice_bytes (em_bitmap m) (unat i div 4064)"
proof -
  have "buf = block_at content (em_pancake_io m) (bitmap_addr m (unat i div 4064))"
    using block_device.ReadAt_block [OF assms(1,7)] unat_bitmapBlockDeviceOffset [OF assms(3,5)] by simp
  with assms(6) obtain b where "BitMapBlock_Deserialize P zero_BitMapBlock buf = (PANCAKE_STORE_OK, b)"
    and "bm_bitmap b = slice_bytes (em_bitmap m) (unat i div 4064)"
    by (auto simp: block_current_def)
  then show thesis using that net_order.BitMapBlock_accepted_any [OF assms(2)] by blast
qed

lemma faulty_run_extents: "faulty_run F P m suspect m' \<Longrightarrow> em_extent_block_count m' = em_extent_block_count m"
  by (induction rule: faulty_run.induct) (simp_all add: faulty_step_frame)

lemma covered_block:
  assumes "bitmap_covers m" and "i < unat (em_extent_block_count m)"
  shows "i div 4064 < unat (em_bitmap_block_count m)"
  using assms by (simp add: bitmap_covers_def less_mult_imp_div_less)

section \<open>Properties\<close>

text \<open>
  C8. The device tells which extents are taken. Start from a device whose bitmap blocks are those of
  memory, and run any \<^verbatim>\<open>AddExtent\<close> and \<^verbatim>\<open>DelExtent\<close> calls on it; writes may fail and leave anything in
  their range. Take any extent whose bitmap block had a success since its last failure, and let
  \<^verbatim>\<open>ReadAt\<close> at the offset of that block succeed. Then \<^verbatim>\<open>Deserialize\<close> accepts what was read, whatever
  object it fills, and every byte of the payload is 1 or 0 as the extent it stands for is taken or free
  in memory, and 0 behind the last extent.
\<close>

theorem faulty_runs_read_back:
  fixes i :: u32
  assumes "block_device F content" and "net_order P" and "laid_out m" and "bitmap_covers m"
    and "bitmap_on_device content P m" and "faulty_run F P m suspect m'"
    and "unat i < unat (em_extent_block_count m)" and "unat i div 4064 \<notin> suspect"
    and "ReadAt F (em_pancake_io m') (bitmapBlockDeviceOffset m' (bitmapIndex (ucast i))) (word_of_nat k_block_size) []
      = Return (PANCAKE_STORE_OK, buf)"
  shows "\<exists>b. (\<forall>c. BitMapBlock_Deserialize P c buf = (PANCAKE_STORE_OK, b))
    \<and> bm_bitmap b ! (unat i mod 4064) = (if em_bitmap m' ! unat i then 1 else 0)
    \<and> (\<forall>l < 4064. bm_bitmap b ! l = (if unat i div 4064 * 4064 + l < unat (em_extent_block_count m)
          \<and> em_bitmap m' ! (unat i div 4064 * 4064 + l) then 1 else 0))"
proof -
  let ?j = "unat i div 4064"
  note keeps = faulty_run_keeps [OF assms(6)]
  have laid: "laid_out m'" and count: "em_extent_block_count m' = em_extent_block_count m"
    and blocks: "em_bitmap_block_count m' = em_bitmap_block_count m"
    using assms(3) keeps faulty_run_extents [OF assms(6)] by simp_all
  have j: "?j < unat (em_bitmap_block_count m)" by (rule covered_block [OF assms(4,7)])
  then have "block_current content P m' ?j"
    using faulty_run_bitmap [OF assms(1-4,6) _ assms(8)] assms(5) block_kept_current
    unfolding bitmap_on_device_def by blast
  then obtain b where "\<And>c. BitMapBlock_Deserialize P c buf = (PANCAKE_STORE_OK, b)"
    and bits: "bm_bitmap b = slice_bytes (em_bitmap m') ?j"
    using block_current_read [OF assms(1,2) laid _ _ _ assms(9)] assms(7) j count blocks by metis
  moreover have "length (em_bitmap m') = unat (em_extent_block_count m)"
    using laid count by (simp add: laid_out_def wf_manager_def)
  ultimately show ?thesis
    using assms(7) by (intro exI [of _ b]) (simp add: slice_bytes_nth)
qed

section \<open>Witness\<close>

text \<open>A device that works: the extent that was added is the one whose byte is read as 1.\<close>

theorem faulty_runs_read_back_witness:
  "\<exists>m h buf b. AddExtent sparse_file (x86_host True) (blank (x86_host True)) zero_ExtentHeaderBlock = Return (PANCAKE_STORE_OK, m, h)
    \<and> ReadAt sparse_file (em_pancake_io m) (bitmapBlockDeviceOffset m (bitmapIndex (ucast (eh_bitmap_ext_index h))))
        (word_of_nat k_block_size) [] = Return (PANCAKE_STORE_OK, buf)
    \<and> BitMapBlock_Deserialize (x86_host True) zero_BitMapBlock buf = (PANCAKE_STORE_OK, b)
    \<and> bm_bitmap b ! (unat (eh_bitmap_ext_index h) mod 4064) = 1"
proof -
  let ?P = "x86_host True"
  obtain m h where add: "AddExtent sparse_file ?P (blank ?P) zero_ExtentHeaderBlock = Return (PANCAKE_STORE_OK, m, h)"
    by (rule blank_add)
  let ?i = "eh_bitmap_ext_index h"
  have run: "faulty_run sparse_file ?P (blank ?P) {} m"
    using faulty_next [OF faulty_start faulty_Add [OF wf_zero_ExtentHeaderBlock add]] by simp
  have covers: "bitmap_covers (blank ?P)" by (simp add: bitmap_covers_def blank_def formatted_fields)
  have free: "unat ?i < length (em_bitmap (blank ?P))"
    using blank_facts(1) wf_zero_ExtentHeaderBlock add by (rule sparse.AddExtent_elsewhere) auto
  then have taken: "em_bitmap m ! unat ?i" by (simp add: AddExtent_memory(1) [OF add])
  have i: "unat ?i < 2" using free by (simp add: blank_def formatted_fields)
  have "io_device_fd (em_pancake_io m) \<noteq> None"
    using AddExtent_open [OF add] formatted_fields(9) by (simp add: io_open_def blank_def)
  moreover have "bitmapIndex (ucast ?i) = 0" using i by (simp add: word_unat_eq_iff unat_bitmapIndex)
  ultimately obtain buf where read: "ReadAt sparse_file (em_pancake_io m) (bitmapBlockDeviceOffset m (bitmapIndex (ucast ?i)))
      (word_of_nat k_block_size) [] = Return (PANCAKE_STORE_OK, buf)"
    by (auto simp: ReadAt_def bitmapBlockDeviceOffset_def AddExtent_frame [OF add] blank_def formatted_fields
        IsBlockAlign_def sparse_file_def)
  have "unat ?i < unat (em_extent_block_count (blank ?P))" using i by (simp add: blank_def formatted_fields)
  from faulty_runs_read_back [OF sparse.block_device_axioms x86.net_order_axioms blank_facts(1) covers
      blank_facts(2) [OF x86.net_order_axioms] run this _ read]
  show ?thesis using add read taken by auto
qed

end
