(* ===== verification/Config.thy ===== *)
theory Config
  imports Comm
begin

text \<open>
  The configuration of a datanode: \<^verbatim>\<open>Config\<close> of \<^verbatim>\<open>datanode/comm/config.h/.cc\<close>,
  \<^verbatim>\<open>IPAddress\<close> of \<^verbatim>\<open>comm/ip_address.h\<close>, and the start-up of \<^verbatim>\<open>datanode/main.cc\<close>. yaml-cpp
  and \<^verbatim>\<open>inet_pton\<close> are parameters.
\<close>

section \<open>Strings\<close>

text \<open>The bytes of a literal, and what a \<^verbatim>\<open>const char*\<close> of a string shows: all up to the first NUL.\<close>

definition str :: "string \<Rightarrow> bytes" where
  "str s = map of_char s"

definition c_string :: "bytes \<Rightarrow> bytes" where
  "c_string bs = takeWhile (\<lambda>b. b \<noteq> 0) bs"

section \<open>The configuration\<close>

record Config =
  cf_datanode_id :: bytes
  cf_datanode_ip :: bytes
  cf_cluster_id :: bytes
  cf_http_server_port :: u16
  cf_manager_service_port :: u16
  cf_data_service_port_min :: u16
  cf_data_service_port_max :: u16

definition new_Config :: Config where
  "new_Config = \<lparr>cf_datanode_id = [], cf_datanode_ip = [], cf_cluster_id = [], cf_http_server_port = 0,
     cf_manager_service_port = 0, cf_data_service_port_min = 0, cf_data_service_port_max = 0\<rparr>"

text \<open>The getters.\<close>

definition DatanodeId :: "Config \<Rightarrow> bytes" where
  "DatanodeId c = cf_datanode_id c"

definition DatanodeIp :: "Config \<Rightarrow> bytes" where
  "DatanodeIp c = cf_datanode_ip c"

definition ClusterId :: "Config \<Rightarrow> bytes" where
  "ClusterId c = cf_cluster_id c"

definition HttpServerPort :: "Config \<Rightarrow> u16" where
  "HttpServerPort c = cf_http_server_port c"

definition ManagerServerPort :: "Config \<Rightarrow> u16" where
  "ManagerServerPort c = cf_manager_service_port c"

definition DataServicePortMin :: "Config \<Rightarrow> u16" where
  "DataServicePortMin c = cf_data_service_port_min c"

definition DataServicePortMax :: "Config \<Rightarrow> u16" where
  "DataServicePortMax c = cf_data_service_port_max c"

lemmas Config_getters = DatanodeId_def DatanodeIp_def ClusterId_def HttpServerPort_def ManagerServerPort_def DataServicePortMin_def DataServicePortMax_def

definition k_system_min_listen_port :: u16 where
  "k_system_min_listen_port = 4096"

text \<open>
  What the code uses of yaml-cpp: a node is defined, a map or a scalar, has children, and converts
  to a string or to a 16-bit port. \<open>None\<close> is an exception.
\<close>

record 'n yaml =
  yaml_load_file :: "bytes \<Rightarrow> 'n option"
  yaml_defined :: "'n \<Rightarrow> bool"
  yaml_map :: "'n \<Rightarrow> bool"
  yaml_scalar :: "'n \<Rightarrow> bool"
  yaml_child :: "'n \<Rightarrow> bytes \<Rightarrow> 'n"
  yaml_string :: "'n \<Rightarrow> bytes option"
  yaml_u16 :: "'n \<Rightarrow> u16 option"

definition config_keys :: "bytes list" where
  "config_keys = map str [''datanode_id'', ''datanode_ip'', ''cluster_id'', ''http_server_port'',
     ''manager_service_port'', ''data_service_port_min'', ''data_service_port_max'']"

text \<open>
  The result is \<open>None\<close> when an exception leaves the function; the conversions happen in the order
  of the assignments, so the members assigned before it keep their new values.
\<close>

definition ParseConfig :: "'n yaml \<Rightarrow> Config \<Rightarrow> bytes \<Rightarrow> ErrorCode option \<times> Config" where
  "ParseConfig Y c config_path =
    (if config_path = [] then (Some PANCAKE_STORE_YAML_CONFIG_INVALID, c)
     else case yaml_load_file Y config_path of
       None \<Rightarrow> (None, c)
     | Some node \<Rightarrow>
         if \<not> yaml_defined Y node \<or> \<not> yaml_map Y node then (Some PANCAKE_STORE_YAML_CONFIG_INVALID, c)
         else if \<exists>key \<in> set config_keys. \<not> yaml_defined Y (yaml_child Y node key) \<or> yaml_scalar Y (yaml_child Y node key)
         then (Some PANCAKE_STORE_YAML_CONFIG_INVALID, c)
         else case yaml_string Y (yaml_child Y node (str ''datanode_id'')) of None \<Rightarrow> (None, c) | Some v \<Rightarrow>
           let c = c\<lparr>cf_datanode_id := v\<rparr>
           in case yaml_string Y (yaml_child Y node (str ''datanode_ip'')) of None \<Rightarrow> (None, c) | Some v \<Rightarrow>
           let c = c\<lparr>cf_datanode_ip := v\<rparr>
           in case yaml_string Y (yaml_child Y node (str ''cluster_id'')) of None \<Rightarrow> (None, c) | Some v \<Rightarrow>
           let c = c\<lparr>cf_cluster_id := v\<rparr>
           in case yaml_u16 Y (yaml_child Y node (str ''http_server_port'')) of None \<Rightarrow> (None, c) | Some p \<Rightarrow>
           let c = c\<lparr>cf_http_server_port := p\<rparr>
           in case yaml_u16 Y (yaml_child Y node (str ''manager_service_port'')) of None \<Rightarrow> (None, c) | Some p \<Rightarrow>
           let c = c\<lparr>cf_manager_service_port := p\<rparr>
           in case yaml_u16 Y (yaml_child Y node (str ''data_service_port_min'')) of None \<Rightarrow> (None, c) | Some p \<Rightarrow>
           let c = c\<lparr>cf_data_service_port_min := p\<rparr>
           in case yaml_u16 Y (yaml_child Y node (str ''data_service_port_max'')) of None \<Rightarrow> (None, c) | Some p \<Rightarrow>
           (Some PANCAKE_STORE_OK, c\<lparr>cf_data_service_port_max := p\<rparr>))"

text \<open>\<open>pton\<close> is \<^verbatim>\<open>inet_pton(AF_INET, ...)\<close>, given the characters up to the NUL.\<close>

definition IsIPv4Address :: "(bytes \<Rightarrow> int) \<Rightarrow> bytes \<Rightarrow> bool" where
  "IsIPv4Address pton ipstr \<longleftrightarrow> pton (c_string ipstr) \<noteq> 0"

definition CheckConfig :: "(bytes \<Rightarrow> int) \<Rightarrow> Config \<Rightarrow> ErrorCode" where
  "CheckConfig pton c =
    (if cf_datanode_id c = [] then PANCAKE_STORE_YAML_CONFIG_INVALID
     else if \<not> IsIPv4Address pton (cf_datanode_ip c) then PANCAKE_STORE_YAML_CONFIG_INVALID
     else if cf_cluster_id c = [] then PANCAKE_STORE_YAML_CONFIG_INVALID
     else if cf_http_server_port c < k_system_min_listen_port then PANCAKE_STORE_YAML_CONFIG_INVALID
     else if cf_manager_service_port c < k_system_min_listen_port then PANCAKE_STORE_YAML_CONFIG_INVALID
     else if cf_data_service_port_min c < k_system_min_listen_port then PANCAKE_STORE_YAML_CONFIG_INVALID
     else if cf_data_service_port_max c < k_system_min_listen_port then PANCAKE_STORE_YAML_CONFIG_INVALID
     else if cf_data_service_port_min c > cf_data_service_port_max c then PANCAKE_STORE_YAML_CONFIG_INVALID
     else PANCAKE_STORE_OK)"

section \<open>Start-up\<close>

text \<open>
  The callback \<^verbatim>\<open>main\<close> hands to \<^verbatim>\<open>app.run\<close>: it ends the program, lets an exception out, or
  starts the manager service on a port.
\<close>

datatype main_result = Main_Done | Main_Exception | Main_Serve u16

definition datanode_main :: "'n yaml \<Rightarrow> (bytes \<Rightarrow> int) \<Rightarrow> bool \<Rightarrow> bytes \<Rightarrow> main_result" where
  "datanode_main Y pton version config_file =
    (if version then Main_Done
     else case ParseConfig Y new_Config config_file of
       (None, _) \<Rightarrow> Main_Exception
     | (Some ret, c) \<Rightarrow>
         if IsNotOk ret then Main_Done
         else if IsNotOk (CheckConfig pton c) then Main_Done
         else Main_Serve (ManagerServerPort c))"

section \<open>What the code relies on\<close>

text \<open>
  The documented contract of yaml-cpp: a node that is not a scalar does not convert to an integer.
\<close>

locale yaml_lib =
  fixes Y :: "'n yaml"
  assumes u16_scalar: "yaml_u16 Y n = Some p \<Longrightarrow> yaml_scalar Y n"
begin

text \<open>The checks refuse the very nodes the conversions need.\<close>

lemma ParseConfig_not_OK: "fst (ParseConfig Y c path) \<noteq> Some PANCAKE_STORE_OK"
proof
  assume ok: "fst (ParseConfig Y c path) = Some PANCAKE_STORE_OK"
  then obtain node p where "\<forall>key \<in> set config_keys. yaml_defined Y (yaml_child Y node key) \<and> \<not> yaml_scalar Y (yaml_child Y node key)"
    and "yaml_u16 Y (yaml_child Y node (str ''http_server_port'')) = Some p"
    by (auto simp: ParseConfig_def Let_def split: if_splits option.splits)
  moreover have "str ''http_server_port'' \<in> set config_keys" by (simp add: config_keys_def)
  ultimately show False using u16_scalar by blast
qed

lemma datanode_main_never_serves: "datanode_main Y pton v path \<noteq> Main_Serve p"
proof
  assume "datanode_main Y pton v path = Main_Serve p"
  then have "fst (ParseConfig Y new_Config path) = Some PANCAKE_STORE_OK"
    by (auto simp: datanode_main_def IsNotOk_def split: if_splits option.splits prod.splits)
  then show False using ParseConfig_not_OK by blast
qed

end

text \<open>A document held in memory: null, scalars, maps, and the node of a missing key.\<close>

datatype doc = Missing | Null | Scalar bytes | Map "(bytes \<times> doc) list"

definition scalar_u16 :: "doc \<Rightarrow> u16 option" where
  "scalar_u16 n = (case n of Scalar bs \<Rightarrow> (case bs of [hi, lo] \<Rightarrow> Some (be_word [hi, lo]) | _ \<Rightarrow> None) | _ \<Rightarrow> None)"

definition doc_child :: "doc \<Rightarrow> bytes \<Rightarrow> doc" where
  "doc_child n key = (case n of Map xs \<Rightarrow> (case map_of xs key of None \<Rightarrow> Missing | Some m \<Rightarrow> m) | _ \<Rightarrow> Missing)"

definition doc_yaml :: "doc \<Rightarrow> doc yaml" where
  "doc_yaml d = \<lparr>yaml_load_file = (\<lambda>_. Some d), yaml_defined = (\<lambda>n. n \<noteq> Missing),
     yaml_map = (\<lambda>n. case n of Map _ \<Rightarrow> True | _ \<Rightarrow> False),
     yaml_scalar = (\<lambda>n. case n of Scalar _ \<Rightarrow> True | _ \<Rightarrow> False),
     yaml_child = doc_child,
     yaml_string = (\<lambda>n. case n of Scalar bs \<Rightarrow> Some bs | Null \<Rightarrow> Some (str ''null'') | _ \<Rightarrow> None),
     yaml_u16 = scalar_u16\<rparr>"

interpretation doc: yaml_lib "doc_yaml d" for d
  by unfold_locales (auto simp: doc_yaml_def scalar_u16_def split: doc.splits)

section \<open>Properties\<close>

text \<open>
  C36. With any YAML library that converts only scalars to integers, \<^verbatim>\<open>ParseConfig\<close> never
  returns OK, whatever the file holds: it refuses exactly the nodes that are scalars. So the
  datanode never gets to start its manager service.
\<close>

theorem datanode_never_starts:
  assumes "yaml_lib Y"
  shows "fst (ParseConfig Y c path) \<noteq> Some PANCAKE_STORE_OK \<and> datanode_main Y pton v path \<noteq> Main_Serve p"
  using yaml_lib.ParseConfig_not_OK [OF assms] yaml_lib.datanode_main_never_serves [OF assms] by blast

text \<open>A document in which every key has a usable value, two bytes for each port.\<close>

definition good_doc :: doc where
  "good_doc = Map (map (\<lambda>k. (k, Scalar [0x20, 0x20])) config_keys)"

theorem datanode_never_starts_witness:
  "fst (ParseConfig (doc_yaml good_doc) new_Config (str ''conf'')) = Some PANCAKE_STORE_YAML_CONFIG_INVALID
    \<and> datanode_main (doc_yaml good_doc) (\<lambda>_. 1) False (str ''conf'') \<noteq> Main_Serve 0x2020"
proof -
  have "doc_child good_doc (str ''datanode_id'') = Scalar [0x20, 0x20]"
    by (simp add: good_doc_def doc_child_def config_keys_def)
  then have "\<exists>key \<in> set config_keys. \<not> yaml_defined (doc_yaml good_doc) (yaml_child (doc_yaml good_doc) good_doc key)
      \<or> yaml_scalar (doc_yaml good_doc) (yaml_child (doc_yaml good_doc) good_doc key)"
    by (intro bexI [of _ "str ''datanode_id''"]) (simp_all add: doc_yaml_def config_keys_def)
  then have "fst (ParseConfig (doc_yaml good_doc) new_Config (str ''conf'')) = Some PANCAKE_STORE_YAML_CONFIG_INVALID"
    unfolding ParseConfig_def by (simp add: doc_yaml_def str_def good_doc_def)
  then show ?thesis
    using datanode_never_starts [OF doc.yaml_lib_axioms, where c = new_Config] by blast
qed

text \<open>
  \<^verbatim>\<open>CheckConfig\<close> accepts exactly the configurations with both identifiers, an address
  \<^verbatim>\<open>inet_pton\<close> does not answer with 0, ports of at least 4096, and data ports in order.
\<close>

theorem CheckConfig_iff:
  "IsOk (CheckConfig pton c) \<longleftrightarrow>
    cf_datanode_id c \<noteq> [] \<and> cf_cluster_id c \<noteq> [] \<and> pton (c_string (cf_datanode_ip c)) \<noteq> 0
    \<and> list_all (\<lambda>p. 4096 \<le> unat p) [cf_http_server_port c, cf_manager_service_port c,
        cf_data_service_port_min c, cf_data_service_port_max c]
    \<and> unat (cf_data_service_port_min c) \<le> unat (cf_data_service_port_max c)"
  by (auto simp: IsOk_def CheckConfig_def IsIPv4Address_def k_system_min_listen_port_def not_less
      word_less_nat_alt word_le_nat_alt)

end
