(* ===== verification/Device.thy ===== *)
theory Device
  imports Config
begin

text \<open>
  \<^verbatim>\<open>DeviceFunctions\<close> of \<^verbatim>\<open>datanode/comm/device.h/.cc\<close>: what the datanode asks the operating
  system about a disk. The system is the parameter \<open>S\<close>; the parsing of its text files with the
  stream operators of the standard library is modelled.
\<close>

section \<open>The operating system\<close>

text \<open>
  \<open>None\<close> is a failure: a file that does not open, a \<^verbatim>\<open>readlink\<close> below 0, an exception of
  \<^verbatim>\<open>std::filesystem\<close>. \<open>os_canonical_self\<close> is what calling \<^verbatim>\<open>canonical\<close> on a variable
  inside its own initialiser does: undefined by the standard; a build may also make it throw
  (\<open>Return False\<close>) or come back (\<open>Return True\<close>).
\<close>

record os =
  os_readlink :: "bytes \<Rightarrow> nat \<Rightarrow> bytes option"
  os_file :: "bytes \<Rightarrow> bytes option"
  os_canonical_self :: "bool outcome"
  os_disks_by_uuid :: "bytes list option"
  os_equivalent :: "bytes \<Rightarrow> bytes \<Rightarrow> bool option"

definition k_path_max :: nat where
  "k_path_max = 4096"

section \<open>Streams\<close>

definition is_space :: "u8 \<Rightarrow> bool" where
  "is_space b \<longleftrightarrow> b = 32 \<or> (9 \<le> b \<and> b \<le> 13)"

definition is_digit :: "u8 \<Rightarrow> bool" where
  "is_digit b \<longleftrightarrow> 48 \<le> b \<and> b \<le> 57"

text \<open>\<^verbatim>\<open>stream >> word\<close>: skips white space, takes the characters up to the next.\<close>

definition read_word :: "bytes \<Rightarrow> bytes" where
  "read_word bs = takeWhile (\<lambda>b. \<not> is_space b) (dropWhile is_space bs)"

text \<open>
  \<^verbatim>\<open>stream >> n\<close> into a \<^verbatim>\<open>uint64_t\<close>: an optional sign and digits; 0 if there are none, the
  largest value if they do not fit, the negation modulo \<open>2 ^ 64\<close> after a minus sign.
\<close>

fun digits_value :: "nat \<Rightarrow> bytes \<Rightarrow> nat" where
  "digits_value acc [] = acc"
| "digits_value acc (b # bs) = (if is_digit b then digits_value (10 * acc + (unat b - 48)) bs else acc)"

definition read_u64 :: "bytes \<Rightarrow> u64" where
  "read_u64 bs =
    (let bs = dropWhile is_space bs;
         neg = (case bs of b # _ \<Rightarrow> b = 45 | [] \<Rightarrow> False);
         ds = (case bs of b # bs' \<Rightarrow> if b = 45 \<or> b = 43 then bs' else bs | [] \<Rightarrow> []);
         v = digits_value 0 ds
     in if 2 ^ 64 \<le> v then 0xFFFFFFFFFFFFFFFF else if neg then - word_of_nat v else word_of_nat v)"

text \<open>\<^verbatim>\<open>std::getline\<close>, repeated: the lines of a text; a last line needs no newline.\<close>

fun text_lines :: "bytes \<Rightarrow> bytes \<Rightarrow> bytes list" where
  "text_lines line [] = (if line = [] then [] else [line])"
| "text_lines line (b # bs) = (if b = 10 then line # text_lines [] bs else text_lines (line @ [b]) bs)"

section \<open>The operations\<close>

definition GetDevicePathByUUID :: "os \<Rightarrow> bytes \<Rightarrow> ErrorCode \<times> bytes" where
  "GetDevicePathByUUID S uuid =
    (case os_readlink S (c_string (str ''/dev/disk/by-uuid/'' @ uuid)) (k_path_max - 1) of
       None \<Rightarrow> (DATANODE_DEVICE_READ_LINK_FAILED, [])
     | Some real_path \<Rightarrow> (PANCAKE_STORE_OK, real_path))"

fun mounted_in :: "bytes \<Rightarrow> bytes list \<Rightarrow> bool" where
  "mounted_in device_path [] = False"
| "mounted_in device_path (line # lines) =
    (if read_word line = device_path then True else mounted_in device_path lines)"

definition IsDeviceMounted :: "os \<Rightarrow> bytes \<Rightarrow> ErrorCode \<times> bool" where
  "IsDeviceMounted S device_path =
    (case os_file S (str ''/proc/mounts'') of
       None \<Rightarrow> (DATANODE_DEVICE_FILE_NOT_EXIST, False)
     | Some mounts_file \<Rightarrow> (PANCAKE_STORE_OK, mounted_in device_path (text_lines [] mounts_file)))"

definition GetDeviceBlockSize :: "os \<Rightarrow> bytes \<Rightarrow> ErrorCode \<times> u64" where
  "GetDeviceBlockSize S path =
    (case os_file S (str ''/sys/block/'' @ path @ str ''/queue/logical_block_size'') of
       None \<Rightarrow> (DATANODE_DEVICE_FILE_NOT_EXIST, 0)
     | Some size_file \<Rightarrow> (PANCAKE_STORE_OK, read_u64 size_file))"

definition GetDeviceBlockCount :: "os \<Rightarrow> bytes \<Rightarrow> ErrorCode \<times> u64" where
  "GetDeviceBlockCount S device_name =
    (case os_file S (str ''/sys/block/'' @ device_name @ str ''/size'') of
       None \<Rightarrow> (DATANODE_DEVICE_FILE_NOT_EXIST, 0)
     | Some size_file \<Rightarrow> (PANCAKE_STORE_OK, read_u64 size_file))"

definition GetDeviceSize :: "os \<Rightarrow> bytes \<Rightarrow> ErrorCode \<times> u64" where
  "GetDeviceSize S device_name =
    (let block_size_res = GetDeviceBlockSize S device_name
     in if IsNotOk (fst block_size_res) then (fst block_size_res, 0)
        else let block_cnt_res = GetDeviceBlockCount S device_name
             in if IsNotOk (fst block_cnt_res) then (fst block_cnt_res, 0)
                else (PANCAKE_STORE_OK, snd block_size_res * snd block_cnt_res))"

text \<open>\<^verbatim>\<open>path::filename\<close>: what follows the last slash.\<close>

definition path_filename :: "bytes \<Rightarrow> bytes" where
  "path_filename p = rev (takeWhile (\<lambda>b. b \<noteq> 47) (rev p))"

fun find_uuid :: "os \<Rightarrow> bytes \<Rightarrow> bytes list \<Rightarrow> ErrorCode \<times> bytes" where
  "find_uuid S dev_path [] = (DATANODE_DEVICE_FILE_NOT_EXIST, [])"
| "find_uuid S dev_path (entry # entries) =
    (case os_equivalent S entry (c_string dev_path) of
       None \<Rightarrow> (DATANODE_DEVICE_FILE_SYSTEM_ERROR, [])
     | Some True \<Rightarrow> (PANCAKE_STORE_OK, path_filename entry)
     | Some False \<Rightarrow> find_uuid S dev_path entries)"

definition GetDeviceUUID :: "os \<Rightarrow> bytes \<Rightarrow> (ErrorCode \<times> bytes) outcome" where
  "GetDeviceUUID S dev_path =
    outcome_bind (os_canonical_self S) (\<lambda>returned.
      Return (if \<not> returned then (DATANODE_DEVICE_FILE_SYSTEM_ERROR, [])
        else case os_disks_by_uuid S of
          None \<Rightarrow> (DATANODE_DEVICE_FILE_SYSTEM_ERROR, [])
        | Some entries \<Rightarrow> find_uuid S dev_path entries))"

section \<open>Numbers as text\<close>

text \<open>The decimal digits of a number, as the kernel prints them.\<close>

fun decimal :: "nat \<Rightarrow> bytes" where
  "decimal n = (if n < 10 then [48 + word_of_nat n] else decimal (n div 10) @ [48 + word_of_nat (n mod 10)])"

declare decimal.simps [simp del]

lemma unat_digit: "n < 10 \<Longrightarrow> unat (48 + word_of_nat n :: u8) = 48 + n"
  by (simp add: unat_word_ariths unat_of_nat)

lemma is_digit_decimal: "n < 10 \<Longrightarrow> is_digit (48 + word_of_nat n)"
  by (simp add: is_digit_def word_le_nat_alt unat_digit)

lemma decimal_digits: "list_all is_digit (decimal n)"
  by (induction n rule: decimal.induct) (subst decimal.simps, simp add: is_digit_decimal)

lemma decimal_not_Nil: "decimal n \<noteq> []"
  by (subst decimal.simps) simp

lemma digits_value_append:
  "list_all is_digit ds \<Longrightarrow> digits_value acc (ds @ bs) = digits_value (digits_value acc ds) bs"
  by (induction ds arbitrary: acc) auto

lemma digits_value_decimal: "digits_value 0 (decimal n) = n"
proof (induction n rule: decimal.induct)
  case (1 n)
  show ?case
  proof (cases "n < 10")
    case True
    then show ?thesis by (subst decimal.simps) (simp add: is_digit_decimal unat_digit)
  next
    case False
    then have "digits_value 0 (decimal n) = digits_value (digits_value 0 (decimal (n div 10))) [48 + word_of_nat (n mod 10)]"
      by (subst decimal.simps) (simp add: digits_value_append decimal_digits)
    also have "\<dots> = n" using 1 False by (simp add: is_digit_decimal unat_digit)
    finally show ?thesis .
  qed
qed

lemma read_u64_decimal:
  assumes "n < 2 ^ 64" and "rest = [] \<or> \<not> is_digit (hd rest)"
  shows "read_u64 (decimal n @ rest) = word_of_nat n"
proof -
  obtain d ds where d: "decimal n = d # ds" using decimal_not_Nil [of n] by (cases "decimal n") auto
  then have "is_digit d" using decimal_digits [of n] by simp
  then have d': "\<not> is_space d" "d \<noteq> 45" "d \<noteq> 43"
    by (auto simp: is_digit_def is_space_def word_le_nat_alt)
  have "digits_value n rest = n" using assms(2) by (cases rest) auto
  then have v: "digits_value 0 (d # ds @ rest) = n"
    using digits_value_append [OF decimal_digits, of 0 n rest] by (simp add: digits_value_decimal flip: d append_Cons)
  have "read_u64 (d # ds @ rest) = word_of_nat n"
    using d' v assms(1) by (simp add: read_u64_def Let_def del: digits_value.simps)
  then show ?thesis by (simp add: d)
qed

section \<open>Properties\<close>

text \<open>
  For a kernel that prints a block size and a block count in decimal, one per line,
  \<^verbatim>\<open>GetDeviceSize\<close> returns their product modulo \<open>2 ^ 64\<close>; if one of the files does not open it
  returns the file error.
\<close>

theorem GetDeviceSize_product:
  assumes "b < 2 ^ 64" and "n < 2 ^ 64"
    and "os_file S (str ''/sys/block/'' @ dev @ str ''/queue/logical_block_size'') = (if has_b then Some (decimal b @ [10]) else None)"
    and "os_file S (str ''/sys/block/'' @ dev @ str ''/size'') = (if has_n then Some (decimal n @ [10]) else None)"
  shows "GetDeviceSize S dev = (if has_b \<and> has_n then (PANCAKE_STORE_OK, word_of_nat (b * n))
    else (DATANODE_DEVICE_FILE_NOT_EXIST, 0))"
proof -
  have nl: "[10] = [] \<or> \<not> is_digit (hd [10])" by (simp add: is_digit_def word_le_nat_alt)
  show ?thesis
    using assms(3,4) read_u64_decimal [OF assms(1) nl] read_u64_decimal [OF assms(2) nl]
    by (simp add: GetDeviceSize_def GetDeviceBlockSize_def GetDeviceBlockCount_def Let_def)
qed

text \<open>A line of \<^verbatim>\<open>/proc/mounts\<close> for a device: the device, a blank, the rest.\<close>

definition mount_line :: "bytes \<times> bytes \<Rightarrow> bytes" where
  "mount_line m = fst m @ [32] @ snd m"

definition mounts_text :: "(bytes \<times> bytes) list \<Rightarrow> bytes" where
  "mounts_text ms = concat (map (\<lambda>m. mount_line m @ [10]) ms)"

text \<open>Device names have no white space, the rest of a line no newline.\<close>

definition wf_mount :: "bytes \<times> bytes \<Rightarrow> bool" where
  "wf_mount m \<longleftrightarrow> fst m \<noteq> [] \<and> list_all (\<lambda>b. \<not> is_space b) (fst m) \<and> list_all (\<lambda>b. b \<noteq> 10) (snd m)"

lemma text_lines_append:
  "list_all (\<lambda>b. b \<noteq> 10) line \<Longrightarrow> text_lines pre (line @ 10 # bs) = (pre @ line) # text_lines [] bs"
  by (induction line arbitrary: pre) auto

lemma text_lines_mounts:
  assumes "list_all wf_mount ms"
  shows "text_lines [] (mounts_text ms) = map mount_line ms"
  using assms
proof (induction ms)
  case (Cons m ms)
  have "list_all (\<lambda>b. b \<noteq> 10) (mount_line m)"
    using Cons.prems by (auto simp: wf_mount_def mount_line_def list_all_iff is_space_def)
  from text_lines_append [OF this, of "[]" "mounts_text ms"] Cons show ?case
    by (simp add: mounts_text_def)
qed (simp add: mounts_text_def)

lemma read_word_mount_line:
  assumes "wf_mount m"
  shows "read_word (mount_line m) = fst m"
proof -
  obtain b bs where m: "fst m = b # bs" using assms by (cases "fst m") (auto simp: wf_mount_def)
  then have "\<not> is_space b" using assms by (simp add: wf_mount_def)
  then have "read_word (mount_line m) = takeWhile (\<lambda>b. \<not> is_space b) (fst m @ 32 # snd m)"
    by (simp add: read_word_def mount_line_def m)
  also have "\<dots> = fst m"
    using assms by (subst takeWhile_append2) (auto simp: wf_mount_def list_all_iff is_space_def)
  finally show ?thesis .
qed

lemma IsDeviceMounted_mounts:
  assumes "os_file S (str ''/proc/mounts'') = Some (mounts_text ms)" and "list_all wf_mount ms"
  shows "IsDeviceMounted S dev = (PANCAKE_STORE_OK, dev \<in> fst ` set ms)"
proof -
  have "mounted_in dev (map mount_line ms) = (dev \<in> fst ` set ms)"
    using assms(2) by (induction ms) (auto simp: read_word_mount_line)
  then show ?thesis by (simp add: IsDeviceMounted_def assms(1) text_lines_mounts [OF assms(2)])
qed

text \<open>
  Given the text of \<^verbatim>\<open>/proc/mounts\<close> for a list of mounts, \<^verbatim>\<open>IsDeviceMounted\<close> says OK and
  whether the device is the first field of one of them.
\<close>

theorem IsDeviceMounted_correct:
  assumes "os_file S (str ''/proc/mounts'') = Some (mounts_text ms)" and "list_all wf_mount ms"
  shows "IsDeviceMounted S dev = (PANCAKE_STORE_OK, dev \<in> fst ` set ms)"
  using assms by (rule IsDeviceMounted_mounts)

section \<open>Witnesses\<close>

text \<open>A system with the given files, and nothing else.\<close>

definition files_os :: "(bytes \<times> bytes) list \<Rightarrow> os" where
  "files_os fs = \<lparr>os_readlink = (\<lambda>_ _. None), os_file = map_of fs, os_canonical_self = Undefined,
     os_disks_by_uuid = None, os_equivalent = (\<lambda>_ _. None)\<rparr>"

theorem GetDeviceSize_product_witness:
  "GetDeviceSize (files_os [(str ''/sys/block/sda/queue/logical_block_size'', decimal 512 @ [10]),
     (str ''/sys/block/sda/size'', decimal 2097152 @ [10])]) (str ''sda'') = (PANCAKE_STORE_OK, 1073741824)"
  by (subst GetDeviceSize_product [of 512 2097152 _ _ True True]) (simp_all add: files_os_def str_def)

theorem IsDeviceMounted_correct_witness:
  "IsDeviceMounted (files_os [(str ''/proc/mounts'', mounts_text [(str ''/dev/sda'', str ''/ ext4 rw'')])]) (str ''/dev/sda'')
    = (PANCAKE_STORE_OK, True)"
  by (subst IsDeviceMounted_correct [of _ "[(str ''/dev/sda'', str ''/ ext4 rw'')]"])
    (simp_all add: files_os_def str_def wf_mount_def is_space_def)

end
