(* ===== verification/Pancake.thy ===== *)
theory Pancake
  imports Device Pancake_Io Layout
begin

text \<open>
  The engine \<^verbatim>\<open>Pancake\<close> of \<^verbatim>\<open>pancake.h/.cc\<close> with the requests of \<^verbatim>\<open>engine.h\<close>. Of its
  operations \<^verbatim>\<open>MakeFS\<close> and the getters have a body; awaiting a future is running it.
\<close>

datatype FSType = FS_TYPE_UNKNOWN | FS_TYPE_POSIX | FS_TYPE_PANCAKE_BY_RAW | FS_TYPE_PANCAKE_BY_SPDK

datatype DeviceType = DEVICE_TYPE_UNKNOWN | DEVICE_TYPE_HDD | DEVICE_TYPE_SSD | DEVICE_TYPE_NVME_SSD

record MakeFSRequest =
  mr_device_id :: u64
  mr_device_path :: bytes
  mr_fs_type :: FSType

record MakeFSResponse =
  ms_device_uuid :: bytes
  ms_total_capacity :: u64

record 'd Pancake =
  pk_device_id :: u64
  pk_device_uuid :: bytes
  pk_device_path :: bytes
  pk_device_type :: DeviceType
  pk_device_capacity :: u64
  pk_block_size :: u64
  pk_pancake_io :: "'d PancakeIO option" \<comment> \<open>\<open>None\<close> is the null pointer\<close>

definition new_Pancake :: "'d Pancake" where
  "new_Pancake = \<lparr>pk_device_id = 0, pk_device_uuid = [], pk_device_path = [], pk_device_type = DEVICE_TYPE_UNKNOWN,
     pk_device_capacity = 0, pk_block_size = word_of_nat k_block_data_size, pk_pancake_io = None\<rparr>"

text \<open>
  The loop over the extent blocks, \<open>n\<close> iterations from \<open>i\<close> on. It only computes the offset of the
  block, and \<^verbatim>\<open>k_extent_block_size * i\<close> is a product of two \<^verbatim>\<open>int\<close>: undefined when it does
  not fit.
\<close>

fun init_extent_blocks :: "nat \<Rightarrow> nat \<Rightarrow> unit outcome" where
  "init_extent_blocks i 0 = Return ()"
| "init_extent_blocks i (Suc n) =
    (if 2 ^ 31 \<le> k_extent_block_size * i then Undefined else init_extent_blocks (Suc i) n)"

definition MakeFS :: "os \<Rightarrow> 'd file_api \<Rightarrow> 'd Pancake \<Rightarrow> MakeFSRequest \<Rightarrow> MakeFSResponse
    \<Rightarrow> (ErrorCode \<times> 'd Pancake \<times> MakeFSResponse) outcome" where
  "MakeFS S F pk request response =
    (if mr_fs_type request \<noteq> FS_TYPE_PANCAKE_BY_RAW then Return (PANCAKE_STORE_CODE_ERROR, pk, response)
     else
       let mounted_res = IsDeviceMounted S (mr_device_path request)
       in if IsNotOk (fst mounted_res) then Return (fst mounted_res, pk, response)
          else if snd mounted_res then Return (DATANODE_DEVICE_ALREADY_MOUNTED, pk, response)
          else outcome_bind (GetDeviceUUID S (mr_device_path request)) (\<lambda>get_uuid_res.
            if IsNotOk (fst get_uuid_res) then Return (fst get_uuid_res, pk, response)
            else
              let device_name = path_filename (mr_device_path request);
                  device_size_res = GetDeviceSize S device_name
              in if IsNotOk (fst device_size_res) then Return (fst device_size_res, pk, response)
                 else if snd device_size_res < k_min_device_size
                 then Return (DATANODE_STORAGE_DEVICE_CAPACITY_TOO_SMALL, pk, response)
                 else
                   let pk = pk\<lparr>pk_device_capacity := snd device_size_res\<rparr>;
                       pancake_layout = BuildLayout (snd device_size_res) new_PancakeLayout;
                       (err_code, pancake_io) = PancakeIO_Init F
                         \<lparr>io_device_path = [], io_device_id = 0, io_device_fd = None\<rparr>
                         (mr_device_path request) (mr_device_id request)
                   in if IsNotOk err_code then Return (err_code, pk, response)
                      else
                        let extent_blocks_layout = ExtentsBlocksLayout pancake_layout
                        in outcome_bind (init_extent_blocks 0 (unat (li_block_count extent_blocks_layout)))
                             (\<lambda>_. Return (PANCAKE_STORE_OK, pk, response))))"

definition GetFSType :: "'d Pancake \<Rightarrow> FSType" where
  "GetFSType pk = FS_TYPE_PANCAKE_BY_RAW"

definition DeviceId :: "'d Pancake \<Rightarrow> u64" where
  "DeviceId pk = pk_device_id pk"

definition DeviceUUID :: "'d Pancake \<Rightarrow> bytes" where
  "DeviceUUID pk = pk_device_uuid pk"

definition DevicePath :: "'d Pancake \<Rightarrow> bytes" where
  "DevicePath pk = pk_device_path pk"

text \<open>
  The other operations have a result type and no statement: their call runs off the end of the
  function, which is undefined. (\<^verbatim>\<open>GetTotalCapacity\<close> has a \<^verbatim>\<open>return\<close> without an expression and does not compile; it is read as
  having no value either. The message \<^verbatim>\<open>ExtentInfo\<close> of \<^verbatim>\<open>AddExtent\<close> is a type parameter, as nothing reads it.)
\<close>

record MountRequest =
  mt_device_id :: u64
  mt_device_path :: bytes
  mt_device_uuid :: bytes
  mt_fs_type :: FSType
  mt_total_capacity :: u64

datatype MountResponse = MountResponse

definition Mount :: "'d Pancake \<Rightarrow> MountRequest \<Rightarrow> MountResponse \<Rightarrow> (ErrorCode \<times> 'd Pancake \<times> MountResponse) outcome" where
  "Mount pk request response = Undefined"

definition Pancake_ReadAt :: "'d Pancake \<Rightarrow> u64 \<Rightarrow> u32 \<Rightarrow> u32 \<Rightarrow> (ErrorCode \<times> 'd Pancake) outcome" where
  "Pancake_ReadAt pk ext_id offset read_size = Undefined"

definition Pancake_WriteAt :: "'d Pancake \<Rightarrow> u64 \<Rightarrow> bytes \<Rightarrow> u32 \<Rightarrow> (ErrorCode \<times> 'd Pancake) outcome" where
  "Pancake_WriteAt pk ext_id data offset = Undefined"

definition Pancake_AddExtent :: "'d Pancake \<Rightarrow> 'extent_info \<Rightarrow> (ErrorCode \<times> 'd Pancake) outcome" where
  "Pancake_AddExtent pk ext_info = Undefined"

definition Pancake_DelExtent :: "'d Pancake \<Rightarrow> u64 \<Rightarrow> (ErrorCode \<times> 'd Pancake) outcome" where
  "Pancake_DelExtent pk ext_id = Undefined"

definition RecoverExtent :: "'d Pancake \<Rightarrow> u64 \<Rightarrow> (ErrorCode \<times> 'd Pancake) outcome" where
  "RecoverExtent pk ext_id = Undefined"

definition GetTotalCapacity :: "'d Pancake \<Rightarrow> u64 outcome" where
  "GetTotalCapacity pk = Undefined"

definition GetFreeCapacity :: "'d Pancake \<Rightarrow> u64 outcome" where
  "GetFreeCapacity pk = Undefined"

definition GetUsedCapacity :: "'d Pancake \<Rightarrow> u64 outcome" where
  "GetUsedCapacity pk = Undefined"

definition GetAllocateCapacity :: "'d Pancake \<Rightarrow> u64 outcome" where
  "GetAllocateCapacity pk = Undefined"

text \<open>
  \<^verbatim>\<open>PancakeStats\<close> of \<^verbatim>\<open>pancake_stats.h\<close> and \<^verbatim>\<open>PancakeCache\<close> of \<^verbatim>\<open>cache.h\<close> are their members: neither has
  an operation with a body. The size of a new cache is indeterminate.
\<close>

datatype DeviceStatus = DEVICE_STATUS_UNKNOWN | DEVICE_STATUS_OK | DEVICE_STATUS_SLOW | DEVICE_STATUS_DOWN
  | DEVICE_STATUS_OUTING | DEVICE_STATUS_OUT

datatype MaintenanceStatus = MAINTENANCE_STATUS_UNKNOWN | MAINTENANCE_STATUS_NONE | MAINTENANCE_STATUS_UPDATING

record DeviceBaseInfo =
  db_device_id :: u64
  db_device_uuid :: bytes
  db_datanode_id :: bytes
  db_device_type :: bytes
  db_ip :: bytes
  db_port :: u32
  db_device_path :: bytes
  db_fs_type :: FSType
  db_device_capacity_size :: u64
  db_create_time :: u64 \<comment> \<open>the two's complement representation of the \<^verbatim>\<open>int64\<close>\<close>

record DeviceMutableInfo =
  dm_device_id :: u64
  dm_device_alloc_size :: u64
  dm_device_used_size :: u64
  dm_maintenance_status :: MaintenanceStatus
  dm_device_status :: DeviceStatus

record DeviceInfo =
  di_device_base_info :: DeviceBaseInfo
  di_device_mutable_info :: DeviceMutableInfo

record PancakeStats =
  ps_device_status :: DeviceStatus
  ps_device_capacity :: u64
  ps_device_used_size :: u64
  ps_device_allocated_size :: u64

definition new_PancakeStats :: PancakeStats where
  "new_PancakeStats = \<lparr>ps_device_status = DEVICE_STATUS_UNKNOWN, ps_device_capacity = 0, ps_device_used_size = 0,
     ps_device_allocated_size = 0\<rparr>"

record PancakeCache =
  pc_cache_size :: u64

section \<open>The loop\<close>

lemma init_extent_blocks_iff:
  "init_extent_blocks i n = (if n = 0 \<or> i + n \<le> 32 then Return () else Undefined)"
proof (induction n arbitrary: i)
  case (Suc n)
  then show ?case by (auto simp: k_extent_block_size_def)
qed simp

text \<open>What is left to do once every check has passed and the device is open.\<close>

lemma MakeFS_passed:
  fixes size :: u64
  assumes "mr_fs_type request = FS_TYPE_PANCAKE_BY_RAW"
    and "IsDeviceMounted S (mr_device_path request) = (PANCAKE_STORE_OK, False)"
    and "GetDeviceUUID S (mr_device_path request) = Return (PANCAKE_STORE_OK, uuid)"
    and "GetDeviceSize S (path_filename (mr_device_path request)) = (PANCAKE_STORE_OK, size)" and "k_min_device_size \<le> size"
    and "PancakeIO_Init F \<lparr>io_device_path = [], io_device_id = 0, io_device_fd = None\<rparr> (mr_device_path request)
      (mr_device_id request) = (PANCAKE_STORE_OK, io)"
  shows "MakeFS S F pk request response = (if unat (extentBlockCount size) \<le> 32
    then Return (PANCAKE_STORE_OK, pk\<lparr>pk_device_capacity := size\<rparr>, response) else Undefined)"
  using assms by (simp add: MakeFS_def Let_def IsNotOk_def not_less init_extent_blocks_iff ExtentsBlocksLayout_def
      BuildLayout_items unat_ucast_up)

lemma extents_below_17TB:
  fixes size :: u64
  assumes "k_min_device_size \<le> size" and "unat size < 2 ^ 32 * k_block_data_size"
  shows "unat (extentBlockCount size) = unat size div 4064 - 1" and "33026 \<le> unat size div 4064"
proof -
  have min: "2 ^ 27 \<le> unat size"
    using assms(1) by (simp add: k_min_device_size_def k_extent_block_size_def word_le_nat_alt)
  have "unat size div 4064 - 1 < 2 ^ 32" using assms(2) by (simp add: less_mult_imp_div_less less_imp_diff_less)
  then show "unat (extentBlockCount size) = unat size div 4064 - 1"
    using min by (simp add: unat_extentBlockCount)
  show "33026 \<le> unat size div 4064" using div_le_mono [OF min, of 4064] by simp
qed

section \<open>Properties\<close>

text \<open>
  C37. Where \<^verbatim>\<open>MakeFS\<close> runs into undefined behaviour. On a raw device that passes every check and can be
  opened, it returns OK with the capacity recorded when the layout has at most 32 extents, and
  otherwise the product of two \<^verbatim>\<open>int\<close> in the offset of the 33rd overflows, which C++ leaves
  undefined (a build may go on and return OK, as the offset is not used). Every device between
  the minimum size and 17 TB has more than 32 extents; a larger one escapes when its count,
  cut to 32 bits, is at most 32.
\<close>

theorem MakeFS_overflow_iff:
  fixes size :: u64
  assumes "mr_fs_type request = FS_TYPE_PANCAKE_BY_RAW"
    and "IsDeviceMounted S (mr_device_path request) = (PANCAKE_STORE_OK, False)"
    and "GetDeviceUUID S (mr_device_path request) = Return (PANCAKE_STORE_OK, uuid)"
    and "GetDeviceSize S (path_filename (mr_device_path request)) = (PANCAKE_STORE_OK, size)" and "k_min_device_size \<le> size"
    and "PancakeIO_Init F \<lparr>io_device_path = [], io_device_id = 0, io_device_fd = None\<rparr> (mr_device_path request)
      (mr_device_id request) = (PANCAKE_STORE_OK, io)"
  shows "MakeFS S F pk request response = (if unat (extentBlockCount size) \<le> 32
      then Return (PANCAKE_STORE_OK, pk\<lparr>pk_device_capacity := size\<rparr>, response) else Undefined)
    \<and> (unat size < 2 ^ 32 * k_block_data_size \<longrightarrow> 32 < unat (extentBlockCount size))
    \<and> k_extent_block_size * 31 < 2 ^ 31 \<and> 2 ^ 31 \<le> k_extent_block_size * 32"
  using MakeFS_passed [OF assms] extents_below_17TB [OF assms(5)] by (auto simp: k_extent_block_size_def)

text \<open>
  A device that is mounted is refused before anything else is looked at or changed: for every
  text of \<^verbatim>\<open>/proc/mounts\<close> that lists it, \<^verbatim>\<open>MakeFS\<close> returns the mounted error; and a device
  whose size is below 128 MB is never formatted either.
\<close>

theorem MakeFS_refuses:
  assumes "mr_fs_type request = FS_TYPE_PANCAKE_BY_RAW" and "os_file S (str ''/proc/mounts'') = Some (mounts_text ms)"
    and "list_all wf_mount ms"
  shows "if mr_device_path request \<in> fst ` set ms
    then MakeFS S F pk request response = Return (DATANODE_DEVICE_ALREADY_MOUNTED, pk, response)
    else snd (GetDeviceSize S (path_filename (mr_device_path request))) < k_min_device_size \<longrightarrow>
      (\<forall>e pk' response'. MakeFS S F pk request response = Return (e, pk', response') \<longrightarrow> e \<noteq> PANCAKE_STORE_OK \<and> pk' = pk)"
proof -
  note mounted = IsDeviceMounted_mounts [OF assms(2,3)]
  show ?thesis
    using assms(1) by (auto simp: MakeFS_def mounted Let_def outcome_bind_Return_iff IsNotOk_def split: if_splits)
qed

section \<open>Witnesses\<close>

text \<open>
  A disk of 4064 times 4294967297 bytes, which the 32-bit extent count takes for one without
  extents, under a build where the self-reference in \<^verbatim>\<open>GetDeviceUUID\<close> does no harm.
\<close>

definition big_disk :: os where
  "big_disk = \<lparr>os_readlink = (\<lambda>_ _. None),
     os_file = map_of [(str ''/proc/mounts'', mounts_text [(str ''/dev/sdb'', str ''/ ext4 rw'')]),
       (str ''/sys/block/sda/queue/logical_block_size'', decimal 4064 @ [10]),
       (str ''/sys/block/sda/size'', decimal 4294967297 @ [10])],
     os_canonical_self = Return True, os_disks_by_uuid = Some [str ''/dev/disk/by-uuid/u1''],
     os_equivalent = (\<lambda>_ _. Some True)\<rparr>"

definition blank_response :: MakeFSResponse where
  "blank_response = \<lparr>ms_device_uuid = [], ms_total_capacity = 0\<rparr>"

definition format_sda :: MakeFSRequest where
  "format_sda = \<lparr>mr_device_id = 1, mr_device_path = str ''/dev/sda'', mr_fs_type = FS_TYPE_PANCAKE_BY_RAW\<rparr>"

lemma big_disk_size: "GetDeviceSize big_disk (path_filename (mr_device_path format_sda)) = (PANCAKE_STORE_OK, 17454747095008)"
proof -
  have nl: "[10] = [] \<or> \<not> is_digit (hd [10])" by (simp add: is_digit_def word_le_nat_alt)
  have "(4064 :: nat) < 2 ^ 64" "(4294967297 :: nat) < 2 ^ 64" by simp_all
  then show ?thesis
    using read_u64_decimal [OF _ nl, of 4064] read_u64_decimal [OF _ nl, of 4294967297]
    by (simp add: GetDeviceSize_def GetDeviceBlockSize_def GetDeviceBlockCount_def Let_def big_disk_def
        format_sda_def path_filename_def str_def)
qed

lemma big_disk_checks:
  "mr_fs_type format_sda = FS_TYPE_PANCAKE_BY_RAW"
  "IsDeviceMounted big_disk (mr_device_path format_sda) = (PANCAKE_STORE_OK, False)"
  "GetDeviceUUID big_disk (mr_device_path format_sda) = Return (PANCAKE_STORE_OK, path_filename (str ''/dev/disk/by-uuid/u1''))"
  "k_min_device_size \<le> (17454747095008 :: u64)" "unat (extentBlockCount 17454747095008) \<le> 32"
  "\<exists>io. PancakeIO_Init sparse_file \<lparr>io_device_path = [], io_device_id = 0, io_device_fd = None\<rparr>
    (mr_device_path format_sda) (mr_device_id format_sda) = (PANCAKE_STORE_OK, io)"
proof -
  have "IsDeviceMounted big_disk (mr_device_path format_sda) = (PANCAKE_STORE_OK, mr_device_path format_sda
      \<in> fst ` set [(str ''/dev/sdb'', str ''/ ext4 rw'')])"
    by (rule IsDeviceMounted_mounts) (simp_all add: big_disk_def str_def wf_mount_def is_space_def)
  then show "IsDeviceMounted big_disk (mr_device_path format_sda) = (PANCAKE_STORE_OK, False)"
    by (simp add: format_sda_def str_def)
  show "GetDeviceUUID big_disk (mr_device_path format_sda) = Return (PANCAKE_STORE_OK, path_filename (str ''/dev/disk/by-uuid/u1''))"
    by (simp add: GetDeviceUUID_def big_disk_def)
qed (simp_all add: format_sda_def k_min_device_size_def k_extent_block_size_def extentBlockCount_def PancakeIO_Init_def sparse_file_def)

lemma big_disk_MakeFS: "MakeFS big_disk sparse_file new_Pancake format_sda blank_response =
    Return (PANCAKE_STORE_OK, new_Pancake\<lparr>pk_device_capacity := 17454747095008\<rparr>, blank_response)"
  using big_disk_checks(6) MakeFS_passed [OF big_disk_checks(1-3) big_disk_size big_disk_checks(4)] big_disk_checks(5) by auto

theorem MakeFS_overflow_iff_witness:
  "MakeFS big_disk sparse_file new_Pancake format_sda blank_response =
    Return (PANCAKE_STORE_OK, new_Pancake\<lparr>pk_device_capacity := 17454747095008\<rparr>, blank_response)"
  using big_disk_checks(6) MakeFS_overflow_iff [OF big_disk_checks(1-3) big_disk_size big_disk_checks(4)] big_disk_checks(5) by auto

theorem MakeFS_refuses_witness:
  "MakeFS (files_os [(str ''/proc/mounts'', mounts_text [(str ''/dev/sda'', str ''/ ext4 rw'')])]) sparse_file new_Pancake format_sda blank_response
    = Return (DATANODE_DEVICE_ALREADY_MOUNTED, new_Pancake, blank_response)"
proof -
  let ?ms = "[(str ''/dev/sda'', str ''/ ext4 rw'')]"
  have "mr_device_path format_sda \<in> fst ` set ?ms" "mr_fs_type format_sda = FS_TYPE_PANCAKE_BY_RAW"
    "list_all wf_mount ?ms"
    by (simp_all add: format_sda_def str_def wf_mount_def is_space_def)
  then show ?thesis
    using MakeFS_refuses [of format_sda "files_os [(str ''/proc/mounts'', mounts_text ?ms)]" ?ms sparse_file new_Pancake blank_response]
    by (simp add: files_os_def)
qed

end
