(* ===== verification/Rpc.thy ===== *)
theory Rpc
  imports Config
begin

text \<open>
  The RPC layer: \<^verbatim>\<open>rpc/serializer.h\<close>, and the servers of \<^verbatim>\<open>rpc/datanode.h/.cc\<close>.
  Seastar's handler table and the generated protobuf classes are parameters.
\<close>

section \<open>The serializer\<close>

text \<open>A string is its 32-bit size in host order and its bytes; \<open>None\<close> is the exception of a short input.\<close>

definition read_exact :: "nat \<Rightarrow> bytes \<Rightarrow> (bytes \<times> bytes) option" where
  "read_exact n input = (if length input < n then None else Some (take n input, drop n input))"

definition WriteArithmeticType32 :: "platform \<Rightarrow> bytes \<Rightarrow> u32 \<Rightarrow> bytes" where
  "WriteArithmeticType32 P output val = output @ obj_bytes P 4 val"

definition ReadArithmeticType32 :: "platform \<Rightarrow> bytes \<Rightarrow> (u32 \<times> bytes) option" where
  "ReadArithmeticType32 P input = (case read_exact 4 input of
     None \<Rightarrow> None | Some (d, rest) \<Rightarrow> Some (obj_load P d, rest))"

definition write_sstring :: "platform \<Rightarrow> bytes \<Rightarrow> bytes \<Rightarrow> bytes" where
  "write_sstring P output val = WriteArithmeticType32 P output (word_of_nat (length val)) @ val"

definition read_sstring :: "platform \<Rightarrow> bytes \<Rightarrow> (bytes \<times> bytes) option" where
  "read_sstring P input = (case ReadArithmeticType32 P input of
     None \<Rightarrow> None | Some (n, rest) \<Rightarrow> read_exact (unat n) rest)"

text \<open>\<^verbatim>\<open>int\<close> travels as its two's complement representation.\<close>

definition write_int :: "platform \<Rightarrow> bytes \<Rightarrow> u32 \<Rightarrow> bytes" where
  "write_int P output v = WriteArithmeticType32 P output v"

definition read_int :: "platform \<Rightarrow> bytes \<Rightarrow> (u32 \<times> bytes) option" where
  "read_int P input = ReadArithmeticType32 P input"

section \<open>The servers\<close>

datatype DatanodeRpc = DATANODE_RPC_UNKONWN
  | DATANODE_RPC_ADD_DEVICE | DATANODE_RPC_DEL_DEVICE | DATANODE_RPC_LIST_DEVICES
  | DATANODE_RPC_ADD_EXTENT | DATANODE_RPC_DEL_EXTENT | DATANODE_RPC_SEAL_EXTENT | DATANODE_RPC_LIST_EXTENTS
  | DATANODE_RPC_READ_AT | DATANODE_RPC_WRITE_AT

text \<open>The \<^verbatim>\<open>std::function\<close> members of the servers.\<close>

datatype slot = Slot_AddDevice | Slot_DelDevice | Slot_AddExtent | Slot_DelExtent | Slot_SealExtent
  | Slot_ListExtents | Slot_WriteAt | Slot_ReadAt

text \<open>
  Seastar's table of handlers: registering may throw (\<open>None\<close>); a request of a verb without a
  handler is answered with an exception.
\<close>

record 't registry =
  rg_empty :: 't
  rg_register :: "'t \<Rightarrow> DatanodeRpc \<Rightarrow> slot \<Rightarrow> 't option"
  rg_lookup :: "'t \<Rightarrow> DatanodeRpc \<Rightarrow> slot option"

text \<open>
  A server: the table, the service and its handlers. The lambda a \<^verbatim>\<open>Register...\<close> method
  registers refers to the member of the server, so the table holds the member's slot.
\<close>

record ('t, 'h) RpcServer =
  rs_rpc :: 't
  rs_service_ptr :: bool \<comment> \<open>whether the pointer to the service is set\<close>
  rs_handlers :: "slot \<rightharpoonup> 'h"

definition new_RpcServer :: "'t registry \<Rightarrow> ('t, 'h) RpcServer" where
  "new_RpcServer R = \<lparr>rs_rpc = rg_empty R, rs_service_ptr = False, rs_handlers = Map.empty\<rparr>"

definition RegisterServicePtr :: "('t, 'h) RpcServer \<Rightarrow> ('t, 'h) RpcServer" where
  "RegisterServicePtr s = s\<lparr>rs_service_ptr := True\<rparr>"

definition DatanodeServer_RegisterServicePtr :: "('t, 'h) RpcServer \<Rightarrow> ('t, 'h) RpcServer" where
  "DatanodeServer_RegisterServicePtr s = s\<lparr>rs_service_ptr := True\<rparr>"

text \<open>
  Assigning the member, then registering the lambda; \<open>False\<close> is an exception. The lambda calls
  the member of the server, so the member is kept as the lambda with the handler in it.
\<close>

definition register_slot :: "'t registry \<Rightarrow> slot \<Rightarrow> DatanodeRpc \<Rightarrow> ('t, 'h) RpcServer \<Rightarrow> 'h \<Rightarrow> bool \<times> ('t, 'h) RpcServer" where
  "register_slot R member verb s handler =
    (let s = s\<lparr>rs_handlers := (rs_handlers s)(member \<mapsto> handler)\<rparr>
     in case rg_register R (rs_rpc s) verb member of
          None \<Rightarrow> (False, s)
        | Some t \<Rightarrow> (True, s\<lparr>rs_rpc := t\<rparr>))"

text \<open>
  The registered lambda, for a pair of message types: the request is parsed from a C string, the
  service runs (\<open>'s\<close> is its state), the error code goes into the response, the response is
  serialised. Whether parsing succeeded is not looked at: \<open>mg_parse_request\<close> is the request object
  after the attempt.
\<close>

record ('q, 'r) message =
  mg_serialize_request :: "'q \<Rightarrow> bytes"
  mg_parse_request :: "bytes \<Rightarrow> 'q"
  mg_new_response :: 'r
  mg_set_error :: "ErrorCode \<Rightarrow> 'r \<Rightarrow> 'r"
  mg_error :: "'r \<Rightarrow> ErrorCode"
  mg_serialize_response :: "'r \<Rightarrow> bytes"
  mg_parse_response :: "bytes \<Rightarrow> bool \<times> 'r"

type_synonym ('q, 'r, 's) service_handler = "'q \<Rightarrow> 'r \<Rightarrow> 's \<Rightarrow> (ErrorCode \<times> 'r \<times> 's) outcome"

type_synonym 's rpc_lambda = "bytes \<Rightarrow> 's \<Rightarrow> (bytes \<times> 's) outcome"

definition rpc_handler :: "('q, 'r) message \<Rightarrow> ('q, 'r, 's) service_handler \<Rightarrow> 's rpc_lambda" where
  "rpc_handler M handler request_data s =
    (let request = mg_parse_request M (c_string request_data)
     in outcome_bind (handler request (mg_new_response M) s) (\<lambda>(err_code, response, s).
          let response = (if IsNotOk err_code then mg_set_error M err_code response else response)
          in Return (mg_serialize_response M response, s)))"

type_synonym ('t, 'q, 'r, 's) register_method =
  "'t registry \<Rightarrow> ('q, 'r) message \<Rightarrow> ('t, 's rpc_lambda) RpcServer
    \<Rightarrow> ('q, 'r, 's) service_handler \<Rightarrow> bool \<times> ('t, 's rpc_lambda) RpcServer"

definition RegisterAddDeviceHandler :: "('t, 'q, 'r, 's) register_method" where
  "RegisterAddDeviceHandler R M s handler = register_slot R Slot_AddDevice DATANODE_RPC_ADD_DEVICE s (rpc_handler M handler)"

definition RegisterDelDeviceHandler :: "('t, 'q, 'r, 's) register_method" where
  "RegisterDelDeviceHandler R M s handler = register_slot R Slot_DelDevice DATANODE_RPC_ADD_DEVICE s (rpc_handler M handler)"

definition RegisterAddExtentHandler :: "('t, 'q, 'r, 's) register_method" where
  "RegisterAddExtentHandler R M s handler = register_slot R Slot_AddExtent DATANODE_RPC_ADD_DEVICE s (rpc_handler M handler)"

definition RegisterDelExtentHandler :: "('t, 'q, 'r, 's) register_method" where
  "RegisterDelExtentHandler R M s handler = register_slot R Slot_DelExtent DATANODE_RPC_ADD_DEVICE s (rpc_handler M handler)"

definition RegisterSealExtentHandler :: "('t, 'q, 'r, 's) register_method" where
  "RegisterSealExtentHandler R M s handler = register_slot R Slot_SealExtent DATANODE_RPC_ADD_DEVICE s (rpc_handler M handler)"

definition RegisterListExtentsHandler :: "('t, 'q, 'r, 's) register_method" where
  "RegisterListExtentsHandler R M s handler = register_slot R Slot_ListExtents DATANODE_RPC_ADD_DEVICE s (rpc_handler M handler)"

definition RegisterWriteAtHandler :: "('t, 'q, 'r, 's) register_method" where
  "RegisterWriteAtHandler R M s handler = register_slot R Slot_WriteAt DATANODE_RPC_ADD_DEVICE s (rpc_handler M handler)"

definition RegisterReadAtHandler :: "('t, 'q, 'r, 's) register_method" where
  "RegisterReadAtHandler R M s handler = register_slot R Slot_ReadAt DATANODE_RPC_ADD_DEVICE s (rpc_handler M handler)"

text \<open>Serving a verb: the handler in the slot the table names; \<open>None\<close> is an exception.\<close>

definition serve :: "'t registry \<Rightarrow> ('t, 's rpc_lambda) RpcServer \<Rightarrow> DatanodeRpc \<Rightarrow> bytes \<Rightarrow> 's
    \<Rightarrow> (bytes option \<times> 's) outcome" where
  "serve R srv verb data s =
    (case rg_lookup R (rs_rpc srv) verb of
       None \<Rightarrow> Return (None, s)
     | Some member \<Rightarrow> (case rs_handlers srv member of
         None \<Rightarrow> Return (None, s)
       | Some h \<Rightarrow> outcome_bind (h data s) (\<lambda>(reply, s). Return (Some reply, s))))"

section \<open>What the code relies on\<close>

text \<open>Registering a handler under one verb leaves the other verbs alone.\<close>

locale rpc_registry =
  fixes R :: "'t registry"
  assumes lookup_empty: "rg_lookup R (rg_empty R) v = None"
    and register_other: "rg_register R t v m = Some t' \<Longrightarrow> w \<noteq> v \<Longrightarrow> rg_lookup R t' w = rg_lookup R t w"
begin

lemma register_slot_other:
  "w \<noteq> v \<Longrightarrow> rg_lookup R (rs_rpc (snd (register_slot R m v s h))) w = rg_lookup R (rs_rpc s) w"
  by (auto simp: register_slot_def Let_def register_other split: option.splits)

end

text \<open>
  Seastar's own table takes one handler for a verb, and throws for a second one.
\<close>

locale exclusive_registry = rpc_registry +
  assumes register_free: "rg_lookup R t v = None \<Longrightarrow> \<exists>t'. rg_register R t v m = Some t' \<and> rg_lookup R t' v = Some m"
    and register_taken: "rg_lookup R t v \<noteq> None \<Longrightarrow> rg_register R t v m = None"
begin

lemma register_slot_free:
  assumes "rg_lookup R (rs_rpc s) v = None"
  obtains s' where "register_slot R m v s h = (True, s')" and "rg_lookup R (rs_rpc s') v = Some m"
    and "rs_handlers s' = (rs_handlers s)(m \<mapsto> h)"
  using register_free [OF assms, of m] by (auto simp: register_slot_def Let_def)

text \<open>The first handler of a server is the only one it serves, under the verb it was registered for.\<close>

lemma register_slot_first:
  assumes "\<And>w. rg_lookup R (rs_rpc s) w = None"
  obtains s' where "register_slot R m v s h = (True, s')" and "rs_handlers s' = (rs_handlers s)(m \<mapsto> h)"
    and "\<And>w. rg_lookup R (rs_rpc s') w = (if w = v then Some m else None)"
proof -
  obtain s' where s': "register_slot R m v s h = (True, s')" "rg_lookup R (rs_rpc s') v = Some m"
    "rs_handlers s' = (rs_handlers s)(m \<mapsto> h)"
    by (rule register_slot_free [OF assms])
  moreover have "rg_lookup R (rs_rpc s') w = None" if "w \<noteq> v" for w
    using register_slot_other [OF that, of m s h] assms by (simp add: s'(1))
  ultimately show thesis by (intro that) auto
qed

lemma register_slot_taken:
  "rg_lookup R (rs_rpc s) v \<noteq> None \<Longrightarrow>
    register_slot R m v s h = (False, s\<lparr>rs_handlers := (rs_handlers s)(m \<mapsto> h)\<rparr>)"
  by (simp add: register_slot_def Let_def register_taken)

end

text \<open>A table that replaces, and one that throws when the verb is taken.\<close>

definition replacing :: "(DatanodeRpc \<rightharpoonup> slot) registry" where
  "replacing = \<lparr>rg_empty = Map.empty, rg_register = (\<lambda>t v m. Some (t(v \<mapsto> m))), rg_lookup = (\<lambda>t. t)\<rparr>"

definition throwing :: "(DatanodeRpc \<rightharpoonup> slot) registry" where
  "throwing = \<lparr>rg_empty = Map.empty, rg_register = (\<lambda>t v m. if t v = None then Some (t(v \<mapsto> m)) else None),
     rg_lookup = (\<lambda>t. t)\<rparr>"

interpretation replacing: rpc_registry replacing
  by unfold_locales (auto simp: replacing_def)

interpretation throwing: exclusive_registry throwing
  by unfold_locales (auto simp: throwing_def split: if_splits)

lemma read_write_sstring:
  "read_sstring P (write_sstring P [] val @ rest) =
    (let n = length val mod 2 ^ 32
     in Some (take n val, drop n val @ rest))"
proof -
  let ?n = "length val mod 2 ^ 32"
  have le: "?n \<le> length val" by (rule mod_less_eq_dividend)
  have "obj_load P (obj_bytes P 4 (word_of_nat (length val) :: u32)) = (word_of_nat (length val) :: u32)"
    by (simp add: obj_load_obj_bytes)
  then show ?thesis
    using le by (simp add: read_sstring_def ReadArithmeticType32_def write_sstring_def WriteArithmeticType32_def
        read_exact_def unat_of_nat Let_def)
qed

section \<open>The servers the code can build\<close>

text \<open>
  The servers the methods of the code lead to, from a fresh one; the message types are those of \<open>Ms\<close>.
\<close>

inductive built_server :: "'t registry \<Rightarrow> ('q, 'r) message set \<Rightarrow> ('t, 's rpc_lambda) RpcServer \<Rightarrow> bool"
  for R :: "'t registry" and Ms :: "('q, 'r) message set" where
  built_new: "built_server R Ms (new_RpcServer R)"
| built_ptr: "built_server R Ms s \<Longrightarrow> built_server R Ms (RegisterServicePtr s)"
| built_server_ptr: "built_server R Ms s \<Longrightarrow> built_server R Ms (DatanodeServer_RegisterServicePtr s)"
| built_AddDevice: "M \<in> Ms \<Longrightarrow> built_server R Ms s \<Longrightarrow> built_server R Ms (snd (RegisterAddDeviceHandler R M s h))"
| built_DelDevice: "M \<in> Ms \<Longrightarrow> built_server R Ms s \<Longrightarrow> built_server R Ms (snd (RegisterDelDeviceHandler R M s h))"
| built_AddExtent: "M \<in> Ms \<Longrightarrow> built_server R Ms s \<Longrightarrow> built_server R Ms (snd (RegisterAddExtentHandler R M s h))"
| built_DelExtent: "M \<in> Ms \<Longrightarrow> built_server R Ms s \<Longrightarrow> built_server R Ms (snd (RegisterDelExtentHandler R M s h))"
| built_SealExtent: "M \<in> Ms \<Longrightarrow> built_server R Ms s \<Longrightarrow> built_server R Ms (snd (RegisterSealExtentHandler R M s h))"
| built_ListExtents: "M \<in> Ms \<Longrightarrow> built_server R Ms s \<Longrightarrow> built_server R Ms (snd (RegisterListExtentsHandler R M s h))"
| built_WriteAt: "M \<in> Ms \<Longrightarrow> built_server R Ms s \<Longrightarrow> built_server R Ms (snd (RegisterWriteAtHandler R M s h))"
| built_ReadAt: "M \<in> Ms \<Longrightarrow> built_server R Ms s \<Longrightarrow> built_server R Ms (snd (RegisterReadAtHandler R M s h))"

lemmas Register_defs = RegisterAddDeviceHandler_def RegisterDelDeviceHandler_def RegisterAddExtentHandler_def
  RegisterDelExtentHandler_def RegisterSealExtentHandler_def RegisterListExtentsHandler_def
  RegisterWriteAtHandler_def RegisterReadAtHandler_def

lemma built_server_other_verbs:
  assumes "rpc_registry R" and "built_server R Ms srv" and "verb \<noteq> DATANODE_RPC_ADD_DEVICE"
  shows "rg_lookup R (rs_rpc srv) verb = None"
  using assms(2)
proof induction
  case built_new
  show ?case using rpc_registry.lookup_empty [OF assms(1)] by (simp add: new_RpcServer_def)
next
  case (built_ptr s)
  then show ?case by (simp add: RegisterServicePtr_def)
qed (simp_all add: DatanodeServer_RegisterServicePtr_def Register_defs rpc_registry.register_slot_other [OF assms(1,3)])

text \<open>Every handler of such a server looks at the C string of the request only.\<close>

lemma register_slot_handlers:
  "rs_handlers (snd (register_slot R m v s h)) = (rs_handlers s)(m \<mapsto> h)"
  by (simp add: register_slot_def Let_def split: option.split)

lemma c_string_idem [simp]: "c_string (c_string bs) = c_string bs"
  by (auto simp: c_string_def takeWhile_eq_all_conv dest: set_takeWhileD)

lemma rpc_handler_c_string: "rpc_handler M handler (c_string data) = rpc_handler M handler data"
  by (simp add: rpc_handler_def fun_eq_iff)

lemma built_handlers_c_string:
  assumes "built_server R Ms srv" and "rs_handlers srv m = Some h"
  shows "h (c_string data) = h data"
  using assms
proof (induction arbitrary: m h)
  case built_new
  then show ?case by (simp add: new_RpcServer_def)
next
  case (built_ptr s)
  then show ?case by (simp add: RegisterServicePtr_def)
qed (auto simp: DatanodeServer_RegisterServicePtr_def Register_defs register_slot_handlers rpc_handler_c_string split: if_splits)

lemma serve_c_string: "built_server R Ms srv \<Longrightarrow> serve R srv verb (c_string data) s = serve R srv verb data s"
  by (simp add: serve_def built_handlers_c_string split: option.split)

lemma c_string_cut: "c_string (p @ 0 # x) = c_string p"
  unfolding c_string_def by (induction p) simp_all

section \<open>Properties\<close>

text \<open>
  A string of less than 4 GB written by the serializer is read back in full, with the rest of
  the input left; a longer one is not: its size is cut to 32 bits, and so many bytes are read.
\<close>

theorem Serializer_roundtrip:
  "read_sstring P (write_sstring P [] val @ rest) =
    (let n = length val mod 2 ^ 32
     in Some (take n val, drop n val @ rest))"
  by (rule read_write_sstring)

text \<open>
  C32. A request is cut at its first zero byte: on every server the code can build, under every verb,
  two requests that agree up to a zero byte get the same reply and leave the same service state.
  Whatever a message carries behind a zero byte, the data of \<^verbatim>\<open>WriteAt\<close> for one, never arrives.
\<close>

theorem request_cut_at_NUL:
  assumes "built_server R Ms srv"
  shows "serve R srv verb (p @ 0 # x) s = serve R srv verb (p @ 0 # y) s"
proof -
  have "serve R srv verb (p @ 0 # z) s = serve R srv verb (c_string p) s" for z
    using serve_c_string [OF assms, of verb "p @ 0 # z" s] by (simp add: c_string_cut)
  then show ?thesis by simp
qed

text \<open>A message type of plain bytes: the response is its error code in one byte.\<close>

definition plain :: "(bytes, ErrorCode) message" where
  "plain = \<lparr>mg_serialize_request = id, mg_parse_request = id, mg_new_response = PANCAKE_STORE_OK,
     mg_set_error = (\<lambda>e _. e), mg_error = id,
     mg_serialize_response = (\<lambda>e. if e = PANCAKE_STORE_OK then [] else [1]),
     mg_parse_response = (\<lambda>bs. (True, if bs = [] then PANCAKE_STORE_OK else PANCAKE_STORE_CODE_ERROR))\<rparr>"

text \<open>A service that keeps the requests it was given.\<close>

definition recording :: "(bytes, ErrorCode, bytes list) service_handler" where
  "recording = (\<lambda>q r s. Return (PANCAKE_STORE_OK, r, s @ [q]))"

theorem request_cut_at_NUL_witness:
  "\<exists>srv. serve throwing srv DATANODE_RPC_ADD_DEVICE [7, 0, 8, 9] [] = Return (Some [], [[7]])
    \<and> serve throwing srv DATANODE_RPC_ADD_DEVICE [7, 0, 1] [] = Return (Some [], [[7 :: u8]])"
proof -
  define srv where "srv = snd (RegisterAddDeviceHandler throwing plain (new_RpcServer throwing) recording)"
  have built: "built_server throwing {plain} srv" unfolding srv_def by (intro built_AddDevice built_new) simp
  have first: "serve throwing srv DATANODE_RPC_ADD_DEVICE [7, 0, 8, 9] [] = Return (Some [], [[7]])"
    by (simp add: srv_def RegisterAddDeviceHandler_def register_slot_def Let_def throwing_def new_RpcServer_def serve_def
        rpc_handler_def recording_def plain_def c_string_def)
  moreover have "serve throwing srv DATANODE_RPC_ADD_DEVICE [7, 0, 1] [] = Return (Some [], [[7]])"
    using request_cut_at_NUL [OF built, of _ "[7]" "[8, 9]" _ "[1]"] first by simp
  ultimately show ?thesis by blast
qed

end
