(* ===== verification/Rpc_Caller.thy ===== *)
theory Rpc_Caller
  imports Rpc Codec
begin

text \<open>
  The callers of \<^verbatim>\<open>pkg/rpc_caller\<close> and the \<^verbatim>\<open>..._CALLER\<close> macros of \<^verbatim>\<open>rpc/datanode.h\<close>, and what
  they return when they call a server of \<^verbatim>\<open>rpc/datanode.cc\<close>. The connection is seastar's and a
  parameter, with the contract \<open>rpc_connection\<close>.
\<close>

section \<open>The callers\<close>

text \<open>
  Calling a verb on a client sends the bytes and waits for the reply; \<open>None\<close> is an exceptional
  future. \<open>'s\<close> is the state of whatever is at the other end.
\<close>

type_synonym 's invocation = "bytes \<Rightarrow> 's \<Rightarrow> (bytes option \<times> 's) outcome"

type_synonym ('c, 's) rpc_client = "'c \<Rightarrow> DatanodeRpc \<Rightarrow> 's invocation"

definition ADD_DEVICE_CALLER :: "('c, 's) rpc_client \<Rightarrow> 'c \<Rightarrow> 's invocation" where
  "ADD_DEVICE_CALLER rpc client = rpc client DATANODE_RPC_ADD_DEVICE"

definition DEL_DEVICE_CALLER :: "('c, 's) rpc_client \<Rightarrow> 'c \<Rightarrow> 's invocation" where
  "DEL_DEVICE_CALLER rpc client = rpc client DATANODE_RPC_DEL_DEVICE"

definition ADD_EXTENT_CALLER :: "('c, 's) rpc_client \<Rightarrow> 'c \<Rightarrow> 's invocation" where
  "ADD_EXTENT_CALLER rpc client = rpc client DATANODE_RPC_ADD_EXTENT"

definition DEL_EXTENT_CALLER :: "('c, 's) rpc_client \<Rightarrow> 'c \<Rightarrow> 's invocation" where
  "DEL_EXTENT_CALLER rpc client = rpc client DATANODE_RPC_DEL_EXTENT"

definition SEAL_EXTENT_CALLER :: "('c, 's) rpc_client \<Rightarrow> 'c \<Rightarrow> 's invocation" where
  "SEAL_EXTENT_CALLER rpc client = rpc client DATANODE_RPC_SEAL_EXTENT"

definition LIST_EXTENTS_CALLER :: "('c, 's) rpc_client \<Rightarrow> 'c \<Rightarrow> 's invocation" where
  "LIST_EXTENTS_CALLER rpc client = rpc client DATANODE_RPC_LIST_EXTENTS"

definition READ_AT_CALLER :: "('c, 's) rpc_client \<Rightarrow> 'c \<Rightarrow> 's invocation" where
  "READ_AT_CALLER rpc client = rpc client DATANODE_RPC_READ_AT"

definition WRITE_AT_CALLER :: "('c, 's) rpc_client \<Rightarrow> 'c \<Rightarrow> 's invocation" where
  "WRITE_AT_CALLER rpc client = rpc client DATANODE_RPC_WRITE_AT"

text \<open>
  An object of either class: its client, and whether \<^verbatim>\<open>Close\<close> has run to its end. The destructor of
  one that is not closed ends the process (\<open>False\<close>).
\<close>

record 'c RpcCaller =
  rc_client :: 'c
  rc_closed :: bool

definition new_RpcCaller :: "(bytes \<Rightarrow> u16 \<Rightarrow> 'c) \<Rightarrow> bytes \<Rightarrow> u16 \<Rightarrow> 'c RpcCaller" where
  "new_RpcCaller make_client ip port = \<lparr>rc_client = make_client ip port, rc_closed = False\<rparr>"

definition caller_Close :: "('c \<Rightarrow> bool) \<Rightarrow> 'c RpcCaller \<Rightarrow> bool \<times> 'c RpcCaller" where
  "caller_Close stop c = (if stop (rc_client c) then (True, c\<lparr>rc_closed := True\<rparr>) else (False, c))"

definition caller_destroy :: "'c RpcCaller \<Rightarrow> bool" where
  "caller_destroy c = (if \<not> rc_closed c then False else True)"

text \<open>\<^verbatim>\<open>DatanodeCaller\<close> has the same statements of its own.\<close>

definition new_DatanodeCaller :: "(bytes \<Rightarrow> u16 \<Rightarrow> 'c) \<Rightarrow> bytes \<Rightarrow> u16 \<Rightarrow> 'c RpcCaller" where
  "new_DatanodeCaller make_client ip port = \<lparr>rc_client = make_client ip port, rc_closed = False\<rparr>"

definition DatanodeCaller_Close :: "('c \<Rightarrow> bool) \<Rightarrow> 'c RpcCaller \<Rightarrow> bool \<times> 'c RpcCaller" where
  "DatanodeCaller_Close stop c = (if stop (rc_client c) then (True, c\<lparr>rc_closed := True\<rparr>) else (False, c))"

definition DatanodeCaller_destroy :: "'c RpcCaller \<Rightarrow> bool" where
  "DatanodeCaller_destroy c = (if \<not> rc_closed c then False else True)"

text \<open>A caller can be destroyed after a \<^verbatim>\<open>Close\<close> that ran to its end, and only then.\<close>

inductive caller_closing :: "('c \<Rightarrow> bool) \<Rightarrow> 'c RpcCaller \<Rightarrow> bool list \<Rightarrow> 'c RpcCaller \<Rightarrow> bool" for stop :: "'c \<Rightarrow> bool" where
  closing_none: "caller_closing stop c [] c"
| closing_Close: "caller_closing stop c oks c' \<Longrightarrow> DatanodeCaller_Close stop c' = (ok, c'') \<Longrightarrow>
    caller_closing stop c (oks @ [ok]) c''"

lemma DatanodeCaller_destroy_iff:
  assumes "caller_closing stop (new_DatanodeCaller make_client ip port) oks c"
  shows "DatanodeCaller_destroy c \<longleftrightarrow> True \<in> set oks"
  using assms
  by (induction "new_DatanodeCaller make_client ip port" oks c rule: caller_closing.induct)
    (auto simp: DatanodeCaller_destroy_def DatanodeCaller_Close_def new_DatanodeCaller_def split: if_splits)

text \<open>
  The body of every method. The result of \<^verbatim>\<open>ParseFromString\<close> is a \<^verbatim>\<open>bool\<close>, true on success,
  and \<^verbatim>\<open>ret != 0\<close> holds when it is true.
\<close>

definition rpc_call :: "'s invocation \<Rightarrow> ('q, 'r) message \<Rightarrow> 'q \<Rightarrow> 'r \<Rightarrow> 's \<Rightarrow> (ErrorCode \<times> 'r \<times> 's) outcome" where
  "rpc_call caller M request response s =
    outcome_bind (caller (mg_serialize_request M request) s) (\<lambda>(answer, s). Return
      (case answer of
         None \<Rightarrow> (RPC_CALLER_INVOKE_FAILED, response, s)
       | Some resp_str \<Rightarrow>
           let (ret, response) = mg_parse_response M resp_str
           in if of_bool ret \<noteq> (0 :: int) then (RPC_CALLER_RESPONSE_PARSE_FAILED, response, s)
              else (mg_error M response, response, s)))"

type_synonym ('c, 'q, 'r, 's) caller_method =
  "('c, 's) rpc_client \<Rightarrow> ('q, 'r) message \<Rightarrow> 'c RpcCaller \<Rightarrow> 'q \<Rightarrow> 'r \<Rightarrow> 's \<Rightarrow> (ErrorCode \<times> 'r \<times> 's) outcome"

definition DatanodeManagerCaller_AddDevice :: "('c, 'q, 'r, 's) caller_method" where
  "DatanodeManagerCaller_AddDevice rpc M c = rpc_call (ADD_DEVICE_CALLER rpc (rc_client c)) M"

definition DatanodeManagerCaller_DelDevice :: "('c, 'q, 'r, 's) caller_method" where
  "DatanodeManagerCaller_DelDevice rpc M c = rpc_call (DEL_DEVICE_CALLER rpc (rc_client c)) M"

definition DatanodeCaller_AddExtent :: "('c, 'q, 'r, 's) caller_method" where
  "DatanodeCaller_AddExtent rpc M c = rpc_call (ADD_EXTENT_CALLER rpc (rc_client c)) M"

definition DatanodeCaller_DelExtent :: "('c, 'q, 'r, 's) caller_method" where
  "DatanodeCaller_DelExtent rpc M c = rpc_call (DEL_EXTENT_CALLER rpc (rc_client c)) M"

definition DatanodeCaller_SealExtent :: "('c, 'q, 'r, 's) caller_method" where
  "DatanodeCaller_SealExtent rpc M c = rpc_call (SEAL_EXTENT_CALLER rpc (rc_client c)) M"

definition DatanodeCaller_ListExtents :: "('c, 'q, 'r, 's) caller_method" where
  "DatanodeCaller_ListExtents rpc M c = rpc_call (LIST_EXTENTS_CALLER rpc (rc_client c)) M"

definition DatanodeCaller_ReadAt :: "('c, 'q, 'r, 's) caller_method" where
  "DatanodeCaller_ReadAt rpc M c = rpc_call (READ_AT_CALLER rpc (rc_client c)) M"

definition DatanodeCaller_WriteAt :: "('c, 'q, 'r, 's) caller_method" where
  "DatanodeCaller_WriteAt rpc M c = rpc_call (WRITE_AT_CALLER rpc (rc_client c)) M"

lemmas caller_defs = ADD_DEVICE_CALLER_def DatanodeManagerCaller_AddDevice_def
  DEL_DEVICE_CALLER_def DatanodeManagerCaller_DelDevice_def
  ADD_EXTENT_CALLER_def DatanodeCaller_AddExtent_def
  DEL_EXTENT_CALLER_def DatanodeCaller_DelExtent_def
  SEAL_EXTENT_CALLER_def DatanodeCaller_SealExtent_def
  LIST_EXTENTS_CALLER_def DatanodeCaller_ListExtents_def
  READ_AT_CALLER_def DatanodeCaller_ReadAt_def
  WRITE_AT_CALLER_def DatanodeCaller_WriteAt_def

text \<open>The methods with the verb each of them is written for.\<close>

definition datanode_callers :: "(DatanodeRpc \<times> ('c, 'q, 'r, 's) caller_method) list" where
  "datanode_callers =
    [(DATANODE_RPC_ADD_DEVICE, DatanodeManagerCaller_AddDevice),
     (DATANODE_RPC_DEL_DEVICE, DatanodeManagerCaller_DelDevice),
     (DATANODE_RPC_ADD_EXTENT, DatanodeCaller_AddExtent),
     (DATANODE_RPC_DEL_EXTENT, DatanodeCaller_DelExtent),
     (DATANODE_RPC_SEAL_EXTENT, DatanodeCaller_SealExtent),
     (DATANODE_RPC_LIST_EXTENTS, DatanodeCaller_ListExtents),
     (DATANODE_RPC_READ_AT, DatanodeCaller_ReadAt),
     (DATANODE_RPC_WRITE_AT, DatanodeCaller_WriteAt)]"

lemma datanode_callers_eq: "(verb, f) \<in> set datanode_callers \<Longrightarrow> f rpc M c = rpc_call (rpc (rc_client c) verb) M"
  by (auto simp: datanode_callers_def caller_defs)

section \<open>The connection\<close>

text \<open>
  What the callers rely on: calling a verb for which the table of the server has no handler ends in
  an exception and runs nothing there.
\<close>

locale rpc_connection = rpc_registry R
  for R :: "'t registry" +
  fixes srv :: "('t, 's rpc_lambda) RpcServer" and rpc :: "('c, 's) rpc_client"
  assumes no_handler: "rg_lookup R (rs_rpc srv) verb = None \<Longrightarrow> rpc client verb data s = Return (None, s)"
begin

lemma other_verb:
  assumes "built_server R Ms srv" and "verb \<noteq> DATANODE_RPC_ADD_DEVICE"
  shows "rpc_call (rpc client verb) M request response s = Return (RPC_CALLER_INVOKE_FAILED, response, s)"
  using no_handler [OF built_server_other_verbs [OF rpc_registry_axioms assms]] by (simp add: rpc_call_def)

end

text \<open>
  A connection that keeps the contract, for the witnesses: a string is written by the serializer at one
  end and read at the other, a call carries the request there and the reply back.
\<close>

definition transmit :: "platform \<Rightarrow> bytes \<Rightarrow> bytes option" where
  "transmit P val = (case read_sstring P (write_sstring P [] val) of None \<Rightarrow> None | Some (s, _) \<Rightarrow> Some s)"

definition connected :: "platform \<Rightarrow> 't registry \<Rightarrow> ('t, 's rpc_lambda) RpcServer \<Rightarrow> ('c, 's) rpc_client" where
  "connected P R srv client verb data s =
    (case transmit P data of
       None \<Rightarrow> Return (None, s)
     | Some request \<Rightarrow> outcome_bind (serve R srv verb request s) (\<lambda>(reply, s).
         Return (case reply of None \<Rightarrow> None | Some r \<Rightarrow> transmit P r, s)))"

interpretation connected: rpc_connection throwing srv "connected P throwing srv" for P srv
  by unfold_locales (simp add: connected_def serve_def split: option.split)

text \<open>What a caller makes of the answer, whatever the connection.\<close>

lemma rpc_call_answer:
  assumes "rpc_call caller M request response s = Return (e, response', s')"
  obtains answer where "caller (mg_serialize_request M request) s = Return (answer, s')"
    and "answer = None \<Longrightarrow> e = RPC_CALLER_INVOKE_FAILED \<and> response' = response"
    and "\<And>reply. answer = Some reply \<Longrightarrow> response' = snd (mg_parse_response M reply)
      \<and> e = (if fst (mg_parse_response M reply) then RPC_CALLER_RESPONSE_PARSE_FAILED else mg_error M response')"
proof -
  from assms obtain answer s1 where answer: "caller (mg_serialize_request M request) s = Return (answer, s1)"
    by (auto simp: rpc_call_def outcome_bind_Return_iff)
  show thesis
  proof (cases answer)
    case None
    then show thesis using assms answer that [of None] by (simp add: rpc_call_def)
  next
    case (Some reply)
    then show thesis
      using assms answer that [of answer] by (cases "mg_parse_response M reply") (auto simp: rpc_call_def split: if_splits)
  qed
qed

section \<open>Properties\<close>

text \<open>
  C34. No call gets through. On a server built by any sequence of its \<^verbatim>\<open>Register\<close> methods, in a
  table that keeps the verbs apart, every verb but \<^verbatim>\<open>ADD_DEVICE\<close> is without a handler (all methods
  register under that one), so over any connection on which such a verb ends in an exception the caller written
  for it reports a failed invocation and leaves the response and the service alone. And a caller of any verb reports a
  parse failure for every reply that \<^emph>\<open>does\<close> parse, so it can only report OK for one that does not.
\<close>

theorem no_call_succeeds:
  assumes "rpc_connection R srv rpc" and "built_server R Ms srv" and "(verb, f) \<in> set datanode_callers"
    and "f rpc M c request response s = Return (e, response', s')"
  shows "(verb \<noteq> DATANODE_RPC_ADD_DEVICE \<longrightarrow> e = RPC_CALLER_INVOKE_FAILED \<and> response' = response \<and> s' = s)
    \<and> (rpc (rc_client c) verb (mg_serialize_request M request) s = Return (Some reply, s')
        \<and> fst (mg_parse_response M reply) \<longrightarrow> e = RPC_CALLER_RESPONSE_PARSE_FAILED)
    \<and> (e = PANCAKE_STORE_OK \<longrightarrow> (\<exists>reply. mg_parse_response M reply = (False, response')))"
proof -
  have call: "rpc_call (rpc (rc_client c) verb) M request response s = Return (e, response', s')"
    using assms(4) by (simp add: datanode_callers_eq [OF assms(3)])
  then obtain answer where answer: "rpc (rc_client c) verb (mg_serialize_request M request) s = Return (answer, s')"
    and none: "answer = None \<Longrightarrow> e = RPC_CALLER_INVOKE_FAILED \<and> response' = response"
    and some: "\<And>reply. answer = Some reply \<Longrightarrow> response' = snd (mg_parse_response M reply)
      \<and> e = (if fst (mg_parse_response M reply) then RPC_CALLER_RESPONSE_PARSE_FAILED else mg_error M response')"
    by (rule rpc_call_answer) blast
  have "\<exists>reply. mg_parse_response M reply = (False, response')" if "e = PANCAKE_STORE_OK"
    using that none some by (cases answer) (auto simp: prod_eq_iff split: if_splits)
  then show ?thesis
    using rpc_connection.other_verb [OF assms(1,2), of verb "rc_client c" M request response s] call answer some by auto
qed

theorem no_call_succeeds_witness:
  "\<exists>srv. DatanodeManagerCaller_DelDevice (connected (x86_host True) throwing srv) plain (new_RpcCaller (\<lambda>_ _. ()) [] 8888)
      [7] PANCAKE_STORE_OK [] = Return (RPC_CALLER_INVOKE_FAILED, PANCAKE_STORE_OK, [] :: bytes list)"
proof -
  let ?P = "x86_host True" and ?c = "new_RpcCaller (\<lambda>_ _. ()) [] 8888"
  define srv where "srv = snd (RegisterDelDeviceHandler throwing plain
    (snd (RegisterAddDeviceHandler throwing plain (new_RpcServer throwing) recording)) recording)"
  have built: "built_server throwing {plain} srv" unfolding srv_def by (intro built_DelDevice built_AddDevice built_new) simp_all
  have caller: "(DATANODE_RPC_DEL_DEVICE, DatanodeManagerCaller_DelDevice) \<in> set datanode_callers"
    by (simp add: datanode_callers_def)
  obtain e r s where call: "DatanodeManagerCaller_DelDevice (connected ?P throwing srv) plain ?c [7] PANCAKE_STORE_OK [] = Return (e, r, s)"
    using connected.other_verb [OF built, of DATANODE_RPC_DEL_DEVICE ?P "()"] unfolding caller_defs new_RpcCaller_def by fastforce
  have "e = RPC_CALLER_INVOKE_FAILED \<and> r = PANCAKE_STORE_OK \<and> s = []"
    using no_call_succeeds [OF connected.rpc_connection_axioms built caller, OF call, THEN conjunct1] by simp
  with call show ?thesis by blast
qed

end
