(* ===== verification/Manager_Service.thy ===== *)
theory Manager_Service
  imports Rpc_Caller Config
begin

text \<open>
  \<^verbatim>\<open>ManagerService\<close> of \<^verbatim>\<open>datanode/service/manager_service.h/.cc\<close>: the handlers of the device
  RPCs and the registration \<^verbatim>\<open>Start\<close> makes. The message types are those of
  \<^verbatim>\<open>proto/common.proto\<close> and \<^verbatim>\<open>proto/datanode_rpc.proto\<close>; their generated serialisers are parameters.
\<close>

section \<open>The messages\<close>

record RequestCommon =
  rq_request_source :: bytes
  rq_request_id :: bytes
  rq_timeout_ms :: u32
  rq_cluster_id :: bytes

record ResponseCommon =
  rp_error_code :: ErrorCode
  rp_error_message :: bytes

record AddDeviceRequest =
  ad_request_common :: RequestCommon
  ad_datanode_id :: bytes
  ad_disk_id :: u64

record DelDeviceRequest =
  dd_request_common :: RequestCommon
  dd_datanode_id :: bytes
  dd_disk_id :: u64

record AddDeviceResponse =
  ar_response_common :: ResponseCommon
  ar_total_size :: u64

record DelDeviceResponse =
  dr_response_common :: ResponseCommon

text \<open>A new message has the default value of every field.\<close>

definition new_RequestCommon :: RequestCommon where
  "new_RequestCommon = \<lparr>rq_request_source = [], rq_request_id = [], rq_timeout_ms = 0, rq_cluster_id = []\<rparr>"

definition new_ResponseCommon :: ResponseCommon where
  "new_ResponseCommon = \<lparr>rp_error_code = PANCAKE_STORE_OK, rp_error_message = []\<rparr>"

definition new_AddDeviceRequest :: AddDeviceRequest where
  "new_AddDeviceRequest = \<lparr>ad_request_common = new_RequestCommon, ad_datanode_id = [], ad_disk_id = 0\<rparr>"

definition new_AddDeviceResponse :: AddDeviceResponse where
  "new_AddDeviceResponse = \<lparr>ar_response_common = new_ResponseCommon, ar_total_size = 0\<rparr>"

definition new_DelDeviceResponse :: DelDeviceResponse where
  "new_DelDeviceResponse = \<lparr>dr_response_common = new_ResponseCommon\<rparr>"

text \<open>
  The message classes as the RPC layer uses them, given their serialisers and parsers:
  \<^verbatim>\<open>mutable_response_common()->set_error_code(...)\<close> and \<^verbatim>\<open>response_common().error_code()\<close>.
\<close>

definition add_device_message :: "(AddDeviceRequest \<Rightarrow> bytes) \<Rightarrow> (bytes \<Rightarrow> AddDeviceRequest)
    \<Rightarrow> (AddDeviceResponse \<Rightarrow> bytes) \<Rightarrow> (bytes \<Rightarrow> bool \<times> AddDeviceResponse) \<Rightarrow> (AddDeviceRequest, AddDeviceResponse) message" where
  "add_device_message ser_q parse_q ser_r parse_r = \<lparr>mg_serialize_request = ser_q, mg_parse_request = parse_q,
     mg_new_response = new_AddDeviceResponse,
     mg_set_error = (\<lambda>e r. r\<lparr>ar_response_common := (ar_response_common r)\<lparr>rp_error_code := e\<rparr>\<rparr>),
     mg_error = (\<lambda>r. rp_error_code (ar_response_common r)),
     mg_serialize_response = ser_r, mg_parse_response = parse_r\<rparr>"

definition del_device_message :: "(DelDeviceRequest \<Rightarrow> bytes) \<Rightarrow> (bytes \<Rightarrow> DelDeviceRequest)
    \<Rightarrow> (DelDeviceResponse \<Rightarrow> bytes) \<Rightarrow> (bytes \<Rightarrow> bool \<times> DelDeviceResponse) \<Rightarrow> (DelDeviceRequest, DelDeviceResponse) message" where
  "del_device_message ser_q parse_q ser_r parse_r = \<lparr>mg_serialize_request = ser_q, mg_parse_request = parse_q,
     mg_new_response = new_DelDeviceResponse,
     mg_set_error = (\<lambda>e r. r\<lparr>dr_response_common := (dr_response_common r)\<lparr>rp_error_code := e\<rparr>\<rparr>),
     mg_error = (\<lambda>r. rp_error_code (dr_response_common r)),
     mg_serialize_response = ser_r, mg_parse_response = parse_r\<rparr>"

section \<open>The service\<close>

text \<open>The devices the manager serves; the services themselves are never built.\<close>

record ManagerService =
  ms_data_services :: "u64 list"

definition new_ManagerService :: ManagerService where
  "new_ManagerService = \<lparr>ms_data_services = []\<rparr>"

definition main_worker_cpu_id :: nat where
  "main_worker_cpu_id = 0"

text \<open>\<open>shard\<close> is \<^verbatim>\<open>seastar::this_shard_id()\<close>; the response is not touched.\<close>

definition addDevice :: "platform \<Rightarrow> nat \<Rightarrow> Config \<Rightarrow> AddDeviceRequest \<Rightarrow> AddDeviceResponse \<Rightarrow> ManagerService
    \<Rightarrow> (ErrorCode \<times> AddDeviceResponse \<times> ManagerService) outcome" where
  "addDevice P shard cfg request response m =
    cpp_assert P (shard = main_worker_cpu_id)
      (if rq_cluster_id (ad_request_common request) \<noteq> ClusterId cfg
       then Return (PANCAKE_STORE_CLUSTER_ID_NOT_MATCH, response, m)
       else if ad_datanode_id request \<noteq> DatanodeId cfg
       then Return (DATANODE_SERVICE_DATANODE_ID_NOT_MATCH, response, m)
       else if ad_disk_id request = 0
       then Return (DATANODE_SERVICE_REQUEST_ARGUMENT_INVALID, response, m)
       else if ad_disk_id request \<in> set (ms_data_services m)
       then Return (PANCAKE_STORE_CLUSTER_ID_NOT_MATCH, response, m)
       else Return (PANCAKE_STORE_OK, response, m))"

definition delDevice :: "platform \<Rightarrow> nat \<Rightarrow> DelDeviceRequest \<Rightarrow> DelDeviceResponse \<Rightarrow> ManagerService
    \<Rightarrow> (ErrorCode \<times> DelDeviceResponse \<times> ManagerService) outcome" where
  "delDevice P shard request response m =
    cpp_assert P (shard = main_worker_cpu_id) (Return (PANCAKE_STORE_OK, response, m))"

text \<open>
  \<^verbatim>\<open>Start\<close> up to the server it creates and keeps: the service pointer, then the two handlers; an
  exception of a registration leaves it.
\<close>

definition Start :: "platform \<Rightarrow> nat \<Rightarrow> 't registry \<Rightarrow> ('q, 'r) message \<Rightarrow> ('q2, 'r2) message
    \<Rightarrow> ('q, 'r, 's) service_handler \<Rightarrow> ('q2, 'r2, 's) service_handler
    \<Rightarrow> ('t, 's rpc_lambda) RpcServer \<Rightarrow> (bool \<times> ('t, 's rpc_lambda) RpcServer) outcome" where
  "Start P shard R M_add M_del add_device del_device rpc_server =
    cpp_assert P (shard = main_worker_cpu_id)
      (let rpc_server = RegisterServicePtr rpc_server;
           (ok, rpc_server) = RegisterAddDeviceHandler R M_add rpc_server add_device
       in Return (if \<not> ok then (False, rpc_server) else RegisterDelDeviceHandler R M_del rpc_server del_device))"

section \<open>Steps of the service\<close>

inductive service_step :: "platform \<Rightarrow> Config \<Rightarrow> ManagerService \<Rightarrow> ManagerService \<Rightarrow> bool" for P :: platform and cfg :: Config where
  step_addDevice: "addDevice P shard cfg request response m = Return (e, response', m') \<Longrightarrow> service_step P cfg m m'"
| step_delDevice: "delDevice P shard request response m = Return (e, response', m') \<Longrightarrow> service_step P cfg m m'"

inductive_cases service_stepE: "service_step P cfg m m'"

lemma service_step_same: "service_step P cfg m m' \<Longrightarrow> m' = m"
  by (auto elim!: service_stepE simp: addDevice_def delDevice_def cpp_assert_def split: if_splits)

lemma service_run_same: "(service_step P cfg)\<^sup>*\<^sup>* m m' \<Longrightarrow> m' = m"
  by (induction rule: rtranclp_induct) (simp_all add: service_step_same)

context exclusive_registry begin

text \<open>
  Both registrations of \<^verbatim>\<open>Start\<close> are made under one verb, so a table that takes one handler for a verb
  refuses the second.
\<close>

lemma Start_refused:
  obtains srv where "Start P main_worker_cpu_id R M_add M_del add del (new_RpcServer R) = Return (False, srv)"
    and "\<And>verb data s. serve R srv verb data s =
      (if verb = DATANODE_RPC_ADD_DEVICE
       then outcome_bind (rpc_handler M_add add data s) (\<lambda>(reply, s). Return (Some reply, s))
       else Return (None, s))"
proof -
  let ?s0 = "RegisterServicePtr (new_RpcServer R)"
  have empty: "rg_lookup R (rs_rpc ?s0) v = None" for v
    using lookup_empty by (simp add: RegisterServicePtr_def new_RpcServer_def)
  obtain s1 where s1: "register_slot R Slot_AddDevice DATANODE_RPC_ADD_DEVICE ?s0 (rpc_handler M_add add) = (True, s1)"
    and slots: "rs_handlers s1 = (rs_handlers ?s0)(Slot_AddDevice \<mapsto> rpc_handler M_add add)"
    and found: "rg_lookup R (rs_rpc s1) w = (if w = DATANODE_RPC_ADD_DEVICE then Some Slot_AddDevice else None)" for w
    by (rule register_slot_first [OF empty]) blast
  define srv where "srv = s1\<lparr>rs_handlers := (rs_handlers s1)(Slot_DelDevice \<mapsto> rpc_handler M_del del)\<rparr>"
  have "register_slot R Slot_DelDevice DATANODE_RPC_ADD_DEVICE s1 (rpc_handler M_del del) = (False, srv)"
    unfolding srv_def using found by (intro register_slot_taken) simp
  then have "Start P main_worker_cpu_id R M_add M_del add del (new_RpcServer R) = Return (False, srv)"
    using s1 by (simp add: Start_def cpp_assert_def Register_defs)
  then show thesis by (rule that) (simp add: serve_def srv_def found slots)
qed

end

section \<open>Properties\<close>

text \<open>
  C39. No device is ever registered: after any run of \<^verbatim>\<open>addDevice\<close> and \<^verbatim>\<open>delDevice\<close> the service
  has no device, and a request with the right identifiers and a disk id other than 0 is
  answered OK, however often the same disk was added before. The two identifiers and the disk id
  are checked in that order.
\<close>

theorem devices_never_registered:
  assumes "(service_step P cfg)\<^sup>*\<^sup>* new_ManagerService m" and "shard = 0"
  shows "ms_data_services m = [] \<and> addDevice P shard cfg request response m = Return
    (if rq_cluster_id (ad_request_common request) \<noteq> ClusterId cfg then PANCAKE_STORE_CLUSTER_ID_NOT_MATCH
     else if ad_datanode_id request \<noteq> DatanodeId cfg then DATANODE_SERVICE_DATANODE_ID_NOT_MATCH
     else if ad_disk_id request = 0 then DATANODE_SERVICE_REQUEST_ARGUMENT_INVALID
     else PANCAKE_STORE_OK, response, m)"
proof -
  have "m = new_ManagerService" using service_run_same [OF assms(1)] .
  then show ?thesis using assms(2) by (simp add: addDevice_def main_worker_cpu_id_def new_ManagerService_def)
qed

definition disk_5 :: AddDeviceRequest where
  "disk_5 = new_AddDeviceRequest\<lparr>ad_disk_id := 5\<rparr>"

theorem devices_never_registered_witness:
  "\<exists>m r. addDevice (x86_host False) 0 new_Config disk_5 r new_ManagerService = Return (PANCAKE_STORE_OK, r, m)
    \<and> addDevice (x86_host False) 0 new_Config disk_5 r m = Return (PANCAKE_STORE_OK, r, m)"
proof -
  fix r
  have first: "addDevice (x86_host False) 0 new_Config disk_5 r new_ManagerService = Return (PANCAKE_STORE_OK, r, new_ManagerService)"
    by (simp add: addDevice_def main_worker_cpu_id_def new_ManagerService_def disk_5_def new_Config_def Config_getters new_AddDeviceRequest_def new_RequestCommon_def)
  then have "(service_step (x86_host False) new_Config)\<^sup>*\<^sup>* new_ManagerService new_ManagerService"
    by (intro r_into_rtranclp) (rule step_addDevice)
  from devices_never_registered [OF this refl, of disk_5 r]
  have "addDevice (x86_host False) 0 new_Config disk_5 r new_ManagerService = Return (PANCAKE_STORE_OK, r, new_ManagerService)"
    by (simp add: disk_5_def new_Config_def Config_getters new_AddDeviceRequest_def new_RequestCommon_def)
  with first show ?thesis by blast
qed

text \<open>
  C40. \<^verbatim>\<open>Start\<close> always leaves with an exception when the handler table takes one handler for a verb,
  as seastar's does: both registrations are made under \<^verbatim>\<open>ADD_DEVICE\<close>, so the second throws and the
  server that would listen is never created. The table it leaves behind has the handler of
  \<^verbatim>\<open>addDevice\<close> under that verb, and nothing under any other.
\<close>

theorem Start_throws:
  assumes "exclusive_registry R" and "shard = 0"
  shows "\<exists>srv. Start P shard R M_add M_del add del (new_RpcServer R) = Return (False, srv)
    \<and> (\<forall>verb data s. serve R srv verb data s =
        (if verb = DATANODE_RPC_ADD_DEVICE
         then outcome_bind (rpc_handler M_add add data s) (\<lambda>(reply, s). Return (Some reply, s))
         else Return (None, s)))"
  using exclusive_registry.Start_refused [OF assms(1), of P M_add M_del add del] assms(2)
  unfolding main_worker_cpu_id_def by metis

theorem Start_throws_witness:
  "\<exists>srv. Start (x86_host False) 0 throwing plain plain recording recording (new_RpcServer throwing) = Return (False, srv)
    \<and> serve throwing srv DATANODE_RPC_DEL_DEVICE [1] [] = Return (None, [])"
proof -
  from Start_throws [OF throwing.exclusive_registry_axioms refl, of "x86_host False" plain plain recording recording]
  obtain srv where "Start (x86_host False) 0 throwing plain plain recording recording (new_RpcServer throwing) = Return (False, srv)"
    and "\<And>verb data s. serve throwing srv verb data s =
      (if verb = DATANODE_RPC_ADD_DEVICE
       then outcome_bind (rpc_handler plain recording data s) (\<lambda>(reply, s). Return (Some reply, s)) else Return (None, s))"
    by blast
  then show ?thesis by auto
qed

end
