(* ===== verification/Extent_Messages.thy ===== *)
theory Extent_Messages
  imports Manager_Service
begin

text \<open>
  The messages of \<^verbatim>\<open>proto/extent.proto\<close> and the extent part of \<^verbatim>\<open>proto/datanode_rpc.proto\<close>, and
  \<^verbatim>\<open>DatanodeServer\<close> of \<^verbatim>\<open>rpc/datanode.h\<close> with the handler types it declares for them. What protobuf
  generates to write and parse a pair of messages is the parameter \<open>wire\<close>. An \<^verbatim>\<open>int64\<close> is its two's
  complement representation, a repeated field is a list.
\<close>

section \<open>Extents\<close>

datatype RedundantType = REDUNDANT_TYPE_UNKNOWN | REDUNDANT_TYPE_REP | REDUNDANT_TYPE_EC | REDUNDANT_TYPE_LRC

datatype ExtentStatus = EXTENT_STATUS_UNKNOWN | EXTENT_STATUS_RW | EXTENT_STATUS_SEALED
  | EXTENT_STATUS_MIGRATING | EXTENT_STATUS_CORRUPT

record RedundantInfo =
  ri_redundant_type :: RedundantType
  ri_rep_cnt :: u32
  ri_ec_data_cnt :: u32
  ri_ec_code_cnt :: u32
  ri_ec_strip_size :: u32

record ShardInfo =
  si_shard_id :: u32
  si_extent_id :: u64
  si_datanode_id :: bytes
  si_disk_id :: u32
  si_ip :: u32
  si_port :: u32
  si_shard_size :: u32
  si_seal_length :: u32

record ExtentInfo =
  ei_extent_id :: u64
  ei_redundant_info :: RedundantInfo
  ei_extent_size :: u32
  ei_status :: ExtentStatus
  ei_infos :: "ShardInfo list"
  ei_seal_length :: u32
  ei_report_time :: u64
  ei_modify_time :: u64
  ei_last_sealed_time :: u64

section \<open>Requests and responses\<close>

record AddExtentRequest =
  aeq_request_common :: RequestCommon
  aeq_datanode_id :: bytes
  aeq_disk_id :: u64
  aeq_extent_id :: u64
  aeq_shard_id :: u32
  aeq_redundant_type :: RedundantType
  aeq_shard_size :: u32

record AddExtentResponse =
  aer_response_common :: ResponseCommon

record DelExtentRequest =
  deq_request_common :: RequestCommon
  deq_datanode_id :: bytes
  deq_disk_id :: u64
  deq_extent_id :: u64
  deq_shard_id :: u32

record DelExtentResponse =
  der_response_common :: ResponseCommon

record SealExtentRequest =
  seq_reuqest_common :: RequestCommon
  seq_datanode_id :: bytes
  seq_disk_id :: u64
  seq_extent_id :: u64
  seq_shard_id :: u32

record SealExtentResponse =
  ser_response_common :: ResponseCommon
  ser_shard_id :: u32
  ser_sealed_length :: u32

record ListExtentsRequest =
  leq_request_common :: RequestCommon
  leq_datanode_id :: bytes
  leq_disk_id :: u64
  leq_start_extent_id :: u64
  leq_count :: u64

record ListExtentsResponse =
  ler_response_common :: ResponseCommon
  ler_shard_infos :: "ShardInfo list"

record WriteAtRequest =
  waq_request_common :: RequestCommon
  waq_extent_id :: u64
  waq_session_id :: u64
  waq_shard_id :: u32
  waq_data :: bytes
  waq_offset :: u32

record WriteAtResponse =
  war_response_common :: ResponseCommon

record ReadAtRequest =
  raq_request_common :: RequestCommon
  raq_extent_id :: u64
  raq_shard_id :: u32
  raq_offset :: u32
  raq_length :: u32

record ReadAtResponse =
  rar_response_common :: ResponseCommon
  rar_data :: bytes

text \<open>New responses, every field with its default value.\<close>

definition new_AddExtentResponse :: AddExtentResponse where
  "new_AddExtentResponse = \<lparr>aer_response_common = new_ResponseCommon\<rparr>"

definition new_DelExtentResponse :: DelExtentResponse where
  "new_DelExtentResponse = \<lparr>der_response_common = new_ResponseCommon\<rparr>"

definition new_SealExtentResponse :: SealExtentResponse where
  "new_SealExtentResponse = \<lparr>ser_response_common = new_ResponseCommon, ser_shard_id = 0, ser_sealed_length = 0\<rparr>"

definition new_ListExtentsResponse :: ListExtentsResponse where
  "new_ListExtentsResponse = \<lparr>ler_response_common = new_ResponseCommon, ler_shard_infos = []\<rparr>"

definition new_WriteAtResponse :: WriteAtResponse where
  "new_WriteAtResponse = \<lparr>war_response_common = new_ResponseCommon\<rparr>"

definition new_ReadAtResponse :: ReadAtResponse where
  "new_ReadAtResponse = \<lparr>rar_response_common = new_ResponseCommon, rar_data = []\<rparr>"

section \<open>The message classes as the RPC layer uses them\<close>

record ('q, 'r) wire =
  wr_serialize_request :: "'q \<Rightarrow> bytes"
  wr_parse_request :: "bytes \<Rightarrow> 'q"
  wr_serialize_response :: "'r \<Rightarrow> bytes"
  wr_parse_response :: "bytes \<Rightarrow> bool \<times> 'r"

text \<open>
  A pair of classes whose responses have the part \<^verbatim>\<open>response_common\<close>: \<open>update\<close> is what
  \<^verbatim>\<open>mutable_response_common()\<close> gives access to, \<open>common\<close> is \<^verbatim>\<open>response_common()\<close>.
\<close>

definition wire_message :: "('q, 'r) wire \<Rightarrow> 'r \<Rightarrow> ((ResponseCommon \<Rightarrow> ResponseCommon) \<Rightarrow> 'r \<Rightarrow> 'r)
    \<Rightarrow> ('r \<Rightarrow> ResponseCommon) \<Rightarrow> ('q, 'r) message" where
  "wire_message W new update common = \<lparr>mg_serialize_request = wr_serialize_request W,
     mg_parse_request = wr_parse_request W, mg_new_response = new,
     mg_set_error = (\<lambda>e. update (\<lambda>c. c\<lparr>rp_error_code := e\<rparr>)), mg_error = (\<lambda>r. rp_error_code (common r)),
     mg_serialize_response = wr_serialize_response W, mg_parse_response = wr_parse_response W\<rparr>"

definition add_extent_message :: "(AddExtentRequest, AddExtentResponse) wire \<Rightarrow> (AddExtentRequest, AddExtentResponse) message" where
  "add_extent_message W = wire_message W new_AddExtentResponse aer_response_common_update aer_response_common"

definition del_extent_message :: "(DelExtentRequest, DelExtentResponse) wire \<Rightarrow> (DelExtentRequest, DelExtentResponse) message" where
  "del_extent_message W = wire_message W new_DelExtentResponse der_response_common_update der_response_common"

definition seal_extent_message :: "(SealExtentRequest, SealExtentResponse) wire \<Rightarrow> (SealExtentRequest, SealExtentResponse) message" where
  "seal_extent_message W = wire_message W new_SealExtentResponse ser_response_common_update ser_response_common"

definition list_extents_message :: "(ListExtentsRequest, ListExtentsResponse) wire \<Rightarrow> (ListExtentsRequest, ListExtentsResponse) message" where
  "list_extents_message W = wire_message W new_ListExtentsResponse ler_response_common_update ler_response_common"

definition write_at_message :: "(WriteAtRequest, WriteAtResponse) wire \<Rightarrow> (WriteAtRequest, WriteAtResponse) message" where
  "write_at_message W = wire_message W new_WriteAtResponse war_response_common_update war_response_common"

definition read_at_message :: "(ReadAtRequest, ReadAtResponse) wire \<Rightarrow> (ReadAtRequest, ReadAtResponse) message" where
  "read_at_message W = wire_message W new_ReadAtResponse rar_response_common_update rar_response_common"

section \<open>The server of extents\<close>

text \<open>
  One call of a \<^verbatim>\<open>Register\<close> method of \<^verbatim>\<open>DatanodeServer\<close>, with a handler of the type the method
  declares: the member it assigns, the lambda it registers, whether it returns.
\<close>

inductive extent_register :: "'t registry \<Rightarrow> ('t, 's rpc_lambda) RpcServer \<Rightarrow> slot \<Rightarrow> 's rpc_lambda
    \<Rightarrow> bool \<times> ('t, 's rpc_lambda) RpcServer \<Rightarrow> bool"
  for R :: "'t registry" and s :: "('t, 's rpc_lambda) RpcServer" where
  reg_AddExtent: "extent_register R s Slot_AddExtent (rpc_handler (add_extent_message W1) h1)
    (RegisterAddExtentHandler R (add_extent_message W1) s h1)"
| reg_DelExtent: "extent_register R s Slot_DelExtent (rpc_handler (del_extent_message W2) h2)
    (RegisterDelExtentHandler R (del_extent_message W2) s h2)"
| reg_SealExtent: "extent_register R s Slot_SealExtent (rpc_handler (seal_extent_message W3) h3)
    (RegisterSealExtentHandler R (seal_extent_message W3) s h3)"
| reg_ListExtents: "extent_register R s Slot_ListExtents (rpc_handler (list_extents_message W4) h4)
    (RegisterListExtentsHandler R (list_extents_message W4) s h4)"
| reg_WriteAt: "extent_register R s Slot_WriteAt (rpc_handler (write_at_message W5) h5)
    (RegisterWriteAtHandler R (write_at_message W5) s h5)"
| reg_ReadAt: "extent_register R s Slot_ReadAt (rpc_handler (read_at_message W6) h6)
    (RegisterReadAtHandler R (read_at_message W6) s h6)"

lemma extent_register_slot:
  "extent_register R s m l res \<Longrightarrow> res = register_slot R m DATANODE_RPC_ADD_DEVICE s l"
  by (induction rule: extent_register.induct) (simp_all add: Register_defs)

text \<open>What a server does that has one entry in its table.\<close>

definition serves_only :: "'t registry \<Rightarrow> ('t, 's rpc_lambda) RpcServer \<Rightarrow> DatanodeRpc \<Rightarrow> 's rpc_lambda \<Rightarrow> bool" where
  "serves_only R srv verb l \<longleftrightarrow> (\<forall>v data s. serve R srv v data s =
     (if v = verb then outcome_bind (l data s) (\<lambda>(reply, s). Return (Some reply, s)) else Return (None, s)))"

lemma serves_only_entry:
  assumes "\<And>w. rg_lookup R (rs_rpc srv) w = (if w = verb then Some m else None)" and "rs_handlers srv m = Some l"
  shows "serves_only R srv verb l"
  using assms by (simp add: serves_only_def serve_def)

text \<open>
  C31. A server of extents serves devices. On a fresh \<^verbatim>\<open>DatanodeServer\<close>, with a table that takes one
  handler for a verb, the first \<^verbatim>\<open>Register\<close> method returns, and its handler is run for \<^verbatim>\<open>ADD_DEVICE\<close>,
  on the bytes of a request of another type; no extent verb has a handler. Every later registration
  throws, and yet it replaces the handler of \<^verbatim>\<open>ADD_DEVICE\<close> if it is made by the same method, because
  the member is assigned first; otherwise it changes nothing a caller can see.
\<close>

theorem DatanodeServer_serves_devices:
  assumes "exclusive_registry R"
    and "extent_register R (DatanodeServer_RegisterServicePtr (new_RpcServer R)) m l (ok, srv)"
    and "extent_register R srv m' l' (ok', srv')"
  shows "ok \<and> serves_only R srv DATANODE_RPC_ADD_DEVICE l
    \<and> \<not> ok' \<and> serves_only R srv' DATANODE_RPC_ADD_DEVICE (if m' = m then l' else l)"
proof -
  let ?s0 = "DatanodeServer_RegisterServicePtr (new_RpcServer R)"
  have "rg_lookup R (rs_rpc ?s0) w = None" for w
    using rpc_registry.lookup_empty [OF exclusive_registry.axioms(1) [OF assms(1)]]
    by (simp add: DatanodeServer_RegisterServicePtr_def new_RpcServer_def)
  then obtain s1 where s1: "register_slot R m DATANODE_RPC_ADD_DEVICE ?s0 l = (True, s1)"
    and slots: "rs_handlers s1 = (rs_handlers ?s0)(m \<mapsto> l)"
    and entry: "\<And>w. rg_lookup R (rs_rpc s1) w = (if w = DATANODE_RPC_ADD_DEVICE then Some m else None)"
    by (rule exclusive_registry.register_slot_first [OF assms(1)]) blast
  have first: "ok" "srv = s1" using extent_register_slot [OF assms(2)] s1 by simp_all
  have "register_slot R m' DATANODE_RPC_ADD_DEVICE s1 l' = (False, s1\<lparr>rs_handlers := (rs_handlers s1)(m' \<mapsto> l')\<rparr>)"
    using entry by (intro exclusive_registry.register_slot_taken [OF assms(1)]) simp
  then have second: "\<not> ok'" "srv' = s1\<lparr>rs_handlers := (rs_handlers s1)(m' \<mapsto> l')\<rparr>"
    using extent_register_slot [OF assms(3)] first by simp_all
  show ?thesis
    using first second entry slots by (auto intro!: serves_only_entry)
qed

text \<open>A format with which \<^verbatim>\<open>WriteAt\<close> takes all it is given for data, and a service that appends it.\<close>

definition raw_write :: "(WriteAtRequest, WriteAtResponse) wire" where
  "raw_write = \<lparr>wr_serialize_request = waq_data,
     wr_parse_request = (\<lambda>bs. \<lparr>waq_request_common = new_RequestCommon, waq_extent_id = 0, waq_session_id = 0,
       waq_shard_id = 0, waq_data = bs, waq_offset = 0\<rparr>),
     wr_serialize_response = (\<lambda>_. []), wr_parse_response = (\<lambda>_. (True, new_WriteAtResponse))\<rparr>"

definition appending :: "(WriteAtRequest, WriteAtResponse, bytes) service_handler" where
  "appending = (\<lambda>q r s. Return (PANCAKE_STORE_OK, r, s @ waq_data q))"

theorem DatanodeServer_serves_devices_witness:
  "\<exists>srv. serve throwing srv DATANODE_RPC_ADD_DEVICE [1, 2] [9] = Return (Some [], [9, 1, 2 :: u8])
    \<and> serve throwing srv DATANODE_RPC_WRITE_AT [1, 2] [9] = Return (None, [9])"
proof -
  let ?s0 = "DatanodeServer_RegisterServicePtr (new_RpcServer throwing)" and ?M = "write_at_message raw_write"
  let ?l = "rpc_handler ?M appending"
  obtain ok srv where first: "RegisterWriteAtHandler throwing ?M ?s0 appending = (ok, srv)" by fastforce
  obtain ok' srv' where second: "RegisterWriteAtHandler throwing ?M srv appending = (ok', srv')" by fastforce
  have "serves_only throwing srv DATANODE_RPC_ADD_DEVICE ?l"
    using DatanodeServer_serves_devices [OF throwing.exclusive_registry_axioms
        reg_WriteAt [of throwing ?s0 raw_write appending, unfolded first]
        reg_WriteAt [of throwing srv raw_write appending, unfolded second]] by simp
  moreover have "?l [1, 2] [9] = Return ([], [9, 1, 2])"
    by (simp add: rpc_handler_def write_at_message_def wire_message_def raw_write_def appending_def c_string_def IsNotOk_def)
  ultimately show ?thesis by (intro exI [of _ srv]) (simp add: serves_only_def)
qed

end
