(* ===== verification/Engine.thy ===== *)
theory Engine
  imports Pancake Extent_Messages
begin

text \<open>
  \<^verbatim>\<open>AbstractEngine\<close> of \<^verbatim>\<open>engine.h\<close>, the interface a storage engine has for its callers, as the record of its
  operations on objects of type \<open>'e\<close>; \<^verbatim>\<open>Pancake\<close> as an engine; and what its \<^verbatim>\<open>MakeFS\<close> does to the engine.
\<close>

record 'e AbstractEngine =
  ae_MakeFS :: "'e \<Rightarrow> MakeFSRequest \<Rightarrow> MakeFSResponse \<Rightarrow> (ErrorCode \<times> 'e \<times> MakeFSResponse) outcome"
  ae_Mount :: "'e \<Rightarrow> MountRequest \<Rightarrow> MountResponse \<Rightarrow> (ErrorCode \<times> 'e \<times> MountResponse) outcome"
  ae_ReadAt :: "'e \<Rightarrow> u64 \<Rightarrow> u32 \<Rightarrow> u32 \<Rightarrow> (ErrorCode \<times> 'e) outcome"
  ae_WriteAt :: "'e \<Rightarrow> u64 \<Rightarrow> bytes \<Rightarrow> u32 \<Rightarrow> (ErrorCode \<times> 'e) outcome"
  ae_AddExtent :: "'e \<Rightarrow> ExtentInfo \<Rightarrow> (ErrorCode \<times> 'e) outcome"
  ae_DelExtent :: "'e \<Rightarrow> u64 \<Rightarrow> (ErrorCode \<times> 'e) outcome"
  ae_RecoverExtent :: "'e \<Rightarrow> u64 \<Rightarrow> (ErrorCode \<times> 'e) outcome"
  ae_GetFSType :: "'e \<Rightarrow> FSType outcome"
  ae_DeviceId :: "'e \<Rightarrow> u64 outcome"
  ae_DeviceUUID :: "'e \<Rightarrow> bytes outcome"
  ae_DevicePath :: "'e \<Rightarrow> bytes outcome"
  ae_GetTotalCapacity :: "'e \<Rightarrow> u64 outcome"
  ae_GetFreeCapacity :: "'e \<Rightarrow> u64 outcome"
  ae_GetUsedCapacity :: "'e \<Rightarrow> u64 outcome"
  ae_GetAllocateCapacity :: "'e \<Rightarrow> u64 outcome"

definition Pancake_engine :: "os \<Rightarrow> 'd file_api \<Rightarrow> 'd Pancake AbstractEngine" where
  "Pancake_engine S F = \<lparr>ae_MakeFS = MakeFS S F, ae_Mount = Mount,
     ae_ReadAt = Pancake_ReadAt, ae_WriteAt = Pancake_WriteAt,
     ae_AddExtent = Pancake_AddExtent, ae_DelExtent = Pancake_DelExtent, ae_RecoverExtent = RecoverExtent,
     ae_GetFSType = (\<lambda>pk. Return (GetFSType pk)), ae_DeviceId = (\<lambda>pk. Return (DeviceId pk)),
     ae_DeviceUUID = (\<lambda>pk. Return (DeviceUUID pk)), ae_DevicePath = (\<lambda>pk. Return (DevicePath pk)),
     ae_GetTotalCapacity = GetTotalCapacity, ae_GetFreeCapacity = GetFreeCapacity,
     ae_GetUsedCapacity = GetUsedCapacity, ae_GetAllocateCapacity = GetAllocateCapacity\<rparr>"

section \<open>Properties\<close>

text \<open>
  C38. What \<^verbatim>\<open>MakeFS\<close> leaves behind. Whenever a call through the interface returns, the response is the one it
  was given, and the engine is the one it was, or the one it was with a new capacity: the size the
  system reports for a raw device that is not mounted, and at least the minimum. After OK it is
  always this size. The id, the uuid and the path the engine answers do not become those
  of the device, and it gets no file.
\<close>

theorem MakeFS_records_only_capacity:
  assumes "ae_MakeFS (Pancake_engine S F) pk request response = Return (e, pk', response')"
  shows "response' = response
    \<and> (pk' = pk \<and> e \<noteq> PANCAKE_STORE_OK
      \<or> (\<exists>size. GetDeviceSize S (path_filename (mr_device_path request)) = (PANCAKE_STORE_OK, size) \<and> k_min_device_size \<le> size
          \<and> mr_fs_type request = FS_TYPE_PANCAKE_BY_RAW \<and> IsDeviceMounted S (mr_device_path request) = (PANCAKE_STORE_OK, False)
          \<and> pk' = pk\<lparr>pk_device_capacity := size\<rparr>))
    \<and> ae_DeviceId (Pancake_engine S F) pk' = ae_DeviceId (Pancake_engine S F) pk
    \<and> ae_DeviceUUID (Pancake_engine S F) pk' = ae_DeviceUUID (Pancake_engine S F) pk
    \<and> ae_DevicePath (Pancake_engine S F) pk' = ae_DevicePath (Pancake_engine S F) pk
    \<and> pk_pancake_io pk' = pk_pancake_io pk"
proof -
  have make: "MakeFS S F pk request response = Return (e, pk', response')" using assms by (simp add: Pancake_engine_def)
  have same: "response' = response" and kept: "pk' = pk \<and> e \<noteq> PANCAKE_STORE_OK
      \<or> (\<exists>size. GetDeviceSize S (path_filename (mr_device_path request)) = (PANCAKE_STORE_OK, size) \<and> k_min_device_size \<le> size
          \<and> mr_fs_type request = FS_TYPE_PANCAKE_BY_RAW \<and> IsDeviceMounted S (mr_device_path request) = (PANCAKE_STORE_OK, False)
          \<and> pk' = pk\<lparr>pk_device_capacity := size\<rparr>)"
    using make by (auto simp: MakeFS_def Let_def outcome_bind_Return_iff IsNotOk_def not_less prod_eq_iff
        split: if_splits prod.splits)
  from kept have "pk_device_id pk' = pk_device_id pk \<and> pk_device_uuid pk' = pk_device_uuid pk
    \<and> pk_device_path pk' = pk_device_path pk \<and> pk_pancake_io pk' = pk_pancake_io pk" by auto
  with same kept show ?thesis by (simp add: Pancake_engine_def DeviceId_def DeviceUUID_def DevicePath_def)
qed

text \<open>The engine after a device of more than 17 TB was formatted.\<close>

theorem MakeFS_records_only_capacity_witness:
  "\<exists>pk. ae_MakeFS (Pancake_engine big_disk sparse_file) new_Pancake format_sda blank_response
      = Return (PANCAKE_STORE_OK, pk, blank_response)
    \<and> pk_device_capacity pk = 17454747095008 \<and> ae_DevicePath (Pancake_engine big_disk sparse_file) pk = Return []"
proof -
  let ?pk = "new_Pancake\<lparr>pk_device_capacity := 17454747095008\<rparr> :: (nat \<Rightarrow> u8) Pancake"
  have make: "ae_MakeFS (Pancake_engine big_disk sparse_file) new_Pancake format_sda blank_response = Return (PANCAKE_STORE_OK, ?pk, blank_response)"
    by (simp add: Pancake_engine_def big_disk_MakeFS)
  have "ae_DevicePath (Pancake_engine big_disk sparse_file) (new_Pancake :: (nat \<Rightarrow> u8) Pancake) = Return []"
    by (simp add: Pancake_engine_def DevicePath_def new_Pancake_def)
  with MakeFS_records_only_capacity [OF make] make show ?thesis by (intro exI [of _ ?pk]) simp
qed

end
