(* ===== verification/Device_Rpc.thy ===== *)
theory Device_Rpc
  imports Manager_Service
begin

text \<open>
  The device RPCs at their two ends: the lambdas \<^verbatim>\<open>ManagerService::Start\<close> hands to the handler table, with the
  handlers of the service in them, and the test client of \<^verbatim>\<open>tools/client/main.cc\<close>, which makes one call.
\<close>

section \<open>The test client\<close>

text \<open>What the client prints about its call.\<close>

datatype client_result = Client_Exception | Client_Parse_Failed | Client_Response AddDeviceResponse

definition client_request :: AddDeviceRequest where
  "client_request = new_AddDeviceRequest\<lparr>ad_datanode_id := str ''abc'', ad_disk_id := 123\<rparr>"

definition client_main :: "('c, 's) rpc_client \<Rightarrow> (bytes \<Rightarrow> u16 \<Rightarrow> 'c) \<Rightarrow> (AddDeviceRequest, AddDeviceResponse) message
    \<Rightarrow> 's \<Rightarrow> (client_result \<times> 's) outcome" where
  "client_main rpc make_client M s =
    (let client = make_client (str ''127.0.0.1'') 8888;
         caller = ADD_DEVICE_CALLER rpc client;
         request = client_request
     in outcome_bind (caller (mg_serialize_request M request) s) (\<lambda>(answer, s). Return
          (case answer of
             None \<Rightarrow> Client_Exception
           | Some resp_str \<Rightarrow>
               let (ret, response) = mg_parse_response M resp_str
               in if of_bool ret \<noteq> (0 :: int) then Client_Parse_Failed else Client_Response response, s)))"

section \<open>Properties\<close>


text \<open>
  C33. The test client has nothing to hope for. Over any connection, it takes a reply that parses for a failure to
  parse, and prints a response only for a reply that does not parse. And its request is
  refused by every service whose configuration \<^verbatim>\<open>CheckConfig\<close> accepts: the client leaves the cluster id
  empty, which no accepted configuration does.
\<close>

theorem client_never_served:
  assumes "client_main rpc make_client M s = Return (result, s')" and "IsOk (CheckConfig pton cfg)"
  shows "(rpc (make_client (str ''127.0.0.1'') 8888) DATANODE_RPC_ADD_DEVICE (mg_serialize_request M client_request) s
        = Return (Some reply, s') \<and> fst (mg_parse_response M reply) \<longrightarrow> result = Client_Parse_Failed)
    \<and> (result = Client_Response response \<longrightarrow> (\<exists>reply. mg_parse_response M reply = (False, response)))
    \<and> addDevice P main_worker_cpu_id cfg client_request blank m = Return (PANCAKE_STORE_CLUSTER_ID_NOT_MATCH, blank, m)"
proof -
  obtain answer where "rpc (make_client (str ''127.0.0.1'') 8888) DATANODE_RPC_ADD_DEVICE (mg_serialize_request M client_request) s
      = Return (answer, s')"
    and "result = (case answer of None \<Rightarrow> Client_Exception | Some reply \<Rightarrow>
      let (ret, r) = mg_parse_response M reply in if of_bool ret \<noteq> (0 :: int) then Client_Parse_Failed else Client_Response r)"
    using assms(1) by (auto simp: client_main_def ADD_DEVICE_CALLER_def outcome_bind_Return_iff)
  moreover have "cf_cluster_id cfg \<noteq> []" using assms(2) by (auto simp: IsOk_def CheckConfig_def split: if_splits)
  then have "addDevice P main_worker_cpu_id cfg client_request blank m = Return (PANCAKE_STORE_CLUSTER_ID_NOT_MATCH, blank, m)"
    by (simp add: addDevice_def cpp_assert_def client_request_def new_AddDeviceRequest_def new_RequestCommon_def Config_getters)
  ultimately show ?thesis by (auto split: option.splits prod.splits if_splits)
qed

section \<open>Witnesses\<close>

text \<open>A configuration that is accepted, and a connection on which every call gets an empty reply.\<close>

definition good_config :: Config where
  "good_config = \<lparr>cf_datanode_id = str ''abc'', cf_datanode_ip = str ''127.0.0.1'', cf_cluster_id = str ''c'',
     cf_http_server_port = 8000, cf_manager_service_port = 8888, cf_data_service_port_min = 9000,
     cf_data_service_port_max = 9100\<rparr>"

definition echo :: "(unit, nat) rpc_client" where
  "echo = (\<lambda>_ _ _ s. Return (Some [], Suc s))"

theorem client_never_served_witness:
  "client_main echo (\<lambda>_ _. ()) (add_device_message (\<lambda>_. []) (\<lambda>_. new_AddDeviceRequest) (\<lambda>_. []) (\<lambda>_. (True, new_AddDeviceResponse))) 0
      = Return (Client_Parse_Failed, 1)
    \<and> addDevice (x86_host True) 0 good_config client_request new_AddDeviceResponse new_ManagerService
      = Return (PANCAKE_STORE_CLUSTER_ID_NOT_MATCH, new_AddDeviceResponse, new_ManagerService)"
proof -
  let ?M = "add_device_message (\<lambda>_. []) (\<lambda>_. new_AddDeviceRequest) (\<lambda>_. []) (\<lambda>_. (True, new_AddDeviceResponse))"
  obtain result where run: "client_main echo (\<lambda>_ _. ()) ?M 0 = Return (result, 1)"
    by (simp add: client_main_def ADD_DEVICE_CALLER_def echo_def Let_def)
  have ok: "IsOk (CheckConfig (\<lambda>_. 1) good_config)"
    by (simp add: IsOk_def CheckConfig_def good_config_def IsIPv4Address_def k_system_min_listen_port_def str_def)
  have "mg_parse_response ?M [] = (True, new_AddDeviceResponse)" by (simp add: add_device_message_def)
  then show ?thesis
    using client_never_served [OF run ok, of "[]" new_AddDeviceResponse "x86_host True" new_AddDeviceResponse new_ManagerService] run
    by (simp add: echo_def main_worker_cpu_id_def)
qed

end
