(* ===== verification/Datanode.thy ===== *)
theory Datanode
  imports Manager_Service
begin

text \<open>
  The datanode process of \<^verbatim>\<open>datanode/main.cc\<close>: the options, the configuration, the manager service on
  shard 0, and what becomes of the process. The parser of the command line is seastar's; its result are
  the options. Waiting for ever is the result \<open>Process_Serving\<close>.
\<close>

record AppOptions =
  op_version :: bool
  op_config :: bytes

text \<open>The default values \<^verbatim>\<open>main\<close> gives the options.\<close>

definition new_AppOptions :: AppOptions where
  "new_AppOptions = \<lparr>op_version = False, op_config = []\<rparr>"

datatype 'srv process_result = Process_Exit | Process_Exception | Process_Serving 'srv u16

text \<open>
  An exception of \<^verbatim>\<open>ParseConfig\<close> leaves the callback. One of \<^verbatim>\<open>Start\<close>, which is no coroutine, leaves the
  lambda of \<^verbatim>\<open>submit_to\<close> before there is a future to ignore, and so ends the process too. The handlers
  read the configuration of the process.
\<close>

definition datanode_process :: "platform \<Rightarrow> 't registry \<Rightarrow> 'n yaml \<Rightarrow> (bytes \<Rightarrow> int)
    \<Rightarrow> (AddDeviceRequest, AddDeviceResponse) message \<Rightarrow> (DelDeviceRequest, DelDeviceResponse) message
    \<Rightarrow> AppOptions \<Rightarrow> ('t, ManagerService rpc_lambda) RpcServer process_result outcome" where
  "datanode_process P R Y pton M_add M_del config =
    (if op_version config then Return Process_Exit
     else case ParseConfig Y new_Config (op_config config) of
       (None, _) \<Rightarrow> Return Process_Exception
     | (Some ret, cfg) \<Rightarrow>
         if IsNotOk ret then Return Process_Exit
         else if IsNotOk (CheckConfig pton cfg) then Return Process_Exit
         else let shard = main_worker_cpu_id
           in cpp_assert P (shard = main_worker_cpu_id)
             (outcome_bind (Start P shard R M_add M_del (addDevice P shard cfg) (delDevice P shard) (new_RpcServer R))
               (\<lambda>(started, srv). Return (if started then Process_Serving srv (ManagerServerPort cfg) else Process_Exception))))"

text \<open>Its part up to the start is \<open>datanode_main\<close>.\<close>

lemma datanode_process_main:
  "datanode_process P R Y pton M_add M_del config =
    (case datanode_main Y pton (op_version config) (op_config config) of
       Main_Done \<Rightarrow> Return Process_Exit
     | Main_Exception \<Rightarrow> Return Process_Exception
     | Main_Serve port \<Rightarrow> outcome_bind (Start P main_worker_cpu_id R M_add M_del
         (addDevice P main_worker_cpu_id (snd (ParseConfig Y new_Config (op_config config)))) (delDevice P main_worker_cpu_id)
         (new_RpcServer R))
       (\<lambda>(started, srv). Return (if started then Process_Serving srv port else Process_Exception)))"
  by (simp add: datanode_process_def datanode_main_def cpp_assert_def split: prod.split option.split)

section \<open>A table that lets a handler be replaced\<close>

text \<open>The other contract a handler table can have: a second handler takes the place of the first.\<close>

locale replacing_registry = rpc_registry +
  assumes register_replaces: "\<exists>t'. rg_register R t v m = Some t' \<and> rg_lookup R t' v = Some m"
begin

lemma register_slot_replaces:
  obtains s' where "register_slot R m v s h = (True, s')" and "rg_lookup R (rs_rpc s') v = Some m"
    and "rs_handlers s' = (rs_handlers s)(m \<mapsto> h)"
  using register_replaces [of "rs_rpc s" v m] by (auto simp: register_slot_def Let_def)

lemma Start_replaces:
  obtains srv where "Start P main_worker_cpu_id R M_add M_del add del (new_RpcServer R) = Return (True, srv)"
    and "\<And>data s. serve R srv DATANODE_RPC_ADD_DEVICE data s =
      outcome_bind (rpc_handler M_del del data s) (\<lambda>(reply, s). Return (Some reply, s))"
proof -
  let ?s0 = "RegisterServicePtr (new_RpcServer R)"
  obtain s1 where s1: "register_slot R Slot_AddDevice DATANODE_RPC_ADD_DEVICE ?s0 (rpc_handler M_add add) = (True, s1)"
    by (rule register_slot_replaces)
  obtain s2 where s2: "register_slot R Slot_DelDevice DATANODE_RPC_ADD_DEVICE s1 (rpc_handler M_del del) = (True, s2)"
    and found: "rg_lookup R (rs_rpc s2) DATANODE_RPC_ADD_DEVICE = Some Slot_DelDevice"
    and slots: "rs_handlers s2 = (rs_handlers s1)(Slot_DelDevice \<mapsto> rpc_handler M_del del)"
    by (rule register_slot_replaces)
  show thesis
  proof (rule that)
    show "Start P main_worker_cpu_id R M_add M_del add del (new_RpcServer R) = Return (True, s2)"
      using s1 s2 by (simp add: Start_def cpp_assert_def Register_defs)
    show "serve R s2 DATANODE_RPC_ADD_DEVICE data s =
        outcome_bind (rpc_handler M_del del data s) (\<lambda>(reply, s). Return (Some reply, s))" for data s
      by (simp add: serve_def found slots)
  qed
qed

end

interpretation replacing: replacing_registry replacing
  by unfold_locales (auto simp: replacing_def)

section \<open>Properties\<close>

text \<open>
  C35. The datanode never serves. Whatever the options, the configuration file and what the YAML library
  makes of it, with a handler table as seastar's, which takes one handler for a verb, the process ends:
  normally when the version is asked for or the configuration is refused, and otherwise, also when the
  configuration is accepted, with an exception.
\<close>

theorem datanode_process_ends:
  assumes "exclusive_registry R"
  shows "datanode_process P R Y pton M_add M_del config =
    Return (if datanode_main Y pton (op_version config) (op_config config) = Main_Done then Process_Exit else Process_Exception)"
proof (cases "datanode_main Y pton (op_version config) (op_config config)")
  case (Main_Serve port)
  obtain srv where "Start P main_worker_cpu_id R M_add M_del
      (addDevice P main_worker_cpu_id (snd (ParseConfig Y new_Config (op_config config)))) (delDevice P main_worker_cpu_id)
      (new_RpcServer R) = Return (False, srv)"
    by (rule exclusive_registry.Start_refused [OF assms])
  with Main_Serve show ?thesis by (simp add: datanode_process_main)
qed (simp_all add: datanode_process_main)

text \<open>
  With a table that lets a handler be replaced, \<^verbatim>\<open>Start\<close> returns, and every request to add a device is
  answered by the handler for deleting one: whatever the request is, the reply is a fresh
  \<^verbatim>\<open>DelDeviceResponse\<close>, which has the code OK, and the service does not change.
\<close>

theorem Start_adds_by_deleting:
  assumes "replacing_registry R"
  shows "\<exists>srv. Start P main_worker_cpu_id R M_add (del_device_message sq pq sr pr) add (delDevice P main_worker_cpu_id) (new_RpcServer R)
      = Return (True, srv)
    \<and> (\<forall>data m. serve R srv DATANODE_RPC_ADD_DEVICE data m = Return (Some (sr new_DelDeviceResponse), m))"
proof -
  let ?M = "del_device_message sq pq sr pr" and ?del = "delDevice P main_worker_cpu_id"
  obtain srv where start: "Start P main_worker_cpu_id R M_add ?M add ?del (new_RpcServer R) = Return (True, srv)"
    and add: "\<And>data m. serve R srv DATANODE_RPC_ADD_DEVICE data m =
      outcome_bind (rpc_handler ?M ?del data m) (\<lambda>(reply, m). Return (Some reply, m))"
    by (rule replacing_registry.Start_replaces [OF assms]) (rule that)
  have "rpc_handler ?M ?del data m = Return (sr new_DelDeviceResponse, m)" for data m
    by (simp add: rpc_handler_def Let_def del_device_message_def delDevice_def cpp_assert_def IsNotOk_def)
  then show ?thesis using start add by auto
qed

section \<open>Witnesses\<close>

text \<open>
  A YAML library outside the contract of \<open>yaml_lib\<close>, with which the configuration is accepted: nodes are
  not scalars and convert all the same. Not even then does the process serve.
\<close>

definition generous_yaml :: "unit yaml" where
  "generous_yaml = \<lparr>yaml_load_file = (\<lambda>_. Some ()), yaml_defined = (\<lambda>_. True), yaml_map = (\<lambda>_. True),
     yaml_scalar = (\<lambda>_. False), yaml_child = (\<lambda>_ _. ()), yaml_string = (\<lambda>_. Some (str ''x'')),
     yaml_u16 = (\<lambda>_. Some 8888)\<rparr>"

lemma generous_main: "path \<noteq> [] \<Longrightarrow> datanode_main generous_yaml (\<lambda>_. 1) False path = Main_Serve 8888"
  by (simp add: datanode_main_def ParseConfig_def generous_yaml_def CheckConfig_def IsIPv4Address_def Let_def IsNotOk_def
      k_system_min_listen_port_def Config_getters str_def word_less_nat_alt)

theorem datanode_process_ends_witness:
  "datanode_main generous_yaml (\<lambda>_. 1) False (str ''conf'') = Main_Serve 8888
    \<and> (\<forall>M_add M_del. datanode_process (x86_host False) throwing generous_yaml (\<lambda>_. 1) M_add M_del
        (new_AppOptions\<lparr>op_config := str ''conf''\<rparr>) = Return Process_Exception)"
  using datanode_process_ends [OF throwing.exclusive_registry_axioms, of "x86_host False" generous_yaml "\<lambda>_. 1" _ _
      "new_AppOptions\<lparr>op_config := str ''conf''\<rparr>"]
  by (simp add: new_AppOptions_def generous_main str_def)

theorem Start_adds_by_deleting_witness:
  "\<exists>srv. serve replacing srv DATANODE_RPC_ADD_DEVICE [1] new_ManagerService = Return (Some [7], new_ManagerService)"
proof -
  from Start_adds_by_deleting [OF replacing.replacing_registry_axioms, of "x86_host False" plain "\<lambda>_. []" "\<lambda>_. undefined" "\<lambda>_. [7]"
      "\<lambda>_. (True, new_DelDeviceResponse)"]
  show ?thesis by blast
qed

end
