(* ===== verification/Spec2Isabelle.thy ===== *)
theory Spec2Isabelle
  imports Journal_Block Extent_Header Super_Block Pancake_Io Layout Extent_Allocation Extent_Persistence Extent_Runs
    Extent_Tasks Extent_Queue Extent_Readback Config Device Pancake Engine Device_Rpc Datanode
begin

text \<open>
  \<^bold>\<open>A verification development of pancake-store\<close>

  pancake-store is the storage node of an object store. A datanode reads its configuration, offers
  device and extent RPCs, and keeps extents of 64 MB on raw disks in a file system of its own,
  ``pancake'': a disk is cut into blocks of 4 KB, each with a magic number and a CRC-32; a super
  block and its backup, bitmap blocks that say which extent blocks are taken, and the extent
  blocks, each starting with a header block. The code is C++ on the seastar framework.

  \<^bold>\<open>The theories and what they model\<close>, with paths under \<^verbatim>\<open>src/src/\<close>; \<open>PK\<close> stands for
  \<^verbatim>\<open>datanode/storage/engine/pancake\<close>:

  \<^item> \<open>Prelude\<close>: machine words, the \<open>outcome\<close> of running code (a value, a failed assertion,
    undefined behaviour), bytes of integers, and the \<open>platform\<close> (byte order, \<^verbatim>\<open>NDEBUG\<close>,
    \<^verbatim>\<open>hton\<close>/\<^verbatim>\<open>ntoh\<close>).
  \<^item> \<open>Crc\<close>: \<^verbatim>\<open>comm/crc.cc\<close>. The table-driven loop is the bit-serial CRC-32, and bursts of up to
    four bytes change it.
  \<^item> \<open>Comm\<close>: \<^verbatim>\<open>proto/error_code.proto\<close>, \<^verbatim>\<open>comm/error_code.h\<close>, \<^verbatim>\<open>PK/pancake_comm\<close>.
  \<^item> \<open>Codec\<close>: the statements the \<^verbatim>\<open>Deserialize\<close> methods consist of, and the interfaces
    \<open>net_order\<close> (what they need of \<^verbatim>\<open>hton\<close>), \<open>block_codec\<close>, \<open>canonical_codec\<close> and
    \<open>checksummed_codec\<close> (what a block type promises, each extending the one before).
  \<^item> \<open>Data_Block\<close>, \<open>Journal_Block\<close>, \<open>Extent_Header\<close>, \<open>Super_Block\<close>: the five block types
    of \<^verbatim>\<open>PK/pancake_block\<close>, both directions, with round trips where they hold and the
    reason where they do not (the journal block is written with a field twice, the extent header
    is read with a field left out, an empty string of the super block is not restored).
  \<^item> \<open>Pancake_Io\<close>: \<^verbatim>\<open>PK/pancake_io\<close>. The seastar file is the parameter of type \<open>file_api\<close>;
    \<open>block_device\<close> is its contract, \<open>stored_block\<close> a block type on a device.
  \<^item> \<open>Layout\<close>: \<^verbatim>\<open>PK/pancake_layout\<close>, in the widths of the code.
  \<^item> \<open>Allocator\<close>: the abstract allocator (slots, owners, steps) an extent manager refines; what
    holds after any run of steps is proved there.
  \<^item> \<open>Extent_Mgr\<close>: \<^verbatim>\<open>PK/pancake_extent_mgr\<close>, state and operations, the search, the bitmap
    blocks, the step relations; it interprets \<open>allocator\<close>. \<open>Extent_Allocation\<close> has the
    properties of the memory state (invariants of all reachable states, what \<^verbatim>\<open>AddExtent\<close> does on
    every branch, when it succeeds, gives up or is undefined, that extents share nothing),
    \<open>Extent_Persistence\<close> those of the device (the bitmap blocks refine the vector under adding and
    deleting, headers stay in place, deleting what was added fails, the limits of \<^verbatim>\<open>int\<close>),
    \<open>Extent_Runs\<close> those of runs of calls on a device (every call returns whatever the device answers;
    on a device that does not fail the bitmap blocks follow the vector through any run).
    \<open>Extent_Faults\<close> is about devices on which any write may fail and leave anything in its range: what
    a call can damage, that no run of calls loses an extent, which bitmap blocks can be trusted.
    \<open>Extent_Concurrency\<close> cuts the operations at their \<^verbatim>\<open>co_await\<close>s and lets tasks take turns under a
    lock that lets in any waiting task: the calls are atomic. \<open>Extent_Queue\<close> has the same tasks under a
    lock that serves them in the order of their calls, as seastar's does (the parameter \<open>lock_api\<close> with the contract
    \<open>fair_lock\<close>): every call is answered in its turn, on every schedule. \<open>Extent_Tasks\<close> has
    tasks on a device that fails; \<open>Extent_Readback\<close> shows what \<^verbatim>\<open>ReadAt\<close> and \<^verbatim>\<open>Deserialize\<close> of a bitmap block tell
    of memory after failures (no code loads the bitmap at a restart).
  \<^item> \<open>Config\<close>: \<^verbatim>\<open>datanode/comm/config\<close>, \<^verbatim>\<open>comm/ip_address.h\<close> and the decision of
    \<^verbatim>\<open>datanode/main.cc\<close> whether to start; yaml-cpp is the parameter \<open>yaml\<close> with the contract \<open>yaml_lib\<close>.
  \<^item> \<open>Device\<close>: \<^verbatim>\<open>datanode/comm/device\<close>; the system is the parameter \<open>os\<close>, the stream operators
    are modelled. \<open>Pancake\<close>: \<^verbatim>\<open>PK/pancake\<close> and the requests of \<^verbatim>\<open>engine.h\<close>; of the
    operations of the engine \<^verbatim>\<open>MakeFS\<close> and four getters have a body, the others are \<open>Undefined\<close>.
    \<open>Engine\<close>: the interface \<open>AbstractEngine\<close> as a record of operations, \<^verbatim>\<open>Pancake\<close> behind it, and what
    \<^verbatim>\<open>MakeFS\<close> through the interface makes of an engine.
  \<^item> \<open>Rpc\<close>: \<^verbatim>\<open>rpc/serializer.h\<close> and the servers of \<^verbatim>\<open>rpc/datanode\<close>; the handler table is the
    parameter \<open>registry\<close> with the contracts \<open>rpc_registry\<close> (verbs are kept apart) and
    \<open>exclusive_registry\<close> (one handler for a verb, as in seastar), and \<open>replacing_registry\<close> for a table
    that takes the last one; generated message classes are the
    parameter \<open>message\<close>. \<open>Rpc_Caller\<close>: \<^verbatim>\<open>pkg/rpc_caller\<close> and the macros it uses; the connection
    is a parameter with the contract \<open>rpc_connection\<close>. \<open>Manager_Service\<close>: the device messages of
    \<^verbatim>\<open>proto/datanode_rpc.proto\<close> and \<^verbatim>\<open>datanode/service/manager_service\<close>. \<open>Device_Rpc\<close>: the
    lambdas this service registers, and the test client \<^verbatim>\<open>tools/client/main.cc\<close>. A running server is not composed,
    as \<^verbatim>\<open>Start\<close> never creates one. \<open>Extent_Messages\<close>: the messages of
    \<^verbatim>\<open>proto/extent.proto\<close> and the extent RPCs, and \<^verbatim>\<open>DatanodeServer\<close> with the handler types it declares for
    them. \<open>Datanode\<close>: the process of \<^verbatim>\<open>datanode/main.cc\<close>, from its options to how it ends.
  \<^item> This theory: what connects a layout with the manager initialised from it and the runs it can go
    through, alone on a working device and with many tasks on a failing one.

  \<^bold>\<open>How the code is read.\<close> Objects are records, operations are functions from the state to the
  result and the new state, arrays of fixed size are lists whose length is an invariant
  (\<open>wf_...\<close>). A failed \<^verbatim>\<open>assert\<close> is \<open>Assert_Fail\<close> unless the platform defines
  \<^verbatim>\<open>NDEBUG\<close>; an access past the end of a vector, a null file, a remainder by zero and a signed
  overflow are \<open>Undefined\<close>, of which nothing follows for the program. Futures are awaited: an
  operation under \<^verbatim>\<open>with_lock\<close> is one step, which
  \<open>Extent_Concurrency\<close> justifies for every lock that lets one task in at a time, in any order.
  Several places of the code use \<^verbatim>\<open>co_await\<close> in functions that are not coroutines and capture
  local variables by reference; the model is the sequential meaning these places intend. Log
  messages are left out.

  \<^bold>\<open>Bounds.\<close> Every loop of the code is bounded and is a structural recursion on the number of its
  remaining iterations (the search of \<^verbatim>\<open>AddExtent\<close> runs \<^verbatim>\<open>extent_block_count_\<close> times, which
  covers a whole round whenever there are no more bitmap blocks than extents), so no fuel is
  needed. The conditions of the device theorems are collected in \<open>sound_manager\<close> and
  \<open>laid_out\<close>, \<open>bitmap_covers\<close> says that the bitmap has a bit for every extent;
  \<open>layout_manager_sound\<close> shows that every layout of up to 66560192 extents meets all three.

  \<^bold>\<open>Not modelled.\<close> Classes without content (the data service, the storage, the posix and SPDK engines; the
  cache and the statistics are only data), \<^verbatim>\<open>NonCopyable\<close>, the reactor, sockets, timers and option parser of
  seastar, what protobuf generates, and log messages. No service of the repository implements the
  extent RPCs; the methods that register and call them are modelled for any handler.
\<close>

section \<open>From the layout of a device to its extent manager\<close>

text \<open>
  The arguments \<^verbatim>\<open>PancakeExtentManager::Init\<close> takes from a layout: block numbers become byte
  offsets, the counts are cut to 32 bits. No code of the repository makes this call yet (\<^verbatim>\<open>MakeFS\<close> builds a
  layout and stops); the definition only passes the numbers on, in the units and widths of the parameters of \<^verbatim>\<open>Init\<close>.
\<close>

definition Init_from_layout :: "'d PancakeExtentManager \<Rightarrow> PancakeLayout \<Rightarrow> ErrorCode \<times> 'd PancakeExtentManager" where
  "Init_from_layout m L = Init m
     (li_block_index (ExtentBitmapLayout L) * word_of_nat k_block_size)
     (ucast (li_block_count (ExtentBitmapLayout L)))
     (ucast (li_block_count (ExtentsBlocksLayout L)))
     (word_of_nat k_extent_block_size)
     (li_block_index (ExtentsBlocksLayout L) * word_of_nat k_block_size)"

lemma Init_from_layout_eq:
  "Init_from_layout m (BuildLayout s L) = Init m 24576 (ucast (ext_bitmap_block_count (extentBlockCount s)))
     (extentBlockCount s) 67108864 67108864"
proof -
  have "ucast (ucast n :: u64) = n" for n :: u32
    using unsigned_less [of n, where ?'a = nat] by (simp add: word_unat_eq_iff unat_ucast)
  then show ?thesis
    by (simp add: Init_from_layout_def BuildLayout_items ExtentBitmapLayout_def ExtentsBlocksLayout_def
      k_extent_block_size_def)
qed

lemma unat_bitmap_count:
  "unat (ucast (ext_bitmap_block_count n) :: u32) = (unat n + 4063) div 4064"
proof -
  have "(unat n + 4063) div 4064 < 2 ^ 32"
    using ceil_mult(2) [of "unat n"] unsigned_less [of n, where ?'a = nat] by simp
  then show ?thesis by (simp add: unat_ucast unat_ext_bitmap_block_count)
qed

lemma Init_from_layout_OK:
  assumes "unat (extentBlockCount s) \<le> 4294965248"
  shows "fst (Init_from_layout m (BuildLayout s L)) = PANCAKE_STORE_OK"
proof -
  let ?n = "unat (extentBlockCount s)"
  have "(?n + 4063) div 4064 \<le> 1056832" using div_le_mono [of "?n + 4063" 4294969311 4064] assms by simp
  then have "(?n + 4063) div 4064 * 4064 < 4294967296" by simp
  then have "\<not> unat (ucast (ext_bitmap_block_count (extentBlockCount s)) * 4064 :: u32) < ?n"
    using ceil_mult(1) [of ?n] by (simp add: unat_word_ariths unat_bitmap_count)
  then show ?thesis
    by (simp add: Init_from_layout_eq Init_def Let_def IsBlockAlign_def word_less_nat_alt)
qed

text \<open>
  C18. \<^verbatim>\<open>PancakeExtentManager::Init\<close> accepts the numbers of a layout exactly when the layout has at
  most 4294965248 extents: beyond, the 32-bit product of the bitmap blocks and 4064 wraps around and
  the manager refuses a correct layout.
\<close>

theorem Init_accepts_layout_iff:
  "(fst (Init_from_layout m (BuildLayout s L)) = PANCAKE_STORE_OK) = (unat (extentBlockCount s) \<le> 4294965248)"
proof
  assume ok: "fst (Init_from_layout m (BuildLayout s L)) = PANCAKE_STORE_OK"
  let ?n = "unat (extentBlockCount s)"
  show "?n \<le> 4294965248"
  proof (rule ccontr)
    assume "\<not> ?n \<le> 4294965248"
    moreover have "?n < 4294967296" using unsigned_less [of "extentBlockCount s", where ?'a = nat] by simp
    ultimately have "(?n + 4063) div 4064 = 1056833" by (intro div_nat_eqI) simp_all
    then have "unat (ucast (ext_bitmap_block_count (extentBlockCount s)) * 4064 :: u32) = 2016"
      by (simp add: unat_word_ariths unat_bitmap_count)
    with ok \<open>\<not> ?n \<le> 4294965248\<close> show False
      by (simp add: Init_from_layout_eq Init_def Let_def word_less_nat_alt split: if_splits)
  qed
qed (rule Init_from_layout_OK)

lemma layout_manager:
  assumes "0 < unat (extentBlockCount s)" and "unat (extentBlockCount s) \<le> 66560192"
    and "Init_from_layout (new_PancakeExtentManager io) (BuildLayout s L) = (e, m)"
  shows "e = PANCAKE_STORE_OK \<and> sound_manager m \<and> laid_out m \<and> bitmap_covers m \<and> 0 < em_bitmap_block_count m
    \<and> em_pancake_io m = io \<and> used_blocks m = {}"
proof -
  let ?n = "unat (extentBlockCount s)"
  let ?b = "(?n + 4063) div 4064"
  have e: "e = PANCAKE_STORE_OK"
    using Init_from_layout_OK [of s "new_PancakeExtentManager io" L] assms(2,3) by simp
  have m: "m = (new_PancakeExtentManager io)\<lparr>em_offset := 24576,
      em_bitmap_block_count := ucast (ext_bitmap_block_count (extentBlockCount s)),
      em_extent_block_count := extentBlockCount s, em_extent_block_size := 67108864,
      em_extent_blocks_offset := 67108864, em_bitmap := vector_resize ?n False [],
      em_extent_offset_map := Map.empty\<rparr>"
    using Init_cases [OF assms(3) [unfolded Init_from_layout_eq]] e by (auto simp: new_PancakeExtentManager_def)
  have b: "0 < ?b" "?b \<le> ?n" "?b \<le> 16378" "?n \<le> ?b * 4064"
    using assms(1,2) ceil_mult [of ?n] by linarith+
  show ?thesis
    using assms(2) b e
    by (simp add: m sound_manager_def laid_out_def wf_manager_def unat_bitmap_count new_PancakeExtentManager_def
        used_blocks_def nth_vector_resize bitmap_covers_def word_less_nat_alt)
qed

text \<open>
  On a layout whose bitmap ends before its extents, the fresh manager initialised from it is
  sound and its regions are laid out without overlap: the conditions under which adding an extent
  succeeds and keeps the device in step with memory hold for every device size of that range.
\<close>

theorem layout_manager_sound:
  assumes "0 < unat (extentBlockCount s)" and "unat (extentBlockCount s) \<le> 66560192"
    and "Init_from_layout (new_PancakeExtentManager io) (BuildLayout s L) = (e, m)"
  shows "e = PANCAKE_STORE_OK \<and> sound_manager m \<and> laid_out m \<and> bitmap_covers m \<and> used_blocks m = {}"
  using layout_manager [OF assms] by blast

theorem layout_manager_sound_witness:
  "sound_manager (snd (Init_from_layout (new_PancakeExtentManager sparse_io) (BuildLayout (2 ^ 30) new_PancakeLayout)))"
proof -
  have n: "unat (extentBlockCount (2 ^ 30)) = 264207"
    by (simp add: unat_extentBlockCount)
  show ?thesis
    using layout_manager_sound [of "2 ^ 30" sparse_io new_PancakeLayout] n by (simp add: prod_eq_iff)
qed

lemma Init_from_layout_empty:
  "Init_from_layout (new_PancakeExtentManager io) l = (e, m) \<Longrightarrow> em_extent_offset_map m = Map.empty"
  by (auto simp: Init_from_layout_def Init_def Let_def new_PancakeExtentManager_def split: if_splits)

text \<open>An extent can be added to the layout of a gigabyte.\<close>

lemma gigabyte_add:
  obtains e m m' h' where
    "Init_from_layout (new_PancakeExtentManager sparse_io) (BuildLayout (2 ^ 30) new_PancakeLayout) = (e, m)"
    and "AddExtent sparse_file (x86_host True) m zero_ExtentHeaderBlock = Return (PANCAKE_STORE_OK, m', h')"
    and "0 < unat (em_bitmap_block_count m)"
proof -
  let ?P = "x86_host True"
  have n: "unat (extentBlockCount (2 ^ 30)) = 264207" by (simp add: unat_extentBlockCount)
  obtain e m where init: "Init_from_layout (new_PancakeExtentManager sparse_io) (BuildLayout (2 ^ 30) new_PancakeLayout) = (e, m)"
    by fastforce
  have facts: "e = PANCAKE_STORE_OK \<and> sound_manager m \<and> laid_out m \<and> bitmap_covers m \<and> 0 < em_bitmap_block_count m
      \<and> em_pancake_io m = sparse_io \<and> used_blocks m = {}"
    using layout_manager [OF _ _ init] n by simp
  then have some: "0 < unat (em_bitmap_block_count m)" and free: "\<not> em_bitmap m ! 0"
    by (auto simp: word_less_nat_alt sound_manager_def wf_manager_def used_blocks_def)
  obtain m' h' where "AddExtent sparse_file ?P m zero_ExtentHeaderBlock = Return (PANCAKE_STORE_OK, m', h')"
    using AddExtent_progress [of m sparse_file zero_ExtentHeaderBlock 0 ?P] Init_from_layout_empty [OF init]
      facts some free writes_succeed_sparse
    by (auto simp: sparse_io_def)
  with init some show thesis by (intro that) simp_all
qed

lemma slice_bytes_free:
  assumes "used_blocks m = {}"
  shows "slice_bytes (em_bitmap m) j = replicate k_block_data_size 0"
proof (rule nth_equalityI)
  fix i assume "i < length (slice_bytes (em_bitmap m) j)"
  then show "slice_bytes (em_bitmap m) j ! i = replicate k_block_data_size 0 ! i"
    using assms by (auto simp: slice_bytes_nth used_blocks_def)
qed simp

text \<open>
  C5. From a device to its bitmap: take the layout of a device of up to 66560192 extents, the manager
  initialised from it, and any run of \<^verbatim>\<open>AddExtent\<close> and \<^verbatim>\<open>DelExtent\<close> calls on a device that does not
  fail. Then every bitmap block is either untouched since, with all its extents free in memory, or
  the device holds it, accepted by the reader, with exactly the bits in memory.
\<close>

theorem layout_runs_durable:
  assumes "block_device F content" and "net_order P" and "writes_succeed F"
    and "0 < unat (extentBlockCount s)" and "unat (extentBlockCount s) \<le> 66560192"
    and "Init_from_layout (new_PancakeExtentManager io) (BuildLayout s L) = (e, m)"
    and "(edit_step F P)\<^sup>*\<^sup>* m m'" and "j < unat (em_bitmap_block_count m')"
  shows "block_current content P m' j
    \<or> block_at content (em_pancake_io m') (bitmap_addr m' j) = block_at content io (bitmap_addr m j)
      \<and> slice_bytes (em_bitmap m') j = replicate k_block_data_size 0"
proof -
  note m = layout_manager [OF assms(4-6)]
  then have "bitmap_refreshed content P m m'"
    using edit_run_refreshes [OF assms(1-3) _ _ assms(7)] by blast
  then show ?thesis
    using m slice_bytes_free [of m j] assms(8) by (auto simp: bitmap_refreshed_def block_kept_def)
qed

theorem layout_runs_durable_witness:
  "\<exists>m m'. snd (Init_from_layout (new_PancakeExtentManager sparse_io) (BuildLayout (2 ^ 30) new_PancakeLayout)) = m
    \<and> (edit_step sparse_file (x86_host True))\<^sup>*\<^sup>* m m' \<and> used_blocks m' \<noteq> {}
    \<and> (block_current (\<lambda>d. d) (x86_host True) m' 0 \<or> slice_bytes (em_bitmap m') 0 = replicate k_block_data_size 0)"
proof -
  let ?P = "x86_host True"
  obtain e m m' h' where init: "Init_from_layout (new_PancakeExtentManager sparse_io) (BuildLayout (2 ^ 30) new_PancakeLayout) = (e, m)"
    and add: "AddExtent sparse_file ?P m zero_ExtentHeaderBlock = Return (PANCAKE_STORE_OK, m', h')"
    and some: "0 < unat (em_bitmap_block_count m)"
    by (rule gigabyte_add)
  have run: "(edit_step sparse_file ?P)\<^sup>*\<^sup>* m m'"
    by (rule r_into_rtranclp) (rule edit_Add [OF wf_zero_ExtentHeaderBlock add])
  have "used_blocks m' \<noteq> {}" using AddExtent_alloc [OF add] by (auto simp: used_blocks_def)
  moreover have "0 < unat (em_bitmap_block_count m')" using some by (simp add: AddExtent_frame [OF add])
  moreover have "unat (extentBlockCount (2 ^ 30)) = 264207" by (simp add: unat_extentBlockCount)
  ultimately show ?thesis
    using layout_runs_durable [OF sparse.block_device_axioms x86.net_order_axioms writes_succeed_sparse _ _ init run] run init
    by fastforce
qed

section \<open>Tasks on a device that fails\<close>

text \<open>
  C3. The whole extent store: take the layout of a device of up to 66560192 extents, the manager
  initialised from it, and any tasks that call it and run in any order, from one \<^verbatim>\<open>co_await\<close> to the
  next, on a device whose writes may fail and leave anything in their range. Whenever nobody has the
  lock, every extent recorded in memory has a used block and a header with its id at the start of that
  block on the device, no two extents have the same block, and every \<^verbatim>\<open>AddExtent\<close> answered with OK has
  its extent recorded there, at the block whose index it put into the caller's header.
\<close>

theorem concurrent_extents_survive:
  assumes "block_device F content" and "net_order P"
    and "0 < unat (extentBlockCount s)" and "unat (extentBlockCount s) \<le> 66560192"
    and "Init_from_layout (new_PancakeExtentManager io) (BuildLayout s L) = (e, sy_manager sys)"
    and "at_rest sys" and "sys_run F P sys log sys'" and "\<forall>(t, c, a) \<in> set log. call_ok (sy_manager sys) c"
    and "sy_mutex sys' = None"
  shows "extents_stored content P (sy_manager sys')
    \<and> inj_on (em_extent_offset_map (sy_manager sys')) (dom (em_extent_offset_map (sy_manager sys')))
    \<and> (\<forall>x \<in> set log. recorded (sy_manager sys') x)"
proof -
  have laid: "laid_out (sy_manager sys)" "bitmap_covers (sy_manager sys)" using layout_manager [OF assms(3-5)] by simp_all
  moreover have "extents_stored content P (sy_manager sys)"
    using Init_from_layout_empty [OF assms(5)] by (simp add: extents_stored_def)
  moreover obtain m where "atomic_run F P (sy_manager sys) log m" and "pending F P sys' m"
    using sys_run_pending [OF assms(7) at_rest_pending [OF assms(6)]] by blast
  moreover from this assms(9) have "sy_manager sys' = m" by (simp add: pending_def)
  ultimately have kept: "extents_stored content P (sy_manager sys')" "keeps_extents (sy_manager sys) (sy_manager sys')"
    "\<forall>x \<in> set log. recorded (sy_manager sys') x"
    using atomic_run_extents [OF assms(1,2)] assms(8) by blast+
  with laid have "laid_out (sy_manager sys')" by (simp add: keeps_extents_def)
  with kept show ?thesis using extents_stored_inj [OF assms(2)] by blast
qed

theorem concurrent_extents_survive_witness:
  "\<exists>m. em_extent_offset_map m (eh_extent_id zero_ExtentHeaderBlock) \<noteq> None \<and> extents_stored (\<lambda>d. d) (x86_host True) m"
proof -
  let ?P = "x86_host True"
  obtain e m m' h' where init: "Init_from_layout (new_PancakeExtentManager sparse_io) (BuildLayout (2 ^ 30) new_PancakeLayout) = (e, m)"
    and add: "AddExtent sparse_file ?P m zero_ExtentHeaderBlock = Return (PANCAKE_STORE_OK, m', h')"
    by (rule gigabyte_add)
  have "atomic_call sparse_file ?P add_zero m = Return (Added PANCAKE_STORE_OK h', m')" by (simp add: add)
  then obtain sys' where run: "sys_run sparse_file ?P (idle_system m) [(0, add_zero, Added PANCAKE_STORE_OK h')] sys'"
    and free: "sy_mutex sys' = None" and m': "sy_manager sys' = m'"
    by (rule one_call_runs)
  have idle: "at_rest (idle_system m)" "sy_manager (idle_system m) = m" by (simp_all add: at_rest_def idle_system_def)
  have "unat (extentBlockCount (2 ^ 30)) = 264207" by (simp add: unat_extentBlockCount)
  then have "extents_stored (\<lambda>d. d) ?P m'" "recorded m' (0, add_zero, Added PANCAKE_STORE_OK h')"
    using concurrent_extents_survive [OF sparse.block_device_axioms x86.net_order_axioms _ _ _ idle(1) run _ free,
        of "2 ^ 30" sparse_io new_PancakeLayout e] init
    by (simp_all add: idle m')
  then show ?thesis by (intro exI [of _ m']) (auto simp: recorded_def)
qed

end
